(* ===== verification/Scql_Prelude.thy ===== *)
theory Scql_Prelude
  imports Main "HOL-Library.AList" "HOL-Library.List_Lexorder" "HOL-Library.Char_ord" "HOL-Library.Multiset"
begin

text \<open>
  Shared vocabulary of the development: errors as values, the result type of
  fallible Go functions, sequencing of fallible and of state-passing
  operations, and the generic lemmas on association lists (the model of a Go
  map) and on lists that the component theories use.

  A Go map is an association list with distinct keys; the position of a key
  in the list stands for the arbitrary order in which \<open>range\<close> visits the map.
\<close>

named_theorems result_simps \<open>unfolding of sequenced fallible operations\<close>
named_theorems keeps_intros \<open>preservation rules for state-passing operations\<close>

section \<open>Errors and results\<close>

text \<open>\<open>Errorf\<close> is an error value returned by the code (its format string, without
  the operands); \<open>Panic\<close> is a run-time panic: index out of range, a nil pointer.\<close>

datatype error = Errorf string | Panic string

type_synonym 'a result = "error + 'a"

definition bind_r :: "'a result \<Rightarrow> ('a \<Rightarrow> 'b result) \<Rightarrow> 'b result" where
  "bind_r m f = (case m of Inl e \<Rightarrow> Inl e | Inr x \<Rightarrow> f x)"

text \<open>\<open>guard_r ok e\<close> is the early return \<open>if !ok { return e }\<close>.\<close>

definition guard_r :: "bool \<Rightarrow> error \<Rightarrow> unit result" where
  "guard_r ok e = (if ok then Inr () else Inl e)"

primrec map_r :: "('a \<Rightarrow> 'b result) \<Rightarrow> 'a list \<Rightarrow> 'b list result" where
  "map_r f [] = Inr []"
| "map_r f (x # xs) = bind_r (f x) (\<lambda>y. bind_r (map_r f xs) (\<lambda>ys. Inr (y # ys)))"

primrec fold_r :: "('a \<Rightarrow> 's \<Rightarrow> 's result) \<Rightarrow> 'a list \<Rightarrow> 's \<Rightarrow> 's result" where
  "fold_r f [] s = Inr s"
| "fold_r f (x # xs) s = bind_r (f x s) (fold_r f xs)"

text \<open>\<open>wrap_r msg\<close> is \<open>fmt.Errorf(msg, err)\<close> around a returned error; a panic passes through.\<close>

definition wrap_r :: "string \<Rightarrow> 'a result \<Rightarrow> 'a result" where
  "wrap_r msg r = (case r of Inl (Errorf _) \<Rightarrow> Inl (Errorf msg) | _ \<Rightarrow> r)"

lemma wrap_r_Inr [simp]: "wrap_r msg r = Inr x \<longleftrightarrow> r = Inr x"
  by (auto simp: wrap_r_def split: sum.splits error.splits)

lemma wrap_r_Inr_app [simp]: "wrap_r msg (Inr x) = Inr x"
  by (simp add: wrap_r_def)

lemma bind_r_simps [simp]: "bind_r (Inl e) f = Inl e" "bind_r (Inr x) f = f x"
  by (simp_all add: bind_r_def)

lemma bind_r_Inr [result_simps]:
  "bind_r m f = Inr y \<longleftrightarrow> (\<exists>x. m = Inr x \<and> f x = Inr y)"
  by (cases m) auto

lemma bind_r_Inl [result_simps]:
  "bind_r m f = Inl e \<longleftrightarrow> m = Inl e \<or> (\<exists>x. m = Inr x \<and> f x = Inl e)"
  by (cases m) auto

lemma guard_r_Inr [simp]: "guard_r b e = Inr u \<longleftrightarrow> b"
  by (simp add: guard_r_def)

lemma guard_r_Inl [simp]: "guard_r b e = Inl e' \<longleftrightarrow> \<not> b \<and> e' = e"
  by (auto simp: guard_r_def)

lemma bind_guard_r [simp]: "bind_r (guard_r b e) f = (if b then f () else Inl e)"
  by (simp add: guard_r_def)

lemma map_r_Inr: "map_r f xs = Inr ys \<longleftrightarrow> list_all2 (\<lambda>x y. f x = Inr y) xs ys"
  by (induction xs arbitrary: ys) (auto simp: bind_r_Inr list_all2_Cons1)

lemma list_all2_ex: "list_all2 P xs ys \<Longrightarrow> x \<in> set xs \<Longrightarrow> \<exists>y \<in> set ys. P x y"
  by (induction rule: list_all2_induct) auto

lemma map_r_length: "map_r f xs = Inr ys \<Longrightarrow> length ys = length xs"
  by (simp add: map_r_Inr list_all2_lengthD)

section \<open>State-passing operations\<close>

text \<open>An operation on a state \<open>'s\<close> either fails (its caller then returns the error and
  the state is dropped) or returns a value and the state it leaves.\<close>

type_synonym ('s, 'a) op = "'s \<Rightarrow> ('a \<times> 's) result"

definition return_s :: "'a \<Rightarrow> ('s, 'a) op" where
  "return_s a = (\<lambda>s. Inr (a, s))"

definition fail_s :: "error \<Rightarrow> ('s, 'a) op" where
  "fail_s e = (\<lambda>s. Inl e)"

definition bind_s :: "('s, 'a) op \<Rightarrow> ('a \<Rightarrow> ('s, 'b) op) \<Rightarrow> ('s, 'b) op" where
  "bind_s m f = (\<lambda>s. bind_r (m s) (\<lambda>(a, t). f a t))"

definition guard_s :: "bool \<Rightarrow> error \<Rightarrow> ('s, unit) op" where
  "guard_s ok e = (if ok then return_s () else fail_s e)"

definition get_s :: "('s, 's) op" where
  "get_s = (\<lambda>s. Inr (s, s))"

definition gets_s :: "('s \<Rightarrow> 'a) \<Rightarrow> ('s, 'a) op" where
  "gets_s f = (\<lambda>s. Inr (f s, s))"

definition modify_s :: "('s \<Rightarrow> 's) \<Rightarrow> ('s, unit) op" where
  "modify_s f = (\<lambda>s. Inr ((), f s))"

definition lift_r :: "'a result \<Rightarrow> ('s, 'a) op" where
  "lift_r r = (\<lambda>s. bind_r r (\<lambda>a. Inr (a, s)))"

definition wrap_s :: "string \<Rightarrow> ('s, 'a) op \<Rightarrow> ('s, 'a) op" where
  "wrap_s msg m = (\<lambda>s. wrap_r msg (m s))"

primrec map_s :: "('a \<Rightarrow> ('s, 'b) op) \<Rightarrow> 'a list \<Rightarrow> ('s, 'b list) op" where
  "map_s f [] = return_s []"
| "map_s f (x # xs) = bind_s (f x) (\<lambda>y. bind_s (map_s f xs) (\<lambda>ys. return_s (y # ys)))"

primrec fold_s :: "('a \<Rightarrow> 'b \<Rightarrow> ('s, 'b) op) \<Rightarrow> 'a list \<Rightarrow> 'b \<Rightarrow> ('s, 'b) op" where
  "fold_s f [] b = return_s b"
| "fold_s f (x # xs) b = bind_s (f x b) (fold_s f xs)"

lemma return_s_app [simp]: "return_s a s = Inr (a, s)"
  by (simp add: return_s_def)

lemma fail_s_app [simp]: "fail_s e s = Inl e"
  by (simp add: fail_s_def)

lemma get_s_app [simp]: "get_s s = Inr (s, s)"
  by (simp add: get_s_def)

lemma gets_s_app [simp]: "gets_s f s = Inr (f s, s)"
  by (simp add: gets_s_def)

lemma modify_s_app [simp]: "modify_s f s = Inr ((), f s)"
  by (simp add: modify_s_def)

lemma lift_r_app [simp]: "lift_r r s = bind_r r (\<lambda>a. Inr (a, s))"
  by (simp add: lift_r_def)

lemma guard_s_app [simp]: "guard_s b e s = (if b then Inr ((), s) else Inl e)"
  by (simp add: guard_s_def)

lemma wrap_s_app [simp]: "wrap_s msg m s = wrap_r msg (m s)"
  by (simp add: wrap_s_def)

lemma bind_s_app: "bind_s m f s = bind_r (m s) (\<lambda>(a, t). f a t)"
  by (simp add: bind_s_def)

text \<open>Evaluation applies an operation only once its state is there.\<close>

lemmas state_code [code] = return_s_app fail_s_app get_s_app gets_s_app modify_s_app lift_r_app guard_s_app wrap_s_app bind_s_app

lemma bind_s_Inr [result_simps]:
  "bind_s m f s = Inr (b, u) \<longleftrightarrow> (\<exists>a t. m s = Inr (a, t) \<and> f a t = Inr (b, u))"
  by (cases "m s") (auto simp: bind_s_def)

lemma bind_guard_s: "bind_s (guard_s b e) f s = (if b then f () s else Inl e)"
  by (simp add: bind_s_def)

section \<open>Operations that keep a relation between states\<close>

text \<open>\<open>keeps R m\<close>: whenever \<open>m\<close> succeeds, its initial and final states are related by
  \<open>R\<close>.  For a preorder \<open>R\<close> the rules below reduce a composed operation to its parts.\<close>

definition keeps :: "('s \<Rightarrow> 's \<Rightarrow> bool) \<Rightarrow> ('s, 'a) op \<Rightarrow> bool" where
  "keeps R m \<longleftrightarrow> (\<forall>s a t. m s = Inr (a, t) \<longrightarrow> R s t)"

lemma keepsI: "(\<And>s a t. m s = Inr (a, t) \<Longrightarrow> R s t) \<Longrightarrow> keeps R m"
  by (auto simp: keeps_def)

lemma keepsD: "keeps R m \<Longrightarrow> m s = Inr (a, t) \<Longrightarrow> R s t"
  by (auto simp: keeps_def)

lemma keeps_fail [keeps_intros]: "keeps R (fail_s e)"
  by (simp add: keeps_def)

lemma keeps_if [keeps_intros]: "keeps R m \<Longrightarrow> keeps R n \<Longrightarrow> keeps R (if b then m else n)"
  by simp

lemma keeps_wrap [keeps_intros]: "keeps R m \<Longrightarrow> keeps R (wrap_s msg m)"
  by (simp add: keeps_def)

lemma keeps_case_option [keeps_intros]:
  "keeps R m \<Longrightarrow> (\<And>x. keeps R (f x)) \<Longrightarrow> keeps R (case z of None \<Rightarrow> m | Some x \<Rightarrow> f x)"
  by (cases z) auto

lemma keeps_case_prod [keeps_intros]:
  "(\<And>x y. keeps R (f x y)) \<Longrightarrow> keeps R (case z of (x, y) \<Rightarrow> f x y)"
  by (cases z) auto

lemma keeps_case_list [keeps_intros]:
  "keeps R m \<Longrightarrow> (\<And>x xs. keeps R (f x xs)) \<Longrightarrow> keeps R (case z of [] \<Rightarrow> m | x # xs \<Rightarrow> f x xs)"
  by (cases z) auto

lemma keeps_let [keeps_intros]: "keeps R (f x) \<Longrightarrow> keeps R (let y = x in f y)"
  by simp

locale state_preorder =
  fixes R :: "'s \<Rightarrow> 's \<Rightarrow> bool"
  assumes refl: "R s s"
    and trans: "R s t \<Longrightarrow> R t u \<Longrightarrow> R s u"
begin

lemma keeps_return: "keeps R (return_s a)"
  by (simp add: keeps_def refl)

lemma keeps_get: "keeps R get_s"
  by (simp add: keeps_def refl)

lemma keeps_gets: "keeps R (gets_s f)"
  by (simp add: keeps_def refl)

lemma keeps_guard: "keeps R (guard_s b e)"
  by (simp add: keeps_def refl)

lemma keeps_lift: "keeps R (lift_r r)"
  by (auto simp: keeps_def refl bind_r_Inr)

lemma keeps_modify: "(\<And>s. R s (f s)) \<Longrightarrow> keeps R (modify_s f)"
  by (simp add: keeps_def)

lemma keeps_bind: "keeps R m \<Longrightarrow> (\<And>a. keeps R (f a)) \<Longrightarrow> keeps R (bind_s m f)"
  unfolding keeps_def bind_s_Inr by (blast intro: trans)

text \<open>The same, with what is known of the intermediate value.\<close>

lemma keeps_bind_result:
  "keeps R m \<Longrightarrow> (\<And>s a t. m s = Inr (a, t) \<Longrightarrow> keeps R (f a)) \<Longrightarrow> keeps R (bind_s m f)"
  unfolding keeps_def bind_s_Inr by (blast intro: trans)

lemma keeps_map: "(\<And>x. keeps R (f x)) \<Longrightarrow> keeps R (map_s f xs)"
  by (induction xs) (auto intro: keeps_bind keeps_return)

lemma keeps_fold: "(\<And>x b. keeps R (f x b)) \<Longrightarrow> keeps R (fold_s f xs b)"
  by (induction xs arbitrary: b) (auto intro: keeps_bind keeps_return)

lemmas keeps_rules = keeps_return keeps_get keeps_gets keeps_guard keeps_lift keeps_bind keeps_map keeps_fold

end

section \<open>Association lists\<close>

type_synonym ('k, 'v) gomap = "('k \<times> 'v) list"

abbreviation keys :: "('k, 'v) gomap \<Rightarrow> 'k list" where
  "keys m \<equiv> map fst m"

definition lookup_or :: "'v \<Rightarrow> ('k, 'v) gomap \<Rightarrow> 'k \<Rightarrow> 'v" where
  "lookup_or d m k = (case map_of m k of None \<Rightarrow> d | Some v \<Rightarrow> v)"

lemma lookup_or_update [simp]:
  "lookup_or d (AList.update k v m) j = (if j = k then v else lookup_or d m j)"
  by (simp add: lookup_or_def update_conv')

lemma lookup_or_None [simp]: "map_of m k = None \<Longrightarrow> lookup_or d m k = d"
  by (simp add: lookup_or_def)

lemma lookup_or_Nil [simp]: "lookup_or d [] k = d"
  by (simp add: lookup_or_def)

lemma lookup_or_notin: "k \<notin> set (keys m) \<Longrightarrow> lookup_or d m k = d"
  by (simp add: lookup_or_def map_of_eq_None_iff[THEN iffD2])

lemma set_keys_update [simp]: "set (keys (AList.update k v m)) = insert k (set (keys m))"
  using dom_update[of k v m] by (simp add: dom_map_of_conv_image_fst)

lemma map_of_None_keys: "map_of m k = None \<longleftrightarrow> k \<notin> set (keys m)"
  by (simp add: map_of_eq_None_iff)

section \<open>Strings\<close>

text \<open>\<open>strings.Split(s, sep)\<close> for a one-character separator, \<open>strings.Join\<close>, \<open>%d\<close>, and
  \<open>strings.ToLower\<close> on ASCII.\<close>

primrec Split :: "string \<Rightarrow> char \<Rightarrow> string list" where
  "Split [] sep = [[]]"
| "Split (c # s) sep =
    (if c = sep then [] # Split s sep
     else (case Split s sep of [] \<Rightarrow> [[c]] | w # ws \<Rightarrow> (c # w) # ws))"

fun Join_strings :: "string list \<Rightarrow> char \<Rightarrow> string" where
  "Join_strings [] sep = []"
| "Join_strings [w] sep = w"
| "Join_strings (w # ws) sep = w @ sep # Join_strings ws sep"

definition digits :: string where
  "digits = ''0123456789''"

definition digit :: "nat \<Rightarrow> char" where
  "digit d = digits ! d"

fun show_nat :: "nat \<Rightarrow> string" where
  "show_nat n = (if n < 10 then [digit n] else show_nat (n div 10) @ [digit (n mod 10)])"

declare show_nat.simps [simp del]

definition show_int :: "int \<Rightarrow> string" where
  "show_int i = (if i < 0 then CHR ''-'' # show_nat (nat (- i)) else show_nat (nat i))"

definition ToLower :: "string \<Rightarrow> string" where
  "ToLower = map (\<lambda>c. if CHR ''A'' \<le> c \<and> c \<le> CHR ''Z'' then char_of (of_char c + 32 :: nat) else c)"

lemma Split_neq_Nil [simp]: "Split s sep \<noteq> []"
  by (induction s) (auto split: list.split)

lemma Split_no_sep: "sep \<notin> set s \<Longrightarrow> Split s sep = [s]"
  by (induction s) auto

lemma Split_append_sep: "sep \<notin> set t \<Longrightarrow> Split (s @ sep # t) sep = Split s sep @ [t]"
  by (induction s) (auto simp: Split_no_sep split: list.split)

lemma Join_strings_Cons: "ws \<noteq> [] \<Longrightarrow> Join_strings (w # ws) sep = w @ sep # Join_strings ws sep"
  by (cases ws) auto

lemma Join_Split [simp]: "Join_strings (Split s sep) sep = s"
proof (induction s)
  case (Cons c s)
  obtain w ws where split: "Split s sep = w # ws"
    by (metis Split_neq_Nil neq_Nil_conv)
  with Cons show ?case
    by (cases ws) (auto simp: Join_strings_Cons)
qed simp

lemma digit_chars: "d < 10 \<Longrightarrow> digit d \<in> set digits"
  unfolding digit_def by (rule nth_mem) (simp add: digits_def)

lemma set_show_nat: "set (show_nat n) \<subseteq> set digits"
proof (induction n rule: show_nat.induct)
  case (1 n)
  then show ?case
    using digit_chars[of n] digit_chars[of "n mod 10"]
    by (cases "n < 10"; subst show_nat.simps) simp_all
qed

lemma set_show_int: "set (show_int i) \<subseteq> insert CHR ''-'' (set digits)"
  using set_show_nat[of "nat (- i)"] set_show_nat[of "nat i"] by (auto simp: show_int_def)

lemma dot_notin_show_int: "CHR ''.'' \<notin> set (show_int i)"
  using set_show_int[of i] by (auto simp: digits_def)

end
