(* ===== verification/Slice_Util.thy ===== *)
theory Slice_Util
  imports Scql_Prelude
begin

text \<open>
  \<open>pkg/util/sliceutil/slice_util.go\<close>: the generic slice and map helpers the
  interpreter uses wherever the result must not depend on map iteration order.
\<close>

definition SliceDeDup :: "'a::linorder list \<Rightarrow> 'a list" where
  "SliceDeDup s = remdups_adj (sort s)"

primrec AllOf :: "'a list \<Rightarrow> ('a \<Rightarrow> bool) \<Rightarrow> bool" where
  "AllOf [] predicate = True"
| "AllOf (element # rest) predicate = (if \<not> predicate element then False else AllOf rest predicate)"

primrec Filter_loop :: "'a list \<Rightarrow> ('a \<Rightarrow> bool) \<Rightarrow> 'a list \<Rightarrow> 'a list" where
  "Filter_loop [] predicate result = result"
| "Filter_loop (item # rest) predicate result =
    Filter_loop rest predicate (if predicate item then result @ [item] else result)"

definition Filter :: "'a list \<Rightarrow> ('a \<Rightarrow> bool) \<Rightarrow> 'a list" where
  "Filter slice predicate = (if length slice = 0 then [] else Filter_loop slice predicate [])"

definition ContainsAll :: "'a list \<Rightarrow> 'a list \<Rightarrow> bool" where
  "ContainsAll super sub = AllOf sub (\<lambda>element. List.member super element)"

definition Subtraction :: "'a list \<Rightarrow> 'a list \<Rightarrow> 'a list" where
  "Subtraction a b = Filter a (\<lambda>element. \<not> List.member b element)"

definition Exclude :: "'a list \<Rightarrow> 'a \<Rightarrow> 'a list" where
  "Exclude st excludeElement = Filter st (\<lambda>element. element \<noteq> excludeElement)"

text \<open>\<open>predicate[i]\<close> panics when \<open>i\<close> is out of range.\<close>

definition at :: "'a list \<Rightarrow> nat \<Rightarrow> 'a result" where
  "at xs i = (if i < length xs then Inr (xs ! i) else Inl (Panic ''index out of range''))"

primrec Take_loop :: "'a list \<Rightarrow> nat \<Rightarrow> bool list \<Rightarrow> 'a list \<Rightarrow> 'a list result" where
  "Take_loop [] i predicate result = Inr result"
| "Take_loop (item # rest) i predicate result =
    bind_r (at predicate i) (\<lambda>b.
    Take_loop rest (Suc i) predicate (if b then result @ [item] else result))"

definition Take :: "'a list \<Rightarrow> bool list \<Rightarrow> 'a list result" where
  "Take slice predicate = Take_loop slice 0 predicate []"

text \<open>The loop of \<open>InplaceTake\<close> over the indices \<open>oldIndex\<close> of the slice; the array is
  overwritten while it is read.  The first component of the result is the array after
  \<open>clear\<close> (\<open>zero\<close> is the zero value of the element type), the second the returned slice.\<close>

primrec InplaceTake_loop :: "nat list \<Rightarrow> 'a list \<Rightarrow> nat \<Rightarrow> bool list \<Rightarrow> ('a list \<times> nat) result" where
  "InplaceTake_loop [] slice newIndex predicate = Inr (slice, newIndex)"
| "InplaceTake_loop (oldIndex # rest) slice newIndex predicate =
    bind_r (at predicate oldIndex) (\<lambda>b.
    if b then InplaceTake_loop rest (slice[newIndex := slice ! oldIndex]) (Suc newIndex) predicate
    else InplaceTake_loop rest slice newIndex predicate)"

definition InplaceTake :: "'a \<Rightarrow> 'a list \<Rightarrow> bool list \<Rightarrow> ('a list \<times> 'a list) result" where
  "InplaceTake zero slice predicate =
    bind_r (InplaceTake_loop [0..<length slice] slice 0 predicate) (\<lambda>(arr, newIndex).
    Inr (take newIndex arr @ replicate (length arr - newIndex) zero, take newIndex arr))"

definition SortMapKeyForDeterminism :: "('k::linorder, 'v) gomap \<Rightarrow> 'k list" where
  "SortMapKeyForDeterminism m = sort (keys m)"

definition SortedMap :: "('k::linorder, 'v) gomap \<Rightarrow> ('k \<times> 'v) list" where
  "SortedMap m = map (\<lambda>key. (key, the (map_of m key))) (SortMapKeyForDeterminism m)"

definition ValueSortedByMapKey :: "('k::linorder, 'v) gomap \<Rightarrow> 'v list" where
  "ValueSortedByMapKey m = map (\<lambda>key. the (map_of m key)) (SortMapKeyForDeterminism m)"

definition UnOrderedSliceEqual :: "'a::linorder list \<Rightarrow> 'a list \<Rightarrow> bool" where
  "UnOrderedSliceEqual s1 s2 = (sort s1 = sort s2)"

section \<open>Deduplication\<close>

lemma set_SliceDeDup [simp]: "set (SliceDeDup s) = set s"
  by (simp add: SliceDeDup_def)

lemma distinct_remdups_adj_sorted: "sorted (xs :: 'a::linorder list) \<Longrightarrow> distinct (remdups_adj xs)"
  by (induction xs rule: remdups_adj.induct) (auto simp: less_le)

lemma distinct_SliceDeDup [simp]: "distinct (SliceDeDup s)"
  by (simp add: SliceDeDup_def distinct_remdups_adj_sorted)

lemma sorted_remdups_adj_sorted: "sorted (xs :: 'a::linorder list) \<Longrightarrow> sorted (remdups_adj xs)"
  by (induction xs rule: remdups_adj.induct) auto

lemma sorted_SliceDeDup [simp]: "sorted (SliceDeDup s)"
  by (simp add: SliceDeDup_def sorted_remdups_adj_sorted)

lemma SliceDeDup_sorted_list_of_set: "SliceDeDup s = sorted_list_of_set (set s)"
  by (intro sorted_distinct_set_unique) auto

section \<open>Filters\<close>

lemma AllOf_list_all [simp]: "AllOf xs P \<longleftrightarrow> (\<forall>x \<in> set xs. P x)"
  by (induction xs) auto

lemma Filter_loop_filter: "Filter_loop xs P r = r @ filter P xs"
  by (induction xs arbitrary: r) auto

lemma Filter_filter [simp]: "Filter xs P = filter P xs"
  by (simp add: Filter_def Filter_loop_filter)

lemma ContainsAll_subset [simp]: "ContainsAll super sub \<longleftrightarrow> set sub \<subseteq> set super"
  by (auto simp: ContainsAll_def)

lemma set_Subtraction [simp]: "set (Subtraction a b) = set a - set b"
  by (auto simp: Subtraction_def)

lemma set_Exclude [simp]: "set (Exclude st x) = set st - {x}"
  by (auto simp: Exclude_def)

section \<open>Take and its in-place version\<close>

lemma at_Inr: "at xs i = Inr x \<longleftrightarrow> i < length xs \<and> x = xs ! i"
  by (auto simp: at_def)

lemma at_ok [simp]: "i < length xs \<Longrightarrow> at xs i = Inr (xs ! i)"
  by (simp add: at_def)

definition taken :: "'a list \<Rightarrow> bool list \<Rightarrow> 'a list" where
  "taken xs bs = map fst (filter snd (zip xs bs))"

lemma Take_loop_taken:
  "i + length xs \<le> length bs \<Longrightarrow> Take_loop xs i bs r = Inr (r @ taken xs (drop i bs))"
proof (induction xs arbitrary: i r)
  case (Cons x xs)
  then have "drop i bs = bs ! i # drop (Suc i) bs"
    by (simp add: Cons_nth_drop_Suc)
  with Cons show ?case
    by (simp add: taken_def)
qed (simp add: taken_def)

lemma Take_taken: "length xs \<le> length bs \<Longrightarrow> Take xs bs = Inr (taken xs bs)"
  by (simp add: Take_def Take_loop_taken)

lemma Take_loop_panics:
  "length bs < i + length xs \<Longrightarrow> i \<le> length bs
    \<Longrightarrow> Take_loop xs i bs r = Inl (Panic ''index out of range'')"
  by (induction xs arbitrary: i r) (auto simp: at_def)

lemma taken_snoc:
  "length xs = length bs \<Longrightarrow> taken (xs @ [x]) (bs @ [b]) = taken xs bs @ (if b then [x] else [])"
  by (simp add: taken_def)

lemma taken_Nil [simp]: "taken [] bs = []"
  by (simp add: taken_def)

lemma zip_take_length: "zip xs (take (length xs) bs) = zip xs bs"
  by (induction xs arbitrary: bs) (auto simp: zip_Cons1 take_Cons split: list.split)

lemma taken_take: "taken xs (take (length xs) bs) = taken xs bs"
  by (simp add: taken_def zip_take_length)

text \<open>Loop invariant of \<open>InplaceTake\<close>: before index \<open>i\<close> the prefix of length \<open>newIndex\<close> holds
  what \<open>Take\<close> keeps of the first \<open>i\<close> elements, and the elements from \<open>i\<close> on are untouched.\<close>

lemma InplaceTake_loop_taken:
  assumes "length orig \<le> length bs" "i \<le> length orig" "length arr = length orig"
    and "take k arr = taken (take i orig) (take i bs)" "k \<le> i" "drop i arr = drop i orig"
  shows "\<exists>arr' k'. InplaceTake_loop [i..<length orig] arr k bs = Inr (arr', k')
    \<and> take k' arr' = taken orig bs \<and> k' \<le> length orig \<and> length arr' = length orig"
  using assms
proof (induction "length orig - i" arbitrary: i arr k)
  case 0
  then have "i = length orig" by simp
  with 0 show ?case by (auto simp: taken_take intro: exI[of _ arr])
next
  case (Suc n)
  then have i: "i < length orig" and step: "[i..<length orig] = i # [Suc i..<length orig]"
    by (simp_all add: upt_conv_Cons)
  have arr_i: "arr ! i = orig ! i"
    using Suc.prems i by (metis nth_via_drop Cons_nth_drop_Suc)
  have dropS: "drop (Suc i) arr = drop (Suc i) orig"
    using Suc.prems(6) by (metis drop_drop add_Suc plus_nat.add_0 drop_Suc tl_drop)
  have grow: "taken (take (Suc i) orig) (take (Suc i) bs) =
      taken (take i orig) (take i bs) @ (if bs ! i then [orig ! i] else [])"
    using i Suc.prems(1) by (simp add: take_Suc_conv_app_nth taken_snoc)
  show ?case
  proof (cases "bs ! i")
    case True
    have "k < length arr" using Suc.prems i by simp
    then have "take (Suc k) (arr[k := arr ! i]) = take k arr @ [orig ! i]"
      by (simp add: take_Suc_conv_app_nth arr_i)
    moreover have "drop (Suc i) (arr[k := arr ! i]) = drop (Suc i) orig"
      using Suc.prems dropS by simp
    ultimately show ?thesis
      using Suc.hyps(1)[of "Suc i" "arr[k := arr ! i]" "Suc k"] Suc.hyps(2) Suc.prems i True grow step
      by simp
  next
    case False
    then show ?thesis
      using Suc.hyps(1)[of "Suc i" arr k] Suc.hyps(2) Suc.prems i grow step dropS by simp
  qed
qed

lemma InplaceTake_taken:
  assumes "length xs \<le> length bs"
  shows "\<exists>arr. InplaceTake z xs bs = Inr (arr, taken xs bs) \<and> length arr = length xs"
proof -
  obtain arr k where loop: "InplaceTake_loop [0..<length xs] xs 0 bs = Inr (arr, k)"
      and arr: "take k arr = taken xs bs" "k \<le> length xs" "length arr = length xs"
    using InplaceTake_loop_taken[of xs bs 0 xs 0] assms by auto
  then have "length (taken xs bs) = k"
    by (metis length_take min.absorb2)
  with loop arr show ?thesis by (simp add: InplaceTake_def)
qed

section \<open>Maps in key order\<close>

lemma keys_SortedMap [simp]: "keys (SortedMap m) = sort (keys m)"
  by (simp add: SortedMap_def SortMapKeyForDeterminism_def comp_def)

lemma map_of_pairs: "map_of (map (\<lambda>k. (k, f k)) ks) k = (if k \<in> set ks then Some (f k) else None)"
  by (induction ks) auto

lemma map_of_SortedMap: "map_of (SortedMap m) = map_of m"
  by (rule ext)
    (auto simp: SortedMap_def SortMapKeyForDeterminism_def map_of_pairs map_of_eq_None_iff
      split: option.split dest: map_of_SomeD intro: sym)

lemma UnOrderedSliceEqual_mset: "UnOrderedSliceEqual a b \<longleftrightarrow> mset a = mset b"
  unfolding UnOrderedSliceEqual_def by (metis mset_sort properties_for_sort sorted_sort)

section \<open>Claims\<close>

text \<open>C10: \<open>InplaceTake\<close>, which overwrites the slice while scanning it, returns what \<open>Take\<close> collects in a
  fresh slice, and both return exactly the elements whose predicate is true, in order, when the
  predicate is long enough; the array keeps its length.\<close>

theorem InplaceTake_equals_Take:
  assumes "length xs \<le> length bs"
  shows "Take xs bs = Inr (map fst (filter snd (zip xs bs)))
    \<and> (\<exists>arr. InplaceTake z xs bs = Inr (arr, map fst (filter snd (zip xs bs))) \<and> length arr = length xs)"
  using Take_taken[OF assms] InplaceTake_taken[OF assms, of z] by (simp add: taken_def)

theorem InplaceTake_equals_Take_witness:
  "Take [1, 2, 3 :: nat] [True, False, True] = Inr [1, 3]"
  using InplaceTake_equals_Take[of "[1, 2, 3 :: nat]" "[True, False, True]" 0] by simp

text \<open>when the predicate is shorter than the slice, \<open>Take\<close> panics with an index out of range.\<close>

theorem Take_short_predicate_panics:
  assumes "length bs < length xs"
  shows "Take xs bs = Inl (Panic ''index out of range'')"
  using assms by (simp add: Take_def Take_loop_panics)

theorem Take_short_predicate_panics_witness: "Take [1, 2 :: nat] [True] = Inl (Panic ''index out of range'')"
  by (rule Take_short_predicate_panics) simp

text \<open>\<open>SliceDeDup\<close> returns the canonical form of a slice: sorted, without duplicates, the same
  elements; so two slices with the same elements deduplicate to the same slice.\<close>

theorem SliceDeDup_canonical:
  "sorted (SliceDeDup s) \<and> distinct (SliceDeDup s) \<and> set (SliceDeDup s) = set s
   \<and> (SliceDeDup s = SliceDeDup r \<longleftrightarrow> set s = set r)"
  by (auto simp: SliceDeDup_sorted_list_of_set dest: arg_cong[where f = set])

end
