(* ===== verification/Expression.thy ===== *)
theory Expression
  imports Scql_Prelude "HOL-Library.Word"
begin

unbundle bit_operations_syntax

text \<open>
  The part of \<open>pkg/expression\<close>, \<open>pkg/types\<close> and \<open>pkg/parser/mysql\<close> the
  interpreter reads: field types, literal values (datums), columns and the
  expression tree.  A \<open>float32\<close>/\<open>float64\<close> is its IEEE bit pattern: the code
  modelled here stores and copies floats and computes nothing with them.
\<close>

type_synonym float32 = "32 word"
type_synonym float64 = "64 word"

datatype MysqlType =
    TypeDecimal | TypeTiny | TypeShort | TypeLong | TypeFloat | TypeDouble | TypeNull
  | TypeTimestamp | TypeLonglong | TypeInt24 | TypeDate | TypeDuration | TypeDatetime | TypeYear
  | TypeNewDate | TypeVarchar | TypeBit | TypeJSON | TypeNewDecimal | TypeEnum | TypeSet
  | TypeTinyBlob | TypeMediumBlob | TypeLongBlob | TypeBlob | TypeVarString | TypeString
  | TypeGeometry

text \<open>Of \<open>types.FieldType\<close> the interpreter reads the type and the flags.\<close>

record FieldType =
  Tp :: MysqlType
  Flag :: "64 word"

definition IsBooleanFlag :: "64 word" where
  "IsBooleanFlag = push_bit 19 1"

definition HasIsBooleanFlag :: "64 word \<Rightarrow> bool" where
  "HasIsBooleanFlag flag \<longleftrightarrow> (flag AND IsBooleanFlag) > 0"

text \<open>A datum by its kind.  A decimal is represented by what its \<open>ToFloat64\<close> returns and a
  time by its Unix timestamp, the only views of them the interpreter takes; the kinds it
  rejects carry no payload.\<close>

datatype Datum =
    KindNull | KindInt64 int | KindUint64 "64 word" | KindFloat32 float32 | KindFloat64 float64
  | KindString string | KindBytes | KindBinaryLiteral | KindMysqlDecimal "float64 result"
  | KindMysqlDuration "64 word" | KindMysqlBit | KindMysqlTime int | KindInterface
  | KindMinNotNull | KindMaxValue | KindRaw

record Column =
  RetType :: FieldType
  UniqueID :: int
  OrigName :: string

datatype Expression =
    Constant Datum FieldType
  | ColumnExpr Column
  | ScalarFunction string FieldType "Expression list"
  | CorrelatedColumn Column

fun extractColumns :: "Column list \<Rightarrow> Expression \<Rightarrow> (Column \<Rightarrow> bool) option \<Rightarrow> Column list"
  and extractColumns_args ::
    "Column list \<Rightarrow> Expression list \<Rightarrow> (Column \<Rightarrow> bool) option \<Rightarrow> Column list" where
  "extractColumns result (ColumnExpr v) flt =
    (if (case flt of None \<Rightarrow> True | Some f \<Rightarrow> f v) then result @ [v] else result)"
| "extractColumns result (ScalarFunction _ _ args) flt = extractColumns_args result args flt"
| "extractColumns result (Constant _ _) flt = result"
| "extractColumns result (CorrelatedColumn _) flt = result"
| "extractColumns_args result [] flt = result"
| "extractColumns_args result (arg # args) flt =
    extractColumns_args (extractColumns result arg flt) args flt"

definition ExtractColumns :: "Expression \<Rightarrow> Column list" where
  "ExtractColumns expr = extractColumns [] expr None"

fun ExtractColumnsFromExpressions ::
    "Column list \<Rightarrow> Expression list \<Rightarrow> (Column \<Rightarrow> bool) option \<Rightarrow> Column list" where
  "ExtractColumnsFromExpressions result [] flt = result"
| "ExtractColumnsFromExpressions result (expr # exprs) flt =
    ExtractColumnsFromExpressions (extractColumns result expr flt) exprs flt"

text \<open>The columns of an expression, as a set, against which the accumulating traversal is checked.\<close>

fun columns_of :: "Expression \<Rightarrow> Column set" where
  "columns_of (Constant v t) = {}"
| "columns_of (ColumnExpr c) = {c}"
| "columns_of (ScalarFunction f t args) = (\<Union>a \<in> set args. columns_of a)"
| "columns_of (CorrelatedColumn c) = {}"

lemma set_extractColumns:
  "set (extractColumns r e flt) =
    set r \<union> {c \<in> columns_of e. case flt of None \<Rightarrow> True | Some f \<Rightarrow> f c}"
  "set (extractColumns_args r es flt) =
    set r \<union> {c \<in> (\<Union>e \<in> set es. columns_of e). case flt of None \<Rightarrow> True | Some f \<Rightarrow> f c}"
  by (induction r e flt and r es flt rule: extractColumns_extractColumns_args.induct)
    (auto split: option.splits)

lemma set_ExtractColumns [simp]: "set (ExtractColumns e) = columns_of e"
  by (simp add: ExtractColumns_def set_extractColumns)

end
