(* ===== verification/Operator_Names.thy ===== *)
theory Operator_Names
  imports Scql_Prelude
begin

text \<open>
  \<open>pkg/interpreter/operator/constant.go\<close>: the names of the operators and of their
  attributes, and the operators that implement each SQL aggregate.
\<close>

section \<open>Operator names\<close>

definition OpNameConstant :: string where
  "OpNameConstant = ''Constant''"

definition OpNameMakePrivate :: string where
  "OpNameMakePrivate = ''MakePrivate''"

definition OpNameMakeShare :: string where
  "OpNameMakeShare = ''MakeShare''"

definition OpNameMakePublic :: string where
  "OpNameMakePublic = ''MakePublic''"

definition OpNameFilterByIndex :: string where
  "OpNameFilterByIndex = ''FilterByIndex''"

definition OpNameBucket :: string where
  "OpNameBucket = ''Bucket''"

definition OpNameJoin :: string where
  "OpNameJoin = ''Join''"

definition OpNameSecretJoin :: string where
  "OpNameSecretJoin = ''SecretJoin''"

definition OpNameRunSQL :: string where
  "OpNameRunSQL = ''RunSQL''"

definition OpNamePublish :: string where
  "OpNamePublish = ''Publish''"

definition OpNameDumpFile :: string where
  "OpNameDumpFile = ''DumpFile''"

definition OpNameInsertTable :: string where
  "OpNameInsertTable = ''InsertTable''"

definition OpNameCopy :: string where
  "OpNameCopy = ''Copy''"

definition OpNameFilter :: string where
  "OpNameFilter = ''Filter''"

definition OpNameGreatest :: string where
  "OpNameGreatest = ''Greatest''"

definition OpNameLeast :: string where
  "OpNameLeast = ''Least''"

definition OpNameIn :: string where
  "OpNameIn = ''In''"

definition OpNameReplicate :: string where
  "OpNameReplicate = ''Replicate''"

definition OpNameBroadcastTo :: string where
  "OpNameBroadcastTo = ''BroadcastTo''"

definition OpNameCast :: string where
  "OpNameCast = ''Cast''"

definition OpNameLimit :: string where
  "OpNameLimit = ''Limit''"

definition OpNameIsNull :: string where
  "OpNameIsNull = ''IsNull''"

definition OpNameArrowFunc :: string where
  "OpNameArrowFunc = ''ArrowFunc''"

definition OpNameLess :: string where
  "OpNameLess = ''Less''"

definition OpNameLessEqual :: string where
  "OpNameLessEqual = ''LessEqual''"

definition OpNameGreater :: string where
  "OpNameGreater = ''Greater''"

definition OpNameGreaterEqual :: string where
  "OpNameGreaterEqual = ''GreaterEqual''"

definition OpNameEqual :: string where
  "OpNameEqual = ''Equal''"

definition OpNameNotEqual :: string where
  "OpNameNotEqual = ''NotEqual''"

definition OpNameLogicalAnd :: string where
  "OpNameLogicalAnd = ''LogicalAnd''"

definition OpNameLogicalOr :: string where
  "OpNameLogicalOr = ''LogicalOr''"

definition OpNamePow :: string where
  "OpNamePow = ''Pow''"

definition OpNameAdd :: string where
  "OpNameAdd = ''Add''"

definition OpNameMinus :: string where
  "OpNameMinus = ''Minus''"

definition OpNameMul :: string where
  "OpNameMul = ''Mul''"

definition OpNameDiv :: string where
  "OpNameDiv = ''Div''"

definition OpNameIntDiv :: string where
  "OpNameIntDiv = ''IntDiv''"

definition OpNameMod :: string where
  "OpNameMod = ''Mod''"

definition OpNameNot :: string where
  "OpNameNot = ''Not''"

definition OpNameSin :: string where
  "OpNameSin = ''Sin''"

definition OpNameCos :: string where
  "OpNameCos = ''Cos''"

definition OpNameACos :: string where
  "OpNameACos = ''ACos''"

definition OpNameASin :: string where
  "OpNameASin = ''ASin''"

definition OpNameTan :: string where
  "OpNameTan = ''Tan''"

definition OpNameCot :: string where
  "OpNameCot = ''Cot''"

definition OpNameATan :: string where
  "OpNameATan = ''ATan''"

definition OpNameATan2 :: string where
  "OpNameATan2 = ''ATan2''"

definition OpNameReduceSum :: string where
  "OpNameReduceSum = ''ReduceSum''"

definition OpNameReduceMax :: string where
  "OpNameReduceMax = ''ReduceMax''"

definition OpNameReduceMin :: string where
  "OpNameReduceMin = ''ReduceMin''"

definition OpNameReduceAvg :: string where
  "OpNameReduceAvg = ''ReduceAvg''"

definition OpNameReduceCount :: string where
  "OpNameReduceCount = ''ReduceCount''"

definition OpNameReducePercentileDisc :: string where
  "OpNameReducePercentileDisc = ''ReducePercentileDisc''"

definition OpNameGroup :: string where
  "OpNameGroup = ''Group''"

definition OpNameGroupSum :: string where
  "OpNameGroupSum = ''GroupSum''"

definition OpNameGroupCount :: string where
  "OpNameGroupCount = ''GroupCount''"

definition OpNameGroupCountDistinct :: string where
  "OpNameGroupCountDistinct = ''GroupCountDistinct''"

definition OpNameGroupAvg :: string where
  "OpNameGroupAvg = ''GroupAvg''"

definition OpNameGroupMin :: string where
  "OpNameGroupMin = ''GroupMin''"

definition OpNameGroupMax :: string where
  "OpNameGroupMax = ''GroupMax''"

definition OpNameGroupFirstOf :: string where
  "OpNameGroupFirstOf = ''GroupFirstOf''"

definition OpNameGroupHeSum :: string where
  "OpNameGroupHeSum = ''GroupHeSum''"

definition OpNameGroupPercentileDisc :: string where
  "OpNameGroupPercentileDisc = ''GroupPercentileDisc''"

definition OpNameUnique :: string where
  "OpNameUnique = ''Unique''"

definition OpNameShape :: string where
  "OpNameShape = ''Shape''"

definition OpNameSort :: string where
  "OpNameSort = ''Sort''"

definition OpNameObliviousGroupMark :: string where
  "OpNameObliviousGroupMark = ''ObliviousGroupMark''"

definition OpNameObliviousGroupCount :: string where
  "OpNameObliviousGroupCount = ''ObliviousGroupCount''"

definition OpNameObliviousGroupSum :: string where
  "OpNameObliviousGroupSum = ''ObliviousGroupSum''"

definition OpNameObliviousGroupMax :: string where
  "OpNameObliviousGroupMax = ''ObliviousGroupMax''"

definition OpNameObliviousGroupMin :: string where
  "OpNameObliviousGroupMin = ''ObliviousGroupMin''"

definition OpNameObliviousGroupAvg :: string where
  "OpNameObliviousGroupAvg = ''ObliviousGroupAvg''"

definition OpNameObliviousPercentRank :: string where
  "OpNameObliviousPercentRank = ''ObliviousPercentRank''"

definition OpNameObliviousPercentileDisc :: string where
  "OpNameObliviousPercentileDisc = ''ObliviousPercentileDisc''"

definition OpNameObliviousRank :: string where
  "OpNameObliviousRank = ''ObliviousRank''"

definition OpNameShuffle :: string where
  "OpNameShuffle = ''Shuffle''"

definition OpNameConcat :: string where
  "OpNameConcat = ''Concat''"

definition OpNameCaseWhen :: string where
  "OpNameCaseWhen = ''CaseWhen''"

definition OpNameIf :: string where
  "OpNameIf = ''If''"

definition OpNameIfNull :: string where
  "OpNameIfNull = ''IfNull''"

definition OpNameCoalesce :: string where
  "OpNameCoalesce = ''Coalesce''"

definition OpNameRowNumber :: string where
  "OpNameRowNumber = ''RowNumber''"

definition OpNamePercentRank :: string where
  "OpNamePercentRank = ''PercentRank''"

definition OpNameRank :: string where
  "OpNameRank = ''Rank''"

definition OpNameAbs :: string where
  "OpNameAbs = ''Abs''"

definition OpNameCeil :: string where
  "OpNameCeil = ''Ceil''"

definition OpNameFloor :: string where
  "OpNameFloor = ''Floor''"

definition OpNameRound :: string where
  "OpNameRound = ''Round''"

definition OpNameDegrees :: string where
  "OpNameDegrees = ''Degrees''"

definition OpNameRadians :: string where
  "OpNameRadians = ''Radians''"

definition OpNameLn :: string where
  "OpNameLn = ''Ln''"

definition OpNameLog10 :: string where
  "OpNameLog10 = ''Log10''"

definition OpNameLog2 :: string where
  "OpNameLog2 = ''Log2''"

definition OpNameSqrt :: string where
  "OpNameSqrt = ''Sqrt''"

definition OpNameExp :: string where
  "OpNameExp = ''Exp''"

section \<open>Attribute names\<close>

definition RevealToAttr :: string where
  "RevealToAttr = ''reveal_to''"

definition InputPartyCodesAttr :: string where
  "InputPartyCodesAttr = ''input_party_codes''"

definition OutputPartyCodesAttr :: string where
  "OutputPartyCodesAttr = ''output_party_codes''"

definition LimitCountAttr :: string where
  "LimitCountAttr = ''count''"

definition LimitOffsetAttr :: string where
  "LimitOffsetAttr = ''offset''"

definition TableNameAttr :: string where
  "TableNameAttr = ''table_name''"

definition ColumnNamesAttr :: string where
  "ColumnNamesAttr = ''column_names''"

definition PsiAlgorithmAttr :: string where
  "PsiAlgorithmAttr = ''psi_algorithm''"

definition InTypeAttr :: string where
  "InTypeAttr = ''in_type''"

definition JoinTypeAttr :: string where
  "JoinTypeAttr = ''join_type''"

definition SqlAttr :: string where
  "SqlAttr = ''sql''"

definition TableRefsAttr :: string where
  "TableRefsAttr = ''table_refs''"

definition ScalarAttr :: string where
  "ScalarAttr = ''scalar''"

definition ToStatusAttr :: string where
  "ToStatusAttr = ''to_status''"

definition FilePathAttr :: string where
  "FilePathAttr = ''file_path''"

definition FieldDeliminatorAttr :: string where
  "FieldDeliminatorAttr = ''field_deliminator''"

definition QuotingStyleAttr :: string where
  "QuotingStyleAttr = ''quoting_style''"

definition LineTerminatorAttr :: string where
  "LineTerminatorAttr = ''line_terminator''"

definition AxisAttr :: string where
  "AxisAttr = ''axis''"

definition ReverseAttr :: string where
  "ReverseAttr = ''reverse''"

definition FuncNameAttr :: string where
  "FuncNameAttr = ''func_name''"

definition FuncOptAttr :: string where
  "FuncOptAttr = ''func_options''"

definition FuncOptTypeAttr :: string where
  "FuncOptTypeAttr = ''func_opt_type''"

lemmas op_name_defs =
  OpNameConstant_def OpNameMakePrivate_def OpNameMakeShare_def OpNameMakePublic_def OpNameFilterByIndex_def
  OpNameBucket_def OpNameJoin_def OpNameSecretJoin_def OpNameRunSQL_def OpNamePublish_def
  OpNameDumpFile_def OpNameInsertTable_def OpNameCopy_def OpNameFilter_def OpNameGreatest_def
  OpNameLeast_def OpNameIn_def OpNameReplicate_def OpNameBroadcastTo_def OpNameCast_def
  OpNameLimit_def OpNameIsNull_def OpNameArrowFunc_def OpNameLess_def OpNameLessEqual_def
  OpNameGreater_def OpNameGreaterEqual_def OpNameEqual_def OpNameNotEqual_def OpNameLogicalAnd_def
  OpNameLogicalOr_def OpNamePow_def OpNameAdd_def OpNameMinus_def OpNameMul_def
  OpNameDiv_def OpNameIntDiv_def OpNameMod_def OpNameNot_def OpNameSin_def
  OpNameCos_def OpNameACos_def OpNameASin_def OpNameTan_def OpNameCot_def
  OpNameATan_def OpNameATan2_def OpNameReduceSum_def OpNameReduceMax_def OpNameReduceMin_def
  OpNameReduceAvg_def OpNameReduceCount_def OpNameReducePercentileDisc_def OpNameGroup_def OpNameGroupSum_def
  OpNameGroupCount_def OpNameGroupCountDistinct_def OpNameGroupAvg_def OpNameGroupMin_def OpNameGroupMax_def
  OpNameGroupFirstOf_def OpNameGroupHeSum_def OpNameGroupPercentileDisc_def OpNameUnique_def OpNameShape_def
  OpNameSort_def OpNameObliviousGroupMark_def OpNameObliviousGroupCount_def OpNameObliviousGroupSum_def OpNameObliviousGroupMax_def
  OpNameObliviousGroupMin_def OpNameObliviousGroupAvg_def OpNameObliviousPercentRank_def OpNameObliviousPercentileDisc_def OpNameObliviousRank_def
  OpNameShuffle_def OpNameConcat_def OpNameCaseWhen_def OpNameIf_def OpNameIfNull_def
  OpNameCoalesce_def OpNameRowNumber_def OpNamePercentRank_def OpNameRank_def OpNameAbs_def
  OpNameCeil_def OpNameFloor_def OpNameRound_def OpNameDegrees_def OpNameRadians_def
  OpNameLn_def OpNameLog10_def OpNameLog2_def OpNameSqrt_def OpNameExp_def

lemmas attr_name_defs =
  RevealToAttr_def InputPartyCodesAttr_def OutputPartyCodesAttr_def LimitCountAttr_def LimitOffsetAttr_def
  TableNameAttr_def ColumnNamesAttr_def PsiAlgorithmAttr_def InTypeAttr_def JoinTypeAttr_def
  SqlAttr_def TableRefsAttr_def ScalarAttr_def ToStatusAttr_def FilePathAttr_def
  FieldDeliminatorAttr_def QuotingStyleAttr_def LineTerminatorAttr_def AxisAttr_def ReverseAttr_def
  FuncNameAttr_def FuncOptAttr_def FuncOptTypeAttr_def

definition ReduceAggOp :: "(string, string) gomap" where
  "ReduceAggOp = [(''sum'', OpNameReduceSum),
    (''max'', OpNameReduceMax),
    (''min'', OpNameReduceMin),
    (''avg'', OpNameReduceAvg),
    (''count'', OpNameReduceCount),
    (''percentile_disc'', OpNameReducePercentileDisc)]"

definition ObliviousGroupAggOp :: "(string, string) gomap" where
  "ObliviousGroupAggOp = [(''sum'', OpNameObliviousGroupSum),
    (''max'', OpNameObliviousGroupMax),
    (''min'', OpNameObliviousGroupMin),
    (''avg'', OpNameObliviousGroupAvg),
    (''count'', OpNameObliviousGroupCount),
    (''percent_rank'', OpNameObliviousPercentRank),
    (''percentile_disc'', OpNameObliviousPercentileDisc),
    (''rank'', OpNameObliviousRank)]"

definition GroupAggOp :: "(string, string) gomap" where
  "GroupAggOp = [(''sum'', OpNameGroupSum),
    (''max'', OpNameGroupMax),
    (''min'', OpNameGroupMin),
    (''avg'', OpNameGroupAvg),
    (''count'', OpNameGroupCount),
    (''firstrow'', OpNameGroupFirstOf),
    (''percentile_disc'', OpNameGroupPercentileDisc)]"

definition PsiIn :: int where
  "PsiIn = 0"

definition LocalIn :: int where
  "LocalIn = 2"

end
