(* ===== verification/Ccl.thy ===== *)
theory Ccl
  imports Slice_Util Expression Operator_Names
begin

text \<open>
  \<open>pkg/interpreter/ccl\<close>: the column control list (CCL) of a column or tensor,
  one visibility level per party, and its inference through expressions
  (\<open>ccl.go\<close>, \<open>ccl_infer.go\<close>, \<open>column_tracer.go\<close>, \<open>constant.go\<close>).

  The levels with \<open>LookUpVis\<close> form a bounded join semilattice with \<open>Plain\<close> at
  the bottom and \<open>Encrypt\<close> at the top; the two loops that combine control lists
  act pointwise on the levels, which the locale \<open>pointwise_update\<close> states once.
\<close>

section \<open>Levels and control lists\<close>

datatype CCLLevel =
  Plain | Join | GroupBy | Aggregate | Compare | Encrypt | AsJoinPayload | Unknown | Rank

definition CCLLevel_String :: "CCLLevel \<Rightarrow> string" where
  "CCLLevel_String level = (case level of
      Unknown \<Rightarrow> ''UNKNOWN''
    | Plain \<Rightarrow> ''PLAINTEXT''
    | Encrypt \<Rightarrow> ''ENCRYPTED_ONLY''
    | Join \<Rightarrow> ''PLAINTEXT_AFTER_JOIN''
    | GroupBy \<Rightarrow> ''PLAINTEXT_AFTER_GROUP_BY''
    | Compare \<Rightarrow> ''PLAINTEXT_AFTER_COMPARE''
    | Aggregate \<Rightarrow> ''PLAINTEXT_AFTER_AGGREGATE''
    | AsJoinPayload \<Rightarrow> ''PLAINTEXT_AS_JOIN_PAYLOAD''
    | Rank \<Rightarrow> ''REVEAL_RANK'')"

record CCL =
  partyLevels :: "(string, CCLLevel) gomap"

definition NewCCL :: CCL where
  "NewCCL = \<lparr>partyLevels = []\<rparr>"

definition Clone :: "CCL \<Rightarrow> CCL" where
  "Clone cc = \<lparr>partyLevels = foldr (\<lambda>(p, level) m. AList.update p level m) (partyLevels cc) []\<rparr>"

definition LevelFor :: "CCL \<Rightarrow> string \<Rightarrow> CCLLevel" where
  "LevelFor cc party = (case map_of (partyLevels cc) party of None \<Rightarrow> Unknown | Some vis \<Rightarrow> vis)"

definition SetLevelForParty :: "CCL \<Rightarrow> string \<Rightarrow> CCLLevel \<Rightarrow> CCL" where
  "SetLevelForParty cc party level = cc\<lparr>partyLevels := AList.update party level (partyLevels cc)\<rparr>"

definition IsVisibleFor :: "CCL \<Rightarrow> string \<Rightarrow> bool" where
  "IsVisibleFor cc party =
    (case map_of (partyLevels cc) party of None \<Rightarrow> False | Some vis \<Rightarrow> vis = Plain)"

definition Parties :: "CCL \<Rightarrow> string list" where
  "Parties cc = keys (partyLevels cc)"

definition GetVisibleParties :: "CCL \<Rightarrow> string list" where
  "GetVisibleParties cc = filter (IsVisibleFor cc) (Parties cc)"

primrec IsVisibleForParties :: "CCL \<Rightarrow> string list \<Rightarrow> bool" where
  "IsVisibleForParties cc [] = True"
| "IsVisibleForParties cc (party # parties) =
    (case map_of (partyLevels cc) party of
       None \<Rightarrow> False
     | Some vis \<Rightarrow> if vis \<noteq> Plain then False else IsVisibleForParties cc parties)"

definition CCL_String :: "CCL \<Rightarrow> string" where
  "CCL_String cc = ''{ccl level: ''
    @ concat (map (\<lambda>(p, level). p @ ''->'' @ CCLLevel_String level @ '','') (SortedMap (partyLevels cc)))
    @ ''}''"

definition CreateAllPlainCCL :: "string list \<Rightarrow> CCL" where
  "CreateAllPlainCCL parties = fold (\<lambda>p cc. SetLevelForParty cc p Plain) parties NewCCL"

section \<open>Inference\<close>

definition ExtractPartyCodes :: "CCL list \<Rightarrow> string list" where
  "ExtractPartyCodes ccs = sort (remdups (concat (map Parties ccs)))"

definition LookUpVis :: "CCLLevel \<Rightarrow> CCLLevel \<Rightarrow> CCLLevel" where
  "LookUpVis left right =
    (if left = Encrypt \<or> right = Encrypt then Encrypt
     else if left = Plain then right
     else if right = Plain then left
     else if left = right then left
     else Unknown)"

definition UpdateMoreRestrictedCCLFrom :: "CCL \<Rightarrow> CCL \<Rightarrow> CCL" where
  "UpdateMoreRestrictedCCLFrom cc other =
    fold (\<lambda>p cc. SetLevelForParty cc p (LookUpVis (LevelFor cc p) (LevelFor other p)))
      (ExtractPartyCodes [cc, other]) cc"

definition inferCompareFuncCCL :: "CCLLevel \<Rightarrow> CCLLevel \<Rightarrow> CCLLevel" where
  "inferCompareFuncCCL left right =
    (if (left = Compare \<or> left = Plain) \<and> (right = Compare \<or> right = Plain) then Plain
     else LookUpVis left right)"

definition InferCompareFuncCCL :: "CCL \<Rightarrow> CCL \<Rightarrow> CCL" where
  "InferCompareFuncCCL left right =
    fold (\<lambda>p cc. SetLevelForParty cc p (inferCompareFuncCCL (LevelFor cc p) (LevelFor right p)))
      (ExtractPartyCodes [left, right]) left"

definition isCompareOpMap :: "string list" where
  "isCompareOpMap = [OpNameGreater, OpNameGreaterEqual, OpNameLess, OpNameLessEqual, OpNameEqual, OpNameNotEqual]"

definition isCompareAstFuncMap :: "string list" where
  "isCompareAstFuncMap = [''gt'', ''ge'', ''lt'', ''le'', ''eq'', ''ne'', ''geodist'']"

definition isRankWindowFuncMap :: "string list" where
  "isRankWindowFuncMap = [''row_number'', ''percent_rank'', ''rank'']"

text \<open>\<open>FuncName.L\<close> of a scalar function is its lower-cased name, the name kept in the tree.\<close>

definition IsCompareOp :: "Expression \<Rightarrow> bool result" where
  "IsCompareOp expr = (case expr of
      ScalarFunction name _ _ \<Rightarrow> Inr (name \<in> set isCompareAstFuncMap)
    | _ \<Rightarrow> Inl (Errorf ''assert failed, expected: *ScalarFunction, actual: %T''))"

definition IsRankWindowFunc :: "string \<Rightarrow> bool" where
  "IsRankWindowFunc name = (ToLower name \<in> set isRankWindowFuncMap)"

text \<open>\<open>argCCL[0]\<close> panics on an empty argument list.\<close>

definition InferScalarFuncCCLUsingArgCCL :: "Expression \<Rightarrow> CCL list \<Rightarrow> CCL result" where
  "InferScalarFuncCCLUsingArgCCL sf argCCL =
    (case IsCompareOp sf of
       Inl e \<Rightarrow> Inl (Errorf ''inferExpressionCCL: %v'')
     | Inr isCompare \<Rightarrow>
       (case argCCL of
          [] \<Rightarrow> Inl (Panic ''index out of range'')
        | cc0 # rest \<Rightarrow>
          Inr (foldl (\<lambda>resultCC arg.
                 if isCompare then InferCompareFuncCCL resultCC arg
                 else UpdateMoreRestrictedCCLFrom resultCC arg) (Clone cc0) rest)))"

fun InferExpressionCCL :: "Expression \<Rightarrow> (int, CCL) gomap \<Rightarrow> CCL result"
  and InferExpressionCCL_args :: "Expression list \<Rightarrow> (int, CCL) gomap \<Rightarrow> CCL list result" where
  "InferExpressionCCL (Constant v t) ccl =
    (let parties = ExtractPartyCodes (map snd ccl) in
     if length parties = 0 then Inl (Errorf ''inferExpressionCCL: empty input party codes'')
     else Inr (CreateAllPlainCCL parties))"
| "InferExpressionCCL (ColumnExpr x) ccl =
    (case map_of ccl (UniqueID x) of
       None \<Rightarrow> Inl (Errorf ''inferExpressionCCL: unable to find col(%v)'')
     | Some cc \<Rightarrow> Inr (Clone cc))"
| "InferExpressionCCL (ScalarFunction name t args) ccl =
    (let parties = ExtractPartyCodes (map snd ccl) in
     if length args = 0 then
       (if length parties = 0 then Inl (Errorf ''inferExpressionCCL: empty input party codes'')
        else Inr (CreateAllPlainCCL parties))
     else
       bind_r (InferExpressionCCL_args args ccl) (\<lambda>argCCL.
       InferScalarFuncCCLUsingArgCCL (ScalarFunction name t args) argCCL))"
| "InferExpressionCCL (CorrelatedColumn x) ccl =
    Inl (Errorf ''inferExpressionCCL: unsupported expression %s with type %T'')"
| "InferExpressionCCL_args [] ccl = Inr []"
| "InferExpressionCCL_args (arg # args) ccl =
    bind_r (InferExpressionCCL arg ccl) (\<lambda>cc.
    bind_r (InferExpressionCCL_args args ccl) (\<lambda>ccs. Inr (cc # ccs)))"

definition InferBinaryOpOutputVisibility :: "string \<Rightarrow> CCL \<Rightarrow> CCL \<Rightarrow> CCL" where
  "InferBinaryOpOutputVisibility opType left right =
    (let cc = Clone left in
     if opType \<in> set isCompareOpMap then InferCompareFuncCCL cc right
     else UpdateMoreRestrictedCCLFrom cc right)"

section \<open>Column tracer\<close>

record Context =
  GroupByThreshold :: "64 word"
  PsiType :: nat

record ColumnTracer =
  colToSourceParties :: "(int, string list) gomap"
  rootArgMap :: "(int, int) gomap"

definition NewColumnTracer :: ColumnTracer where
  "NewColumnTracer = \<lparr>colToSourceParties = [], rootArgMap = []\<rparr>"

definition GetRootArg :: "ColumnTracer \<Rightarrow> int \<Rightarrow> int" where
  "GetRootArg t x = (case map_of (rootArgMap t) x of None \<Rightarrow> x | Some p \<Rightarrow> p)"

definition SetRootArg :: "ColumnTracer \<Rightarrow> int \<Rightarrow> int \<Rightarrow> ColumnTracer" where
  "SetRootArg t x root = t\<lparr>rootArgMap := AList.update x root (rootArgMap t)\<rparr>"

definition FindSourceParties :: "ColumnTracer \<Rightarrow> int \<Rightarrow> string list" where
  "FindSourceParties t uniqueID = lookup_or [] (colToSourceParties t) uniqueID"

definition AddSourceParties :: "ColumnTracer \<Rightarrow> int \<Rightarrow> string list \<Rightarrow> ColumnTracer" where
  "AddSourceParties t uniqueID parties =
    (let m0 = colToSourceParties t;
         m1 = (if map_of m0 uniqueID = None then AList.update uniqueID [] m0 else m0);
         m2 = AList.update uniqueID (lookup_or [] m1 uniqueID @ parties) m1;
         m3 = AList.update uniqueID (SliceDeDup (lookup_or [] m2 uniqueID)) m2
     in t\<lparr>colToSourceParties := m3\<rparr>)"

definition SetSourcePartiesFromExpr :: "ColumnTracer \<Rightarrow> int \<Rightarrow> Expression \<Rightarrow> ColumnTracer" where
  "SetSourcePartiesFromExpr t uniqueID expr =
    (let dataSourceParties =
       foldl (\<lambda>acc col. acc @ FindSourceParties t (UniqueID col)) [] (ExtractColumns expr)
     in AddSourceParties t uniqueID dataSourceParties)"

section \<open>The semilattice of levels\<close>

instantiation CCLLevel :: "{bounded_semilattice_sup_bot, order_top}"
begin

definition less_eq_CCLLevel :: "CCLLevel \<Rightarrow> CCLLevel \<Rightarrow> bool" where
  "less_eq_CCLLevel a b \<longleftrightarrow> LookUpVis a b = b"

definition less_CCLLevel :: "CCLLevel \<Rightarrow> CCLLevel \<Rightarrow> bool" where
  "less_CCLLevel a b \<longleftrightarrow> a \<le> b \<and> a \<noteq> b" for a b :: CCLLevel

definition sup_CCLLevel :: "CCLLevel \<Rightarrow> CCLLevel \<Rightarrow> CCLLevel" where
  "sup_CCLLevel = LookUpVis"

definition bot_CCLLevel :: CCLLevel where
  "bot_CCLLevel = Plain"

definition top_CCLLevel :: CCLLevel where
  "top_CCLLevel = Encrypt"

instance
proof
  fix x y z :: CCLLevel
  show "x < y \<longleftrightarrow> x \<le> y \<and> \<not> y \<le> x"
    by (cases x; cases y) (simp_all add: less_CCLLevel_def less_eq_CCLLevel_def LookUpVis_def)
  show "x \<le> x"
    by (cases x) (simp_all add: less_eq_CCLLevel_def LookUpVis_def)
  show "x \<le> y \<Longrightarrow> y \<le> z \<Longrightarrow> x \<le> z"
    by (auto simp: less_eq_CCLLevel_def LookUpVis_def split: if_splits)
  show "x \<le> y \<Longrightarrow> y \<le> x \<Longrightarrow> x = y"
    by (auto simp: less_eq_CCLLevel_def LookUpVis_def split: if_splits)
  show "x \<le> sup x y"
    by (simp add: less_eq_CCLLevel_def sup_CCLLevel_def LookUpVis_def)
  show "y \<le> sup x y"
    by (simp add: less_eq_CCLLevel_def sup_CCLLevel_def LookUpVis_def)
  show "y \<le> x \<Longrightarrow> z \<le> x \<Longrightarrow> sup y z \<le> x"
    by (auto simp: less_eq_CCLLevel_def sup_CCLLevel_def LookUpVis_def split: if_splits)
  show "bot \<le> x"
    by (simp add: less_eq_CCLLevel_def bot_CCLLevel_def LookUpVis_def)
  show "x \<le> top"
    by (simp add: less_eq_CCLLevel_def top_CCLLevel_def LookUpVis_def)
qed

end

lemma LookUpVis_sup: "LookUpVis = sup"
  by (simp add: sup_CCLLevel_def)

lemma LookUpVis_Plain [simp]: "LookUpVis a b = Plain \<longleftrightarrow> a = Plain \<and> b = Plain"
  by (auto simp: LookUpVis_def)

lemma inferCompareFuncCCL_Plain [simp]:
  "inferCompareFuncCCL a b = Plain \<longleftrightarrow> a \<in> {Plain, Compare} \<and> b \<in> {Plain, Compare}"
  by (auto simp: inferCompareFuncCCL_def)

text \<open>A comparison reveals at most what the two operands' levels allow: its level is never
  above their join.\<close>

lemma inferCompareFuncCCL_le: "inferCompareFuncCCL a b \<le> sup a b"
  by (simp add: inferCompareFuncCCL_def LookUpVis_sup bot_CCLLevel_def[symmetric])

section \<open>Control lists as functions of the party\<close>

lemma LevelFor_NewCCL [simp]: "LevelFor NewCCL p = Unknown"
  by (simp add: LevelFor_def NewCCL_def)

lemma LevelFor_SetLevelForParty [simp]:
  "LevelFor (SetLevelForParty cc p l) q = (if q = p then l else LevelFor cc q)"
  by (simp add: LevelFor_def SetLevelForParty_def update_conv')

lemma Parties_SetLevelForParty [simp]: "set (Parties (SetLevelForParty cc p l)) = insert p (set (Parties cc))"
  by (simp add: Parties_def SetLevelForParty_def del: set_map)

lemma map_of_foldr_update:
  "map_of (foldr (\<lambda>(k, v) m. AList.update k v m) xs []) = map_of xs"
  by (induction xs) (auto simp: update_conv')

lemma LevelFor_Clone [simp]: "LevelFor (Clone cc) p = LevelFor cc p"
  by (simp add: LevelFor_def Clone_def map_of_foldr_update)

lemma Parties_Clone [simp]: "set (Parties (Clone cc)) = set (Parties cc)"
  using map_of_foldr_update[of "partyLevels cc"]
  by (metis CCL.select_convs(1) Clone_def Parties_def dom_map_of_conv_image_fst set_map)

lemma IsVisibleFor_Plain: "IsVisibleFor cc p \<longleftrightarrow> LevelFor cc p = Plain"
  by (simp add: IsVisibleFor_def LevelFor_def split: option.split)

lemma IsVisibleForParties_all: "IsVisibleForParties cc ps \<longleftrightarrow> (\<forall>p \<in> set ps. IsVisibleFor cc p)"
  by (induction ps) (auto simp: IsVisibleFor_def split: option.split)

lemma LevelFor_unlisted: "p \<notin> set (Parties cc) \<Longrightarrow> LevelFor cc p = Unknown"
  by (simp add: LevelFor_def Parties_def map_of_None_keys[symmetric] del: set_map)

lemma IsVisibleFor_listed: "IsVisibleFor cc p \<Longrightarrow> p \<in> set (Parties cc)"
  using LevelFor_unlisted by (force simp: IsVisibleFor_Plain)

lemma set_GetVisibleParties: "set (GetVisibleParties cc) = {p. IsVisibleFor cc p}"
  by (auto simp: GetVisibleParties_def IsVisibleFor_listed)

lemma set_ExtractPartyCodes [simp]: "set (ExtractPartyCodes ccs) = (\<Union>c \<in> set ccs. set (Parties c))"
  by (simp add: ExtractPartyCodes_def)

lemma distinct_ExtractPartyCodes [simp]: "distinct (ExtractPartyCodes ccs)"
  by (simp add: ExtractPartyCodes_def)

lemma sorted_ExtractPartyCodes [simp]: "sorted (ExtractPartyCodes ccs)"
  by (simp add: ExtractPartyCodes_def)

lemma LevelFor_fold_Plain:
  "LevelFor (fold (\<lambda>p cc. SetLevelForParty cc p Plain) ps cc) q =
    (if q \<in> set ps then Plain else LevelFor cc q)"
  by (induction ps arbitrary: cc) auto

lemma LevelFor_CreateAllPlainCCL [simp]:
  "LevelFor (CreateAllPlainCCL ps) q = (if q \<in> set ps then Plain else Unknown)"
  by (simp add: CreateAllPlainCCL_def LevelFor_fold_Plain)

lemma Parties_CreateAllPlainCCL [simp]: "set (Parties (CreateAllPlainCCL ps)) = set ps"
proof -
  have "set (Parties (fold (\<lambda>p cc. SetLevelForParty cc p Plain) ps cc)) = set (Parties cc) \<union> set ps" for cc
    by (induction ps arbitrary: cc) auto
  then show ?thesis by (simp add: CreateAllPlainCCL_def NewCCL_def Parties_def)
qed

text \<open>A well-formed control list names each party once.\<close>

definition wf_CCL :: "CCL \<Rightarrow> bool" where
  "wf_CCL cc \<longleftrightarrow> distinct (Parties cc)"

lemma wf_NewCCL [simp]: "wf_CCL NewCCL"
  by (simp add: wf_CCL_def Parties_def NewCCL_def)

lemma wf_SetLevelForParty [simp]: "wf_CCL cc \<Longrightarrow> wf_CCL (SetLevelForParty cc p l)"
  by (simp add: wf_CCL_def Parties_def SetLevelForParty_def distinct_update)

lemma wf_fold_SetLevel: "wf_CCL cc \<Longrightarrow> wf_CCL (fold (\<lambda>p cc. SetLevelForParty cc p (f p cc)) ps cc)"
  by (induction ps arbitrary: cc) auto

lemma wf_Clone [simp]: "wf_CCL (Clone cc)"
proof -
  have "distinct (keys (foldr (\<lambda>(k, v) m. AList.update k v m) xs []))" for xs :: "(string, CCLLevel) gomap"
    by (induction xs) (auto intro: distinct_update)
  then show ?thesis by (simp add: wf_CCL_def Parties_def Clone_def)
qed

section \<open>Pointwise combination of control lists\<close>

text \<open>The contract shared by \<open>UpdateMoreRestrictedCCLFrom\<close> and \<open>InferCompareFuncCCL\<close>: a loop over
  the parties of both lists that sets each party's level to the combination \<open>vis\<close> of the two.\<close>

locale pointwise_update =
  fixes vis :: "CCLLevel \<Rightarrow> CCLLevel \<Rightarrow> CCLLevel"
    and upd :: "CCL \<Rightarrow> CCL \<Rightarrow> CCL"
  assumes upd: "upd cc other =
      fold (\<lambda>p c. SetLevelForParty c p (vis (LevelFor c p) (LevelFor other p)))
        (ExtractPartyCodes [cc, other]) cc"
    and unknown: "vis Unknown Unknown = Unknown"
begin

lemma level_loop:
  "distinct ps \<Longrightarrow>
    LevelFor (fold (\<lambda>p c. SetLevelForParty c p (vis (LevelFor c p) (LevelFor other p))) ps cc) q =
    (if q \<in> set ps then vis (LevelFor cc q) (LevelFor other q) else LevelFor cc q)"
  by (induction ps arbitrary: cc) auto

lemma level: "LevelFor (upd cc other) q = vis (LevelFor cc q) (LevelFor other q)"
  by (auto simp: upd level_loop LevelFor_unlisted unknown)

lemma parties: "set (Parties (upd cc other)) = set (Parties cc) \<union> set (Parties other)"
proof -
  have "set (Parties (fold (\<lambda>p c. SetLevelForParty c p (g p c)) ps cc)) = set (Parties cc) \<union> set ps"
    for g ps cc by (induction ps arbitrary: cc) auto
  then show ?thesis by (auto simp: upd)
qed

lemma wf: "wf_CCL cc \<Longrightarrow> wf_CCL (upd cc other)"
  unfolding upd by (rule wf_fold_SetLevel)

lemma level_foldl:
  "LevelFor (foldl upd cc ccs) q = foldl vis (LevelFor cc q) (map (\<lambda>c. LevelFor c q) ccs)"
  by (induction ccs arbitrary: cc) (simp_all add: level)

end

interpretation restrict: pointwise_update LookUpVis UpdateMoreRestrictedCCLFrom
  by unfold_locales (simp_all add: UpdateMoreRestrictedCCLFrom_def LookUpVis_def)

interpretation cmp: pointwise_update inferCompareFuncCCL InferCompareFuncCCL
  by unfold_locales (simp_all add: InferCompareFuncCCL_def inferCompareFuncCCL_def LookUpVis_def)

lemmas level_simps [simp] = restrict.level cmp.level

lemma IsVisibleFor_restrict [simp]:
  "IsVisibleFor (UpdateMoreRestrictedCCLFrom a b) p \<longleftrightarrow> IsVisibleFor a p \<and> IsVisibleFor b p"
  by (simp add: IsVisibleFor_Plain)

lemma LevelFor_InferBinaryOp:
  "LevelFor (InferBinaryOpOutputVisibility opType l r) p =
    (if opType \<in> set isCompareOpMap then inferCompareFuncCCL (LevelFor l p) (LevelFor r p)
     else LookUpVis (LevelFor l p) (LevelFor r p))"
  by (simp add: InferBinaryOpOutputVisibility_def)

section \<open>Inference through expressions\<close>

lemma InferScalar_Inr:
  assumes "InferScalarFuncCCLUsingArgCCL (ScalarFunction f t args) ccs = Inr cc"
  shows "ccs \<noteq> []" and "LevelFor cc p =
    foldl (if f \<in> set isCompareAstFuncMap then inferCompareFuncCCL else LookUpVis)
      (LevelFor (hd ccs) p) (map (\<lambda>c. LevelFor c p) (tl ccs))"
  using assms
  by (auto simp: InferScalarFuncCCLUsingArgCCL_def IsCompareOp_def cmp.level_foldl restrict.level_foldl
      split: list.splits)

lemma InferExpressionCCL_args_map_r: "InferExpressionCCL_args args m = map_r (\<lambda>a. InferExpressionCCL a m) args"
  by (induction args) auto

lemma foldl_LookUpVis_Plain: "foldl LookUpVis a ls = Plain \<longleftrightarrow> a = Plain \<and> (\<forall>l \<in> set ls. l = Plain)"
  by (induction ls arbitrary: a) auto

lemma inferCompareFuncCCL_neq_Compare: "inferCompareFuncCCL a b \<noteq> Compare"
  by (auto simp: inferCompareFuncCCL_def LookUpVis_def split: if_splits)

lemma vis_Plain_Compare:
  "(if b then inferCompareFuncCCL else LookUpVis) a l \<in> {Plain, Compare}
    \<Longrightarrow> a \<in> {Plain, Compare} \<and> l \<in> {Plain, Compare}"
  by (auto simp: inferCompareFuncCCL_def LookUpVis_def split: if_splits)

lemma foldl_levels_Plain_Compare:
  "foldl (if b then inferCompareFuncCCL else LookUpVis) a ls \<in> {Plain, Compare}
    \<Longrightarrow> a \<in> {Plain, Compare} \<and> set ls \<subseteq> {Plain, Compare}"
proof (induction ls arbitrary: a)
  case (Cons l ls)
  let ?v = "if b then inferCompareFuncCCL else LookUpVis"
  have "?v a l \<in> {Plain, Compare} \<and> set ls \<subseteq> {Plain, Compare}"
    using Cons.IH[of "?v a l"] Cons.prems by simp
  with vis_Plain_Compare[of b a l] show ?case by simp
qed simp

lemma foldl_Encrypt:
  assumes "v \<in> {LookUpVis, inferCompareFuncCCL}" "Encrypt \<in> insert a (set ls)"
  shows "foldl v a ls = Encrypt"
  using assms(2)
proof (induction ls arbitrary: a)
  case (Cons l ls)
  then have "Encrypt \<in> insert (v a l) (set ls)"
    using assms(1) by (auto simp: LookUpVis_def inferCompareFuncCCL_def)
  with Cons.IH show ?case by simp
qed simp

text \<open>The sub-expressions a traversal meets that carry a comparison function.\<close>

fun compare_free :: "Expression \<Rightarrow> bool" where
  "compare_free (ScalarFunction f t args) \<longleftrightarrow>
    f \<notin> set isCompareAstFuncMap \<and> (\<forall>a \<in> set args. compare_free a)"
| "compare_free e \<longleftrightarrow> True"

text \<open>\<open>column_level m c p\<close> is the level the input map gives party \<open>p\<close> on column \<open>c\<close>.\<close>

definition column_level :: "(int, CCL) gomap \<Rightarrow> Column \<Rightarrow> string \<Rightarrow> CCLLevel" where
  "column_level m c p = (case map_of m (UniqueID c) of None \<Rightarrow> Unknown | Some cc \<Rightarrow> LevelFor cc p)"

lemma InferExpression_induct_step:
  assumes "InferExpressionCCL (ScalarFunction f t args) m = Inr cc" "args \<noteq> []"
  obtains ccs where "list_all2 (\<lambda>a c. InferExpressionCCL a m = Inr c) args ccs" "ccs \<noteq> []"
    "LevelFor cc p = foldl (if f \<in> set isCompareAstFuncMap then inferCompareFuncCCL else LookUpVis)
      (LevelFor (hd ccs) p) (map (\<lambda>c. LevelFor c p) (tl ccs))"
proof -
  from assms obtain ccs where "map_r (\<lambda>a. InferExpressionCCL a m) args = Inr ccs"
      and "InferScalarFuncCCLUsingArgCCL (ScalarFunction f t args) ccs = Inr cc"
    by (auto simp: bind_r_Inr InferExpressionCCL_args_map_r)
  with InferScalar_Inr[OF this(2)] show ?thesis
    by (auto simp: map_r_Inr intro: that)
qed

lemma levels_hd_tl: "ccs \<noteq> [] \<Longrightarrow>
    insert (LevelFor (hd ccs) p) (set (map (\<lambda>c. LevelFor c p) (tl ccs))) = (\<lambda>c. LevelFor c p) ` set ccs"
  by (cases ccs) auto

text \<open>C2: a column that is encrypted-only for a party taints every expression that uses it: if any column
  occurring in the expression has level \<open>Encrypt\<close> for party \<open>p\<close>, the level inferred for \<open>p\<close> on the whole
  expression is \<open>Encrypt\<close>, through arithmetic, comparisons and any other scalar function.\<close>

theorem encrypted_only_taints:
  "InferExpressionCCL e m = Inr cc \<Longrightarrow> c \<in> columns_of e \<Longrightarrow> column_level m c p = Encrypt
    \<Longrightarrow> LevelFor cc p = Encrypt"
proof (induction e arbitrary: cc)
  case (ColumnExpr x)
  then show ?case by (auto simp: column_level_def split: option.splits)
next
  case (ScalarFunction f t args)
  from ScalarFunction.prems(2) obtain a where a: "a \<in> set args" "c \<in> columns_of a" by auto
  then have "args \<noteq> []" by auto
  with ScalarFunction.prems(1) obtain ccs where
      all: "list_all2 (\<lambda>a c. InferExpressionCCL a m = Inr c) args ccs" "ccs \<noteq> []" and
      lvl: "LevelFor cc p = foldl (if f \<in> set isCompareAstFuncMap then inferCompareFuncCCL else LookUpVis)
        (LevelFor (hd ccs) p) (map (\<lambda>c. LevelFor c p) (tl ccs))"
    by (rule InferExpression_induct_step[where p = p])
  obtain c' where "c' \<in> set ccs" "InferExpressionCCL a m = Inr c'"
    using list_all2_ex[OF all(1) a(1)] by blast
  then have "Encrypt \<in> (\<lambda>c. LevelFor c p) ` set ccs"
    using ScalarFunction.IH[OF a(1) _ a(2) ScalarFunction.prems(3), of c'] by (intro rev_image_eqI[of c']) simp_all
  then show ?case
    unfolding lvl levels_hd_tl[OF all(2), of p, symmetric] by (rule foldl_Encrypt[rotated]) simp
qed auto

text \<open>C3: soundness of the visibility inferred for an expression: when a party may see the value of the
  expression (or its comparison results), every column in it is plaintext for that party or is at least
  released to it through comparisons.\<close>

theorem visible_expression_columns:
  "InferExpressionCCL e m = Inr cc \<Longrightarrow> LevelFor cc p \<in> {Plain, Compare} \<Longrightarrow> c \<in> columns_of e
    \<Longrightarrow> column_level m c p \<in> {Plain, Compare}"
proof (induction e arbitrary: cc)
  case (ColumnExpr x)
  then show ?case by (auto simp: column_level_def split: option.splits)
next
  case (ScalarFunction f t args)
  from ScalarFunction.prems(3) obtain a where a: "a \<in> set args" "c \<in> columns_of a" by auto
  then have "args \<noteq> []" by auto
  with ScalarFunction.prems(1) obtain ccs where
      all: "list_all2 (\<lambda>a c. InferExpressionCCL a m = Inr c) args ccs" "ccs \<noteq> []" and
      lvl: "LevelFor cc p = foldl (if f \<in> set isCompareAstFuncMap then inferCompareFuncCCL else LookUpVis)
        (LevelFor (hd ccs) p) (map (\<lambda>c. LevelFor c p) (tl ccs))"
    by (rule InferExpression_induct_step[where p = p])
  have "(\<lambda>c. LevelFor c p) ` set ccs \<subseteq> {Plain, Compare}"
    using foldl_levels_Plain_Compare[OF ScalarFunction.prems(2)[unfolded lvl]]
    unfolding levels_hd_tl[OF all(2), of p, symmetric] by simp
  moreover obtain c' where "c' \<in> set ccs" "InferExpressionCCL a m = Inr c'"
    using list_all2_ex[OF all(1) a(1)] by blast
  ultimately show ?case
    using ScalarFunction.IH[OF a(1) _ _ a(2), of c'] by (simp add: image_subset_iff)
qed auto

text \<open>C4: exactness for expressions without comparison functions: for every party the control lists
  mention, the expression is visible to the party if and only if every column in it is.\<close>

theorem compare_free_visible_iff:
  "InferExpressionCCL e m = Inr cc \<Longrightarrow> compare_free e \<Longrightarrow> p \<in> set (ExtractPartyCodes (map snd m))
    \<Longrightarrow> LevelFor cc p = Plain \<longleftrightarrow> (\<forall>c \<in> columns_of e. column_level m c p = Plain)"
proof (induction e arbitrary: cc)
  case (Constant v t)
  then show ?case by (auto simp: Let_def simp del: set_ExtractPartyCodes split: if_splits)
next
  case (ColumnExpr x)
  then show ?case by (auto simp: column_level_def split: option.splits)
next
  case (ScalarFunction f t args)
  show ?case
  proof (cases "args = []")
    case True
    with ScalarFunction.prems show ?thesis by (auto simp: Let_def simp del: set_ExtractPartyCodes split: if_splits)
  next
    case False
    with ScalarFunction.prems(1) obtain ccs where
        all: "list_all2 (\<lambda>a c. InferExpressionCCL a m = Inr c) args ccs" "ccs \<noteq> []" and
        lvl: "LevelFor cc p = foldl (if f \<in> set isCompareAstFuncMap then inferCompareFuncCCL else LookUpVis)
          (LevelFor (hd ccs) p) (map (\<lambda>c. LevelFor c p) (tl ccs))"
      by (rule InferExpression_induct_step[where p = p])
    have "LevelFor cc p = Plain \<longleftrightarrow> (\<forall>c \<in> set ccs. LevelFor c p = Plain)"
      using ScalarFunction.prems(2) all(2) unfolding lvl
      by (cases ccs) (auto simp: foldl_LookUpVis_Plain)
    also have "\<dots> \<longleftrightarrow> (\<forall>a \<in> set args. \<forall>c \<in> columns_of a. column_level m c p = Plain)"
    proof -
      have "(LevelFor (ccs ! i) p = Plain) = (\<forall>c \<in> columns_of (args ! i). column_level m c p = Plain)"
        if "i < length args" for i
        using that ScalarFunction.IH[OF nth_mem, of i "ccs ! i"] all(1) ScalarFunction.prems(2,3)
        by (simp add: list_all2_conv_all_nth del: set_ExtractPartyCodes)
      then show ?thesis
        using list_all2_lengthD[OF all(1)] by (simp add: all_set_conv_all_nth)
    qed
    finally show ?thesis by auto
  qed
qed auto

text \<open>A table with one column per level, for the witnesses.\<close>

definition sample_ccls :: "(int, CCL) gomap" where
  "sample_ccls = [(1, \<lparr>partyLevels = [(''alice'', Plain), (''bob'', Encrypt)]\<rparr>),
    (2, \<lparr>partyLevels = [(''alice'', Compare), (''bob'', Plain)]\<rparr>)]"

definition sample_column :: "int \<Rightarrow> Column" where
  "sample_column i = \<lparr>RetType = \<lparr>Tp = TypeLonglong, Flag = 0\<rparr>, UniqueID = i, OrigName = []\<rparr>"

definition sample_call :: "string \<Rightarrow> Expression" where
  "sample_call f = ScalarFunction f \<lparr>Tp = TypeLonglong, Flag = 0\<rparr>
    [ColumnExpr (sample_column 1), ColumnExpr (sample_column 2)]"

lemma sample_plus: "InferExpressionCCL (sample_call ''plus'') sample_ccls =
    Inr \<lparr>partyLevels = [(''alice'', Compare), (''bob'', Encrypt)]\<rparr>"
  by code_simp

lemma sample_gt: "InferExpressionCCL (sample_call ''gt'') sample_ccls =
    Inr \<lparr>partyLevels = [(''alice'', Plain), (''bob'', Encrypt)]\<rparr>"
  by code_simp

lemma sample_columns: "sample_column 1 \<in> columns_of (sample_call f)"
  by (simp add: sample_call_def)

theorem encrypted_only_taints_witness:
  "LevelFor \<lparr>partyLevels = [(''alice'', Plain), (''bob'', Encrypt)]\<rparr> ''bob'' = Encrypt"
  by (rule encrypted_only_taints[OF sample_gt sample_columns])
    (simp add: column_level_def sample_ccls_def sample_column_def LevelFor_def)

theorem visible_expression_columns_witness:
  "column_level sample_ccls (sample_column 1) ''alice'' \<in> {Plain, Compare}"
  by (rule visible_expression_columns[OF sample_gt _ sample_columns]) (simp add: LevelFor_def)

theorem compare_free_visible_iff_witness:
  "\<not> (\<forall>c \<in> columns_of (sample_call ''plus''). column_level sample_ccls c ''bob'' = Plain)"
proof -
  have "compare_free (sample_call ''plus'')"
    by (simp add: sample_call_def isCompareAstFuncMap_def)
  moreover have "''bob'' \<in> set (ExtractPartyCodes (map snd sample_ccls))"
    by (simp add: sample_ccls_def Parties_def)
  ultimately show ?thesis
    using compare_free_visible_iff[OF sample_plus, of "''bob''"]
    by (simp add: LevelFor_def del: set_ExtractPartyCodes)
qed

text \<open>C9: restricting a control list by another acts party by party as the join of the level lattice; a
  party sees the result exactly when it sees both arguments, the operation is idempotent and does not
  depend on the order of its arguments, and no party's level gets less restrictive.\<close>

theorem restriction_is_join:
  "LevelFor (UpdateMoreRestrictedCCLFrom a b) p = sup (LevelFor a p) (LevelFor b p)
   \<and> (IsVisibleFor (UpdateMoreRestrictedCCLFrom a b) p \<longleftrightarrow> IsVisibleFor a p \<and> IsVisibleFor b p)
   \<and> LevelFor a p \<le> LevelFor (UpdateMoreRestrictedCCLFrom a b) p
   \<and> LevelFor (UpdateMoreRestrictedCCLFrom a b) p = LevelFor (UpdateMoreRestrictedCCLFrom b a) p
   \<and> LevelFor (UpdateMoreRestrictedCCLFrom a a) p = LevelFor a p"
  by (simp add: LookUpVis_sup sup_commute)

text \<open>Source parties of a column.\<close>

lemma FindSourceParties_AddSourceParties:
  "set (FindSourceParties (AddSourceParties t u ps) v) =
    (if v = u then set (FindSourceParties t u) \<union> set ps else set (FindSourceParties t v))"
  by (auto simp: FindSourceParties_def AddSourceParties_def Let_def)

lemma set_foldl_append: "set (foldl (\<lambda>acc x. acc @ f x) acc xs) = set acc \<union> (\<Union>x \<in> set xs. set (f x))"
  by (induction xs arbitrary: acc) auto

text \<open>the source parties recorded for a computed column are those of the columns its expression
  reads, added to what was recorded for it before, without duplicates and in sorted order.\<close>

theorem source_parties_of_expression:
  "set (FindSourceParties (SetSourcePartiesFromExpr t u e) u) =
     set (FindSourceParties t u) \<union> (\<Union>c \<in> columns_of e. set (FindSourceParties t (UniqueID c)))
   \<and> sorted (FindSourceParties (SetSourcePartiesFromExpr t u e) u)
   \<and> distinct (FindSourceParties (SetSourcePartiesFromExpr t u e) u)"
proof -
  have "sorted (FindSourceParties (AddSourceParties t u ps) u)" "distinct (FindSourceParties (AddSourceParties t u ps) u)"
    for ps by (simp_all add: FindSourceParties_def AddSourceParties_def Let_def)
  then show ?thesis
    by (simp add: SetSourcePartiesFromExpr_def FindSourceParties_AddSourceParties set_foldl_append)
qed

end
