(* ===== verification/Type_Util.thy ===== *)
theory Type_Util
  imports Scql_Prelude
begin

text \<open>
  \<open>pkg/util/type/util.go\<close>: classification of the primitive data types of
  \<open>core.proto\<close> and the type two numeric operands are widened to.
\<close>

datatype PrimitiveDataType =
    PrimitiveDataType_UNDEFINED
  | INT8 | INT16 | INT32 | INT64 | FLOAT32 | FLOAT64
  | BOOL | STRING | DATETIME | TIMESTAMP

definition numericTypes :: "PrimitiveDataType list" where
  "numericTypes = [INT8, INT16, INT32, INT64, FLOAT32, FLOAT64]"

definition integerTypes :: "PrimitiveDataType list" where
  "integerTypes = [INT8, INT16, INT32, INT64]"

definition floatTypes :: "PrimitiveDataType list" where
  "floatTypes = [FLOAT32, FLOAT64]"

definition dataTypeIndexMap :: "(PrimitiveDataType, nat) gomap" where
  "dataTypeIndexMap = [(INT8, 0), (INT16, 1), (INT32, 2), (INT64, 3), (FLOAT32, 4), (FLOAT64, 5)]"

definition IsNumericDtype :: "PrimitiveDataType \<Rightarrow> bool" where
  "IsNumericDtype dtype \<longleftrightarrow> dtype \<in> set numericTypes"

definition IsFloatType :: "PrimitiveDataType \<Rightarrow> bool" where
  "IsFloatType dtype \<longleftrightarrow> dtype \<in> set floatTypes"

definition IsIntegerType :: "PrimitiveDataType \<Rightarrow> bool" where
  "IsIntegerType dtype \<longleftrightarrow> dtype \<in> set integerTypes"

definition IsTimeType :: "PrimitiveDataType \<Rightarrow> bool" where
  "IsTimeType dtype \<longleftrightarrow> dtype = TIMESTAMP \<or> dtype = DATETIME"

definition GetWiderType :: "PrimitiveDataType \<Rightarrow> PrimitiveDataType \<Rightarrow> PrimitiveDataType result" where
  "GetWiderType dtype1 dtype2 =
    (if \<not> IsNumericDtype dtype1 then Inl (Errorf ''%v is not numeric type'')
     else if \<not> IsNumericDtype dtype2 then Inl (Errorf ''%v is not numeric type'')
     else if IsIntegerType dtype1 \<and> IsIntegerType dtype2 then
       (if lookup_or 0 dataTypeIndexMap dtype1 > lookup_or 0 dataTypeIndexMap dtype2
        then Inr dtype1 else Inr dtype2)
     else if IsFloatType dtype1 \<and> IsFloatType dtype2 then
       (if lookup_or 0 dataTypeIndexMap dtype1 > lookup_or 0 dataTypeIndexMap dtype2
        then Inr dtype1 else Inr dtype2)
     else if dtype1 = FLOAT64 \<or> dtype2 = FLOAT64 then Inr FLOAT64
     else if dtype1 = INT64 \<or> dtype2 = INT64 then Inr FLOAT64
     else Inr FLOAT32)"

lemmas type_class_defs =
  IsNumericDtype_def IsFloatType_def IsIntegerType_def IsTimeType_def
  numericTypes_def integerTypes_def floatTypes_def dataTypeIndexMap_def lookup_or_def

text \<open>\<open>widens_to d e\<close>: a value of type \<open>d\<close> used where \<open>e\<close> is expected needs no wider type.\<close>

definition widens_to :: "PrimitiveDataType \<Rightarrow> PrimitiveDataType \<Rightarrow> bool" where
  "widens_to d e \<longleftrightarrow> GetWiderType d e = Inr e"

lemma GetWiderType_total:
  "IsNumericDtype d \<Longrightarrow> IsNumericDtype e \<Longrightarrow> \<exists>w. GetWiderType d e = Inr w \<and> IsNumericDtype w"
  by (cases d; cases e) (simp_all add: GetWiderType_def type_class_defs)

lemma GetWiderType_numeric:
  "GetWiderType d e = Inr w \<Longrightarrow> IsNumericDtype d \<and> IsNumericDtype e \<and> IsNumericDtype w"
  by (cases d; cases e) (auto simp: GetWiderType_def type_class_defs)

lemma GetWiderType_commute:
  "IsNumericDtype d \<Longrightarrow> IsNumericDtype e \<Longrightarrow> GetWiderType d e = GetWiderType e d"
  by (cases d; cases e) (simp_all add: GetWiderType_def type_class_defs)

lemma widens_to_trans: "widens_to a b \<Longrightarrow> widens_to b c \<Longrightarrow> widens_to a c"
  by (cases a; cases b; cases c) (simp_all add: widens_to_def GetWiderType_def type_class_defs)

lemma widens_to_antisym: "widens_to a b \<Longrightarrow> widens_to b a \<Longrightarrow> a = b"
  by (cases a; cases b) (simp_all add: widens_to_def GetWiderType_def type_class_defs)

lemma GetWiderType_upper:
  "GetWiderType d e = Inr w \<Longrightarrow> widens_to d w \<and> widens_to e w"
  by (cases d; cases e) (auto simp: widens_to_def GetWiderType_def type_class_defs)

lemma GetWiderType_least:
  "GetWiderType d e = Inr w \<Longrightarrow> widens_to d v \<Longrightarrow> widens_to e v \<Longrightarrow> widens_to w v"
  by (cases d; cases e; cases v) (auto simp: widens_to_def GetWiderType_def type_class_defs)



end
