(* ===== verification/Proto.thy ===== *)
theory Proto
  imports Type_Util Expression
begin

text \<open>
  The messages of \<open>api/core.proto\<close> the interpreter builds: tensor status and
  options, the tensor message and an attribute value.  A repeated field is a
  list, an absent sub-message is \<open>None\<close>.
\<close>

datatype TensorStatus =
    TENSORSTATUS_UNKNOWN | TENSORSTATUS_PRIVATE | TENSORSTATUS_SECRET
  | TENSORSTATUS_CIPHER | TENSORSTATUS_PUBLIC

datatype TensorOptions = VALUE | REFERENCE | VARIABLE

datatype FormalParameterOptions =
  FORMALPARAMETEROPTIONS_UNDEFINED | SINGLE | OPTIONAL | VARIADIC

record pb_Tensor =
  pb_Name :: string
  pb_Shape :: "int list option"
  pb_ElemType :: PrimitiveDataType
  pb_Option :: TensorOptions
  pb_Annotation :: "TensorStatus option"
  pb_Int32Data :: "int list"
  pb_Int64Data :: "int list"
  pb_FloatData :: "float32 list"
  pb_DoubleData :: "float64 list"
  pb_BoolData :: "bool list"
  pb_StringData :: "string list"
  pb_RefNum :: int

text \<open>The zero value of the message.\<close>

definition pb_Tensor_zero :: pb_Tensor where
  "pb_Tensor_zero = \<lparr>pb_Name = [], pb_Shape = None, pb_ElemType = PrimitiveDataType_UNDEFINED,
    pb_Option = VALUE, pb_Annotation = None, pb_Int32Data = [], pb_Int64Data = [], pb_FloatData = [],
    pb_DoubleData = [], pb_BoolData = [], pb_StringData = [], pb_RefNum = 0\<rparr>"

datatype AttributeValue = AttributeValue_T pb_Tensor

end
