(* ===== verification/Operator_Def.thy ===== *)
theory Operator_Def
  imports Operator_Names Proto
begin

text \<open>
  \<open>pkg/interpreter/operator/operator_def.go\<close> and \<open>operator_registration.go\<close>:
  the signature of an operator (its parameters, the status constraint each
  parameter names, the attributes and their defaults), the registration of
  every operator and the lookup by name.  The documentation strings of the
  source (\<open>SetDefinition\<close> and the \<open>doc\<close> arguments) are left out.
\<close>

section \<open>Signatures\<close>

datatype StreamingOpType = SinkOp | StreamingOp

record FormalParameter =
  ParamName :: string
  fp_Option :: FormalParameterOptions
  ParameterStatusConstraintName :: string

record OperatorDef =
  op_Name :: string
  InputParams :: "FormalParameter list"
  OutputParams :: "FormalParameter list"
  AttributeParams :: "string list"
  DefaultAttributeValues :: "(string, AttributeValue) gomap"
  ParamStatusConstraints :: "(string, TensorStatus list) gomap"
  op_err :: "error option"
  opStreamingType :: StreamingOpType

definition OperatorDef_zero :: OperatorDef where
  "OperatorDef_zero = \<lparr>op_Name = [], InputParams = [], OutputParams = [], AttributeParams = [],
    DefaultAttributeValues = [], ParamStatusConstraints = [], op_err = None, opStreamingType = SinkOp\<rparr>"

definition SetName :: "string \<Rightarrow> OperatorDef \<Rightarrow> OperatorDef" where
  "SetName name op = op\<lparr>op_Name := name\<rparr>"

definition GetName :: "OperatorDef \<Rightarrow> string" where
  "GetName op = op_Name op"

definition SetStreamingType :: "StreamingOpType \<Rightarrow> OperatorDef \<Rightarrow> OperatorDef" where
  "SetStreamingType typ op = op\<lparr>opStreamingType := typ\<rparr>"

definition GetStreamingType :: "OperatorDef \<Rightarrow> StreamingOpType" where
  "GetStreamingType op = opStreamingType op"

definition AddInput :: "string \<Rightarrow> FormalParameterOptions \<Rightarrow> string \<Rightarrow> OperatorDef \<Rightarrow> OperatorDef" where
  "AddInput name option statusConstraintName op =
    (if op_err op \<noteq> None then op
     else op\<lparr>InputParams := InputParams op @
       [\<lparr>ParamName = name, fp_Option = option, ParameterStatusConstraintName = statusConstraintName\<rparr>]\<rparr>)"

definition AddOutput :: "string \<Rightarrow> FormalParameterOptions \<Rightarrow> string \<Rightarrow> OperatorDef \<Rightarrow> OperatorDef" where
  "AddOutput name option statusConstraintName op =
    (if op_err op \<noteq> None then op
     else op\<lparr>OutputParams := OutputParams op @
       [\<lparr>ParamName = name, fp_Option = option, ParameterStatusConstraintName = statusConstraintName\<rparr>]\<rparr>)"

definition AddAttribute :: "string \<Rightarrow> OperatorDef \<Rightarrow> OperatorDef" where
  "AddAttribute name op =
    (if op_err op \<noteq> None then op else op\<lparr>AttributeParams := AttributeParams op @ [name]\<rparr>)"

definition AddDefaultAttributeValue :: "string \<Rightarrow> AttributeValue \<Rightarrow> OperatorDef \<Rightarrow> OperatorDef" where
  "AddDefaultAttributeValue name attr op =
    (if op_err op \<noteq> None then op
     else op\<lparr>DefaultAttributeValues := AList.update name attr (DefaultAttributeValues op)\<rparr>)"

definition CreateIntAttribute :: "int \<Rightarrow> AttributeValue" where
  "CreateIntAttribute data =
    AttributeValue_T (pb_Tensor_zero\<lparr>pb_ElemType := INT64, pb_Int64Data := [data]\<rparr>)"

definition CreateIntsAttribute :: "int list \<Rightarrow> AttributeValue" where
  "CreateIntsAttribute datas =
    AttributeValue_T (pb_Tensor_zero\<lparr>pb_ElemType := INT64, pb_Int64Data := datas,
      pb_Shape := Some [int (length datas)]\<rparr>)"

definition CreateFloatAttribute :: "float32 \<Rightarrow> AttributeValue" where
  "CreateFloatAttribute data =
    AttributeValue_T (pb_Tensor_zero\<lparr>pb_ElemType := FLOAT32, pb_FloatData := [data]\<rparr>)"

definition CreateBoolAttribute :: "bool \<Rightarrow> AttributeValue" where
  "CreateBoolAttribute data =
    AttributeValue_T (pb_Tensor_zero\<lparr>pb_ElemType := BOOL, pb_BoolData := [data]\<rparr>)"

definition CreateStringAttribute :: "string \<Rightarrow> AttributeValue" where
  "CreateStringAttribute str =
    AttributeValue_T (pb_Tensor_zero\<lparr>pb_ElemType := STRING, pb_StringData := [str]\<rparr>)"

definition SetParamTypeConstraint :: "string \<Rightarrow> TensorStatus list \<Rightarrow> OperatorDef \<Rightarrow> OperatorDef" where
  "SetParamTypeConstraint constraintName status op =
    (if op_err op \<noteq> None then op
     else op\<lparr>ParamStatusConstraints := AList.update constraintName status (ParamStatusConstraints op)\<rparr>)"

definition GetDefaultAttribute :: "OperatorDef \<Rightarrow> (string, AttributeValue) gomap" where
  "GetDefaultAttribute op = DefaultAttributeValues op"

section \<open>Registration\<close>

text \<open>A registration block creates an empty signature and applies its statements in order.\<close>

definition build_op :: "(OperatorDef \<Rightarrow> OperatorDef) list \<Rightarrow> OperatorDef" where
  "build_op steps = fold (\<lambda>f op. f op) steps OperatorDef_zero"

definition BinaryOps :: "string list" where
  "BinaryOps = [OpNameLess, OpNameLessEqual, OpNameGreater, OpNameGreaterEqual, OpNameEqual,
    OpNameNotEqual, OpNameLogicalAnd, OpNameLogicalOr, OpNameAdd, OpNameMinus, OpNameMul, OpNameDiv,
    OpNameIntDiv, OpNameMod, OpNameATan2, OpNamePow]"

definition UnaryOps :: "string list" where
  "UnaryOps = [OpNameNot]"

definition statusPrivate :: "TensorStatus list" where
  "statusPrivate = [TENSORSTATUS_PRIVATE]"

definition statusSecret :: "TensorStatus list" where
  "statusSecret = [TENSORSTATUS_SECRET]"

definition statusPublic :: "TensorStatus list" where
  "statusPublic = [TENSORSTATUS_PUBLIC]"

definition statusPrivateOrPublic :: "TensorStatus list" where
  "statusPrivateOrPublic = [TENSORSTATUS_PUBLIC, TENSORSTATUS_PRIVATE]"

definition statusPrivateOrSecret :: "TensorStatus list" where
  "statusPrivateOrSecret = [TENSORSTATUS_PRIVATE, TENSORSTATUS_SECRET]"

definition statusSecretOrPublic :: "TensorStatus list" where
  "statusSecretOrPublic = [TENSORSTATUS_SECRET, TENSORSTATUS_PUBLIC]"

definition statusPrivateOrSecretOrPublic :: "TensorStatus list" where
  "statusPrivateOrSecretOrPublic = [TENSORSTATUS_PUBLIC, TENSORSTATUS_PRIVATE, TENSORSTATUS_SECRET]"

text \<open>The names the loops over a Go map register; the map order is not fixed.\<close>

definition obliviousGroupAggNames :: "string list" where
  "obliviousGroupAggNames = [
    OpNameObliviousGroupSum, OpNameObliviousGroupCount, OpNameObliviousGroupMax,
    OpNameObliviousGroupMin, OpNameObliviousGroupAvg, OpNameObliviousPercentRank,
    OpNameObliviousRank]"

definition groupAggNames :: "string list" where
  "groupAggNames = [
    OpNameGroupFirstOf, OpNameGroupCount, OpNameGroupCountDistinct, OpNameGroupSum,
    OpNameGroupAvg, OpNameGroupMin, OpNameGroupMax]"

definition trigonoOp :: "string list" where
  "trigonoOp = [
    OpNameCos, OpNameSin, OpNameTan, OpNameCot, OpNameACos, OpNameASin, OpNameATan]"

definition windowOp :: "string list" where
  "windowOp = [
    OpNameRowNumber, OpNamePercentRank, OpNameRank]"

definition unaryNumericOps :: "string list" where
  "unaryNumericOps = [
    OpNameAbs, OpNameCeil, OpNameFloor, OpNameRound, OpNameRadians, OpNameDegrees, OpNameLn,
    OpNameLog10, OpNameLog2, OpNameSqrt, OpNameExp]"

definition opDef_RunSQL :: OperatorDef where
  "opDef_RunSQL = build_op [
    SetName OpNameRunSQL,
    SetStreamingType SinkOp,
    AddOutput ''Out'' VARIADIC ''T'',
    AddAttribute SqlAttr,
    AddAttribute TableRefsAttr,
    SetParamTypeConstraint ''T'' statusPrivate]"

definition opDef_Publish :: OperatorDef where
  "opDef_Publish = build_op [
    SetName OpNamePublish,
    SetStreamingType SinkOp,
    AddInput ''In'' VARIADIC ''T'',
    AddOutput ''Out'' VARIADIC ''T'',
    SetParamTypeConstraint ''T'' statusPrivate]"

definition opDef_BinaryOps :: "string \<Rightarrow> OperatorDef" where
  "opDef_BinaryOps opName = build_op [
    SetName opName,
    SetStreamingType StreamingOp,
    AddInput ''Left'' VARIADIC ''T'',
    AddInput ''Right'' VARIADIC ''T1'',
    AddOutput ''Out'' VARIADIC ''T2'',
    SetParamTypeConstraint ''T'' statusPrivateOrSecretOrPublic,
    SetParamTypeConstraint ''T1'' statusPrivateOrSecretOrPublic,
    SetParamTypeConstraint ''T2'' statusPrivateOrSecret]"

definition opDef_MakePublic :: OperatorDef where
  "opDef_MakePublic = build_op [
    SetName OpNameMakePublic,
    SetStreamingType StreamingOp,
    AddInput ''In'' VARIADIC ''T1'',
    AddOutput ''Out'' VARIADIC ''T2'',
    SetParamTypeConstraint ''T1'' statusPrivateOrSecret,
    SetParamTypeConstraint ''T2'' statusPublic]"

definition opDef_MakePrivate :: OperatorDef where
  "opDef_MakePrivate = build_op [
    SetName OpNameMakePrivate,
    SetStreamingType StreamingOp,
    AddInput ''In'' VARIADIC ''T1'',
    AddOutput ''Out'' VARIADIC ''T2'',
    AddAttribute RevealToAttr,
    SetParamTypeConstraint ''T1'' statusSecretOrPublic,
    SetParamTypeConstraint ''T2'' statusPrivate]"

definition opDef_MakeShare :: OperatorDef where
  "opDef_MakeShare = build_op [
    SetName OpNameMakeShare,
    SetStreamingType StreamingOp,
    AddInput ''In'' VARIADIC ''T1'',
    AddOutput ''Out'' VARIADIC ''T2'',
    SetParamTypeConstraint ''T1'' statusPrivate,
    SetParamTypeConstraint ''T2'' statusSecret]"

definition opDef_Join :: OperatorDef where
  "opDef_Join = build_op [
    SetName OpNameJoin,
    SetStreamingType SinkOp,
    AddInput ''Left'' SINGLE ''T1'',
    AddInput ''Right'' SINGLE ''T1'',
    AddOutput ''LeftJoinIndex'' OPTIONAL ''T2'',
    AddOutput ''RightJoinIndex'' OPTIONAL ''T2'',
    AddAttribute InputPartyCodesAttr,
    AddAttribute JoinTypeAttr,
    AddDefaultAttributeValue JoinTypeAttr (CreateIntAttribute 0),
    AddAttribute PsiAlgorithmAttr,
    AddDefaultAttributeValue PsiAlgorithmAttr (CreateIntAttribute 0),
    SetParamTypeConstraint ''T1'' statusPrivate,
    SetParamTypeConstraint ''T2'' statusPrivate]"

definition opDef_FilterByIndex :: OperatorDef where
  "opDef_FilterByIndex = build_op [
    SetName OpNameFilterByIndex,
    SetStreamingType StreamingOp,
    AddInput ''RowsIndexFilter'' SINGLE ''T'',
    AddInput ''Data'' VARIADIC ''T'',
    AddOutput ''Out'' VARIADIC ''T'',
    SetParamTypeConstraint ''T'' statusPrivate]"

definition opDef_Copy :: OperatorDef where
  "opDef_Copy = build_op [
    SetName OpNameCopy,
    SetStreamingType StreamingOp,
    AddInput ''In'' SINGLE ''T1'',
    AddOutput ''Out'' SINGLE ''T1'',
    AddAttribute InputPartyCodesAttr,
    AddAttribute OutputPartyCodesAttr,
    SetParamTypeConstraint ''T1'' statusPrivate]"

definition opDef_Filter :: OperatorDef where
  "opDef_Filter = build_op [
    SetName OpNameFilter,
    SetStreamingType StreamingOp,
    AddInput ''Filter'' SINGLE ''T1'',
    AddInput ''In'' VARIADIC ''T'',
    AddOutput ''Out'' VARIADIC ''T'',
    SetParamTypeConstraint ''T1'' statusPrivateOrPublic,
    SetParamTypeConstraint ''T'' statusPrivateOrSecret]"

definition opDef_Constant :: OperatorDef where
  "opDef_Constant = build_op [
    SetName OpNameConstant,
    SetStreamingType SinkOp,
    AddOutput ''Out'' SINGLE ''T'',
    AddAttribute ScalarAttr,
    SetParamTypeConstraint ''T'' statusPrivateOrPublic]"

definition opDef_DumpFile :: OperatorDef where
  "opDef_DumpFile = build_op [
    SetName OpNameDumpFile,
    SetStreamingType SinkOp,
    AddInput ''In'' VARIADIC ''T'',
    AddOutput ''Out'' VARIADIC ''T'',
    AddAttribute FilePathAttr,
    AddAttribute FieldDeliminatorAttr,
    AddDefaultAttributeValue FieldDeliminatorAttr (CreateStringAttribute [CHR 0x5C, CHR ''t'']),
    AddAttribute QuotingStyleAttr,
    AddDefaultAttributeValue QuotingStyleAttr (CreateIntAttribute 0),
    AddAttribute LineTerminatorAttr,
    AddDefaultAttributeValue LineTerminatorAttr (CreateStringAttribute [CHR 0x5C, CHR ''n'']),
    SetParamTypeConstraint ''T'' statusPrivate]"

definition opDef_InsertTable :: OperatorDef where
  "opDef_InsertTable = build_op [
    SetName OpNameInsertTable,
    AddInput ''In'' VARIADIC ''T'',
    AddOutput ''Out'' VARIADIC ''T'',
    AddAttribute TableNameAttr,
    AddAttribute ColumnNamesAttr,
    SetParamTypeConstraint ''T'' statusPrivate]"

definition opDef_In :: OperatorDef where
  "opDef_In = build_op [
    SetName OpNameIn,
    SetStreamingType StreamingOp,
    AddInput ''Left'' SINGLE ''T'',
    AddInput ''Right'' SINGLE ''T1'',
    AddOutput ''Out'' SINGLE ''T'',
    AddAttribute InTypeAttr,
    AddDefaultAttributeValue InTypeAttr (CreateIntAttribute PsiIn),
    AddAttribute PsiAlgorithmAttr,
    AddDefaultAttributeValue PsiAlgorithmAttr (CreateIntAttribute 0),
    AddAttribute InputPartyCodesAttr,
    AddAttribute RevealToAttr,
    SetParamTypeConstraint ''T'' statusPrivate,
    SetParamTypeConstraint ''T1'' statusPrivate]"

definition opDef_ReduceSum :: OperatorDef where
  "opDef_ReduceSum = build_op [
    SetName OpNameReduceSum,
    SetStreamingType SinkOp,
    AddInput ''In'' SINGLE ''T'',
    AddOutput ''Out'' SINGLE ''T'',
    SetParamTypeConstraint ''T'' statusPrivateOrSecret]"

definition opDef_ReduceCount :: OperatorDef where
  "opDef_ReduceCount = build_op [
    SetName OpNameReduceCount,
    SetStreamingType SinkOp,
    AddInput ''In'' SINGLE ''T'',
    AddOutput ''Out'' SINGLE ''T'',
    SetParamTypeConstraint ''T'' statusPrivateOrSecret]"

definition opDef_ReduceMax :: OperatorDef where
  "opDef_ReduceMax = build_op [
    SetName OpNameReduceMax,
    SetStreamingType SinkOp,
    AddInput ''In'' SINGLE ''T'',
    AddOutput ''Out'' SINGLE ''T'',
    SetParamTypeConstraint ''T'' statusPrivateOrSecret]"

definition opDef_ReduceMin :: OperatorDef where
  "opDef_ReduceMin = build_op [
    SetName OpNameReduceMin,
    SetStreamingType SinkOp,
    AddInput ''In'' SINGLE ''T'',
    AddOutput ''Out'' SINGLE ''T'',
    SetParamTypeConstraint ''T'' statusPrivateOrSecret]"

definition opDef_ReduceAvg :: OperatorDef where
  "opDef_ReduceAvg = build_op [
    SetName OpNameReduceAvg,
    SetStreamingType SinkOp,
    AddInput ''In'' SINGLE ''T'',
    AddOutput ''Out'' SINGLE ''T'',
    SetParamTypeConstraint ''T'' statusPrivateOrSecret]"

definition opDef_ReducePercentileDisc :: OperatorDef where
  "opDef_ReducePercentileDisc = build_op [
    SetName OpNameReducePercentileDisc,
    SetStreamingType SinkOp,
    AddInput ''In'' SINGLE ''T'',
    AddOutput ''Out'' SINGLE ''T'',
    SetParamTypeConstraint ''T'' statusPrivateOrSecret,
    AddAttribute ''percent'']"

definition opDef_Shape :: OperatorDef where
  "opDef_Shape = build_op [
    SetName OpNameShape,
    SetStreamingType SinkOp,
    AddInput ''In'' VARIADIC ''T'',
    AddOutput ''Out'' VARIADIC ''T1'',
    AddAttribute AxisAttr,
    AddDefaultAttributeValue AxisAttr (CreateIntAttribute (- 1)),
    SetParamTypeConstraint ''T'' statusPrivateOrSecretOrPublic,
    SetParamTypeConstraint ''T1'' statusPrivate]"

definition opDef_Unique :: OperatorDef where
  "opDef_Unique = build_op [
    SetName OpNameUnique,
    SetStreamingType SinkOp,
    AddInput ''Key'' SINGLE ''T'',
    AddOutput ''UniqueKey'' SINGLE ''T'',
    SetParamTypeConstraint ''T'' statusPrivate]"

definition opDef_Sort :: OperatorDef where
  "opDef_Sort = build_op [
    SetName OpNameSort,
    SetStreamingType SinkOp,
    AddInput ''Key'' VARIADIC ''T'',
    AddInput ''In'' VARIADIC ''T'',
    AddOutput ''Out'' VARIADIC ''T'',
    AddAttribute ReverseAttr,
    AddDefaultAttributeValue ReverseAttr (CreateBoolAttribute False),
    SetParamTypeConstraint ''T'' statusPrivateOrSecret]"

definition opDef_ObliviousGroupMark :: OperatorDef where
  "opDef_ObliviousGroupMark = build_op [
    SetName OpNameObliviousGroupMark,
    SetStreamingType SinkOp,
    AddInput ''Key'' VARIADIC ''T'',
    AddOutput ''Group'' SINGLE ''T'',
    SetParamTypeConstraint ''T'' statusPrivateOrSecret]"

definition opDef_ObliviousGroupAggs :: "string \<Rightarrow> OperatorDef" where
  "opDef_ObliviousGroupAggs opName = build_op [
    SetName opName,
    SetStreamingType SinkOp,
    AddInput ''Group'' SINGLE ''T'',
    AddInput ''In'' VARIADIC ''T'',
    AddOutput ''Out'' VARIADIC ''T'',
    SetParamTypeConstraint ''T'' statusSecret]"

definition opDef_ObliviousPercentileDisc :: OperatorDef where
  "opDef_ObliviousPercentileDisc = build_op [
    SetName OpNameObliviousPercentileDisc,
    SetStreamingType SinkOp,
    AddInput ''Group'' SINGLE ''T'',
    AddInput ''In'' VARIADIC ''T'',
    AddOutput ''Out'' VARIADIC ''T'',
    SetParamTypeConstraint ''T'' statusSecret,
    AddAttribute ''percent'']"

definition opDef_Shuffle :: OperatorDef where
  "opDef_Shuffle = build_op [
    SetName OpNameShuffle,
    SetStreamingType SinkOp,
    AddInput ''In'' VARIADIC ''T'',
    AddOutput ''Out'' VARIADIC ''T'',
    SetParamTypeConstraint ''T'' statusSecret]"

definition opDef_BroadcastTo :: OperatorDef where
  "opDef_BroadcastTo = build_op [
    SetName OpNameBroadcastTo,
    SetStreamingType StreamingOp,
    AddInput ''In'' VARIADIC ''T'',
    AddInput ''ShapeRefTensor'' SINGLE ''T1'',
    AddOutput ''Out'' VARIADIC ''T2'',
    SetParamTypeConstraint ''T'' statusPublic,
    SetParamTypeConstraint ''T1'' statusPrivateOrSecretOrPublic,
    SetParamTypeConstraint ''T2'' statusPrivateOrPublic]"

definition opDef_UnaryOps :: "string \<Rightarrow> OperatorDef" where
  "opDef_UnaryOps opName = build_op [
    SetName opName,
    SetStreamingType StreamingOp,
    AddInput ''In'' SINGLE ''T'',
    AddOutput ''Out'' SINGLE ''T'',
    SetParamTypeConstraint ''T'' statusPrivateOrSecretOrPublic]"

definition opDef_Concat :: OperatorDef where
  "opDef_Concat = build_op [
    SetName OpNameConcat,
    SetStreamingType SinkOp,
    AddInput ''In'' VARIADIC ''T'',
    AddOutput ''Out'' SINGLE ''T'',
    AddAttribute ''axis'',
    AddDefaultAttributeValue ''axis'' (CreateIntAttribute 0),
    SetParamTypeConstraint ''T'' statusSecret]"

definition opDef_Group :: OperatorDef where
  "opDef_Group = build_op [
    SetName OpNameGroup,
    SetStreamingType SinkOp,
    AddInput ''Key'' VARIADIC ''T'',
    AddOutput ''GroupId'' SINGLE ''T'',
    AddOutput ''GroupNum'' SINGLE ''T'',
    SetParamTypeConstraint ''T'' statusPrivate]"

definition opDef_If :: OperatorDef where
  "opDef_If = build_op [
    SetName OpNameIf,
    SetStreamingType StreamingOp,
    AddInput ''Condition'' SINGLE ''T'',
    AddInput ''ValueIfTrue'' SINGLE ''T1'',
    AddInput ''ValueIfFalse'' SINGLE ''T2'',
    AddOutput ''Out'' SINGLE ''T3'',
    SetParamTypeConstraint ''T'' statusPrivateOrSecretOrPublic,
    SetParamTypeConstraint ''T1'' statusPrivateOrSecretOrPublic,
    SetParamTypeConstraint ''T2'' statusPrivateOrSecretOrPublic,
    SetParamTypeConstraint ''T3'' statusPrivateOrSecretOrPublic]"

definition opDef_CaseWhen :: OperatorDef where
  "opDef_CaseWhen = build_op [
    SetName OpNameCaseWhen,
    SetStreamingType StreamingOp,
    AddInput ''Condition'' VARIADIC ''T'',
    AddInput ''Value'' VARIADIC ''T1'',
    AddInput ''ValueElse'' SINGLE ''T2'',
    AddOutput ''Out'' SINGLE ''T3'',
    SetParamTypeConstraint ''T'' statusPrivateOrSecretOrPublic,
    SetParamTypeConstraint ''T1'' statusPrivateOrSecretOrPublic,
    SetParamTypeConstraint ''T2'' statusPrivateOrSecretOrPublic,
    SetParamTypeConstraint ''T3'' statusPrivateOrSecretOrPublic]"

definition opDef_GroupAggs :: "string \<Rightarrow> OperatorDef" where
  "opDef_GroupAggs opName = build_op [
    SetName opName,
    SetStreamingType SinkOp,
    AddInput ''GroupId'' SINGLE ''T'',
    AddInput ''GroupNum'' SINGLE ''T'',
    AddInput ''In'' VARIADIC ''T'',
    AddOutput ''Out'' VARIADIC ''T'',
    SetParamTypeConstraint ''T'' statusPrivate]"

definition opDef_GroupPercentileDisc :: OperatorDef where
  "opDef_GroupPercentileDisc = build_op [
    SetName OpNameGroupPercentileDisc,
    SetStreamingType SinkOp,
    AddInput ''GroupId'' SINGLE ''T'',
    AddInput ''GroupNum'' SINGLE ''T'',
    AddInput ''In'' VARIADIC ''T'',
    AddOutput ''Out'' VARIADIC ''T'',
    SetParamTypeConstraint ''T'' statusPrivate,
    AddAttribute ''percent'']"

definition opDef_GroupHeSum :: OperatorDef where
  "opDef_GroupHeSum = build_op [
    SetName OpNameGroupHeSum,
    SetStreamingType SinkOp,
    AddInput ''GroupId'' SINGLE ''T'',
    AddInput ''GroupNum'' SINGLE ''T'',
    AddInput ''In'' SINGLE ''T'',
    AddOutput ''Out'' SINGLE ''T'',
    AddAttribute InputPartyCodesAttr,
    SetParamTypeConstraint ''T'' statusPrivate]"

definition opDef_Cast :: OperatorDef where
  "opDef_Cast = build_op [
    SetName OpNameCast,
    SetStreamingType StreamingOp,
    AddInput ''In'' SINGLE ''T'',
    AddOutput ''Out'' SINGLE ''T'',
    SetParamTypeConstraint ''T'' statusPrivateOrSecretOrPublic]"

definition opDef_Limit :: OperatorDef where
  "opDef_Limit = build_op [
    SetName OpNameLimit,
    SetStreamingType SinkOp,
    AddInput ''In'' VARIADIC ''T'',
    AddOutput ''Out'' VARIADIC ''T'',
    AddAttribute LimitOffsetAttr,
    AddAttribute LimitCountAttr,
    SetParamTypeConstraint ''T'' statusPrivateOrSecretOrPublic]"

definition opDef_IsNull :: OperatorDef where
  "opDef_IsNull = build_op [
    SetName OpNameIsNull,
    SetStreamingType StreamingOp,
    AddInput ''In'' SINGLE ''T'',
    AddOutput ''Out'' SINGLE ''T'',
    SetParamTypeConstraint ''T'' statusPrivate]"

definition opDef_IfNull :: OperatorDef where
  "opDef_IfNull = build_op [
    SetName OpNameIfNull,
    SetStreamingType StreamingOp,
    AddInput ''Expr'' SINGLE ''T'',
    AddInput ''AltValue'' SINGLE ''T'',
    AddOutput ''Out'' SINGLE ''T'',
    SetParamTypeConstraint ''T'' statusPrivate]"

definition opDef_Coalesce :: OperatorDef where
  "opDef_Coalesce = build_op [
    SetName OpNameCoalesce,
    SetStreamingType StreamingOp,
    AddInput ''Exprs'' VARIADIC ''T'',
    AddOutput ''Out'' SINGLE ''T'',
    SetParamTypeConstraint ''T'' statusPrivate]"

definition opDef_Bucket :: OperatorDef where
  "opDef_Bucket = build_op [
    SetName OpNameBucket,
    SetStreamingType SinkOp,
    AddInput ''Key'' VARIADIC ''T'',
    AddInput ''In'' VARIADIC ''T'',
    AddOutput ''Out'' VARIADIC ''T'',
    AddAttribute InputPartyCodesAttr,
    SetParamTypeConstraint ''T'' statusPrivate]"

definition opDef_trigonoOp :: "string \<Rightarrow> OperatorDef" where
  "opDef_trigonoOp opName = build_op [
    SetName opName,
    SetStreamingType StreamingOp,
    AddInput ''In'' SINGLE ''T'',
    AddOutput ''Out'' SINGLE ''T'',
    SetParamTypeConstraint ''T'' statusPrivateOrSecretOrPublic]"

definition opDef_windowOp :: "string \<Rightarrow> OperatorDef" where
  "opDef_windowOp opName = build_op [
    SetName opName,
    SetStreamingType SinkOp,
    AddInput ''Key'' VARIADIC ''T'',
    AddInput ''PartitionId'' SINGLE ''T'',
    AddInput ''PartitionNum'' SINGLE ''T'',
    AddOutput ''Out'' SINGLE ''T'',
    AddAttribute ReverseAttr,
    SetParamTypeConstraint ''T'' statusPrivate]"

definition opDef_SecretJoin :: OperatorDef where
  "opDef_SecretJoin = build_op [
    SetName OpNameSecretJoin,
    SetStreamingType SinkOp,
    AddInput ''LeftKey'' VARIADIC ''T'',
    AddInput ''RightKey'' VARIADIC ''T'',
    AddInput ''Left'' VARIADIC ''T'',
    AddInput ''Right'' VARIADIC ''T'',
    AddOutput ''LeftOutput'' VARIADIC ''T'',
    AddOutput ''RightOutput'' VARIADIC ''T'',
    SetParamTypeConstraint ''T'' statusSecret]"

definition opDef_unaryNumericOps :: "string \<Rightarrow> OperatorDef" where
  "opDef_unaryNumericOps opName = build_op [
    SetName opName,
    SetStreamingType SinkOp,
    AddInput ''In'' SINGLE ''T'',
    AddOutput ''Out'' SINGLE ''T'',
    SetParamTypeConstraint ''T'' statusPrivateOrSecretOrPublic]"

definition opDef_Greatest :: OperatorDef where
  "opDef_Greatest = build_op [
    SetName OpNameGreatest,
    SetStreamingType StreamingOp,
    AddInput ''In'' VARIADIC ''T'',
    AddOutput ''Out'' VARIADIC ''T'',
    SetParamTypeConstraint ''T'' statusPrivateOrSecretOrPublic]"

definition opDef_Least :: OperatorDef where
  "opDef_Least = build_op [
    SetName OpNameLeast,
    SetStreamingType StreamingOp,
    AddInput ''In'' VARIADIC ''T'',
    AddOutput ''Out'' VARIADIC ''T'',
    SetParamTypeConstraint ''T'' statusPrivateOrSecretOrPublic]"

definition opDef_ArrowFunc :: OperatorDef where
  "opDef_ArrowFunc = build_op [
    SetName OpNameArrowFunc,
    SetStreamingType StreamingOp,
    AddInput ''In'' VARIADIC ''T'',
    AddAttribute FuncNameAttr,
    AddOutput ''Out'' VARIADIC ''T'',
    SetParamTypeConstraint ''T'' statusPrivate]"

definition opDef_Replicate :: OperatorDef where
  "opDef_Replicate = build_op [
    SetName OpNameReplicate,
    SetStreamingType SinkOp,
    AddInput ''Left'' VARIADIC ''T'',
    AddInput ''Right'' VARIADIC ''T'',
    AddOutput ''LeftOut'' VARIADIC ''T'',
    AddOutput ''RightOut'' VARIADIC ''T'',
    AddAttribute InputPartyCodesAttr,
    SetParamTypeConstraint ''T'' statusPrivate]"

definition AllOpDef :: "OperatorDef list" where
  "AllOpDef =
    [opDef_RunSQL, opDef_Publish]
    @ map opDef_BinaryOps BinaryOps
    @ [opDef_MakePublic, opDef_MakePrivate, opDef_MakeShare, opDef_Join, opDef_FilterByIndex,
      opDef_Copy, opDef_Filter, opDef_Constant, opDef_DumpFile, opDef_InsertTable, opDef_In,
      opDef_ReduceSum, opDef_ReduceCount, opDef_ReduceMax, opDef_ReduceMin, opDef_ReduceAvg,
      opDef_ReducePercentileDisc, opDef_Shape, opDef_Unique, opDef_Sort,
      opDef_ObliviousGroupMark]
    @ map opDef_ObliviousGroupAggs obliviousGroupAggNames
    @ [opDef_ObliviousPercentileDisc, opDef_Shuffle, opDef_BroadcastTo]
    @ map opDef_UnaryOps UnaryOps
    @ [opDef_Concat, opDef_Group, opDef_If, opDef_CaseWhen]
    @ map opDef_GroupAggs groupAggNames
    @ [opDef_GroupPercentileDisc, opDef_GroupHeSum, opDef_Cast, opDef_Limit, opDef_IsNull,
      opDef_IfNull, opDef_Coalesce, opDef_Bucket]
    @ map opDef_trigonoOp trigonoOp
    @ map opDef_windowOp windowOp
    @ [opDef_SecretJoin]
    @ map opDef_unaryNumericOps unaryNumericOps
    @ [opDef_Greatest, opDef_Least, opDef_ArrowFunc, opDef_Replicate]"

primrec FindOpDef_loop :: "string \<Rightarrow> OperatorDef list \<Rightarrow> OperatorDef result" where
  "FindOpDef_loop opType [] = Inl (Errorf ''findOpDef: failed to find opType %v'')"
| "FindOpDef_loop opType (op # ops) =
    (if opType = GetName op then Inr op else FindOpDef_loop opType ops)"

definition FindOpDef :: "string \<Rightarrow> OperatorDef result" where
  "FindOpDef opType = FindOpDef_loop opType AllOpDef"

section \<open>Properties of the registry\<close>

lemmas op_builder_defs = build_op_def OperatorDef_zero_def SetName_def SetStreamingType_def
  AddInput_def AddOutput_def AddAttribute_def AddDefaultAttributeValue_def SetParamTypeConstraint_def

text \<open>Looking a name up without building every signature: the equation that evaluation uses.\<close>

lemma op_Name_opDef:
  "op_Name opDef_RunSQL = OpNameRunSQL"
  "op_Name opDef_Publish = OpNamePublish"
  "op_Name opDef_MakePublic = OpNameMakePublic"
  "op_Name opDef_MakePrivate = OpNameMakePrivate"
  "op_Name opDef_MakeShare = OpNameMakeShare"
  "op_Name opDef_Join = OpNameJoin"
  "op_Name opDef_FilterByIndex = OpNameFilterByIndex"
  "op_Name opDef_Copy = OpNameCopy"
  "op_Name opDef_Filter = OpNameFilter"
  "op_Name opDef_Constant = OpNameConstant"
  "op_Name opDef_DumpFile = OpNameDumpFile"
  "op_Name opDef_InsertTable = OpNameInsertTable"
  "op_Name opDef_In = OpNameIn"
  "op_Name opDef_ReduceSum = OpNameReduceSum"
  "op_Name opDef_ReduceCount = OpNameReduceCount"
  "op_Name opDef_ReduceMax = OpNameReduceMax"
  "op_Name opDef_ReduceMin = OpNameReduceMin"
  "op_Name opDef_ReduceAvg = OpNameReduceAvg"
  "op_Name opDef_ReducePercentileDisc = OpNameReducePercentileDisc"
  "op_Name opDef_Shape = OpNameShape"
  "op_Name opDef_Unique = OpNameUnique"
  "op_Name opDef_Sort = OpNameSort"
  "op_Name opDef_ObliviousGroupMark = OpNameObliviousGroupMark"
  "op_Name opDef_ObliviousPercentileDisc = OpNameObliviousPercentileDisc"
  "op_Name opDef_Shuffle = OpNameShuffle"
  "op_Name opDef_BroadcastTo = OpNameBroadcastTo"
  "op_Name opDef_Concat = OpNameConcat"
  "op_Name opDef_Group = OpNameGroup"
  "op_Name opDef_If = OpNameIf"
  "op_Name opDef_CaseWhen = OpNameCaseWhen"
  "op_Name opDef_GroupPercentileDisc = OpNameGroupPercentileDisc"
  "op_Name opDef_GroupHeSum = OpNameGroupHeSum"
  "op_Name opDef_Cast = OpNameCast"
  "op_Name opDef_Limit = OpNameLimit"
  "op_Name opDef_IsNull = OpNameIsNull"
  "op_Name opDef_IfNull = OpNameIfNull"
  "op_Name opDef_Coalesce = OpNameCoalesce"
  "op_Name opDef_Bucket = OpNameBucket"
  "op_Name opDef_SecretJoin = OpNameSecretJoin"
  "op_Name opDef_Greatest = OpNameGreatest"
  "op_Name opDef_Least = OpNameLeast"
  "op_Name opDef_ArrowFunc = OpNameArrowFunc"
  "op_Name opDef_Replicate = OpNameReplicate"
  "op_Name (opDef_BinaryOps n) = n"
  "op_Name (opDef_ObliviousGroupAggs n) = n"
  "op_Name (opDef_UnaryOps n) = n"
  "op_Name (opDef_GroupAggs n) = n"
  "op_Name (opDef_trigonoOp n) = n"
  "op_Name (opDef_windowOp n) = n"
  "op_Name (opDef_unaryNumericOps n) = n"
  by (simp_all add: opDef_RunSQL_def opDef_Publish_def opDef_BinaryOps_def opDef_MakePublic_def
      opDef_MakePrivate_def opDef_MakeShare_def opDef_Join_def opDef_FilterByIndex_def opDef_Copy_def
      opDef_Filter_def opDef_Constant_def opDef_DumpFile_def opDef_InsertTable_def opDef_In_def
      opDef_ReduceSum_def opDef_ReduceCount_def opDef_ReduceMax_def opDef_ReduceMin_def opDef_ReduceAvg_def
      opDef_ReducePercentileDisc_def opDef_Shape_def opDef_Unique_def opDef_Sort_def opDef_ObliviousGroupMark_def
      opDef_ObliviousGroupAggs_def opDef_ObliviousPercentileDisc_def opDef_Shuffle_def opDef_BroadcastTo_def
      opDef_UnaryOps_def opDef_Concat_def opDef_Group_def opDef_If_def opDef_CaseWhen_def opDef_GroupAggs_def
      opDef_GroupPercentileDisc_def opDef_GroupHeSum_def opDef_Cast_def opDef_Limit_def opDef_IsNull_def
      opDef_IfNull_def opDef_Coalesce_def opDef_Bucket_def opDef_trigonoOp_def opDef_windowOp_def
      opDef_SecretJoin_def opDef_unaryNumericOps_def opDef_Greatest_def opDef_Least_def opDef_ArrowFunc_def
      opDef_Replicate_def op_builder_defs)

lemma FindOpDef_loop_map:
  "(\<And>n. op_Name (f n) = n) \<Longrightarrow>
    FindOpDef_loop opType (map f names @ ops) = (if opType \<in> set names then Inr (f opType) else FindOpDef_loop opType ops)"
  by (induction names) (auto simp: GetName_def)

lemma FindOpDef_code [code]:
  "FindOpDef opType =
   (if opType = OpNameRunSQL then Inr opDef_RunSQL else
    if opType = OpNamePublish then Inr opDef_Publish else
    if opType \<in> set BinaryOps then Inr (opDef_BinaryOps opType) else
    if opType = OpNameMakePublic then Inr opDef_MakePublic else
    if opType = OpNameMakePrivate then Inr opDef_MakePrivate else
    if opType = OpNameMakeShare then Inr opDef_MakeShare else
    if opType = OpNameJoin then Inr opDef_Join else
    if opType = OpNameFilterByIndex then Inr opDef_FilterByIndex else
    if opType = OpNameCopy then Inr opDef_Copy else
    if opType = OpNameFilter then Inr opDef_Filter else
    if opType = OpNameConstant then Inr opDef_Constant else
    if opType = OpNameDumpFile then Inr opDef_DumpFile else
    if opType = OpNameInsertTable then Inr opDef_InsertTable else
    if opType = OpNameIn then Inr opDef_In else
    if opType = OpNameReduceSum then Inr opDef_ReduceSum else
    if opType = OpNameReduceCount then Inr opDef_ReduceCount else
    if opType = OpNameReduceMax then Inr opDef_ReduceMax else
    if opType = OpNameReduceMin then Inr opDef_ReduceMin else
    if opType = OpNameReduceAvg then Inr opDef_ReduceAvg else
    if opType = OpNameReducePercentileDisc then Inr opDef_ReducePercentileDisc else
    if opType = OpNameShape then Inr opDef_Shape else
    if opType = OpNameUnique then Inr opDef_Unique else
    if opType = OpNameSort then Inr opDef_Sort else
    if opType = OpNameObliviousGroupMark then Inr opDef_ObliviousGroupMark else
    if opType \<in> set obliviousGroupAggNames then Inr (opDef_ObliviousGroupAggs opType) else
    if opType = OpNameObliviousPercentileDisc then Inr opDef_ObliviousPercentileDisc else
    if opType = OpNameShuffle then Inr opDef_Shuffle else
    if opType = OpNameBroadcastTo then Inr opDef_BroadcastTo else
    if opType \<in> set UnaryOps then Inr (opDef_UnaryOps opType) else
    if opType = OpNameConcat then Inr opDef_Concat else
    if opType = OpNameGroup then Inr opDef_Group else
    if opType = OpNameIf then Inr opDef_If else
    if opType = OpNameCaseWhen then Inr opDef_CaseWhen else
    if opType \<in> set groupAggNames then Inr (opDef_GroupAggs opType) else
    if opType = OpNameGroupPercentileDisc then Inr opDef_GroupPercentileDisc else
    if opType = OpNameGroupHeSum then Inr opDef_GroupHeSum else
    if opType = OpNameCast then Inr opDef_Cast else
    if opType = OpNameLimit then Inr opDef_Limit else
    if opType = OpNameIsNull then Inr opDef_IsNull else
    if opType = OpNameIfNull then Inr opDef_IfNull else
    if opType = OpNameCoalesce then Inr opDef_Coalesce else
    if opType = OpNameBucket then Inr opDef_Bucket else
    if opType \<in> set trigonoOp then Inr (opDef_trigonoOp opType) else
    if opType \<in> set windowOp then Inr (opDef_windowOp opType) else
    if opType = OpNameSecretJoin then Inr opDef_SecretJoin else
    if opType \<in> set unaryNumericOps then Inr (opDef_unaryNumericOps opType) else
    if opType = OpNameGreatest then Inr opDef_Greatest else
    if opType = OpNameLeast then Inr opDef_Least else
    if opType = OpNameArrowFunc then Inr opDef_ArrowFunc else
    if opType = OpNameReplicate then Inr opDef_Replicate else
    Inl (Errorf ''findOpDef: failed to find opType %v''))"
  unfolding FindOpDef_def AllOpDef_def
  by (simp only: append.simps append_assoc FindOpDef_loop.simps GetName_def op_Name_opDef FindOpDef_loop_map[OF
      op_Name_opDef(44)] FindOpDef_loop_map[OF op_Name_opDef(45)] FindOpDef_loop_map[OF op_Name_opDef(46)]
      FindOpDef_loop_map[OF op_Name_opDef(47)] FindOpDef_loop_map[OF op_Name_opDef(48)] FindOpDef_loop_map[OF
      op_Name_opDef(49)] FindOpDef_loop_map[OF op_Name_opDef(50)])

text \<open>A signature is well formed when it is named and no error was recorded, every parameter
  names a status constraint that is set and allows some status, parameter names do not repeat,
  and every default belongs to a declared attribute.\<close>

definition constrained :: "OperatorDef \<Rightarrow> FormalParameter \<Rightarrow> bool" where
  "constrained op fp = (case map_of (ParamStatusConstraints op) (ParameterStatusConstraintName fp) of
     None \<Rightarrow> False | Some sts \<Rightarrow> sts \<noteq> [] \<and> list_all (\<lambda>s. s \<in> {TENSORSTATUS_PRIVATE, TENSORSTATUS_SECRET, TENSORSTATUS_PUBLIC}) sts)"

definition wf_op :: "OperatorDef \<Rightarrow> bool" where
  "wf_op op \<longleftrightarrow> op_err op = None \<and> op_Name op \<noteq> []
    \<and> list_all (constrained op) (InputParams op @ OutputParams op)
    \<and> distinct (map ParamName (InputParams op)) \<and> distinct (map ParamName (OutputParams op))
    \<and> OutputParams op \<noteq> []
    \<and> list_all (\<lambda>k. List.member (AttributeParams op) k) (keys (DefaultAttributeValues op))"

lemma AllOpDef_distinct: "distinct (map op_Name AllOpDef)"
  by code_simp

lemma AllOpDef_wf: "list_all wf_op AllOpDef"
  by code_simp

lemma FindOpDef_loop_Inr: "FindOpDef_loop n ops = Inr op \<Longrightarrow> op \<in> set ops \<and> op_Name op = n"
  by (induction ops) (auto simp: GetName_def split: if_splits)

lemma FindOpDef_Inr: "FindOpDef n = Inr op \<Longrightarrow> op \<in> set AllOpDef \<and> op_Name op = n"
  unfolding FindOpDef_def by (rule FindOpDef_loop_Inr)

lemma FindOpDef_loop_unique:
  "distinct (map op_Name ops) \<Longrightarrow> op \<in> set ops \<Longrightarrow> FindOpDef_loop (op_Name op) ops = Inr op"
  by (induction ops) (auto simp: GetName_def image_iff)

lemma FindOpDef_registered: "op \<in> set AllOpDef \<Longrightarrow> FindOpDef (op_Name op) = Inr op"
  unfolding FindOpDef_def by (rule FindOpDef_loop_unique[OF AllOpDef_distinct])

lemma FindOpDef_wf: "FindOpDef n = Inr op \<Longrightarrow> wf_op op"
  using FindOpDef_Inr AllOpDef_wf by (auto simp: list_all_iff)

text \<open>C8: the registry is consistent: no two operators share a name, so looking up the name of a
  registered operator returns that operator, a lookup never returns anything but a registered operator
  of that name, and every registered signature is well formed (each parameter names a constraint that
  is declared and not empty, defaults belong to declared attributes).\<close>

theorem registry_consistent:
  "distinct (map op_Name AllOpDef)
   \<and> (\<forall>op \<in> set AllOpDef. FindOpDef (op_Name op) = Inr op \<and> wf_op op)
   \<and> (FindOpDef n = Inr op \<longrightarrow> op \<in> set AllOpDef \<and> op_Name op = n)"
  using AllOpDef_distinct AllOpDef_wf FindOpDef_registered FindOpDef_Inr by (auto simp: list_all_iff)

theorem registry_consistent_witness: "FindOpDef OpNameMakeShare = Inr opDef_MakeShare"
proof -
  have "opDef_MakeShare \<in> set AllOpDef" by (simp add: AllOpDef_def)
  moreover have "op_Name opDef_MakeShare = OpNameMakeShare"
    by (simp add: opDef_MakeShare_def op_builder_defs)
  ultimately show ?thesis using registry_consistent by metis
qed

end
