(* ===== verification/Tensor_Node.thy ===== *)
theory Tensor_Node
  imports Ccl Operator_Def
begin

text \<open>
  \<open>pkg/interpreter/graph/tensor.go\<close>, \<open>attribute.go\<close>, \<open>execution_node.go\<close>: the
  in-memory tensors, node attributes and execution nodes and their
  serialisation.  Tensors are shared by pointer, so a tensor occurring in a node
  is a reference \<open>tref\<close> into the builder's list of tensors.  A nil slice is
  \<open>None\<close> where the code distinguishes it from an empty one.
\<close>

section \<open>Tensors\<close>

type_synonym tref = nat

record Tensor =
  t_ID :: int
  t_Name :: string
  t_Option :: TensorOptions
  t_DType :: PrimitiveDataType
  t_status :: TensorStatus
  t_Shape :: "int list"
  t_StringS :: "string list option"
  t_FloatS :: "float32 list option"
  t_DoubleS :: "float64 list option"
  t_Int32S :: "int list option"
  t_Int64S :: "int list option"
  t_BooleanS :: "bool list option"
  t_CC :: CCL
  t_SkipDTypeCheck :: bool
  t_OwnerPartyCode :: string
  t_SecretStringOwners :: "string list"
  t_IsConstScalar :: bool
  t_RefNum :: int

text \<open>The zero value of the struct; its nil control list is modelled by the empty one, which
  answers every query of visibility as an absent list would.\<close>

definition Tensor_zero :: Tensor where
  "Tensor_zero = \<lparr>t_ID = 0, t_Name = [], t_Option = VALUE, t_DType = PrimitiveDataType_UNDEFINED,
    t_status = TENSORSTATUS_UNKNOWN, t_Shape = [], t_StringS = None, t_FloatS = None, t_DoubleS = None,
    t_Int32S = None, t_Int64S = None, t_BooleanS = None, t_CC = NewCCL, t_SkipDTypeCheck = False,
    t_OwnerPartyCode = [], t_SecretStringOwners = [], t_IsConstScalar = False, t_RefNum = 0\<rparr>"

definition SetStatus :: "TensorStatus \<Rightarrow> Tensor \<Rightarrow> Tensor" where
  "SetStatus s t = t\<lparr>t_status := s\<rparr>"

definition NewTensor :: "int \<Rightarrow> string \<Rightarrow> Tensor" where
  "NewTensor tid name = Tensor_zero\<lparr>t_ID := tid, t_Name := name, t_CC := NewCCL\<rparr>"

definition UniqueName :: "Tensor \<Rightarrow> string" where
  "UniqueName t = t_Name t @ ''.'' @ show_int (t_ID t)"

definition TensorNameFromUniqueName :: "string \<Rightarrow> string" where
  "TensorNameFromUniqueName uniqName =
    (let ss = Split uniqName CHR ''.'' in Join_strings (take (length ss - 1) ss) CHR ''.'')"

definition shortName :: "string \<Rightarrow> string" where
  "shortName name = (let s = Split name CHR ''.'' in s ! (length s - 1))"

definition ShortStatus :: "string \<Rightarrow> string" where
  "ShortStatus status = (let s = Split status CHR ''_'' in s ! (length s - 1))"

definition TensorStatus_name :: "TensorStatus \<Rightarrow> string" where
  "TensorStatus_name s = (case s of
      TENSORSTATUS_UNKNOWN \<Rightarrow> ''TENSORSTATUS_UNKNOWN''
    | TENSORSTATUS_PRIVATE \<Rightarrow> ''TENSORSTATUS_PRIVATE''
    | TENSORSTATUS_SECRET \<Rightarrow> ''TENSORSTATUS_SECRET''
    | TENSORSTATUS_CIPHER \<Rightarrow> ''TENSORSTATUS_CIPHER''
    | TENSORSTATUS_PUBLIC \<Rightarrow> ''TENSORSTATUS_PUBLIC'')"

definition PrimitiveDataType_name :: "PrimitiveDataType \<Rightarrow> string" where
  "PrimitiveDataType_name d = (case d of
      PrimitiveDataType_UNDEFINED \<Rightarrow> ''PrimitiveDataType_UNDEFINED''
    | INT8 \<Rightarrow> ''INT8'' | INT16 \<Rightarrow> ''INT16'' | INT32 \<Rightarrow> ''INT32'' | INT64 \<Rightarrow> ''INT64''
    | FLOAT32 \<Rightarrow> ''FLOAT32'' | FLOAT64 \<Rightarrow> ''FLOAT64'' | BOOL \<Rightarrow> ''BOOL'' | STRING \<Rightarrow> ''STRING''
    | DATETIME \<Rightarrow> ''DATETIME'' | TIMESTAMP \<Rightarrow> ''TIMESTAMP'')"

definition Tensor_ToBriefString :: "Tensor \<Rightarrow> string" where
  "Tensor_ToBriefString t = ''t_'' @ show_int (t_ID t) @ '':{'' @ shortName (t_Name t) @ '':''
    @ ShortStatus (TensorStatus_name (t_status t)) @ '':'' @ PrimitiveDataType_name (t_DType t) @ ''}''"

definition newTensorFromProto :: "pb_Tensor \<Rightarrow> Tensor" where
  "newTensorFromProto pb =
    (let t0 = Tensor_zero\<lparr>t_Name := pb_Name pb, t_Option := pb_Option pb, t_DType := pb_ElemType pb,
           t_RefNum := pb_RefNum pb\<rparr>;
         t1 = (case pb_Annotation pb of None \<Rightarrow> t0 | Some st \<Rightarrow> SetStatus st t0);
         t2 = (case pb_ElemType pb of
             BOOL \<Rightarrow> t1\<lparr>t_BooleanS := Some (pb_BoolData pb)\<rparr>
           | STRING \<Rightarrow> t1\<lparr>t_StringS := Some (pb_StringData pb)\<rparr>
           | INT8 \<Rightarrow> t1\<lparr>t_Int32S := Some (pb_Int32Data pb)\<rparr>
           | INT16 \<Rightarrow> t1\<lparr>t_Int32S := Some (pb_Int32Data pb)\<rparr>
           | INT32 \<Rightarrow> t1\<lparr>t_Int32S := Some (pb_Int32Data pb)\<rparr>
           | INT64 \<Rightarrow> t1\<lparr>t_Int64S := Some (pb_Int64Data pb)\<rparr>
           | FLOAT32 \<Rightarrow> t1\<lparr>t_FloatS := Some (pb_FloatData pb)\<rparr>
           | FLOAT64 \<Rightarrow> t1\<lparr>t_DoubleS := Some (pb_DoubleData pb)\<rparr>
           | _ \<Rightarrow> t1)
     in case pb_Shape pb of None \<Rightarrow> t2 | Some dims \<Rightarrow> t2\<lparr>t_Shape := dims\<rparr>)"

definition slice_or_nil :: "'a list option \<Rightarrow> 'a list" where
  "slice_or_nil s = (case s of None \<Rightarrow> [] | Some xs \<Rightarrow> xs)"

definition Tensor_ToProto :: "Tensor \<Rightarrow> pb_Tensor" where
  "Tensor_ToProto t = \<lparr>
    pb_Name = UniqueName t,
    pb_Shape = (if length (t_Shape t) > 0 then Some (t_Shape t) else None),
    pb_ElemType = t_DType t,
    pb_Option = t_Option t,
    pb_Annotation = (if t_status t \<noteq> TENSORSTATUS_UNKNOWN then Some (t_status t) else None),
    pb_Int32Data = slice_or_nil (t_Int32S t),
    pb_Int64Data = slice_or_nil (t_Int64S t),
    pb_FloatData = slice_or_nil (t_FloatS t),
    pb_DoubleData = slice_or_nil (t_DoubleS t),
    pb_BoolData = slice_or_nil (t_BooleanS t),
    pb_StringData = slice_or_nil (t_StringS t),
    pb_RefNum = t_RefNum t\<rparr>"

section \<open>Attributes\<close>

record Attribute =
  TensorValue :: "Tensor option"

definition SetStrings :: "string list \<Rightarrow> Attribute" where
  "SetStrings v = \<lparr>TensorValue =
    Some (Tensor_zero\<lparr>t_StringS := Some v, t_DType := STRING, t_Shape := [int (length v)]\<rparr>)\<rparr>"

definition GetStrings :: "Attribute \<Rightarrow> string list result" where
  "GetStrings attr = (case TensorValue attr of
      None \<Rightarrow> Inl (Errorf ''getString: invalid attribute %v'')
    | Some t \<Rightarrow>
      if slice_or_nil (t_StringS t) = [] then Inl (Errorf ''getString: invalid attribute %v'')
      else Inr (slice_or_nil (t_StringS t)))"

definition SetString :: "string \<Rightarrow> Attribute" where
  "SetString v = \<lparr>TensorValue = Some (Tensor_zero\<lparr>t_StringS := Some [v], t_DType := STRING\<rparr>)\<rparr>"

text \<open>\<open>int32(v)\<close> keeps the low 32 bits of \<open>v\<close>, read as a signed number.\<close>

definition SetInt :: "int \<Rightarrow> Attribute" where
  "SetInt v = \<lparr>TensorValue =
    Some (Tensor_zero\<lparr>t_Int32S := Some [signed_take_bit 31 v], t_DType := INT64\<rparr>)\<rparr>"

definition SetInt64 :: "int \<Rightarrow> Attribute" where
  "SetInt64 v = \<lparr>TensorValue = Some (Tensor_zero\<lparr>t_Int64S := Some [v], t_DType := INT64\<rparr>)\<rparr>"

definition SetFloat :: "float32 \<Rightarrow> Attribute" where
  "SetFloat v = \<lparr>TensorValue = Some (Tensor_zero\<lparr>t_FloatS := Some [v], t_DType := FLOAT32\<rparr>)\<rparr>"

definition SetDouble :: "float64 \<Rightarrow> Attribute" where
  "SetDouble v = \<lparr>TensorValue = Some (Tensor_zero\<lparr>t_DoubleS := Some [v], t_DType := FLOAT64\<rparr>)\<rparr>"

definition SetBool :: "bool \<Rightarrow> Attribute" where
  "SetBool v = \<lparr>TensorValue = Some (Tensor_zero\<lparr>t_BooleanS := Some [v], t_DType := BOOL\<rparr>)\<rparr>"

text \<open>The dynamic value \<open>GetAttrValue\<close> returns as \<open>interface{}\<close>.\<close>

datatype AttrValue =
    NilValue
  | StringValue string | StringsValue "string list"
  | BoolValue bool | BoolsValue "bool list"
  | Int32Value int | Int32sValue "int list"
  | Int64Value int | Int64sValue "int list"
  | FloatValue float32 | FloatsValue "float32 list"
  | DoubleValue float64 | DoublesValue "float64 list"

definition scalar_or_slice :: "int list \<Rightarrow> ('a \<Rightarrow> AttrValue) \<Rightarrow> ('a list \<Rightarrow> AttrValue) \<Rightarrow> 'a list \<Rightarrow> AttrValue" where
  "scalar_or_slice shape one many xs =
    (if length shape = 0 \<and> length xs = 1 then one (xs ! 0) else many xs)"

definition GetAttrValue :: "Attribute \<Rightarrow> AttrValue" where
  "GetAttrValue attr = (case TensorValue attr of
      None \<Rightarrow> NilValue
    | Some t \<Rightarrow>
      (case t_StringS t of Some xs \<Rightarrow> scalar_or_slice (t_Shape t) StringValue StringsValue xs | None \<Rightarrow>
      (case t_BooleanS t of Some xs \<Rightarrow> scalar_or_slice (t_Shape t) BoolValue BoolsValue xs | None \<Rightarrow>
      (case t_Int32S t of Some xs \<Rightarrow> scalar_or_slice (t_Shape t) Int32Value Int32sValue xs | None \<Rightarrow>
      (case t_Int64S t of Some xs \<Rightarrow> scalar_or_slice (t_Shape t) Int64Value Int64sValue xs | None \<Rightarrow>
      (case t_FloatS t of Some xs \<Rightarrow> scalar_or_slice (t_Shape t) FloatValue FloatsValue xs | None \<Rightarrow>
      (case t_DoubleS t of Some xs \<Rightarrow> scalar_or_slice (t_Shape t) DoubleValue DoublesValue xs | None \<Rightarrow>
       NilValue)))))))"

definition Attribute_ToProto :: "Attribute \<Rightarrow> AttributeValue result" where
  "Attribute_ToProto attr = (case TensorValue attr of
      None \<Rightarrow> Inl (Panic ''nil pointer dereference'')
    | Some t \<Rightarrow> Inr (AttributeValue_T (Tensor_ToProto t)))"

section \<open>Execution nodes\<close>

text \<open>An edge names its end nodes by their IDs.\<close>

record Edge =
  e_From :: nat
  e_To :: nat
  e_Value :: tref

record ExecutionNode =
  n_ID :: nat
  n_Name :: string
  n_OpType :: string
  n_Inputs :: "(string, tref list) gomap"
  n_Outputs :: "(string, tref list) gomap"
  n_Attributes :: "(string, Attribute) gomap"
  n_Edges :: "Edge list"
  n_Parties :: "string list"

definition Node_ToBriefString :: "ExecutionNode \<Rightarrow> string" where
  "Node_ToBriefString node = n_Name node @ [CHR 0x5C] @ ''l[''
    @ concat (map (\<lambda>p. p @ '','') (n_Parties node)) @ '']''"

definition GetAttrStrings :: "ExecutionNode \<Rightarrow> string \<Rightarrow> string list result" where
  "GetAttrStrings node name = (case map_of (n_Attributes node) name of
      Some attr \<Rightarrow> GetStrings attr
    | None \<Rightarrow> Inl (Errorf ''getAttrStrings: attribute %s doesn't exists''))"

record pb_ExecNode =
  NodeName :: string
  pb_OpType :: string
  pb_Inputs :: "(string, pb_Tensor list) gomap"
  pb_Outputs :: "(string, pb_Tensor list) gomap"
  pb_Attributes :: "(string, AttributeValue) gomap"

text \<open>\<open>deref\<close> reads the tensor a reference points to.\<close>

definition Node_ToProto :: "(tref \<Rightarrow> Tensor) \<Rightarrow> ExecutionNode \<Rightarrow> pb_ExecNode result" where
  "Node_ToProto deref node =
    bind_r (map_r (\<lambda>(k, attr). bind_r (Attribute_ToProto attr) (\<lambda>v. Inr (k, v))) (n_Attributes node)) (\<lambda>attrs.
    Inr \<lparr>NodeName = n_Name node @ ''.'' @ show_int (int (n_ID node)),
      pb_OpType = n_OpType node,
      pb_Inputs = map (\<lambda>(k, ts). (k, map (\<lambda>t. Tensor_ToProto (deref t)) ts)) (n_Inputs node),
      pb_Outputs = map (\<lambda>(k, ts). (k, map (\<lambda>t. Tensor_ToProto (deref t)) ts)) (n_Outputs node),
      pb_Attributes = attrs\<rparr>)"

definition UpdateInput :: "(tref \<Rightarrow> Tensor) \<Rightarrow> int \<Rightarrow> tref \<Rightarrow> ExecutionNode \<Rightarrow> ExecutionNode" where
  "UpdateInput deref tid newTensor node = node\<lparr>n_Inputs :=
    map (\<lambda>(k, inputs). (k, map (\<lambda>i. if t_ID (deref i) = tid then newTensor else i) inputs)) (n_Inputs node)\<rparr>"

definition UpdateOutput :: "(tref \<Rightarrow> Tensor) \<Rightarrow> int \<Rightarrow> tref \<Rightarrow> ExecutionNode \<Rightarrow> ExecutionNode" where
  "UpdateOutput deref tid newTensor node = node\<lparr>n_Outputs :=
    map (\<lambda>(k, outputs). (k, map (\<lambda>i. if t_ID (deref i) = tid then newTensor else i) outputs)) (n_Outputs node)\<rparr>"

section \<open>Names and serialisation\<close>

text \<open>the name of a tensor can be read back from its unique name, whatever characters it contains.\<close>

theorem tensor_name_roundtrip: "TensorNameFromUniqueName (UniqueName t) = t_Name t"
proof -
  have "Split (t_Name t @ CHR ''.'' # show_int (t_ID t)) CHR ''.''
      = Split (t_Name t) CHR ''.'' @ [show_int (t_ID t)]"
    by (rule Split_append_sep[OF dot_notin_show_int])
  then show ?thesis
    by (simp add: TensorNameFromUniqueName_def UniqueName_def)
qed

text \<open>Every data slice a tensor of this data type does not use is nil, and the one it uses is set.\<close>

definition dtype_stored :: "Tensor \<Rightarrow> bool" where
  "dtype_stored t \<longleftrightarrow>
    (t_BooleanS t \<noteq> None \<longleftrightarrow> t_DType t = BOOL)
    \<and> (t_StringS t \<noteq> None \<longleftrightarrow> t_DType t = STRING)
    \<and> (t_Int32S t \<noteq> None \<longleftrightarrow> t_DType t \<in> {INT8, INT16, INT32})
    \<and> (t_Int64S t \<noteq> None \<longleftrightarrow> t_DType t = INT64)
    \<and> (t_FloatS t \<noteq> None \<longleftrightarrow> t_DType t = FLOAT32)
    \<and> (t_DoubleS t \<noteq> None \<longleftrightarrow> t_DType t = FLOAT64)"


lemmas attr_defs = SetStrings_def SetString_def SetInt_def SetInt64_def SetFloat_def SetDouble_def
  SetBool_def Tensor_zero_def

lemma GetAttrValue_Set:
  "GetAttrValue (SetString v) = StringValue v"
  "GetAttrValue (SetStrings vs) = StringsValue vs"
  "GetAttrValue (SetInt64 i) = Int64Value i"
  "GetAttrValue (SetFloat f) = FloatValue f"
  "GetAttrValue (SetDouble d) = DoubleValue d"
  "GetAttrValue (SetBool b) = BoolValue b"
  "GetAttrValue (SetInt i) = Int32Value (signed_take_bit 31 i)"
  by (simp_all add: GetAttrValue_def attr_defs scalar_or_slice_def)

lemma dtype_stored_Set:
  "\<forall>t. TensorValue (SetString v) = Some t \<longrightarrow> dtype_stored t"
  "\<forall>t. TensorValue (SetInt64 i) = Some t \<longrightarrow> dtype_stored t"
  "\<forall>t. TensorValue (SetInt i) = Some t \<longrightarrow> \<not> dtype_stored t"
  by (simp_all add: attr_defs dtype_stored_def)


text \<open>C16: an attribute set from an \<open>int\<close> by \<open>SetInt\<close> is tagged \<open>INT64\<close> but stored in the 32-bit slice: after
  serialising and reading back, its value is gone, while \<open>SetInt64\<close> survives.\<close>

theorem SetInt_lost_in_roundtrip:
  "map_option (\<lambda>t. GetAttrValue \<lparr>TensorValue = Some (newTensorFromProto (Tensor_ToProto t))\<rparr>) (TensorValue (SetInt i))
     = Some (Int64sValue [])
   \<and> map_option (\<lambda>t. GetAttrValue \<lparr>TensorValue = Some (newTensorFromProto (Tensor_ToProto t))\<rparr>) (TensorValue (SetInt64 i))
     = Some (Int64Value i)"
  by (simp add: attr_defs newTensorFromProto_def Tensor_ToProto_def slice_or_nil_def GetAttrValue_def
      scalar_or_slice_def)

end
