(* ===== verification/Engine_Info.thy ===== *)
theory Engine_Info
  imports Slice_Util
begin

text \<open>
  \<open>pkg/interpreter/graph/engine_info.go\<close> (the parties of a query, their
  endpoints, and which party holds which table) and the table names of
  \<open>pkg/planner/core/rewrite.go\<close> and \<open>database_dialect.go\<close>.
\<close>

section \<open>Tables\<close>

datatype DBType =
  DBTypeUnknown | DBTypeMySQL | DBTypeSQLite | DBTypePostgres | DBTypeCSVDB | DBTypeODPS

definition dbTypeMap :: "(string, DBType) gomap" where
  "dbTypeMap = [(''mysql'', DBTypeMySQL), (''sqlite'', DBTypeSQLite), (''postgresql'', DBTypePostgres),
    (''csvdb'', DBTypeCSVDB), (''odps'', DBTypeODPS)]"

definition dbTypeNameMap :: "DBType \<Rightarrow> string" where
  "dbTypeNameMap t = (case t of
      DBTypeUnknown \<Rightarrow> ''unknown'' | DBTypeMySQL \<Rightarrow> ''mysql'' | DBTypeSQLite \<Rightarrow> ''sqlite''
    | DBTypePostgres \<Rightarrow> ''postgresql'' | DBTypeCSVDB \<Rightarrow> ''csvdb'' | DBTypeODPS \<Rightarrow> ''odps'')"

definition ParseDBType :: "string \<Rightarrow> DBType result" where
  "ParseDBType tp = (case map_of dbTypeMap (ToLower tp) of
      Some v \<Rightarrow> Inr v
    | None \<Rightarrow> Inl (Errorf ''unknown db type: %s''))"

record DbTable =
  dbName :: string
  tableName :: string
  dbType :: DBType

definition DbTable_String :: "DbTable \<Rightarrow> string" where
  "DbTable_String dt =
    (if dbName dt = [] then tableName dt else dbName dt @ ''.'' @ tableName dt)"

definition NewDbTable :: "string \<Rightarrow> string \<Rightarrow> DbTable" where
  "NewDbTable db table = \<lparr>dbName = db, tableName = table, dbType = DBTypeUnknown\<rparr>"

definition NewDbTableFromString :: "string \<Rightarrow> DbTable result" where
  "NewDbTableFromString dbTableName =
    (let ss = Split dbTableName CHR ''.'' in
     if length ss > 2 \<or> length ss < 1 then
       Inl (Errorf ''NewDbTableFromString: invalid dbTableName %v'')
     else if length ss = 1 then Inr \<lparr>dbName = [], tableName = ss ! 0, dbType = DBTypeUnknown\<rparr>
     else Inr \<lparr>dbName = ss ! 0, tableName = ss ! 1, dbType = DBTypeUnknown\<rparr>)"

definition SetDBTypeFromString :: "DbTable \<Rightarrow> string \<Rightarrow> DbTable result" where
  "SetDBTypeFromString dt dbStr =
    (if dbStr \<noteq> [] then
       (case ParseDBType dbStr of
          Inl e \<Rightarrow> Inl (Errorf ''failed to set db type of %s: %v'')
        | Inr ty \<Rightarrow> Inr (dt\<lparr>dbType := ty\<rparr>))
     else Inr dt)"

fun RewriteTableRefs_loop ::
    "(DbTable, DbTable) gomap \<Rightarrow> string list \<Rightarrow> string list \<Rightarrow> DBType \<Rightarrow> (string list \<times> DBType) result" where
  "RewriteTableRefs_loop m [] newTableRefs ty = Inr (newTableRefs, ty)"
| "RewriteTableRefs_loop m (dbTableName # rest) newTableRefs ty =
    bind_r (NewDbTableFromString dbTableName) (\<lambda>ref.
    case map_of m ref of
      None \<Rightarrow> Inl (Errorf ''table %s not found'')
    | Some dbTable \<Rightarrow>
      (let refs = newTableRefs @ [DbTable_String dbTable] in
       if dbType dbTable = DBTypeUnknown then RewriteTableRefs_loop m rest refs ty
       else if ty \<noteq> DBTypeUnknown \<and> dbType dbTable \<noteq> ty then
         Inl (Errorf ''table %s has wrong db type %+v'')
       else RewriteTableRefs_loop m rest refs (dbType dbTable)))"

definition RewriteTableRefsAndGetDBType ::
    "(DbTable, DbTable) gomap \<Rightarrow> string list \<Rightarrow> (string list \<times> DBType) result" where
  "RewriteTableRefsAndGetDBType m tableRefs =
    bind_r (RewriteTableRefs_loop m tableRefs [] DBTypeUnknown) (\<lambda>(refs, ty).
    Inr (refs, if ty = DBTypeUnknown then DBTypeMySQL else ty))"

text \<open>\<open>rewriteDbTableName\<close> visits the rewriting map in its iteration order and replaces the
  schema and table name each time the current name is a source of the map.\<close>

definition rewriteDbTableName :: "(DbTable, DbTable) gomap \<Rightarrow> string \<times> string \<Rightarrow> string \<times> string" where
  "rewriteDbTableName m t = fold (\<lambda>(src, dst) (schema, name).
     if dbName src = schema \<and> tableName src = name then (dbName dst, tableName dst) else (schema, name)) m t"

section \<open>Parties\<close>

record Participant =
  PartyCode :: string
  Endpoints :: "string list"
  Token :: string
  PubKey :: string

record PartyInfo =
  participants :: "Participant list"

definition PartyInfo_GetParties :: "PartyInfo \<Rightarrow> string list" where
  "PartyInfo_GetParties pi = map PartyCode (participants pi)"

primrec find_participant :: "string \<Rightarrow> Participant list \<Rightarrow> Participant result" where
  "find_participant party [] = Inl (Errorf ''no party named %s'')"
| "find_participant party (p # ps) = (if PartyCode p = party then Inr p else find_participant party ps)"

definition GetCredentialByParty :: "PartyInfo \<Rightarrow> string \<Rightarrow> string result" where
  "GetCredentialByParty pi party = bind_r (find_participant party (participants pi)) (\<lambda>p. Inr (Token p))"

definition GetCredentials :: "PartyInfo \<Rightarrow> string list" where
  "GetCredentials pi = map Token (participants pi)"

definition GetUrlByParty :: "PartyInfo \<Rightarrow> string \<Rightarrow> string result" where
  "GetUrlByParty pi party =
    bind_r (find_participant party (participants pi)) (\<lambda>p. at (Endpoints p) 0)"

definition GetUrls :: "PartyInfo \<Rightarrow> string list result" where
  "GetUrls pi = map_r (\<lambda>p. at (Endpoints p) 0) (participants pi)"

record EnginesInfo =
  partyInfo :: PartyInfo
  partyToTables :: "(string, DbTable list) gomap"
  tableToParty :: "(DbTable, string) gomap"
  tableToRefs :: "(DbTable, DbTable) gomap"

definition NewEnginesInfo :: "PartyInfo \<Rightarrow> (string, DbTable list) gomap \<Rightarrow> EnginesInfo" where
  "NewEnginesInfo p party2Tables = \<lparr>partyInfo = p, partyToTables = party2Tables,
    tableToParty = fold (\<lambda>(p, tables) m. fold (\<lambda>dt m. AList.update dt p m) tables m) party2Tables [],
    tableToRefs = []\<rparr>"

definition GetTablesByParty :: "EnginesInfo \<Rightarrow> string \<Rightarrow> DbTable list" where
  "GetTablesByParty h party = lookup_or [] (partyToTables h) party"

definition GetPartyByTable :: "EnginesInfo \<Rightarrow> DbTable \<Rightarrow> string" where
  "GetPartyByTable h t = lookup_or [] (tableToParty h) t"

definition GetRefTableName :: "EnginesInfo \<Rightarrow> string \<Rightarrow> DbTable result" where
  "GetRefTableName h name =
    bind_r (NewDbTableFromString name) (\<lambda>dt.
    Inr (lookup_or \<lparr>dbName = [], tableName = [], dbType = DBTypeUnknown\<rparr> (tableToRefs h) dt))"

definition UpdateTableToRefs :: "EnginesInfo \<Rightarrow> (DbTable, DbTable) gomap \<Rightarrow> EnginesInfo" where
  "UpdateTableToRefs h m =
    h\<lparr>tableToRefs := fold (\<lambda>(table, ref) acc. AList.update table ref acc) m (tableToRefs h)\<rparr>"

section \<open>Properties\<close>

lemma Split_two: "CHR ''.'' \<notin> set a \<Longrightarrow> CHR ''.'' \<notin> set b \<Longrightarrow> Split (a @ CHR ''.'' # b) CHR ''.'' = [a, b]"
  by (simp add: Split_append_sep Split_no_sep)

text \<open>C15: printing a table name and parsing it returns the same database and table names, when neither
  contains a dot.\<close>

theorem db_table_roundtrip:
  assumes "CHR ''.'' \<notin> set (dbName dt)" "CHR ''.'' \<notin> set (tableName dt)"
  shows "NewDbTableFromString (DbTable_String dt) = Inr (dt\<lparr>dbType := DBTypeUnknown\<rparr>)"
  using assms by (auto simp: NewDbTableFromString_def DbTable_String_def Split_two Split_no_sep)

lemma rewriteDbTableName_miss:
  "(\<forall>(src, dst) \<in> set m. (dbName src, tableName src) \<noteq> t) \<Longrightarrow> rewriteDbTableName m t = t"
  unfolding rewriteDbTableName_def by (induction m) (auto split: prod.splits)

text \<open>rewriting a table name with a map in which no target name is also a source name replaces a
  source by its target, independently of the order in which the map is visited.\<close>

theorem rewriteDbTableName_hit:
  assumes "distinct (map (\<lambda>(src, dst). (dbName src, tableName src)) m)"
    and "(src, dst) \<in> set m"
    and "\<forall>(s, d) \<in> set m. \<forall>(s', d') \<in> set m. (dbName s', tableName s') \<noteq> (dbName d, tableName d)"
  shows "rewriteDbTableName m (dbName src, tableName src) = (dbName dst, tableName dst)"
proof -
  obtain xs ys where m: "m = xs @ (src, dst) # ys"
    using assms(2) by (meson split_list)
  have "rewriteDbTableName xs (dbName src, tableName src) = (dbName src, tableName src)"
    using assms(1) unfolding m by (intro rewriteDbTableName_miss) force
  moreover have "rewriteDbTableName ys (dbName dst, tableName dst) = (dbName dst, tableName dst)"
    using assms(3) unfolding m by (intro rewriteDbTableName_miss) force
  ultimately show ?thesis
    unfolding m rewriteDbTableName_def by simp
qed

lemma find_participant_Inr: "find_participant party ps = Inr p \<Longrightarrow> p \<in> set ps \<and> PartyCode p = party"
  by (induction ps) (auto split: if_splits)

lemma find_participant_iff: "(\<exists>p. find_participant party ps = Inr p) \<longleftrightarrow> party \<in> PartyCode ` set ps"
  by (induction ps) auto

lemma lookup_fold_update_const:
  "lookup_or d (fold (\<lambda>dt m. AList.update dt p m) ts m) x = (if x \<in> set ts then p else lookup_or d m x)"
  by (induction ts arbitrary: m) auto

text \<open>A table listed by exactly one party is found at that party.\<close>

lemma GetPartyByTable_unique:
  assumes "(p, ts) \<in> set m" "t \<in> set ts" "\<forall>(p', ts') \<in> set m. t \<in> set ts' \<longrightarrow> p' = p"
  shows "GetPartyByTable (NewEnginesInfo i m) t = p"
proof -
  have "lookup_or d (fold (\<lambda>(p, tables) m. fold (\<lambda>dt m. AList.update dt p m) tables m) m acc) t =
      (if \<exists>(p', ts') \<in> set m. t \<in> set ts' then p else lookup_or d acc t)"
    if "\<forall>(p', ts') \<in> set m. t \<in> set ts' \<longrightarrow> p' = p" for d acc m
    using that by (induction m arbitrary: acc) (auto simp: lookup_fold_update_const)
  then show ?thesis
    using assms by (auto simp: GetPartyByTable_def NewEnginesInfo_def)
qed

theorem db_table_roundtrip_witness:
  "NewDbTableFromString ''db.orders'' = Inr (NewDbTable ''db'' ''orders'')"
  using db_table_roundtrip[of "NewDbTable ''db'' ''orders''"] by (simp add: DbTable_String_def NewDbTable_def)

theorem rewriteDbTableName_hit_witness:
  "rewriteDbTableName [(NewDbTable ''a'' ''x'', NewDbTable ''l'' ''t''), (NewDbTable ''b'' ''y'', NewDbTable ''l'' ''u'')]
    (''a'', ''x'') = (''l'', ''t'')"
  using rewriteDbTableName_hit[of
    "[(NewDbTable ''a'' ''x'', NewDbTable ''l'' ''t''), (NewDbTable ''b'' ''y'', NewDbTable ''l'' ''u'')]"
    "NewDbTable ''a'' ''x''" "NewDbTable ''l'' ''t''"]
  by (simp add: NewDbTable_def)


end
