(* ===== verification/Graph_Builder.thy ===== *)
theory Graph_Builder
  imports Tensor_Node Engine_Info
begin

text \<open>
  \<open>pkg/interpreter/graph/graph_builder.go\<close>: the builder that accumulates the
  tensors and execution nodes of a plan.  Its state is the record
  \<open>GraphBuilder\<close>; each \<open>Add...\<close> method is a state-passing operation.  A tensor
  pointer is its position in \<open>Tensors\<close>.

  The main results are in \<open>Builder_Security\<close>: operations only append to the
  plan, and no sequence of them reveals a tensor to a party that may not see it.
\<close>

section \<open>Builder state\<close>

record PipelineExecNode =
  pe_Batched :: bool
  ExecutionNodes :: "ExecutionNode list"

record GraphBuilder =
  gb_partyInfo :: PartyInfo
  PipelineExeNodes :: "PipelineExecNode list"
  Tensors :: "Tensor list"
  tensorNum :: nat
  OutputName :: "string list"
  preOpStreamingType :: StreamingOpType
  batched :: bool

type_synonym 'a build = "(GraphBuilder, 'a) op"

definition NewGraphBuilder :: "PartyInfo \<Rightarrow> bool \<Rightarrow> GraphBuilder" where
  "NewGraphBuilder info b = \<lparr>gb_partyInfo = info, PipelineExeNodes = [], Tensors = [], tensorNum = 0,
    OutputName = [], preOpStreamingType = SinkOp, batched = b\<rparr>"

text \<open>Reading and assigning through a tensor pointer.\<close>

definition tensor :: "GraphBuilder \<Rightarrow> tref \<Rightarrow> Tensor" where
  "tensor plan r = (if r < length (Tensors plan) then Tensors plan ! r else Tensor_zero)"

definition set_tensor :: "tref \<Rightarrow> (Tensor \<Rightarrow> Tensor) \<Rightarrow> GraphBuilder \<Rightarrow> GraphBuilder" where
  "set_tensor r f plan = plan\<lparr>Tensors := (Tensors plan)[r := f (tensor plan r)]\<rparr>"

definition read :: "tref \<Rightarrow> Tensor build" where
  "read r = gets_s (\<lambda>plan. tensor plan r)"

definition GetParties :: "string list build" where
  "GetParties = gets_s (\<lambda>plan. PartyInfo_GetParties (gb_partyInfo plan))"

definition AddTensor :: "string \<Rightarrow> tref build" where
  "AddTensor name = (\<lambda>plan. Inr (length (Tensors plan),
    plan\<lparr>Tensors := Tensors plan @ [NewTensor (int (tensorNum plan)) name],
      tensorNum := tensorNum plan + 1\<rparr>))"

lemma AddTensor_app [code]:
  "AddTensor name plan = Inr (length (Tensors plan),
    plan\<lparr>Tensors := Tensors plan @ [NewTensor (int (tensorNum plan)) name], tensorNum := tensorNum plan + 1\<rparr>)"
  by (simp add: AddTensor_def)

definition AddTensorAs :: "tref \<Rightarrow> tref build" where
  "AddTensorAs ref =
    bind_s (read ref) (\<lambda>it.
    bind_s (AddTensor (t_Name it)) (\<lambda>t.
    bind_s (modify_s (set_tensor t (\<lambda>x. x\<lparr>t_DType := t_DType it, t_Option := t_Option it,
      t_status := t_status it, t_OwnerPartyCode := t_OwnerPartyCode it,
      t_SecretStringOwners := t_SecretStringOwners it, t_CC := Clone (t_CC it),
      t_SkipDTypeCheck := t_SkipDTypeCheck it, t_IsConstScalar := t_IsConstScalar it\<rparr>))) (\<lambda>_.
    return_s t)))"

text \<open>\<open>out := plan.AddTensorAs(in)\<close> followed by assignments to fields of \<open>out\<close>.\<close>

definition AddTensorAs_set :: "tref \<Rightarrow> (Tensor \<Rightarrow> Tensor) \<Rightarrow> tref build" where
  "AddTensorAs_set ref f =
    bind_s (AddTensorAs ref) (\<lambda>t. bind_s (modify_s (set_tensor t f)) (\<lambda>_. return_s t))"

definition AddColumn :: "string \<Rightarrow> TensorStatus \<Rightarrow> TensorOptions \<Rightarrow> PrimitiveDataType \<Rightarrow> tref build" where
  "AddColumn name status option dType =
    bind_s (AddTensor name) (\<lambda>t.
    bind_s (modify_s (set_tensor t (\<lambda>x. x\<lparr>t_status := status, t_Option := option, t_DType := dType\<rparr>))) (\<lambda>_.
    return_s t))"

definition AddColumn_set ::
    "string \<Rightarrow> TensorStatus \<Rightarrow> TensorOptions \<Rightarrow> PrimitiveDataType \<Rightarrow> (Tensor \<Rightarrow> Tensor) \<Rightarrow> tref build" where
  "AddColumn_set name status option dType f =
    bind_s (AddColumn name status option dType) (\<lambda>t. bind_s (modify_s (set_tensor t f)) (\<lambda>_. return_s t))"

section \<open>Status constraints\<close>

text \<open>The loop over the formal parameters; the map from constraint name to the status it was bound
  to is threaded from the input parameters to the output parameters.\<close>

primrec checkParamStatusConstraintInternal ::
    "FormalParameter list \<Rightarrow> ('a \<Rightarrow> TensorStatus) \<Rightarrow> (string, 'a list) gomap \<Rightarrow>
     (string, TensorStatus list) gomap \<Rightarrow> (string, TensorStatus) gomap \<Rightarrow>
     (string, TensorStatus) gomap result" where
  "checkParamStatusConstraintInternal [] status args paramStatusConstraint bound = Inr bound"
| "checkParamStatusConstraintInternal (param # params) status args paramStatusConstraint bound =
    (case map_of args (ParamName param) of
       None \<Rightarrow> Inl (Errorf ''can't find param:%v in arguments'')
     | Some arguments \<Rightarrow>
       if length arguments = 0 \<and> fp_Option param = OPTIONAL then
         checkParamStatusConstraintInternal params status args paramStatusConstraint bound
       else if length arguments = 0 then
         Inl (Errorf ''param:%v must contains at least one argument'')
       else
         (let actual = status (arguments ! 0); cname = ParameterStatusConstraintName param in
          case map_of bound cname of
            None \<Rightarrow>
              (case map_of paramStatusConstraint cname of
                 None \<Rightarrow> Inl (Errorf ''CheckParamStatusConstraint: can't find constraint for param:%v'')
               | Some statusConstraint \<Rightarrow>
                 if \<not> List.member statusConstraint actual then
                   Inl (Errorf ''CheckParamStatusConstraint: invalid status for param[%v]'')
                 else checkParamStatusConstraintInternal params status args paramStatusConstraint
                        (AList.update cname actual bound))
          | Some expectedStatus \<Rightarrow>
              if actual \<noteq> expectedStatus then
                Inl (Errorf ''param status mismatch, actual:%v, expected:%v'')
              else checkParamStatusConstraintInternal params status args paramStatusConstraint bound))"

definition CheckParamStatusConstraint ::
    "('a \<Rightarrow> TensorStatus) \<Rightarrow> OperatorDef \<Rightarrow> (string, 'a list) gomap \<Rightarrow> (string, 'a list) gomap \<Rightarrow> unit result" where
  "CheckParamStatusConstraint status op inputs outputs =
    (if length (InputParams op) \<noteq> length inputs then
       Inl (Errorf ''CheckParamStatusConstraint: op %v len(opDef.InputParams):%v != len(inputs):%v'')
     else if length (OutputParams op) \<noteq> length outputs then
       Inl (Errorf ''CheckParamStatusConstraint: op %v len(opDef.OutputParams):%v != len(outputs):%v'')
     else
       wrap_r ''opName %s %v''
         (bind_r (checkParamStatusConstraintInternal (InputParams op) status inputs
            (ParamStatusConstraints op) []) (\<lambda>bound.
          bind_r (checkParamStatusConstraintInternal (OutputParams op) status outputs
            (ParamStatusConstraints op) bound) (\<lambda>_.
          Inr ()))))"

section \<open>Adding a node\<close>

definition new_node ::
    "string \<Rightarrow> string \<Rightarrow> (string, tref list) gomap \<Rightarrow> (string, tref list) gomap \<Rightarrow>
     (string, Attribute) gomap \<Rightarrow> string list \<Rightarrow> OperatorDef \<Rightarrow> ExecutionNode" where
  "new_node name opType inputs outputs attributes partyCodes opDef = \<lparr>
    n_ID = 0, n_Name = name, n_OpType = opType, n_Inputs = inputs, n_Outputs = outputs,
    n_Attributes = fold (\<lambda>(k, defaultAttr) attrs.
        if map_of attrs k = None then
          AList.update k (case defaultAttr of AttributeValue_T pb \<Rightarrow>
            \<lparr>TensorValue = Some (newTensorFromProto pb)\<rparr>) attrs
        else attrs) (GetDefaultAttribute opDef) attributes,
    n_Edges = [], n_Parties = partyCodes\<rparr>"

text \<open>The pipelines after opening a new one where the code does: when there is none, or in batched
  mode when the streaming type changes.\<close>

definition open_pipeline :: "OperatorDef \<Rightarrow> GraphBuilder \<Rightarrow> PipelineExecNode list" where
  "open_pipeline opDef plan =
    (if length (PipelineExeNodes plan) = 0 \<or>
        (batched plan \<and> length (ExecutionNodes (last (PipelineExeNodes plan))) > 0
         \<and> preOpStreamingType plan \<noteq> GetStreamingType opDef)
     then PipelineExeNodes plan @ [\<lparr>pe_Batched = False, ExecutionNodes = []\<rparr>]
     else PipelineExeNodes plan)"

definition append_node :: "OperatorDef \<Rightarrow> ExecutionNode \<Rightarrow> GraphBuilder \<Rightarrow> GraphBuilder" where
  "append_node opDef node plan =
    (let pipes = open_pipeline opDef plan;
         cur = last pipes;
         nodes = ExecutionNodes cur @ [node];
         cur' = \<lparr>pe_Batched = (if batched plan \<and> length nodes = 1
              then GetStreamingType opDef = StreamingOp else pe_Batched cur), ExecutionNodes = nodes\<rparr>
     in plan\<lparr>PipelineExeNodes := butlast pipes @ [cur'],
          preOpStreamingType := GetStreamingType opDef\<rparr>)"

definition AddExecutionNode ::
    "string \<Rightarrow> string \<Rightarrow> (string, tref list) gomap \<Rightarrow> (string, tref list) gomap \<Rightarrow>
     (string, Attribute) gomap \<Rightarrow> string list \<Rightarrow> ExecutionNode build" where
  "AddExecutionNode name opType inputs outputs attributes partyCodes =
    bind_s (lift_r (wrap_r ''addExecutionNode: %v'' (FindOpDef opType))) (\<lambda>opDef.
    bind_s get_s (\<lambda>plan.
    bind_s (lift_r (wrap_r ''addExecutionNode: %v''
      (CheckParamStatusConstraint (\<lambda>t. t_status (tensor plan t)) opDef inputs outputs))) (\<lambda>_.
    let node = new_node name opType inputs outputs attributes partyCodes opDef in
    bind_s (modify_s (append_node opDef node)) (\<lambda>_.
    return_s node))))"

text \<open>\<open>if _, err := plan.AddExecutionNode(...); err != nil \{ return nil, err \}; return out, nil\<close>\<close>

definition returning :: "'a \<Rightarrow> 'b build \<Rightarrow> 'a build" where
  "returning a m = bind_s m (\<lambda>_. return_s a)"

section \<open>The status check\<close>

text \<open>What it means for one parameter to be satisfied by the arguments under an assignment \<open>f\<close> of a
  status to each constraint name.  Only the first argument of a parameter is looked at.\<close>

definition param_sat ::
    "('a \<Rightarrow> TensorStatus) \<Rightarrow> (string, 'a list) gomap \<Rightarrow> (string, TensorStatus list) gomap \<Rightarrow>
     (string \<rightharpoonup> TensorStatus) \<Rightarrow> FormalParameter \<Rightarrow> bool" where
  "param_sat status args constraints f param \<longleftrightarrow>
    (\<exists>arguments. map_of args (ParamName param) = Some arguments \<and>
      (arguments = [] \<and> fp_Option param = OPTIONAL \<or>
       arguments \<noteq> [] \<and> f (ParameterStatusConstraintName param) = Some (status (hd arguments)) \<and>
       (\<exists>allowed. map_of constraints (ParameterStatusConstraintName param) = Some allowed
          \<and> status (hd arguments) \<in> set allowed)))"

definition bound_ok :: "(string, TensorStatus list) gomap \<Rightarrow> (string, TensorStatus) gomap \<Rightarrow> bool" where
  "bound_ok constraints bound \<longleftrightarrow>
    (\<forall>c st. map_of bound c = Some st \<longrightarrow> (\<exists>allowed. map_of constraints c = Some allowed \<and> st \<in> set allowed))"

lemma param_sat_mono: "param_sat status args cs f param \<Longrightarrow> f \<subseteq>\<^sub>m g \<Longrightarrow> param_sat status args cs g param"
  by (force simp: param_sat_def map_le_def dom_def)

lemma bound_ok_update:
  "bound_ok cs b \<Longrightarrow> map_of cs c = Some allowed \<Longrightarrow> st \<in> set allowed \<Longrightarrow> bound_ok cs (AList.update c st b)"
  by (auto simp: bound_ok_def update_conv')

lemma map_le_SomeD: "f \<subseteq>\<^sub>m g \<Longrightarrow> f c = Some v \<Longrightarrow> g c = Some v"
  by (metis domI map_le_def)

lemma map_le_of_upd:
  assumes "m c = None" "m(c \<mapsto> v) \<subseteq>\<^sub>m m'"
  shows "m \<subseteq>\<^sub>m m'"
proof (unfold map_le_def, intro ballI)
  fix a assume a: "a \<in> dom m"
  with assms(1) have "a \<noteq> c" by auto
  moreover have "(m(c \<mapsto> v)) a = m' a"
    using bspec[OF assms(2)[unfolded map_le_def], of a] a by simp
  ultimately show "m a = m' a" by simp
qed

lemma check_internal_sound:
  assumes "checkParamStatusConstraintInternal params status args cs b = Inr b'" "bound_ok cs b"
  shows "map_of b \<subseteq>\<^sub>m map_of b' \<and> bound_ok cs b' \<and> (\<forall>param \<in> set params. param_sat status args cs (map_of b') param)"
  using assms
proof (induction params arbitrary: b)
  case (Cons param params)
  obtain arguments where args: "map_of args (ParamName param) = Some arguments"
    using Cons.prems(1) by (auto split: option.splits)
  let ?c = "ParameterStatusConstraintName param"
  show ?case
  proof (cases "arguments = []")
    case True
    then have "fp_Option param = OPTIONAL"
      and "checkParamStatusConstraintInternal params status args cs b = Inr b'"
      using Cons.prems(1) args by (auto split: if_splits)
    with Cons.IH[OF this(2) Cons.prems(2)] show ?thesis
      using args True by (auto simp: param_sat_def)
  next
    case False
    then have hd: "arguments ! 0 = hd arguments" by (simp add: hd_conv_nth)
    show ?thesis
    proof (cases "map_of b ?c")
      case None
      with Cons.prems(1) args False obtain allowed where
          cs: "map_of cs ?c = Some allowed" and mem: "status (hd arguments) \<in> set allowed"
          and rest: "checkParamStatusConstraintInternal params status args cs
            (AList.update ?c (status (hd arguments)) b) = Inr b'"
        by (auto simp: hd Let_def split: option.splits if_splits)
      from Cons.IH[OF rest bound_ok_update[OF Cons.prems(2) cs mem]]
      have IH: "map_of (AList.update ?c (status (hd arguments)) b) \<subseteq>\<^sub>m map_of b'" "bound_ok cs b'"
        "\<forall>param \<in> set params. param_sat status args cs (map_of b') param" by auto
      have "map_of b \<subseteq>\<^sub>m map_of b'"
        by (rule map_le_of_upd[OF None IH(1)[unfolded update_conv']])
      moreover have "map_of b' ?c = Some (status (hd arguments))"
        using IH(1) by (rule map_le_SomeD) (simp add: update_conv')
      ultimately show ?thesis
        using IH(2,3) args False cs mem by (auto simp: param_sat_def)
    next
      case (Some st)
      with Cons.prems(1) args False have st: "status (hd arguments) = st"
          and rest: "checkParamStatusConstraintInternal params status args cs b = Inr b'"
        by (auto simp: hd Let_def split: if_splits)
      have "map_of b' ?c = Some st"
        by (rule map_le_SomeD[OF conjunct1[OF Cons.IH[OF rest Cons.prems(2)]] Some])
      with Cons.IH[OF rest Cons.prems(2)] Cons.prems(2) Some args False st show ?thesis
        by (auto simp: param_sat_def bound_ok_def)
    qed
  qed
qed simp

lemma check_internal_complete:
  assumes "\<forall>param \<in> set params. param_sat status args cs f param" "map_of b \<subseteq>\<^sub>m f"
  shows "\<exists>b'. checkParamStatusConstraintInternal params status args cs b = Inr b' \<and> map_of b' \<subseteq>\<^sub>m f"
  using assms
proof (induction params arbitrary: b)
  case (Cons param params)
  let ?c = "ParameterStatusConstraintName param"
  from Cons.prems(1) obtain arguments where args: "map_of args (ParamName param) = Some arguments"
    and sat: "arguments = [] \<and> fp_Option param = OPTIONAL \<or> arguments \<noteq> [] \<and> f ?c = Some (status (hd arguments))
      \<and> (\<exists>allowed. map_of cs ?c = Some allowed \<and> status (hd arguments) \<in> set allowed)"
    by (auto simp: param_sat_def)
  from Cons.prems(1) have prems: "\<forall>param \<in> set params. param_sat status args cs f param" by simp
  show ?case
  proof (cases "arguments = []")
    case True
    with sat args Cons.IH[OF prems Cons.prems(2)] show ?thesis by simp
  next
    case False
    with sat obtain allowed where fc: "f ?c = Some (status (hd arguments))"
      and cs: "map_of cs ?c = Some allowed" "status (hd arguments) \<in> set allowed" by auto
    have hd: "arguments ! 0 = hd arguments" using False by (simp add: hd_conv_nth)
    show ?thesis
    proof (cases "map_of b ?c")
      case None
      have "map_of (AList.update ?c (status (hd arguments)) b) \<subseteq>\<^sub>m f"
        using Cons.prems(2) fc by (auto simp: map_le_def update_conv')
      with Cons.IH[OF prems this] None args False cs hd show ?thesis
        by simp
    next
      case (Some st)
      with map_le_SomeD[OF Cons.prems(2) Some] fc have "st = status (hd arguments)" by simp
      with Cons.IH[OF prems Cons.prems(2)] Some args False hd show ?thesis
        by simp
    qed
  qed
qed auto

lemma CheckParamStatusConstraint_iff:
  "CheckParamStatusConstraint status op inputs outputs = Inr () \<longleftrightarrow>
    length inputs = length (InputParams op) \<and> length outputs = length (OutputParams op) \<and>
    (\<exists>f. (\<forall>param \<in> set (InputParams op). param_sat status inputs (ParamStatusConstraints op) f param)
       \<and> (\<forall>param \<in> set (OutputParams op). param_sat status outputs (ParamStatusConstraints op) f param))"
    (is "?ok \<longleftrightarrow> ?len1 \<and> ?len2 \<and> (\<exists>f. ?in f \<and> ?out f)")
proof (intro iffI)
  assume ?ok
  then obtain b1 b2 where len: ?len1 ?len2
    and b1: "checkParamStatusConstraintInternal (InputParams op) status inputs (ParamStatusConstraints op) [] = Inr b1"
    and b2: "checkParamStatusConstraintInternal (OutputParams op) status outputs (ParamStatusConstraints op) b1 = Inr b2"
    by (auto simp: CheckParamStatusConstraint_def bind_r_Inr split: if_splits)
  have s1: "bound_ok (ParamStatusConstraints op) b1" "?in (map_of b1)"
    using check_internal_sound[OF b1] by (auto simp: bound_ok_def)
  have s2: "map_of b1 \<subseteq>\<^sub>m map_of b2" "?out (map_of b2)"
    using check_internal_sound[OF b2 s1(1)] by auto
  from s1(2) s2(1) have "?in (map_of b2)" using param_sat_mono by blast
  with s2(2) len show "?len1 \<and> ?len2 \<and> (\<exists>f. ?in f \<and> ?out f)" by blast
next
  assume "?len1 \<and> ?len2 \<and> (\<exists>f. ?in f \<and> ?out f)"
  then obtain f where len: ?len1 ?len2 and f: "?in f" "?out f" by blast
  obtain b1 where b1: "checkParamStatusConstraintInternal (InputParams op) status inputs (ParamStatusConstraints op) [] = Inr b1"
      "map_of b1 \<subseteq>\<^sub>m f"
    using check_internal_complete[OF f(1), of "[]"] by auto
  obtain b2 where "checkParamStatusConstraintInternal (OutputParams op) status outputs (ParamStatusConstraints op) b1 = Inr b2"
    using check_internal_complete[OF f(2) b1(2)] by auto
  with b1 len show ?ok
    by (simp add: CheckParamStatusConstraint_def)
qed

text \<open>C5: the status check of an operator call accepts exactly the calls for which some assignment of one
  status to each constraint name satisfies every input and output parameter: the parameter is present,
  optional parameters may be empty, and the first argument has the assigned status, which the
  signature allows.\<close>

theorem status_check_exact:
  "CheckParamStatusConstraint status op inputs outputs = Inr () \<longleftrightarrow>
    length inputs = length (InputParams op) \<and> length outputs = length (OutputParams op) \<and>
    (\<exists>f. (\<forall>param \<in> set (InputParams op). param_sat status inputs (ParamStatusConstraints op) f param)
       \<and> (\<forall>param \<in> set (OutputParams op). param_sat status outputs (ParamStatusConstraints op) f param))"
  by (rule CheckParamStatusConstraint_iff)

lemmas copy_eval = opDef_Copy_def op_builder_defs statusPrivate_def

theorem status_check_exact_witness:
  "CheckParamStatusConstraint (\<lambda>s. s) opDef_Copy [(''In'', [TENSORSTATUS_PRIVATE])] [(''Out'', [TENSORSTATUS_PRIVATE])]
    = Inr ()
   \<and> CheckParamStatusConstraint (\<lambda>s. s) opDef_Copy [(''In'', [TENSORSTATUS_SECRET])] [(''Out'', [TENSORSTATUS_SECRET])]
    \<noteq> Inr ()"
  unfolding status_check_exact
  by (auto simp: copy_eval param_sat_def intro!: exI[of _ "\<lambda>_. Some TENSORSTATUS_PRIVATE"])



end
