(* ===== verification/Builder_Nodes.thy ===== *)
theory Builder_Nodes
  imports Graph_Builder
begin

text \<open>
  The node constructors of \<open>graph_builder.go\<close>, one operation per \<open>Add...Node\<close>
  method: its checks in the order of the code, the output tensors it derives
  from its inputs, and the execution node it appends.
\<close>

section \<open>Sources and sinks\<close>

definition AddRunSQLNode :: "string \<Rightarrow> tref list \<Rightarrow> string \<Rightarrow> string list \<Rightarrow> string \<Rightarrow> unit build" where
  "AddRunSQLNode name output sql tableRefs partyCode =
    returning () (AddExecutionNode name OpNameRunSQL [] [(''Out'', output)]
      [(SqlAttr, SetString sql), (TableRefsAttr, SetStrings tableRefs)] [partyCode])"

definition AddPublishNode :: "string \<Rightarrow> tref list \<Rightarrow> tref list \<Rightarrow> string list \<Rightarrow> unit build" where
  "AddPublishNode name input output partyCodes =
    returning () (AddExecutionNode name OpNamePublish [(''In'', input)] [(''Out'', output)] [] partyCodes)"

record InsertTableOption =
  opt_TableName :: string
  opt_Columns :: "string list"

definition AddInsertTableNode ::
    "string \<Rightarrow> tref list \<Rightarrow> tref list \<Rightarrow> string \<Rightarrow> InsertTableOption \<Rightarrow> unit build" where
  "AddInsertTableNode name input output partyCode opt =
    returning () (AddExecutionNode name OpNameInsertTable [(''In'', input)] [(''Out'', output)]
      [(TableNameAttr, SetString (opt_TableName opt)), (ColumnNamesAttr, SetStrings (opt_Columns opt))]
      [partyCode])"

text \<open>The fields of \<open>ast.SelectIntoOption\<close> and \<open>ast.PartyFile\<close> that are read; \<open>Enclosed\<close> is a byte.\<close>

record SelectIntoOption =
  FieldsTerminated :: string
  Enclosed :: nat
  OptEnclosed :: bool
  LinesTerminated :: string

record PartyFile =
  pf_PartyCode :: string
  pf_FileName :: string

definition AddDumpFileNodeForParty ::
    "string \<Rightarrow> tref list \<Rightarrow> tref list \<Rightarrow> SelectIntoOption \<Rightarrow> PartyFile \<Rightarrow> unit build" where
  "AddDumpFileNodeForParty name ins outs intoOpt partyFile =
    bind_s (lift_r (if Enclosed intoOpt = 0 then Inr 0
       else if Enclosed intoOpt \<noteq> 34 then Inl (Errorf ''AddDumpFileNode: only support , not support: %v'')
       else if OptEnclosed intoOpt then Inr 1
       else Inr 2)) (\<lambda>qs.
    returning () (wrap_s ''AddDumpFileNode: %v''
      (AddExecutionNode name OpNameDumpFile [(''In'', ins)] [(''Out'', outs)]
        [(FilePathAttr, SetString (pf_FileName partyFile)),
         (FieldDeliminatorAttr, SetString (FieldsTerminated intoOpt)),
         (QuotingStyleAttr, SetInt64 qs),
         (LineTerminatorAttr, SetString (LinesTerminated intoOpt))]
        [pf_PartyCode partyFile])))"

section \<open>Changing the status of a tensor\<close>

definition AddCopyNode :: "string \<Rightarrow> tref \<Rightarrow> string \<Rightarrow> string \<Rightarrow> tref build" where
  "AddCopyNode name ref inputPartyCode outputPartyCode =
    bind_s (read ref) (\<lambda>input.
    bind_s (guard_s (IsVisibleFor (t_CC input) outputPartyCode)
      (Errorf ''fail to copy node, in tensor (%+v) is not visible for %s'')) (\<lambda>_.
    bind_s (AddTensorAs_set ref (\<lambda>out. out\<lparr>t_OwnerPartyCode := outputPartyCode\<rparr>)) (\<lambda>out.
    returning out (wrap_s ''fail to add copy node: %v''
      (AddExecutionNode name OpNameCopy [(''In'', [ref])] [(''Out'', [out])]
        [(InputPartyCodesAttr, SetString inputPartyCode), (OutputPartyCodesAttr, SetString outputPartyCode)]
        [inputPartyCode, outputPartyCode])))))"

definition AddMakePrivateNode :: "string \<Rightarrow> tref \<Rightarrow> string \<Rightarrow> string list \<Rightarrow> tref build" where
  "AddMakePrivateNode name ref revealTo partyCodes =
    bind_s (read ref) (\<lambda>input.
    bind_s (guard_s (IsVisibleFor (t_CC input) revealTo)
      (Errorf ''fail to check ccl: input %+v is not visible for %s when making private'')) (\<lambda>_.
    bind_s (AddTensorAs_set ref (\<lambda>output. output\<lparr>t_status := TENSORSTATUS_PRIVATE,
      t_OwnerPartyCode := revealTo, t_SecretStringOwners := []\<rparr>)) (\<lambda>output.
    returning output (AddExecutionNode name OpNameMakePrivate [(''In'', [ref])] [(''Out'', [output])]
      [(RevealToAttr, SetString revealTo)] partyCodes))))"

definition AddMakeShareNode :: "string \<Rightarrow> tref \<Rightarrow> string list \<Rightarrow> tref build" where
  "AddMakeShareNode name ref partyCodes =
    bind_s (read ref) (\<lambda>input.
    bind_s (AddTensorAs_set ref (\<lambda>output. output\<lparr>t_status := TENSORSTATUS_SECRET, t_OwnerPartyCode := [],
      t_SecretStringOwners := (if t_DType input = STRING then [t_OwnerPartyCode input]
        else t_SecretStringOwners output)\<rparr>)) (\<lambda>output.
    returning output (AddExecutionNode name OpNameMakeShare [(''In'', [ref])] [(''Out'', [output])]
      [] partyCodes)))"

definition AddMakePublicNode :: "string \<Rightarrow> tref \<Rightarrow> string list \<Rightarrow> tref build" where
  "AddMakePublicNode name ref partyCodes =
    bind_s (read ref) (\<lambda>input.
    bind_s (guard_s (list_all (IsVisibleFor (t_CC input)) partyCodes)
      (Errorf ''fail to check ccl: input %+v is not visible for %s when making public'')) (\<lambda>_.
    bind_s (AddTensorAs_set ref (\<lambda>output. output\<lparr>t_status := TENSORSTATUS_PUBLIC\<rparr>)) (\<lambda>output.
    returning output (AddExecutionNode name OpNameMakePublic [(''In'', [ref])] [(''Out'', [output])]
      [] partyCodes))))"

section \<open>Joins and filters\<close>

record JoinNodeArgs =
  ja_PartyCodes :: "string list"
  ja_JoinType :: int
  ja_PsiAlg :: int
  HasLeftResult :: bool
  HasRightResult :: bool

definition join_index :: "bool \<Rightarrow> tref list \<Rightarrow> string list \<Rightarrow> nat \<Rightarrow> tref option build" where
  "join_index hasResult side partyCodes k =
    (if hasResult then
       bind_s (lift_r (at side 0)) (\<lambda>t0.
       bind_s (lift_r (at partyCodes k)) (\<lambda>party.
       bind_s (AddTensorAs_set t0 (\<lambda>o'. o'\<lparr>t_DType := INT64, t_status := TENSORSTATUS_PRIVATE,
         t_OwnerPartyCode := party\<rparr>)) (\<lambda>out.
       return_s (Some out))))
     else return_s None)"

definition AddJoinNode ::
    "string \<Rightarrow> tref list \<Rightarrow> tref list \<Rightarrow> JoinNodeArgs \<Rightarrow> (tref option \<times> tref option) build" where
  "AddJoinNode name left right joinArgs =
    bind_s (join_index (HasLeftResult joinArgs) left (ja_PartyCodes joinArgs) 0) (\<lambda>leftOutput.
    bind_s (join_index (HasRightResult joinArgs) right (ja_PartyCodes joinArgs) 1) (\<lambda>rightOutput.
    returning (leftOutput, rightOutput)
      (AddExecutionNode name OpNameJoin [(''Left'', left), (''Right'', right)]
        [(''LeftJoinIndex'', case leftOutput of None \<Rightarrow> [] | Some t \<Rightarrow> [t]),
         (''RightJoinIndex'', case rightOutput of None \<Rightarrow> [] | Some t \<Rightarrow> [t])]
        [(InputPartyCodesAttr, SetStrings (ja_PartyCodes joinArgs)),
         (JoinTypeAttr, SetInt64 (ja_JoinType joinArgs)), (PsiAlgorithmAttr, SetInt64 (ja_PsiAlg joinArgs))]
        (ja_PartyCodes joinArgs))))"

definition AddSecretJoinNode ::
    "string \<Rightarrow> tref list \<Rightarrow> tref list \<Rightarrow> tref list \<Rightarrow> tref list \<Rightarrow> string list \<Rightarrow> (tref list \<times> tref list) build" where
  "AddSecretJoinNode name leftKeys rightKeys leftPayloads rightPayloads partyCodes =
    bind_s (map_s AddTensorAs leftPayloads) (\<lambda>leftOutput.
    bind_s (map_s AddTensorAs rightPayloads) (\<lambda>rightOutput.
    returning (leftOutput, rightOutput)
      (AddExecutionNode name OpNameSecretJoin
        [(''LeftKey'', leftKeys), (''RightKey'', rightKeys), (''Left'', leftPayloads), (''Right'', rightPayloads)]
        [(''LeftOutput'', leftOutput), (''RightOutput'', rightOutput)] [] partyCodes)))"

definition AddFilterByIndexNode :: "string \<Rightarrow> tref \<Rightarrow> tref list \<Rightarrow> string \<Rightarrow> tref list build" where
  "AddFilterByIndexNode name flt ts partyCode =
    bind_s (read flt) (\<lambda>f.
    bind_s (guard_s (IsVisibleFor (t_CC f) partyCode)
      (Errorf ''failed to check filter ccl, filter is not visible for %s'')) (\<lambda>_.
    bind_s (map_s (\<lambda>ref. bind_s (read ref) (\<lambda>t.
        bind_s (guard_s (t_OwnerPartyCode t = partyCode)
          (Errorf ''failed to check tensor owner party code, tensor %+v is not in %s'')) (\<lambda>_.
        AddTensorAs_set ref (\<lambda>out. out\<lparr>t_OwnerPartyCode := partyCode\<rparr>)))) ts) (\<lambda>outputs.
    returning outputs (AddExecutionNode name OpNameFilterByIndex
      [(''RowsIndexFilter'', [flt]), (''Data'', ts)] [(''Out'', outputs)] [] [partyCode]))))"

definition strTypeUnsupportedOpM :: "string list" where
  "strTypeUnsupportedOpM = [OpNameLess, OpNameLessEqual, OpNameGreater, OpNameGreaterEqual, OpNameAdd,
    OpNameMinus, OpNameMul, OpNameDiv, OpNameIntDiv, OpNameMod]"

definition CheckBinaryOpInputType :: "string \<Rightarrow> Tensor \<Rightarrow> Tensor \<Rightarrow> unit result" where
  "CheckBinaryOpInputType opType left right =
    (if (opType = OpNameIntDiv \<or> opType = OpNameMod) \<and>
        ((t_DType left \<noteq> INT64 \<and> t_DType left \<noteq> DATETIME \<and> t_DType left \<noteq> TIMESTAMP) \<or>
         t_DType right \<noteq> INT64)
     then Inl (Errorf ''op %v requires both left and right operands be int64'')
     else if opType \<in> set strTypeUnsupportedOpM \<and> (t_DType left = STRING \<or> t_DType right = STRING)
     then Inl (Errorf ''op %v doesn't support input type %v'')
     else Inr ())"

definition AddFilterNode :: "string \<Rightarrow> tref list \<Rightarrow> tref \<Rightarrow> string list \<Rightarrow> tref list build" where
  "AddFilterNode name input flt partyCodes =
    bind_s (map_s AddTensorAs input) (\<lambda>output.
    returning output (wrap_s ''addFilterNode: %v''
      (AddExecutionNode name OpNameFilter [(''Filter'', [flt]), (''In'', input)] [(''Out'', output)] []
        partyCodes)))"

section \<open>Scalar functions\<close>

text \<open>The loop of \<open>AddVariadicCompareNode\<close> computes the output's control list and data type.\<close>

definition variadic_compare_step ::
    "bool \<Rightarrow> Tensor \<Rightarrow> CCL \<times> PrimitiveDataType \<Rightarrow> (CCL \<times> PrimitiveDataType) result" where
  "variadic_compare_step isFirstTensorTimestamp t st =
    (if \<not> IsNumericDtype (t_DType t) \<and> \<not> IsTimeType (t_DType t) then
       Inl (Errorf ''AddVariadicCompareNode: unsupported dtype %v, only support numeric types or timestamp'')
     else if (isFirstTensorTimestamp \<and> IsNumericDtype (t_DType t))
          \<or> (\<not> isFirstTensorTimestamp \<and> IsTimeType (t_DType t)) then
       Inl (Errorf ''AddVariadicCompareNode: timestamp and numeric type cannot be mixed'')
     else
       (let cc = UpdateMoreRestrictedCCLFrom (fst st) (t_CC t) in
        if \<not> isFirstTensorTimestamp then
          bind_r (wrap_r ''AddVariadicCompareNode: %v'' (GetWiderType (t_DType t) (snd st))) (\<lambda>dType.
          Inr (cc, dType))
        else Inr (cc, snd st)))"

definition AddVariadicCompareNode :: "string \<Rightarrow> string \<Rightarrow> tref list \<Rightarrow> string list \<Rightarrow> tref build" where
  "AddVariadicCompareNode name opType inputs parties =
    bind_s (lift_r (at inputs 0)) (\<lambda>ref0.
    bind_s get_s (\<lambda>plan.
    let t0 = tensor plan ref0 in
    bind_s (lift_r (fold_r (variadic_compare_step (IsTimeType (t_DType t0))) (map (tensor plan) inputs)
      (Clone (t_CC t0), t_DType t0))) (\<lambda>(cc, dType).
    bind_s (AddTensorAs_set ref0 (\<lambda>output. output\<lparr>t_SkipDTypeCheck := True, t_CC := cc, t_DType := dType\<rparr>))
      (\<lambda>output.
    returning output (wrap_s ''AddVariadicCompareNode: %v''
      (AddExecutionNode name opType [(''In'', inputs)] [(''Out'', [output])] [] parties))))))"

definition constant_attr :: "Datum \<Rightarrow> (PrimitiveDataType \<times> Attribute) result" where
  "constant_attr value = (case value of
      KindFloat32 v \<Rightarrow> Inr (FLOAT32, SetFloat v)
    | KindFloat64 v \<Rightarrow> Inr (FLOAT64, SetDouble v)
    | KindInt64 v \<Rightarrow> Inr (INT64, SetInt64 v)
    | KindMysqlDecimal r \<Rightarrow>
        bind_r (wrap_r ''addConstantNode: convert decimal to float error: %v'' r) (\<lambda>v. Inr (FLOAT64, SetDouble v))
    | KindString s \<Rightarrow> Inr (STRING, SetString s)
    | KindMysqlTime timestamp \<Rightarrow> Inr (DATETIME, SetInt64 timestamp)
    | _ \<Rightarrow> Inl (Errorf ''addConstantNode: unsupported data{%+v}''))"

definition AddConstantNode :: "string \<Rightarrow> Datum \<Rightarrow> string list \<Rightarrow> tref build" where
  "AddConstantNode name value partyCodes =
    bind_s (lift_r (constant_attr value)) (\<lambda>(dType, attr).
    let cc = fold (\<lambda>p cc. SetLevelForParty cc p Plain) partyCodes NewCCL in
    bind_s (AddColumn_set ''constant_data'' TENSORSTATUS_PUBLIC REFERENCE dType
      (\<lambda>output. output\<lparr>t_CC := cc, t_IsConstScalar := True\<rparr>)) (\<lambda>output.
    returning output (AddExecutionNode name OpNameConstant [] [(''Out'', [output])]
      [(ScalarAttr, attr)] partyCodes)))"

definition AddNotNode :: "string \<Rightarrow> tref \<Rightarrow> string list \<Rightarrow> tref build" where
  "AddNotNode name input partyCodes =
    bind_s (AddTensorAs input) (\<lambda>output.
    returning output (AddExecutionNode name OpNameNot [(''In'', [input])] [(''Out'', [output])] [] partyCodes))"

definition AddIsNullNode :: "string \<Rightarrow> tref \<Rightarrow> tref build" where
  "AddIsNullNode name input =
    bind_s (read input) (\<lambda>t.
    bind_s (AddTensorAs_set input (\<lambda>out. out\<lparr>t_Name := ''isnull_out'', t_DType := BOOL\<rparr>)) (\<lambda>output.
    returning output (AddExecutionNode name OpNameIsNull [(''In'', [input])] [(''Out'', [output])] []
      [t_OwnerPartyCode t])))"

text \<open>The checks shared in text by \<open>AddArrowFuncNode\<close> and \<open>AddCoalesceNode\<close>: every input is private
  and held by the party of the first one.\<close>

definition same_private_owner :: "error \<Rightarrow> error \<Rightarrow> Tensor list \<Rightarrow> unit result" where
  "same_private_owner notPrivate notSame ts =
    fold_r (\<lambda>t _.
      if t_status t \<noteq> TENSORSTATUS_PRIVATE then Inl notPrivate
      else if t_OwnerPartyCode t \<noteq> t_OwnerPartyCode (hd ts) then Inl notSame
      else Inr ()) ts ()"

text \<open>\<open>funcOpt\<close> is an options value of the Arrow library: its type name and the outcome of
  serialising it (encoded in base64).\<close>

definition AddArrowFuncNode ::
    "string \<Rightarrow> string \<Rightarrow> (string \<times> string result) option \<Rightarrow> tref list \<Rightarrow> PrimitiveDataType \<Rightarrow> tref build" where
  "AddArrowFuncNode nodeName funcName funcOpt inputs outputType =
    bind_s get_s (\<lambda>plan.
    bind_s (lift_r (same_private_owner
      (Errorf ''AddArrowFuncNode: only support private input now, illegal input {%v}'')
      (Errorf ''AddArrowFuncNode: inputs must belong to the same party'') (map (tensor plan) inputs))) (\<lambda>_.
    bind_s (lift_r (at inputs 0)) (\<lambda>ref0.
    bind_s (AddTensorAs_set ref0 (\<lambda>out. out\<lparr>t_Name := nodeName @ ''_out'', t_DType := outputType\<rparr>)) (\<lambda>output.
    bind_s (lift_r (case funcOpt of
        None \<Rightarrow> Inr []
      | Some (typeName, serialized) \<Rightarrow>
          bind_r (wrap_r ''AddArrowFuncNode: serialize func options failed: %v'' serialized) (\<lambda>enc.
          Inr [(FuncOptTypeAttr, SetString typeName), (FuncOptAttr, SetString enc)]))) (\<lambda>optAttrs.
    returning output (AddExecutionNode nodeName OpNameArrowFunc [(''In'', inputs)] [(''Out'', [output])]
      ((FuncNameAttr, SetString funcName) # optAttrs) [t_OwnerPartyCode (tensor plan ref0)]))))))"

definition AddIfNullNode :: "string \<Rightarrow> tref \<Rightarrow> tref \<Rightarrow> tref build" where
  "AddIfNullNode name expr altValue =
    bind_s (read expr) (\<lambda>t.
    bind_s (AddTensorAs_set expr (\<lambda>out. out\<lparr>t_Name := ''ifnull_out''\<rparr>)) (\<lambda>output.
    returning output (AddExecutionNode name OpNameIfNull [(''Expr'', [expr]), (''AltValue'', [altValue])]
      [(''Out'', [output])] [] [t_OwnerPartyCode t])))"

definition AddCoalesceNode :: "string \<Rightarrow> tref list \<Rightarrow> tref build" where
  "AddCoalesceNode name inputs =
    bind_s get_s (\<lambda>plan.
    bind_s (lift_r (same_private_owner
      (Errorf ''AddCoalesceNode: only support private inputs now'')
      (Errorf ''AddCoalesceNode: inputs must belong to the same party'') (map (tensor plan) inputs))) (\<lambda>_.
    bind_s (lift_r (at inputs 0)) (\<lambda>ref0.
    bind_s (AddTensorAs_set ref0 (\<lambda>out. out\<lparr>t_Name := ''coalesce_out'',
      t_DType := (if t_DType (tensor plan ref0) = FLOAT32 then FLOAT64 else t_DType out)\<rparr>)) (\<lambda>output.
    returning output (AddExecutionNode name OpNameCoalesce [(''Exprs'', inputs)] [(''Out'', [output])] []
      [t_OwnerPartyCode (tensor plan ref0)])))))"

definition AddTrigonometricFunction :: "string \<Rightarrow> string \<Rightarrow> tref \<Rightarrow> string list \<Rightarrow> tref build" where
  "AddTrigonometricFunction opName opType input partyCodes =
    bind_s (read input) (\<lambda>t.
    bind_s (guard_s (IsNumericDtype (t_DType t))
      (Errorf ''AddTrigonometricFunction: only support numeric data type, but get %v'')) (\<lambda>_.
    bind_s (AddTensorAs_set input (\<lambda>out. out\<lparr>t_DType := FLOAT64\<rparr>)) (\<lambda>output.
    returning output (AddExecutionNode opName opType [(''In'', [input])] [(''Out'', [output])] [] partyCodes))))"

definition AddUnaryNumericNode :: "string \<Rightarrow> string \<Rightarrow> tref \<Rightarrow> PrimitiveDataType \<Rightarrow> string list \<Rightarrow> tref build" where
  "AddUnaryNumericNode name opType input outputType partyCodes =
    bind_s (read input) (\<lambda>t.
    bind_s (guard_s (IsNumericDtype (t_DType t))
      (Errorf ''AddUnaryNumericNode: only support numeric data type, but get %v'')) (\<lambda>_.
    bind_s (AddTensorAs_set input (\<lambda>out. out\<lparr>t_DType := outputType\<rparr>)) (\<lambda>output.
    returning output (AddExecutionNode name opType [(''In'', [input])] [(''Out'', [output])] [] partyCodes))))"

definition AddCastNode :: "string \<Rightarrow> PrimitiveDataType \<Rightarrow> tref \<Rightarrow> string list \<Rightarrow> tref build" where
  "AddCastNode name outputDType input partyCodes =
    bind_s (read input) (\<lambda>t.
    bind_s (guard_s (\<not> (length partyCodes > 1 \<and> (t_DType t = STRING \<or> outputDType = STRING)))
      (Errorf ''AddCastNode: not support cast for string in spu, which exists in hash form'')) (\<lambda>_.
    bind_s (AddTensorAs_set input (\<lambda>out. out\<lparr>t_DType := outputDType\<rparr>)) (\<lambda>output.
    returning output (AddExecutionNode name OpNameCast [(''In'', [input])] [(''Out'', [output])] [] partyCodes))))"

section \<open>Aggregates, shapes and limits\<close>

definition IsFloatOrDoubleType :: "PrimitiveDataType \<Rightarrow> bool" where
  "IsFloatOrDoubleType tp \<longleftrightarrow> tp = FLOAT32 \<or> tp = FLOAT64"

definition reduce_dtype :: "string \<Rightarrow> PrimitiveDataType \<Rightarrow> PrimitiveDataType" where
  "reduce_dtype aggName dtype =
    (if aggName = ''avg'' then FLOAT64
     else if aggName = ''sum'' then
       (if dtype = BOOL then INT64 else if IsFloatOrDoubleType dtype then FLOAT64 else dtype)
     else if aggName = ''count'' then INT64
     else dtype)"

definition AddReduceAggNode :: "string \<Rightarrow> tref \<Rightarrow> (string, Attribute) gomap \<Rightarrow> tref build" where
  "AddReduceAggNode aggName ref attr =
    bind_s (lift_r (case map_of ReduceAggOp aggName of
        None \<Rightarrow> Inl (Errorf ''AddReduceAggNode: unsupported aggregation function %v'')
      | Some opType \<Rightarrow> Inr opType)) (\<lambda>opType.
    bind_s (read ref) (\<lambda>input.
    bind_s GetParties (\<lambda>parties.
    let partyCodes = (if t_status input = TENSORSTATUS_PRIVATE then [t_OwnerPartyCode input] else parties) in
    bind_s (AddTensorAs_set ref (\<lambda>out. out\<lparr>t_DType := reduce_dtype aggName (t_DType input)\<rparr>)) (\<lambda>out.
    returning out (wrap_s ''AddReduceAggNode: %v''
      (AddExecutionNode (''reduce_'' @ aggName) opType [(''In'', [ref])] [(''Out'', [out])] attr partyCodes))))))"

definition AddShapeNode :: "string \<Rightarrow> tref \<Rightarrow> int \<Rightarrow> string \<Rightarrow> tref build" where
  "AddShapeNode name ref axis partyCode =
    bind_s (AddTensorAs_set ref (\<lambda>out. out\<lparr>t_status := TENSORSTATUS_PRIVATE, t_DType := INT64,
      t_OwnerPartyCode := partyCode\<rparr>)) (\<lambda>out.
    returning out (wrap_s ''addShapeNode: %v''
      (AddExecutionNode name OpNameShape [(''In'', [ref])] [(''Out'', [out])]
        [(AxisAttr, SetInt64 axis)] [partyCode])))"

definition AddBroadcastToNode :: "string \<Rightarrow> tref list \<Rightarrow> tref \<Rightarrow> tref list build" where
  "AddBroadcastToNode name ins shapeRefTensor =
    bind_s (read shapeRefTensor) (\<lambda>shape.
    bind_s GetParties (\<lambda>parties.
    let private = (t_status shape = TENSORSTATUS_PRIVATE);
        partyCodes = (if private \<and> ins \<noteq> [] then [t_OwnerPartyCode shape] else parties) in
    bind_s (map_s (\<lambda>ref. AddTensorAs_set ref (\<lambda>out.
        if private then out\<lparr>t_IsConstScalar := False, t_status := TENSORSTATUS_PRIVATE,
          t_OwnerPartyCode := t_OwnerPartyCode shape\<rparr>
        else out\<lparr>t_IsConstScalar := False\<rparr>)) ins) (\<lambda>outs.
    returning outs (wrap_s ''AddBroadcastToNode: %v''
      (AddExecutionNode name OpNameBroadcastTo [(''In'', ins), (''ShapeRefTensor'', [shapeRefTensor])]
        [(''Out'', outs)] [] partyCodes)))))"

definition AddLimitNode :: "string \<Rightarrow> tref list \<Rightarrow> int \<Rightarrow> int \<Rightarrow> string list \<Rightarrow> tref list build" where
  "AddLimitNode name input offset cnt partyCodes =
    bind_s (map_s AddTensorAs input) (\<lambda>output.
    returning output (wrap_s ''AddLimitNode: %v''
      (AddExecutionNode name OpNameLimit [(''In'', input)] [(''Out'', output)]
        [(LimitOffsetAttr, SetInt64 offset), (LimitCountAttr, SetInt64 cnt)] partyCodes)))"

definition check_replicate_side :: "Tensor \<Rightarrow> Tensor list \<Rightarrow> unit result" where
  "check_replicate_side first rest =
    fold_r (\<lambda>t _.
      if t_OwnerPartyCode t \<noteq> t_OwnerPartyCode first then
        Inl (Errorf ''AddReplicateNode: all input tensors should be from the same party'')
      else if t_status t \<noteq> TENSORSTATUS_PRIVATE then
        Inl (Errorf ''AddReplicateNode: all input tensors should be private'')
      else Inr ()) rest ()"

definition AddReplicateNode ::
    "string \<Rightarrow> tref list \<Rightarrow> tref list \<Rightarrow> tref list \<Rightarrow> tref list \<Rightarrow> (string, Attribute) gomap \<Rightarrow> string list \<Rightarrow>
     ExecutionNode build" where
  "AddReplicateNode name left right leftOutput rightOutput attr partyCodes =
    bind_s (guard_s (left \<noteq> [] \<and> right \<noteq> [])
      (Errorf ''AddReplicateNode: left and right should not be empty'')) (\<lambda>_.
    bind_s (guard_s (length left = length leftOutput \<and> length right = length rightOutput)
      (Errorf ''AddReplicateNode: input(%v/%v) should have same length with output(%v/%v)'')) (\<lambda>_.
    bind_s get_s (\<lambda>plan.
    bind_s (guard_s (t_status (tensor plan (hd left)) = TENSORSTATUS_PRIVATE)
      (Errorf ''AddReplicateNode: all input tensors should be private'')) (\<lambda>_.
    bind_s (lift_r (check_replicate_side (tensor plan (hd left)) (map (tensor plan) (tl left)))) (\<lambda>_.
    bind_s (lift_r (check_replicate_side (tensor plan (hd right)) (map (tensor plan) (tl right)))) (\<lambda>_.
    AddExecutionNode name OpNameReplicate [(''Left'', left), (''Right'', right)]
      [(''LeftOut'', leftOutput), (''RightOut'', rightOutput)] attr partyCodes))))))"

end
