(* ===== verification/Builder_Security.thy ===== *)
theory Builder_Security
  imports Builder_Nodes
begin

text \<open>
  What the builder guarantees about a plan.  Every operation only appends to
  the tensors and nodes (\<open>extends\<close>), and the operators that hand a tensor to a
  party (\<open>MakePrivate\<close>, \<open>Copy\<close>, \<open>MakePublic\<close>) occur in a plan only on tensors whose
  control list makes them visible there (\<open>reveal_ok\<close>).  The step relation
  \<open>builder_step\<close> has one rule per operation; \<open>reveal_ok\<close> is an invariant of it.
\<close>

section \<open>Effect of the primitive operations\<close>

definition all_nodes :: "GraphBuilder \<Rightarrow> ExecutionNode list" where
  "all_nodes plan = concat (map ExecutionNodes (PipelineExeNodes plan))"

text \<open>The tensor \<open>AddTensorAs\<close> derives from \<open>it\<close>, with ID \<open>i\<close>.\<close>

definition tensor_as :: "Tensor \<Rightarrow> int \<Rightarrow> Tensor" where
  "tensor_as it i = (NewTensor i (t_Name it))\<lparr>t_DType := t_DType it, t_Option := t_Option it,
      t_status := t_status it, t_OwnerPartyCode := t_OwnerPartyCode it,
      t_SecretStringOwners := t_SecretStringOwners it, t_CC := Clone (t_CC it),
      t_SkipDTypeCheck := t_SkipDTypeCheck it, t_IsConstScalar := t_IsConstScalar it\<rparr>"

definition push_tensor :: "Tensor \<Rightarrow> GraphBuilder \<Rightarrow> GraphBuilder" where
  "push_tensor t plan = plan\<lparr>Tensors := Tensors plan @ [t], tensorNum := tensorNum plan + 1\<rparr>"

lemma read_app [simp]: "read r plan = Inr (tensor plan r, plan)"
  by (simp add: read_def)

lemma GetParties_app [simp]: "GetParties plan = Inr (PartyInfo_GetParties (gb_partyInfo plan), plan)"
  by (simp add: GetParties_def)

lemma AddTensorAs_set_app:
  "AddTensorAs_set ref f plan = Inr (length (Tensors plan),
    push_tensor (f (tensor_as (tensor plan ref) (int (tensorNum plan)))) plan)"
  by (simp add: AddTensorAs_set_def AddTensorAs_def AddTensor_def bind_s_app set_tensor_def tensor_def
      tensor_as_def push_tensor_def nth_append)

lemma AddTensorAs_app:
  "AddTensorAs ref plan = Inr (length (Tensors plan),
    push_tensor (tensor_as (tensor plan ref) (int (tensorNum plan))) plan)"
  by (simp add: AddTensorAs_def AddTensor_def bind_s_app set_tensor_def tensor_def
      tensor_as_def push_tensor_def nth_append)

lemma AddColumn_set_app:
  "AddColumn_set name st opt dt f plan = Inr (length (Tensors plan),
    push_tensor (f ((NewTensor (int (tensorNum plan)) name)\<lparr>t_status := st, t_Option := opt, t_DType := dt\<rparr>)) plan)"
  by (simp add: AddColumn_set_def AddColumn_def AddTensor_def bind_s_app set_tensor_def tensor_def
      push_tensor_def nth_append)

lemma AddColumn_app:
  "AddColumn name st opt dt plan = Inr (length (Tensors plan),
    push_tensor ((NewTensor (int (tensorNum plan)) name)\<lparr>t_status := st, t_Option := opt, t_DType := dt\<rparr>) plan)"
  by (simp add: AddColumn_def AddTensor_def bind_s_app set_tensor_def tensor_def push_tensor_def nth_append)

lemma tensor_push [simp]:
  "tensor (push_tensor t plan) r = (if r = length (Tensors plan) then t else tensor plan r)"
  by (simp add: tensor_def push_tensor_def nth_append)

lemma push_tensor_simps [simp]:
  "Tensors (push_tensor t plan) = Tensors plan @ [t]"
  "PipelineExeNodes (push_tensor t plan) = PipelineExeNodes plan"
  "gb_partyInfo (push_tensor t plan) = gb_partyInfo plan"
  "batched (push_tensor t plan) = batched plan"
  "OutputName (push_tensor t plan) = OutputName plan"
  "tensorNum (push_tensor t plan) = Suc (tensorNum plan)"
  "all_nodes (push_tensor t plan) = all_nodes plan"
  by (simp_all add: push_tensor_def all_nodes_def)

lemma tensor_as_simps [simp]:
  "t_CC (tensor_as it i) = Clone (t_CC it)" "t_status (tensor_as it i) = t_status it"
  "t_OwnerPartyCode (tensor_as it i) = t_OwnerPartyCode it" "t_ID (tensor_as it i) = i"
  "t_DType (tensor_as it i) = t_DType it"
  by (simp_all add: tensor_as_def NewTensor_def)

lemma IsVisibleFor_Clone [simp]: "IsVisibleFor (Clone cc) p = IsVisibleFor cc p"
  by (simp add: IsVisibleFor_Plain)

lemma append_node_simps [simp]:
  "Tensors (append_node op node plan) = Tensors plan"
  "gb_partyInfo (append_node op node plan) = gb_partyInfo plan"
  "batched (append_node op node plan) = batched plan"
  "OutputName (append_node op node plan) = OutputName plan"
  "tensorNum (append_node op node plan) = tensorNum plan"
  "tensor (append_node op node plan) r = tensor plan r"
  by (simp_all add: append_node_def Let_def tensor_def)

lemma open_pipeline_neq_Nil: "open_pipeline op plan \<noteq> []"
  by (simp add: open_pipeline_def)

lemma concat_open_pipeline:
  "concat (map ExecutionNodes (open_pipeline op plan)) = concat (map ExecutionNodes (PipelineExeNodes plan))"
  by (simp add: open_pipeline_def)

lemma all_nodes_append_node [simp]: "all_nodes (append_node op node plan) = all_nodes plan @ [node]"
proof -
  have "concat (map ExecutionNodes (butlast ps @ [\<lparr>pe_Batched = b, ExecutionNodes = ExecutionNodes (last ps) @ [node]\<rparr>]))
      = concat (map ExecutionNodes ps) @ [node]" if "ps \<noteq> []" for ps b
    using that by (cases ps rule: rev_cases) simp_all
  from this[of "open_pipeline op plan"] show ?thesis
    by (simp add: append_node_def all_nodes_def Let_def open_pipeline_neq_Nil concat_open_pipeline
        del: map_append concat_append)
qed

lemma AddExecutionNode_Inr:
  "AddExecutionNode name opType ins outs attrs parties plan = Inr (node, plan') \<longleftrightarrow>
    (\<exists>op. FindOpDef opType = Inr op
      \<and> CheckParamStatusConstraint (\<lambda>t. t_status (tensor plan t)) op ins outs = Inr ()
      \<and> node = new_node name opType ins outs attrs parties op
      \<and> plan' = append_node op node plan)"
  by (auto simp: AddExecutionNode_def bind_s_Inr bind_r_Inr Let_def)

lemma returning_Inr: "returning a m s = Inr (b, t) \<longleftrightarrow> b = a \<and> (\<exists>x. m s = Inr (x, t))"
  by (auto simp: returning_def bind_s_Inr)

lemma new_node_simps [simp]:
  "n_OpType (new_node name opType ins outs attrs parties op) = opType"
  "n_Outputs (new_node name opType ins outs attrs parties op) = outs"
  "n_Inputs (new_node name opType ins outs attrs parties op) = ins"
  "n_Parties (new_node name opType ins outs attrs parties op) = parties"
  "n_Name (new_node name opType ins outs attrs parties op) = name"
  by (simp_all add: new_node_def)

section \<open>Plans only grow\<close>

definition extends :: "GraphBuilder \<Rightarrow> GraphBuilder \<Rightarrow> bool" where
  "extends s t \<longleftrightarrow> (\<exists>ts. Tensors t = Tensors s @ ts) \<and> (\<exists>ns. all_nodes t = all_nodes s @ ns)
    \<and> gb_partyInfo t = gb_partyInfo s \<and> batched t = batched s \<and> OutputName t = OutputName s"

lemma extends_refl [simp]: "extends s s"
  by (simp add: extends_def)

lemma extends_trans: "extends s t \<Longrightarrow> extends t u \<Longrightarrow> extends s u"
  by (auto simp: extends_def)

lemma extends_tensor: "extends s t \<Longrightarrow> r < length (Tensors s) \<Longrightarrow> tensor t r = tensor s r"
  by (auto simp: extends_def tensor_def nth_append)

lemma extends_length: "extends s t \<Longrightarrow> length (Tensors s) \<le> length (Tensors t)"
  by (auto simp: extends_def)

lemma extends_push [simp]: "extends s (push_tensor t s)"
  by (simp add: extends_def)

lemma extends_append_node [simp]: "extends s (append_node op n s)"
  by (simp add: extends_def)

section \<open>No tensor is revealed against its control list\<close>

definition node_ins :: "ExecutionNode \<Rightarrow> tref list" where
  "node_ins n = concat (map snd (n_Inputs n))"

definition node_outs :: "ExecutionNode \<Rightarrow> tref list" where
  "node_outs n = concat (map snd (n_Outputs n))"

definition revealing :: "string list" where
  "revealing = [OpNameMakePrivate, OpNameCopy, OpNameMakePublic]"

text \<open>A node that hands data to a party does so only where the control list of its input allows it:
  the private output's owner, or every party of a node that makes its input public.\<close>

definition node_reveal_ok :: "GraphBuilder \<Rightarrow> ExecutionNode \<Rightarrow> bool" where
  "node_reveal_ok plan n \<longleftrightarrow>
    (n_OpType n = OpNameMakePrivate \<or> n_OpType n = OpNameCopy \<longrightarrow>
      (\<forall>out \<in> set (node_outs n). out < length (Tensors plan)
        \<and> t_status (tensor plan out) = TENSORSTATUS_PRIVATE
        \<and> (\<forall>i \<in> set (node_ins n). i < length (Tensors plan)
            \<and> IsVisibleFor (t_CC (tensor plan i)) (t_OwnerPartyCode (tensor plan out)))))
    \<and> (n_OpType n = OpNameMakePublic \<longrightarrow>
      (\<forall>p \<in> set (n_Parties n). \<forall>i \<in> set (node_ins n). i < length (Tensors plan)
        \<and> IsVisibleFor (t_CC (tensor plan i)) p))"

definition reveal_ok :: "GraphBuilder \<Rightarrow> bool" where
  "reveal_ok plan \<longleftrightarrow> (\<forall>n \<in> set (all_nodes plan). node_reveal_ok plan n)"

text \<open>IDs are positions: the n-th tensor created has ID n.\<close>

definition ids_ok :: "GraphBuilder \<Rightarrow> bool" where
  "ids_ok plan \<longleftrightarrow> tensorNum plan = length (Tensors plan)
    \<and> (\<forall>i < length (Tensors plan). t_ID (Tensors plan ! i) = int i)"

definition grows :: "GraphBuilder \<Rightarrow> GraphBuilder \<Rightarrow> bool" where
  "grows s t \<longleftrightarrow> extends s t \<and> (reveal_ok s \<longrightarrow> reveal_ok t) \<and> (ids_ok s \<longrightarrow> ids_ok t)"

interpretation builder: state_preorder grows
  by unfold_locales (auto simp: grows_def intro: extends_trans)

lemma node_reveal_ok_extends:
  assumes "node_reveal_ok s n" "extends s t"
  shows "node_reveal_ok t n"
proof -
  have "tensor t r = tensor s r" "r < length (Tensors t)" if "r < length (Tensors s)" for r
    using extends_tensor[OF assms(2) that] extends_length[OF assms(2)] that by simp_all
  with assms(1) show ?thesis
    by (simp add: node_reveal_ok_def)
qed

lemma reveal_ok_push: "reveal_ok s \<Longrightarrow> reveal_ok (push_tensor t s)"
  using node_reveal_ok_extends[OF _ extends_push] by (auto simp: reveal_ok_def)

lemma reveal_ok_append_node: "reveal_ok s \<Longrightarrow> node_reveal_ok s n \<Longrightarrow> reveal_ok (append_node op n s)"
  using node_reveal_ok_extends[OF _ extends_append_node] by (auto simp: reveal_ok_def)

lemma ids_ok_push: "ids_ok s \<Longrightarrow> t_ID t = int (tensorNum s) \<Longrightarrow> ids_ok (push_tensor t s)"
  by (auto simp: ids_ok_def nth_append less_Suc_eq)

lemma ids_ok_append_node: "ids_ok s \<Longrightarrow> ids_ok (append_node op n s)"
  by (simp add: ids_ok_def)

lemma grows_push: "t_ID t = int (tensorNum s) \<Longrightarrow> grows s (push_tensor t s)"
  by (simp add: grows_def reveal_ok_push ids_ok_push)

lemma grows_append_node: "node_reveal_ok s n \<Longrightarrow> grows s (append_node op n s)"
  by (simp add: grows_def reveal_ok_append_node ids_ok_append_node)

text \<open>A field update of a fresh tensor that leaves its ID alone.\<close>

definition keeps_id :: "(Tensor \<Rightarrow> Tensor) \<Rightarrow> bool" where
  "keeps_id f \<longleftrightarrow> (\<forall>t. t_ID (f t) = t_ID t)"

lemma keeps_AddTensorAs_set: "keeps_id f \<Longrightarrow> keeps grows (AddTensorAs_set ref f)"
  by (rule keepsI) (auto simp: AddTensorAs_set_app keeps_id_def intro!: grows_push)

lemma keeps_AddTensorAs: "keeps grows (AddTensorAs ref)"
  by (rule keepsI) (auto simp: AddTensorAs_app intro!: grows_push)

lemma keeps_AddColumn_set: "keeps_id f \<Longrightarrow> keeps grows (AddColumn_set name st opt dt f)"
  by (rule keepsI) (auto simp: AddColumn_set_app keeps_id_def NewTensor_def intro!: grows_push)

lemma keeps_AddColumn: "keeps grows (AddColumn name st opt dt)"
  by (rule keepsI) (auto simp: AddColumn_app NewTensor_def intro!: grows_push)

lemma node_reveal_ok_other: "n_OpType n \<notin> set revealing \<Longrightarrow> node_reveal_ok plan n"
  by (auto simp: node_reveal_ok_def revealing_def)

lemma keeps_AddExecutionNode:
  "opType \<notin> set revealing \<Longrightarrow> keeps grows (AddExecutionNode name opType ins outs attrs parties)"
  by (rule keepsI) (auto simp: AddExecutionNode_Inr intro!: grows_append_node node_reveal_ok_other)

lemma keeps_returning: "keeps grows m \<Longrightarrow> keeps grows (returning a m)"
  by (auto simp: keeps_def returning_Inr)

lemma keeps_read: "keeps grows (read r)"
  by (simp add: keeps_def builder.refl)

lemma keeps_GetParties: "keeps grows GetParties"
  by (simp add: keeps_def builder.refl)

lemmas builder_keeps = keeps_AddTensorAs keeps_AddTensorAs_set keeps_AddColumn keeps_AddColumn_set
  keeps_AddExecutionNode keeps_returning keeps_read keeps_GetParties builder.keeps_rules keeps_intros

section \<open>Every node constructor keeps the invariants\<close>

lemmas not_revealing = revealing_def op_name_defs

lemma keeps_join_index: "keeps grows (join_index b side ps k)"
  unfolding join_index_def by (intro builder_keeps) (simp add: keeps_id_def)

lemma keeps_AddRunSQLNode: "keeps grows (AddRunSQLNode name out sql refs p)"
  unfolding AddRunSQLNode_def by (intro builder_keeps) (simp_all add: keeps_id_def not_revealing)

lemma keeps_AddPublishNode: "keeps grows (AddPublishNode name ins outs ps)"
  unfolding AddPublishNode_def by (intro builder_keeps) (simp_all add: keeps_id_def not_revealing)

lemma keeps_AddInsertTableNode: "keeps grows (AddInsertTableNode name ins outs p opt)"
  unfolding AddInsertTableNode_def by (intro builder_keeps) (simp_all add: keeps_id_def not_revealing)

lemma keeps_AddDumpFileNodeForParty: "keeps grows (AddDumpFileNodeForParty name ins outs opt pf)"
  unfolding AddDumpFileNodeForParty_def by (intro builder_keeps) (simp_all add: keeps_id_def not_revealing)

lemma keeps_AddMakeShareNode: "keeps grows (AddMakeShareNode name r ps)"
  unfolding AddMakeShareNode_def by (intro builder_keeps) (simp_all add: keeps_id_def not_revealing)

lemma keeps_AddJoinNode: "keeps grows (AddJoinNode name l r args)"
  unfolding AddJoinNode_def by (intro builder_keeps keeps_join_index) (simp_all add: keeps_id_def not_revealing)

lemma keeps_AddSecretJoinNode: "keeps grows (AddSecretJoinNode name lk rk lp rp ps)"
  unfolding AddSecretJoinNode_def by (intro builder_keeps) (simp_all add: keeps_id_def not_revealing)

lemma keeps_AddFilterByIndexNode: "keeps grows (AddFilterByIndexNode name flt ts p)"
  unfolding AddFilterByIndexNode_def by (intro builder_keeps) (simp_all add: keeps_id_def not_revealing)

lemma keeps_AddFilterNode: "keeps grows (AddFilterNode name ins flt ps)"
  unfolding AddFilterNode_def by (intro builder_keeps) (simp_all add: keeps_id_def not_revealing)

lemma keeps_AddConstantNode: "keeps grows (AddConstantNode name v ps)"
  unfolding AddConstantNode_def by (intro builder_keeps) (simp_all add: keeps_id_def not_revealing)

lemma keeps_AddNotNode: "keeps grows (AddNotNode name r ps)"
  unfolding AddNotNode_def by (intro builder_keeps) (simp_all add: keeps_id_def not_revealing)

lemma keeps_AddIsNullNode: "keeps grows (AddIsNullNode name r)"
  unfolding AddIsNullNode_def by (intro builder_keeps) (simp_all add: keeps_id_def not_revealing)

lemma keeps_AddArrowFuncNode: "keeps grows (AddArrowFuncNode name fn opt ins dt)"
  unfolding AddArrowFuncNode_def by (intro builder_keeps) (simp_all add: keeps_id_def not_revealing)

lemma keeps_AddIfNullNode: "keeps grows (AddIfNullNode name e a)"
  unfolding AddIfNullNode_def by (intro builder_keeps) (simp_all add: keeps_id_def not_revealing)

lemma keeps_AddCoalesceNode: "keeps grows (AddCoalesceNode name ins)"
  unfolding AddCoalesceNode_def by (intro builder_keeps) (simp_all add: keeps_id_def not_revealing)

lemma keeps_AddCastNode: "keeps grows (AddCastNode name dt r ps)"
  unfolding AddCastNode_def by (intro builder_keeps) (simp_all add: keeps_id_def not_revealing)

lemma keeps_AddShapeNode: "keeps grows (AddShapeNode name r ax p)"
  unfolding AddShapeNode_def by (intro builder_keeps) (simp_all add: keeps_id_def not_revealing)

lemma keeps_AddBroadcastToNode: "keeps grows (AddBroadcastToNode name ins sh)"
  unfolding AddBroadcastToNode_def by (intro builder_keeps) (simp_all add: keeps_id_def not_revealing)

lemma keeps_AddLimitNode: "keeps grows (AddLimitNode name ins off cnt ps)"
  unfolding AddLimitNode_def by (intro builder_keeps) (simp_all add: keeps_id_def not_revealing)

lemma keeps_AddReplicateNode: "keeps grows (AddReplicateNode name l r lo ro attr ps)"
  unfolding AddReplicateNode_def by (intro builder_keeps) (simp_all add: keeps_id_def not_revealing)

lemma keeps_AddVariadicCompareNode: "opType \<notin> set revealing \<Longrightarrow> keeps grows (AddVariadicCompareNode name opType ins ps)"
  unfolding AddVariadicCompareNode_def by (intro builder_keeps) (simp_all add: keeps_id_def)

lemma keeps_AddTrigonometricFunction: "opType \<notin> set revealing \<Longrightarrow> keeps grows (AddTrigonometricFunction name opType r ps)"
  unfolding AddTrigonometricFunction_def by (intro builder_keeps) (simp_all add: keeps_id_def)

lemma keeps_AddUnaryNumericNode: "opType \<notin> set revealing \<Longrightarrow> keeps grows (AddUnaryNumericNode name opType r dt ps)"
  unfolding AddUnaryNumericNode_def by (intro builder_keeps) (simp_all add: keeps_id_def)

lemma keeps_AddReduceAggNode: "keeps grows (AddReduceAggNode agg r attr)"
  unfolding AddReduceAggNode_def
proof (rule builder.keeps_bind_result, rule builder.keeps_lift)
  fix s opType t
  assume "lift_r (case map_of ReduceAggOp agg of
      None \<Rightarrow> Inl (Errorf ''AddReduceAggNode: unsupported aggregation function %v'')
    | Some opType \<Rightarrow> Inr opType) s = Inr (opType, t)"
  then have "map_of ReduceAggOp agg = Some opType"
    by (auto simp: bind_r_Inr split: option.splits)
  then have "opType \<notin> set revealing"
    by (auto simp: ReduceAggOp_def not_revealing split: if_splits)
  then show "keeps grows (bind_s (read r) (\<lambda>input. bind_s GetParties (\<lambda>parties.
      let partyCodes = if t_status input = TENSORSTATUS_PRIVATE then [t_OwnerPartyCode input] else parties in
      bind_s (AddTensorAs_set r (\<lambda>out. out\<lparr>t_DType := reduce_dtype agg (t_DType input)\<rparr>)) (\<lambda>out.
      returning out (wrap_s ''AddReduceAggNode: %v''
        (AddExecutionNode (''reduce_'' @ agg) opType [(''In'', [r])] [(''Out'', [out])] attr partyCodes))))))"
    by (intro builder_keeps) (simp_all add: keeps_id_def)
qed

text \<open>The three revealing operations: their own check is what makes the new node admissible.\<close>

lemma visible_in_store: "IsVisibleFor (t_CC (tensor plan r)) p \<Longrightarrow> r < length (Tensors plan)"
  by (auto simp: tensor_def Tensor_zero_def IsVisibleFor_Plain split: if_splits)

text \<open>The common shape of a constructor with one output: derive the output tensor, append the node.\<close>

lemma one_output_Inr:
  "bind_s (AddTensorAs_set r f) (\<lambda>out. returning out (AddExecutionNode name opType ins [(''Out'', [out])] attrs parties)) plan
    = Inr (out, plan') \<longleftrightarrow>
    out = length (Tensors plan) \<and>
    (\<exists>op. FindOpDef opType = Inr op
      \<and> CheckParamStatusConstraint
          (\<lambda>t. t_status (tensor (push_tensor (f (tensor_as (tensor plan r) (int (tensorNum plan)))) plan) t))
          op ins [(''Out'', [out])] = Inr ()
      \<and> plan' = append_node op (new_node name opType ins [(''Out'', [out])] attrs parties op)
          (push_tensor (f (tensor_as (tensor plan r) (int (tensorNum plan)))) plan))"
  by (auto simp: bind_s_Inr AddTensorAs_set_app returning_Inr AddExecutionNode_Inr simp del: tensor_push)

lemma returning_wrap: "returning a (wrap_s msg m) plan = Inr (x, plan') \<longleftrightarrow> returning a m plan = Inr (x, plan')"
  by (auto simp: returning_Inr)

lemma one_output_wrap_Inr:
  "bind_s (AddTensorAs_set r f) (\<lambda>out. returning out (wrap_s msg (m out))) plan = Inr (out, plan') \<longleftrightarrow>
   bind_s (AddTensorAs_set r f) (\<lambda>out. returning out (m out)) plan = Inr (out, plan')"
  by (simp add: bind_s_Inr returning_wrap)

lemma guarded_one_output:
  "bind_s (read r) (\<lambda>t. bind_s (guard_s (P t) e) (\<lambda>_. m)) plan = Inr x \<longleftrightarrow> P (tensor plan r) \<and> m plan = Inr x"
  by (simp add: bind_s_app)

lemma AddMakePrivateNode_Inr:
  "AddMakePrivateNode name r p parties plan = Inr (out, plan') \<longleftrightarrow>
    IsVisibleFor (t_CC (tensor plan r)) p \<and>
    bind_s (AddTensorAs_set r (\<lambda>output. output\<lparr>t_status := TENSORSTATUS_PRIVATE,
      t_OwnerPartyCode := p, t_SecretStringOwners := []\<rparr>)) (\<lambda>output.
    returning output (AddExecutionNode name OpNameMakePrivate [(''In'', [r])] [(''Out'', [output])]
      [(RevealToAttr, SetString p)] parties)) plan = Inr (out, plan')"
  unfolding AddMakePrivateNode_def guarded_one_output ..

lemma AddCopyNode_Inr:
  "AddCopyNode name r src dst plan = Inr (out, plan') \<longleftrightarrow>
    IsVisibleFor (t_CC (tensor plan r)) dst \<and>
    bind_s (AddTensorAs_set r (\<lambda>out. out\<lparr>t_OwnerPartyCode := dst\<rparr>)) (\<lambda>out.
    returning out (AddExecutionNode name OpNameCopy [(''In'', [r])] [(''Out'', [out])]
      [(InputPartyCodesAttr, SetString src), (OutputPartyCodesAttr, SetString dst)] [src, dst])) plan
    = Inr (out, plan')"
  unfolding AddCopyNode_def guarded_one_output one_output_wrap_Inr ..

lemma AddMakePublicNode_Inr:
  "AddMakePublicNode name r parties plan = Inr (out, plan') \<longleftrightarrow>
    list_all (IsVisibleFor (t_CC (tensor plan r))) parties \<and>
    bind_s (AddTensorAs_set r (\<lambda>output. output\<lparr>t_status := TENSORSTATUS_PUBLIC\<rparr>)) (\<lambda>output.
    returning output (AddExecutionNode name OpNameMakePublic [(''In'', [r])] [(''Out'', [output])] [] parties)) plan
    = Inr (out, plan')"
  unfolding AddMakePublicNode_def guarded_one_output ..

lemma FindOpDef_Copy: "FindOpDef OpNameCopy = Inr opDef_Copy"
proof -
  have "opDef_Copy \<in> set AllOpDef" "op_Name opDef_Copy = OpNameCopy"
    by (simp add: AllOpDef_def) (simp add: opDef_Copy_def op_builder_defs)
  then show ?thesis using FindOpDef_registered by metis
qed

lemma Copy_private:
  assumes "CheckParamStatusConstraint status opDef_Copy ins outs = Inr ()" "map_of outs ''Out'' = Some (t # ts)"
  shows "status t = TENSORSTATUS_PRIVATE"
proof -
  from assms(1) obtain f where
    "\<forall>param \<in> set (OutputParams opDef_Copy). param_sat status outs (ParamStatusConstraints opDef_Copy) f param"
    by (auto simp: CheckParamStatusConstraint_iff)
  then show ?thesis
    using assms(2) by (auto simp: opDef_Copy_def op_builder_defs param_sat_def statusPrivate_def)
qed

lemma keeps_AddMakePrivateNode: "keeps grows (AddMakePrivateNode name r p parties)"
proof (rule keepsI)
  fix plan out plan'
  assume step: "AddMakePrivateNode name r p parties plan = Inr (out, plan')"
  let ?t = "tensor_as (tensor plan r) (int (tensorNum plan))
    \<lparr>t_status := TENSORSTATUS_PRIVATE, t_OwnerPartyCode := p, t_SecretStringOwners := []\<rparr>"
  from step obtain op where vis: "IsVisibleFor (t_CC (tensor plan r)) p" and out: "out = length (Tensors plan)"
    and plan': "plan' = append_node op (new_node name OpNameMakePrivate [(''In'', [r])] [(''Out'', [out])]
        [(RevealToAttr, SetString p)] parties op) (push_tensor ?t plan)"
    unfolding AddMakePrivateNode_Inr one_output_Inr by blast
  have "node_reveal_ok (push_tensor ?t plan) (new_node name OpNameMakePrivate [(''In'', [r])] [(''Out'', [out])]
        [(RevealToAttr, SetString p)] parties op)"
    using vis visible_in_store[OF vis] out
    by (auto simp: node_reveal_ok_def node_ins_def node_outs_def op_name_defs)
  then show "grows plan plan'"
    unfolding plan' by (rule builder.trans[OF grows_push grows_append_node, rotated]) simp
qed

lemma keeps_AddCopyNode: "keeps grows (AddCopyNode name r src dst)"
proof (rule keepsI)
  fix plan out plan'
  assume step: "AddCopyNode name r src dst plan = Inr (out, plan')"
  let ?t = "tensor_as (tensor plan r) (int (tensorNum plan))\<lparr>t_OwnerPartyCode := dst\<rparr>"
  let ?n = "new_node name OpNameCopy [(''In'', [r])] [(''Out'', [out])]
    [(InputPartyCodesAttr, SetString src), (OutputPartyCodesAttr, SetString dst)] [src, dst] opDef_Copy"
  from step have vis: "IsVisibleFor (t_CC (tensor plan r)) dst" and out: "out = length (Tensors plan)"
    and check: "CheckParamStatusConstraint (\<lambda>t. t_status (tensor (push_tensor ?t plan) t)) opDef_Copy
      [(''In'', [r])] [(''Out'', [out])] = Inr ()"
    and plan': "plan' = append_node opDef_Copy ?n (push_tensor ?t plan)"
    unfolding AddCopyNode_Inr one_output_Inr FindOpDef_Copy by auto
  have "t_status ?t = TENSORSTATUS_PRIVATE"
    using Copy_private[OF check] out by simp
  then have "node_reveal_ok (push_tensor ?t plan) ?n"
    using vis visible_in_store[OF vis] out
    by (auto simp: node_reveal_ok_def node_ins_def node_outs_def op_name_defs)
  then show "grows plan plan'"
    unfolding plan' by (rule builder.trans[OF grows_push grows_append_node, rotated]) simp
qed

lemma keeps_AddMakePublicNode: "keeps grows (AddMakePublicNode name r parties)"
proof (rule keepsI)
  fix plan out plan'
  assume step: "AddMakePublicNode name r parties plan = Inr (out, plan')"
  let ?t = "tensor_as (tensor plan r) (int (tensorNum plan))\<lparr>t_status := TENSORSTATUS_PUBLIC\<rparr>"
  from step obtain op where vis: "list_all (IsVisibleFor (t_CC (tensor plan r))) parties"
    and plan': "plan' = append_node op (new_node name OpNameMakePublic [(''In'', [r])] [(''Out'', [out])] [] parties op)
        (push_tensor ?t plan)"
    unfolding AddMakePublicNode_Inr one_output_Inr by blast
  have "node_reveal_ok (push_tensor ?t plan) (new_node name OpNameMakePublic [(''In'', [r])] [(''Out'', [out])] [] parties op)"
    using vis visible_in_store[of plan r]
    by (auto simp: node_reveal_ok_def node_ins_def node_outs_def op_name_defs list_all_iff less_Suc_eq)
  then show "grows plan plan'"
    unfolding plan' by (rule builder.trans[OF grows_push grows_append_node, rotated]) simp
qed

section \<open>Sequences of builder calls\<close>

text \<open>One step is one successful call.  Where the operator is an argument of the call, the code passes
  an operator that reveals nothing; the revealing ones have their own methods.\<close>

inductive builder_step :: "GraphBuilder \<Rightarrow> GraphBuilder \<Rightarrow> bool" where
  make_private: "AddMakePrivateNode name r p ps s = Inr (x, t) \<Longrightarrow> builder_step s t"
| copy: "AddCopyNode name r src dst s = Inr (x, t) \<Longrightarrow> builder_step s t"
| make_public: "AddMakePublicNode name r ps s = Inr (x, t) \<Longrightarrow> builder_step s t"
| make_share: "AddMakeShareNode name r ps s = Inr (x, t) \<Longrightarrow> builder_step s t"
| run_sql: "AddRunSQLNode name outs sql refs p s = Inr (x, t) \<Longrightarrow> builder_step s t"
| publish: "AddPublishNode name ins outs ps s = Inr (x, t) \<Longrightarrow> builder_step s t"
| insert_table: "AddInsertTableNode name ins outs p opt s = Inr (x, t) \<Longrightarrow> builder_step s t"
| dump_file: "AddDumpFileNodeForParty name ins outs into_opt pf s = Inr (x, t) \<Longrightarrow> builder_step s t"
| join: "AddJoinNode name l r args s = Inr (x, t) \<Longrightarrow> builder_step s t"
| secret_join: "AddSecretJoinNode name lk rk lp rp ps s = Inr (x, t) \<Longrightarrow> builder_step s t"
| filter_by_index: "AddFilterByIndexNode name flt ts p s = Inr (x, t) \<Longrightarrow> builder_step s t"
| filter: "AddFilterNode name ins flt ps s = Inr (x, t) \<Longrightarrow> builder_step s t"
| constant_node: "AddConstantNode name v ps s = Inr (x, t) \<Longrightarrow> builder_step s t"
| not_node: "AddNotNode name r ps s = Inr (x, t) \<Longrightarrow> builder_step s t"
| is_null: "AddIsNullNode name r s = Inr (x, t) \<Longrightarrow> builder_step s t"
| arrow_func: "AddArrowFuncNode name fn fopt ins dt s = Inr (x, t) \<Longrightarrow> builder_step s t"
| if_null: "AddIfNullNode name e a s = Inr (x, t) \<Longrightarrow> builder_step s t"
| coalesce: "AddCoalesceNode name ins s = Inr (x, t) \<Longrightarrow> builder_step s t"
| cast: "AddCastNode name dt r ps s = Inr (x, t) \<Longrightarrow> builder_step s t"
| reduce_agg: "AddReduceAggNode agg r attr s = Inr (x, t) \<Longrightarrow> builder_step s t"
| shape: "AddShapeNode name r ax p s = Inr (x, t) \<Longrightarrow> builder_step s t"
| broadcast_to: "AddBroadcastToNode name ins sh s = Inr (x, t) \<Longrightarrow> builder_step s t"
| limit: "AddLimitNode name ins off cnt ps s = Inr (x, t) \<Longrightarrow> builder_step s t"
| replicate: "AddReplicateNode name l r lo ro attr ps s = Inr (x, t) \<Longrightarrow> builder_step s t"
| variadic_compare: "opType \<notin> set revealing \<Longrightarrow> AddVariadicCompareNode name opType ins ps s = Inr (x, t) \<Longrightarrow> builder_step s t"
| trigonometric: "opType \<notin> set revealing \<Longrightarrow> AddTrigonometricFunction name opType r ps s = Inr (x, t) \<Longrightarrow> builder_step s t"
| unary_numeric: "opType \<notin> set revealing \<Longrightarrow> AddUnaryNumericNode name opType r dt ps s = Inr (x, t) \<Longrightarrow> builder_step s t"
| column: "AddColumn name st opt dt s = Inr (x, t) \<Longrightarrow> builder_step s t"
| tensor_like: "AddTensorAs r s = Inr (x, t) \<Longrightarrow> builder_step s t"
| other_node: "opType \<notin> set revealing \<Longrightarrow> AddExecutionNode name opType ins outs attrs ps s = Inr (x, t) \<Longrightarrow> builder_step s t"

inductive builder_reachable :: "PartyInfo \<Rightarrow> bool \<Rightarrow> GraphBuilder \<Rightarrow> bool" for info b where
  start: "builder_reachable info b (NewGraphBuilder info b)"
| step: "builder_reachable info b s \<Longrightarrow> builder_step s t \<Longrightarrow> builder_reachable info b t"

lemmas constructor_keeps = keeps_AddMakePrivateNode keeps_AddCopyNode keeps_AddMakePublicNode keeps_AddMakeShareNode
  keeps_AddRunSQLNode keeps_AddPublishNode keeps_AddInsertTableNode keeps_AddDumpFileNodeForParty
  keeps_AddJoinNode keeps_AddSecretJoinNode keeps_AddFilterByIndexNode keeps_AddFilterNode
  keeps_AddConstantNode keeps_AddNotNode keeps_AddIsNullNode keeps_AddArrowFuncNode
  keeps_AddIfNullNode keeps_AddCoalesceNode keeps_AddCastNode keeps_AddReduceAggNode
  keeps_AddShapeNode keeps_AddBroadcastToNode keeps_AddLimitNode keeps_AddReplicateNode
  keeps_AddVariadicCompareNode keeps_AddTrigonometricFunction keeps_AddUnaryNumericNode keeps_AddColumn
  keeps_AddTensorAs keeps_AddExecutionNode

lemma builder_step_grows: "builder_step s t \<Longrightarrow> grows s t"
  by (induction rule: builder_step.induct) (erule keepsD[rotated], rule constructor_keeps, assumption?)+

lemma builder_start: "reveal_ok (NewGraphBuilder info b) \<and> ids_ok (NewGraphBuilder info b)"
  by (simp add: reveal_ok_def ids_ok_def all_nodes_def NewGraphBuilder_def)

lemma builder_reachable_ok: "builder_reachable info b s \<Longrightarrow> reveal_ok s \<and> ids_ok s"
proof (induction rule: builder_reachable.induct)
  case (step s t)
  then show ?case using builder_step_grows[of s t] by (simp add: grows_def)
qed (rule builder_start)

section \<open>Claims\<close>

text \<open>C1: whatever sequence of builder calls produced a plan, a node that hands a tensor to a party does so
  only where the control list allows it.  Every \<open>MakePrivate\<close> and \<open>Copy\<close> node has outputs that are private
  and inputs that are plaintext for the owner of the output; every input of a \<open>MakePublic\<close> node is
  plaintext for every party of the node.\<close>

theorem reachable_plans_reveal_only_visible:
  assumes "builder_reachable info b plan" "n \<in> set (all_nodes plan)"
  shows "(n_OpType n = OpNameMakePrivate \<or> n_OpType n = OpNameCopy \<longrightarrow>
      (\<forall>out \<in> set (node_outs n). t_status (tensor plan out) = TENSORSTATUS_PRIVATE
        \<and> (\<forall>i \<in> set (node_ins n). IsVisibleFor (t_CC (tensor plan i)) (t_OwnerPartyCode (tensor plan out)))))
    \<and> (n_OpType n = OpNameMakePublic \<longrightarrow>
      (\<forall>p \<in> set (n_Parties n). \<forall>i \<in> set (node_ins n). IsVisibleFor (t_CC (tensor plan i)) p))"
  using builder_reachable_ok[OF assms(1)] assms(2) by (simp add: reveal_ok_def node_reveal_ok_def)

text \<open>A plan of two nodes: a constant known to two parties, then revealed to one of them.\<close>

definition sample_plan1 :: GraphBuilder where
  "sample_plan1 = snd (projr (AddConstantNode ''c'' (KindInt64 1) [''alice'', ''bob'']
    (NewGraphBuilder \<lparr>participants = []\<rparr> False)))"

definition sample_plan2 :: GraphBuilder where
  "sample_plan2 = snd (projr (AddMakePrivateNode ''m'' 0 ''alice'' [''alice'', ''bob''] sample_plan1))"

lemma sample_reachable: "builder_reachable \<lparr>participants = []\<rparr> False sample_plan2"
proof -
  have "\<not> isl (AddConstantNode ''c'' (KindInt64 1) [''alice'', ''bob''] (NewGraphBuilder \<lparr>participants = []\<rparr> False))"
    by code_simp
  then have "AddConstantNode ''c'' (KindInt64 1) [''alice'', ''bob''] (NewGraphBuilder \<lparr>participants = []\<rparr> False)
      = Inr (fst (projr (AddConstantNode ''c'' (KindInt64 1) [''alice'', ''bob'']
          (NewGraphBuilder \<lparr>participants = []\<rparr> False))), sample_plan1)"
    by (simp add: sample_plan1_def sum.collapse)
  then have 1: "builder_reachable \<lparr>participants = []\<rparr> False sample_plan1"
    by (intro builder_reachable.step[OF builder_reachable.start] builder_step.constant_node)
  have "\<not> isl (AddMakePrivateNode ''m'' 0 ''alice'' [''alice'', ''bob''] sample_plan1)"
    by code_simp
  then have "AddMakePrivateNode ''m'' 0 ''alice'' [''alice'', ''bob''] sample_plan1
      = Inr (fst (projr (AddMakePrivateNode ''m'' 0 ''alice'' [''alice'', ''bob''] sample_plan1)), sample_plan2)"
    by (simp add: sample_plan2_def sum.collapse)
  then show ?thesis
    by (intro builder_reachable.step[OF 1] builder_step.make_private)
qed

lemma sample_last_node:
  "n_OpType (last (all_nodes sample_plan2)) = OpNameMakePrivate \<and> all_nodes sample_plan2 \<noteq> []
   \<and> node_outs (last (all_nodes sample_plan2)) = [1] \<and> node_ins (last (all_nodes sample_plan2)) = [0]"
  by code_simp

theorem reachable_plans_reveal_only_visible_witness:
  "IsVisibleFor (t_CC (tensor sample_plan2 0)) (t_OwnerPartyCode (tensor sample_plan2 1))"
  using reachable_plans_reveal_only_visible[OF sample_reachable, of "last (all_nodes sample_plan2)"]
    sample_last_node by simp

text \<open>C6: builder calls only append: each keeps every tensor created before at its position and unchanged,
  every node added before in its order, and the parties and mode of the plan; and the n-th tensor of a
  reachable plan has ID n.\<close>

theorem builder_calls_append_only:
  assumes "builder_reachable info b plan" "builder_step plan plan'"
  shows "(\<exists>ts. Tensors plan' = Tensors plan @ ts) \<and> (\<exists>ns. all_nodes plan' = all_nodes plan @ ns)
    \<and> gb_partyInfo plan' = gb_partyInfo plan \<and> batched plan' = batched plan
    \<and> (\<forall>i < length (Tensors plan'). t_ID (Tensors plan' ! i) = int i)"
  using builder_step_grows[OF assms(2)] builder_reachable_ok[OF assms(1)]
  by (simp add: grows_def extends_def ids_ok_def)

theorem builder_calls_append_only_witness:
  "\<exists>plan'. builder_step sample_plan2 plan' \<and> (\<exists>ts. Tensors plan' = Tensors sample_plan2 @ ts)"
proof -
  have step: "builder_step sample_plan2 (snd (projr (AddTensorAs 0 sample_plan2)))"
    by (rule builder_step.tensor_like[where r = 0]) (simp add: AddTensorAs_app)
  from builder_calls_append_only[OF sample_reachable this] step show ?thesis by blast
qed

text \<open>C7: an attempt to reveal a tensor to a party that may not see it fails: \<open>AddMakePrivateNode\<close>,
  \<open>AddCopyNode\<close> and \<open>AddMakePublicNode\<close> return an error and leave no node, whatever else the arguments
  are.\<close>

theorem reveal_refused:
  assumes "\<not> IsVisibleFor (t_CC (tensor plan r)) p"
  shows "isl (AddMakePrivateNode name r p parties plan) \<and> isl (AddCopyNode name r src p plan)
    \<and> (p \<in> set parties \<longrightarrow> isl (AddMakePublicNode name r parties plan))"
  using assms
  by (auto simp: AddMakePrivateNode_def AddCopyNode_def AddMakePublicNode_def bind_s_app list_all_iff)

theorem reveal_refused_witness:
  "isl (AddMakePrivateNode ''m'' 0 ''carol'' [''alice'', ''carol''] sample_plan1)"
proof -
  have "\<not> IsVisibleFor (t_CC (tensor sample_plan1 0)) ''carol''"
    by code_simp
  from reveal_refused[OF this] show ?thesis by blast
qed

end
