(* ===== verification/Topo_Sort.thy ===== *)
theory Topo_Sort
  imports Scql_Prelude
begin

text \<open>
  The queue loop of \<open>TopologicalSort\<close> (\<open>pkg/interpreter/graph/graph.go\<close>), on node
  IDs.  \<open>succ u\<close> lists the targets of the out-edges of \<open>u\<close>, one entry per edge, in
  the order the edge map is visited; the in-degrees are a Go map whose missing
  entries read as 0.  The loop is total: its measure is the length of the queue
  plus the sum of the positive in-degrees.
\<close>

section \<open>The loop\<close>

primrec relax_edges ::
    "nat list \<Rightarrow> (nat, int) gomap \<Rightarrow> nat list \<Rightarrow> (nat, int) gomap \<times> nat list" where
  "relax_edges [] indegrees toAppend = (indegrees, toAppend)"
| "relax_edges (v # vs) indegrees toAppend =
    (let indegrees' = AList.update v (lookup_or 0 indegrees v - 1) indegrees in
     relax_edges vs indegrees' (if lookup_or 0 indegrees' v = 0 then toAppend @ [v] else toAppend))"

definition positive_sum :: "(nat, int) gomap \<Rightarrow> nat" where
  "positive_sum m = sum_list (map (\<lambda>(k, d). nat d) m)"

lemma positive_sum_update:
  "positive_sum (AList.update v (lookup_or 0 m v - 1) m) + (if 0 < lookup_or 0 m v then 1 else 0) = positive_sum m"
  unfolding positive_sum_def
  by (induction m) (auto simp: lookup_or_def)

lemma relax_edges_measure:
  "relax_edges vs m app = (m', app') \<Longrightarrow> length app' + positive_sum m' \<le> length app + positive_sum m"
proof (induction vs arbitrary: m app)
  case (Cons v vs)
  let ?m = "AList.update v (lookup_or 0 m v - 1) m"
  have "length app' + positive_sum m' \<le>
      length (if lookup_or 0 ?m v = 0 then app @ [v] else app) + positive_sum ?m"
    using Cons by (simp add: Let_def)
  then show ?case
    using positive_sum_update[of v m] by (auto split: if_splits)
qed simp

function topo_loop :: "(nat \<Rightarrow> nat list) \<Rightarrow> (nat, int) gomap \<Rightarrow> nat list \<Rightarrow> nat list \<Rightarrow> nat list" where
  "topo_loop succ indegrees [] nodes = nodes"
| "topo_loop succ indegrees (cur # queue) nodes =
    (let (indegrees', toAppend) = relax_edges (succ cur) indegrees [] in
     topo_loop succ indegrees' (queue @ sort toAppend) (nodes @ [cur]))"
  by pat_completeness auto

termination
proof (relation "measure (\<lambda>(succ, m, queue, nodes). length queue + positive_sum m)")
  fix succ :: "nat \<Rightarrow> nat list" and m cur queue nodes x m' app
  assume "x = relax_edges (succ cur) m []" "(m', app) = x"
  then show "((succ, m', queue @ sort app, nodes @ [cur]), succ, m, cur # queue, nodes)
      \<in> measure (\<lambda>(succ, m, queue, nodes). length queue + positive_sum m)"
    using relax_edges_measure[of "succ cur" m "[]" m' app] by simp
qed simp

text \<open>The in-degrees inside the pipeline: every node starts at 0, and an edge counts only when its
  target is a node of the pipeline.\<close>

definition init_indegrees :: "nat list \<Rightarrow> (nat \<Rightarrow> nat list) \<Rightarrow> (nat, int) gomap" where
  "init_indegrees nodes succ =
    fold (\<lambda>u m. fold (\<lambda>v m. if map_of m v \<noteq> None then AList.update v (lookup_or 0 m v + 1) m else m) (succ u) m)
      nodes (map (\<lambda>u. (u, 0)) nodes)"

definition topo_order :: "nat list \<Rightarrow> (nat \<Rightarrow> nat list) \<Rightarrow> nat list result" where
  "topo_order nodes succ =
    (let indegrees = init_indegrees nodes succ;
         queue = sort (filter (\<lambda>u. lookup_or 0 indegrees u = 0) (keys indegrees));
         out = topo_loop succ indegrees queue [] in
     if length out \<noteq> length nodes
     then Inl (Errorf ''topological sort fail: maybe circle in graph'')
     else Inr out)"

section \<open>Effect of one round\<close>

lemma relax_edges_spec:
  "relax_edges vs m app = (m', app') \<Longrightarrow>
    (\<forall>v. lookup_or 0 m' v = lookup_or 0 m v - int (count_list vs v)) \<and>
    (\<exists>new. app' = app @ new \<and> distinct new \<and>
      (\<forall>v. v \<in> set new \<longleftrightarrow> 0 < lookup_or 0 m v \<and> lookup_or 0 m v \<le> int (count_list vs v)))"
proof (induction vs arbitrary: m app)
  case (Cons w vs)
  define m1 where "m1 = AList.update w (lookup_or 0 m w - 1) m"
  have l1: "lookup_or 0 m1 v = (if v = w then lookup_or 0 m w - 1 else lookup_or 0 m v)" for v
    by (simp add: m1_def)
  define new0 where "new0 = (if lookup_or 0 m1 w = 0 then [w] else [])"
  from Cons.prems have rec: "relax_edges vs m1 (app @ new0) = (m', app')"
    by (simp add: m1_def new0_def Let_def split: if_splits)
  obtain new where new: "app' = (app @ new0) @ new" "distinct new"
      "\<forall>v. v \<in> set new \<longleftrightarrow> 0 < lookup_or 0 m1 v \<and> lookup_or 0 m1 v \<le> int (count_list vs v)"
    and m': "\<forall>v. lookup_or 0 m' v = lookup_or 0 m1 v - int (count_list vs v)"
    using Cons.IH[OF rec] by blast
  have "\<forall>v. lookup_or 0 m' v = lookup_or 0 m v - int (count_list (w # vs) v)"
    using m' l1 by simp
  moreover have "distinct (new0 @ new)"
    using new(2,3) l1 by (auto simp: new0_def)
  moreover have "v \<in> set (new0 @ new) \<longleftrightarrow> 0 < lookup_or 0 m v \<and> lookup_or 0 m v \<le> int (count_list (w # vs) v)" for v
    using new(3) l1 by (auto simp: new0_def)
  ultimately show ?case
    using new(1) by auto
qed simp

text \<open>Number of edges into \<open>v\<close> from the nodes in \<open>us\<close>.\<close>

definition edges_into :: "(nat \<Rightarrow> nat list) \<Rightarrow> nat list \<Rightarrow> nat \<Rightarrow> nat" where
  "edges_into succ us v = sum_list (map (\<lambda>u. count_list (succ u) v) us)"

lemma edges_into_simps [simp]:
  "edges_into succ [] v = 0"
  "edges_into succ (u # us) v = count_list (succ u) v + edges_into succ us v"
  "edges_into succ (us @ ws) v = edges_into succ us v + edges_into succ ws v"
  by (simp_all add: edges_into_def)

lemma edges_into_0: "edges_into succ us v = 0 \<longleftrightarrow> (\<forall>u \<in> set us. v \<notin> set (succ u))"
  by (induction us) (auto simp: count_list_0_iff)

lemma edges_into_mset: "mset us = mset ws \<Longrightarrow> edges_into succ us v = edges_into succ ws v"
  unfolding edges_into_def by (metis mset_map sum_mset_sum_list)

lemma edges_into_partition:
  "edges_into succ us v = edges_into succ (filter P us) v + edges_into succ (filter (\<lambda>u. \<not> P u) us) v"
  by (induction us) auto

lemma init_inner:
  assumes "set (keys m) = N"
  shows "set (keys (fold (\<lambda>v m. if map_of m v \<noteq> None then AList.update v (lookup_or 0 m v + 1) m else m) vs m)) = N
    \<and> lookup_or 0 (fold (\<lambda>v m. if map_of m v \<noteq> None then AList.update v (lookup_or 0 m v + 1) m else m) vs m) w
      = (if w \<in> N then lookup_or 0 m w + int (count_list vs w) else (0 :: int))"
  using assms
proof (induction vs arbitrary: m)
  case Nil
  then show ?case by (simp add: lookup_or_notin del: set_map)
next
  case (Cons v vs)
  show ?case
  proof (cases "v \<in> N")
    case True
    then have some: "map_of m v \<noteq> None"
      using Cons.prems by (simp add: map_of_None_keys del: set_map)
    have "set (keys (AList.update v (lookup_or 0 m v + 1) m)) = N"
      using True Cons.prems by (auto simp del: set_map)
    from Cons.IH[OF this] some show ?thesis by auto
  next
    case False
    then have "map_of m v = None"
      using Cons.prems by (simp add: map_of_None_keys del: set_map)
    with Cons.IH[OF Cons.prems] False show ?thesis by auto
  qed
qed

lemma init_outer:
  assumes "set (keys m) = N"
  shows "set (keys (fold (\<lambda>u m. fold (\<lambda>v m. if map_of m v \<noteq> None then AList.update v (lookup_or 0 m v + 1) m else m) (succ u) m) us m)) = N
    \<and> lookup_or 0 (fold (\<lambda>u m. fold (\<lambda>v m. if map_of m v \<noteq> None then AList.update v (lookup_or 0 m v + 1) m else m) (succ u) m) us m) w
      = (if w \<in> N then lookup_or 0 m w + int (edges_into succ us w) else (0 :: int))"
  using assms
proof (induction us arbitrary: m)
  case Nil
  then show ?case by (simp add: lookup_or_notin del: set_map)
next
  case (Cons u us)
  from Cons.IH[OF conjunct1[OF init_inner[OF Cons.prems, of "succ u"]]] init_inner[OF Cons.prems, of "succ u" w]
  show ?case by simp
qed

lemma lookup_zeros [simp]: "lookup_or 0 (map (\<lambda>u. (u, 0 :: int)) ns) w = 0"
  by (induction ns) (auto simp: lookup_or_def)

lemma init_indegrees_spec:
  "set (keys (init_indegrees nodes succ)) = set nodes"
  "lookup_or 0 (init_indegrees nodes succ) w = (if w \<in> set nodes then int (edges_into succ nodes w) else 0)"
  using init_outer[of "map (\<lambda>u. (u, 0)) nodes" "set nodes" succ nodes w]
  by (simp_all add: init_indegrees_def comp_def)

section \<open>The invariant of the loop\<close>

text \<open>\<open>acc\<close> is the part of the order already fixed and \<open>queue\<close> the nodes all of whose predecessors are
  in it; the in-degree of a node counts its edges from nodes not yet in \<open>acc\<close>.\<close>

definition kahn_inv :: "nat list \<Rightarrow> (nat \<Rightarrow> nat list) \<Rightarrow> (nat, int) gomap \<Rightarrow> nat list \<Rightarrow> nat list \<Rightarrow> bool" where
  "kahn_inv N succ m queue acc \<longleftrightarrow>
    distinct (acc @ queue) \<and> set (acc @ queue) \<subseteq> set N
    \<and> (\<forall>v \<in> set N. lookup_or 0 m v = int (edges_into succ (filter (\<lambda>u. u \<notin> set acc) N) v))
    \<and> (\<forall>v. v \<notin> set N \<longrightarrow> lookup_or 0 m v \<le> 0)
    \<and> (\<forall>v \<in> set N. v \<in> set (acc @ queue) \<longleftrightarrow> lookup_or 0 m v = 0)
    \<and> (\<forall>xs v ys. acc = xs @ v # ys \<longrightarrow> (\<forall>u \<in> set N. v \<in> set (succ u) \<longrightarrow> u \<in> set xs))"

lemma edges_into_remove:
  "distinct N \<Longrightarrow> cur \<in> set N \<Longrightarrow> cur \<notin> set acc \<Longrightarrow>
    edges_into succ (filter (\<lambda>u. u \<notin> set acc) N) v =
    count_list (succ cur) v + edges_into succ (filter (\<lambda>u. u \<notin> set (acc @ [cur])) N) v"
proof (induction N)
  case (Cons u N)
  show ?case
  proof (cases "u = cur")
    case True
    then have "filter (\<lambda>u. u \<notin> set (acc @ [cur])) N = filter (\<lambda>u. u \<notin> set acc) N"
      using Cons.prems by (intro filter_cong) auto
    with True Cons.prems show ?thesis by simp
  next
    case False
    with Cons show ?thesis by auto
  qed
qed simp

lemma kahn_inv_step:
  assumes inv: "kahn_inv N succ m (cur # queue) acc" and N: "distinct N"
    and relax: "relax_edges (succ cur) m [] = (m', app)"
  shows "kahn_inv N succ m' (queue @ sort app) (acc @ [cur])"
proof -
  have dist: "distinct (acc @ cur # queue)" and sub: "set (acc @ cur # queue) \<subseteq> set N"
    and deg: "\<And>v. v \<in> set N \<Longrightarrow> lookup_or 0 m v = int (edges_into succ (filter (\<lambda>u. u \<notin> set acc) N) v)"
    and out: "\<And>v. v \<notin> set N \<Longrightarrow> lookup_or 0 m v \<le> 0"
    and zero: "\<And>v. v \<in> set N \<Longrightarrow> v \<in> set (acc @ cur # queue) \<longleftrightarrow> lookup_or 0 m v = 0"
    and ord: "\<And>xs v ys u. acc = xs @ v # ys \<Longrightarrow> u \<in> set N \<Longrightarrow> v \<in> set (succ u) \<Longrightarrow> u \<in> set xs"
    using inv unfolding kahn_inv_def by blast+
  have cur: "cur \<in> set N" "cur \<notin> set acc" using dist sub by auto
  from relax_edges_spec[OF relax] have
      deg': "\<And>v. lookup_or 0 m' v = lookup_or 0 m v - int (count_list (succ cur) v)"
    and app: "distinct app" "\<And>v. v \<in> set app \<longleftrightarrow> 0 < lookup_or 0 m v \<and> lookup_or 0 m v \<le> int (count_list (succ cur) v)"
    by auto
  have degN: "lookup_or 0 m' v = int (edges_into succ (filter (\<lambda>u. u \<notin> set (acc @ [cur])) N) v)" if "v \<in> set N" for v
    using deg'[of v] deg[OF that] edges_into_remove[OF N cur, of succ v] by simp
  have appN: "v \<in> set N \<and> 0 < lookup_or 0 m v \<and> lookup_or 0 m' v = 0" if "v \<in> set app" for v
  proof -
    from that app(2) have pos: "0 < lookup_or 0 m v" and le: "lookup_or 0 m v \<le> int (count_list (succ cur) v)" by auto
    with out have "v \<in> set N" by force
    with degN[of v] deg'[of v] pos le show ?thesis by simp
  qed
  have new: "v \<notin> set (acc @ cur # queue)" if "v \<in> set app" for v
    using appN[OF that] zero by force
  have "distinct ((acc @ [cur]) @ queue @ sort app)"
    using dist app(1) new by auto
  moreover have "set ((acc @ [cur]) @ queue @ sort app) \<subseteq> set N"
    using sub appN by auto
  moreover have "lookup_or 0 m' v \<le> 0" if "v \<notin> set N" for v
    using out[OF that] deg'[of v] by simp
  moreover have "v \<in> set ((acc @ [cur]) @ queue @ sort app) \<longleftrightarrow> lookup_or 0 m' v = 0" if v: "v \<in> set N" for v
  proof
    assume "v \<in> set ((acc @ [cur]) @ queue @ sort app)"
    then consider "v \<in> set (acc @ cur # queue)" | "v \<in> set app" by auto
    then show "lookup_or 0 m' v = 0"
    proof cases
      case 1
      then have "lookup_or 0 m v = 0" using zero[OF v] by blast
      with deg'[of v] degN[OF v] show ?thesis by simp
    next
      case 2 then show ?thesis using appN by blast
    qed
  next
    assume z: "lookup_or 0 m' v = 0"
    show "v \<in> set ((acc @ [cur]) @ queue @ sort app)"
    proof (cases "lookup_or 0 m v = 0")
      case True
      then have "v \<in> set (acc @ cur # queue)" using zero[OF v] by blast
      then show ?thesis by auto
    next
      case False
      then have "0 < lookup_or 0 m v" using deg[OF v] by simp
      then have "v \<in> set app" using app(2) z deg'[of v] by simp
      then show ?thesis by simp
    qed
  qed
  moreover have "u \<in> set xs" if "acc @ [cur] = xs @ v # ys" "u \<in> set N" "v \<in> set (succ u)" for xs v ys u
  proof (cases ys rule: rev_cases)
    case Nil
    with that(1) have v: "v = cur" "xs = acc" by auto
    have "lookup_or 0 m cur = 0" using zero[OF cur(1)] by auto
    then have "edges_into succ (filter (\<lambda>u. u \<notin> set acc) N) cur = 0" using deg[OF cur(1)] by simp
    with that v show ?thesis unfolding edges_into_0 by auto
  next
    case (snoc zs z)
    with that(1) have "acc = xs @ v # zs" by auto
    then show ?thesis using ord that(2,3) by blast
  qed
  ultimately show ?thesis
    unfolding kahn_inv_def using degN by blast
qed

lemma topo_loop_inv:
  "kahn_inv N succ m queue acc \<Longrightarrow> distinct N \<Longrightarrow> \<exists>m'. kahn_inv N succ m' [] (topo_loop succ m queue acc)"
proof (induction succ m queue acc rule: topo_loop.induct)
  case (1 succ indegrees nodes)
  then show ?case by auto
next
  case (2 succ indegrees cur queue nodes)
  obtain m' app where relax: "relax_edges (succ cur) indegrees [] = (m', app)" by force
  from 2(1)[OF relax[symmetric] refl kahn_inv_step[OF 2(2) 2(3) relax] 2(3)] relax show ?case by simp
qed

lemma kahn_inv_init:
  assumes "distinct N"
  shows "kahn_inv N succ (init_indegrees N succ)
    (sort (filter (\<lambda>u. lookup_or 0 (init_indegrees N succ) u = 0) (keys (init_indegrees N succ)))) []"
proof -
  have "keys (init_indegrees N succ) = N"
  proof -
    have "keys (fold (\<lambda>v m. if map_of m v \<noteq> None then AList.update v (lookup_or 0 m v + 1) m else m) vs m) = keys m"
      for vs and m :: "(nat, int) gomap"
      by (induction vs arbitrary: m) (auto simp: update_keys map_of_None_keys)
    then have "keys (fold (\<lambda>u m. fold (\<lambda>v m. if map_of m v \<noteq> None then AList.update v (lookup_or 0 m v + 1) m else m) (succ u) m) us m)
        = keys m" for us and m :: "(nat, int) gomap"
      by (induction us arbitrary: m) simp_all
    then show ?thesis by (simp add: init_indegrees_def comp_def)
  qed
  then show ?thesis
    using assms by (auto simp: kahn_inv_def init_indegrees_spec)
qed

section \<open>Correctness\<close>

definition edge_rel :: "nat list \<Rightarrow> (nat \<Rightarrow> nat list) \<Rightarrow> (nat \<times> nat) set" where
  "edge_rel N succ = {(u, v). u \<in> set N \<and> v \<in> set N \<and> v \<in> set (succ u)}"

text \<open>\<open>out\<close> lists the nodes once each, every edge going forward.\<close>

definition topological :: "nat list \<Rightarrow> (nat \<Rightarrow> nat list) \<Rightarrow> nat list \<Rightarrow> bool" where
  "topological N succ out \<longleftrightarrow> distinct out \<and> set out = set N
    \<and> (\<forall>xs v ys. out = xs @ v # ys \<longrightarrow> (\<forall>u \<in> set N. v \<in> set (succ u) \<longrightarrow> u \<in> set xs))"

definition position :: "nat list \<Rightarrow> nat \<Rightarrow> nat" where
  "position out v = length (takeWhile (\<lambda>x. x \<noteq> v) out)"

lemma position_split: "distinct (xs @ v # ys) \<Longrightarrow> position (xs @ v # ys) v = length xs"
  by (induction xs) (auto simp: position_def)

lemma position_less: "u \<in> set xs \<Longrightarrow> position (xs @ ys) u < length xs"
  unfolding position_def by (induction xs) auto

lemma topological_acyclic:
  assumes "topological N succ out"
  shows "acyclic (edge_rel N succ)"
proof -
  have "edge_rel N succ \<subseteq> measure (position out)"
  proof (clarify)
    fix u v assume uv: "(u, v) \<in> edge_rel N succ"
    then have "v \<in> set out" using assms by (simp add: topological_def edge_rel_def)
    then obtain xs ys where out: "out = xs @ v # ys" by (meson split_list)
    then have "u \<in> set xs" using assms uv by (auto simp: topological_def edge_rel_def)
    with out assms show "(u, v) \<in> measure (position out)"
      using position_less[of u xs "v # ys"] position_split[of xs v ys] by (simp add: topological_def)
  qed
  then show ?thesis
    by (meson acyclic_subset wf_acyclic wf_measure)
qed

lemma topo_final:
  assumes "distinct N"
  obtains m where "kahn_inv N succ m [] (topo_loop succ (init_indegrees N succ)
    (sort (filter (\<lambda>u. lookup_or 0 (init_indegrees N succ) u = 0) (keys (init_indegrees N succ)))) [])"
  using topo_loop_inv[OF kahn_inv_init[OF assms] assms] by blast

lemma topo_order_sound:
  assumes "distinct N" "topo_order N succ = Inr out"
  shows "topological N succ out"
proof -
  obtain m where inv: "kahn_inv N succ m [] out" and len: "length out = length N"
    using topo_final[OF assms(1), of succ] assms(2) by (auto simp: topo_order_def Let_def split: if_splits)
  then have "set out = set N"
    using assms(1) by (intro card_subset_eq) (auto simp: kahn_inv_def distinct_card)
  with inv show ?thesis by (auto simp: kahn_inv_def topological_def)
qed

lemma topo_order_complete:
  assumes "distinct N" "acyclic (edge_rel N succ)"
  shows "\<exists>out. topo_order N succ = Inr out"
proof -
  define out where "out = topo_loop succ (init_indegrees N succ)
    (sort (filter (\<lambda>u. lookup_or 0 (init_indegrees N succ) u = 0) (keys (init_indegrees N succ)))) []"
  obtain m where inv: "kahn_inv N succ m [] out"
    using topo_final[OF assms(1), of succ] by (auto simp: out_def)
  have "finite (edge_rel N succ)"
    by (rule finite_subset[of _ "set N \<times> set N"]) (auto simp: edge_rel_def)
  then have wf: "wf (edge_rel N succ)" using assms(2) by (rule finite_acyclic_wf)
  have "set N - set out = {}"
  proof (rule ccontr)
    assume "set N - set out \<noteq> {}"
    then obtain v where v: "v \<in> set N" "v \<notin> set out"
      and min: "\<And>u. (u, v) \<in> edge_rel N succ \<Longrightarrow> u \<notin> set N - set out"
      using wfE_min[OF wf, of _ "set N - set out"] by blast
    have "v \<in> set (out @ []) \<longleftrightarrow> lookup_or 0 m v = 0"
        "lookup_or 0 m v = int (edges_into succ (filter (\<lambda>u. u \<notin> set out) N) v)"
      using inv v(1) unfolding kahn_inv_def by blast+
    with v(2) have "edges_into succ (filter (\<lambda>u. u \<notin> set out) N) v \<noteq> 0" by simp
    then obtain u where "u \<in> set N" "u \<notin> set out" "v \<in> set (succ u)"
      by (auto simp: edges_into_0)
    with min[of u] v show False by (simp add: edge_rel_def)
  qed
  moreover have "distinct out" "set out \<subseteq> set N" using inv by (auto simp: kahn_inv_def)
  ultimately have "length out = length N"
    using assms(1) by (metis Diff_eq_empty_iff distinct_card subset_antisym)
  then show ?thesis by (simp add: topo_order_def Let_def out_def)
qed

section \<open>Independence of the map order\<close>

lemma relax_edges_cong:
  assumes "relax_edges vs m [] = (m1, app1)" "relax_edges ws m' [] = (m2, app2)"
    and "mset vs = mset ws" "\<forall>v. lookup_or 0 m v = lookup_or 0 m' v"
  shows "(\<forall>v. lookup_or 0 m1 v = lookup_or 0 m2 v) \<and> sort app1 = sort app2"
proof -
  have cnt: "count_list vs v = count_list ws v" for v
    using assms(3) by (metis count_mset)
  have s1: "\<forall>v. lookup_or 0 m1 v = lookup_or 0 m v - int (count_list vs v)" "distinct app1"
      "\<forall>v. v \<in> set app1 \<longleftrightarrow> 0 < lookup_or 0 m v \<and> lookup_or 0 m v \<le> int (count_list vs v)"
    using relax_edges_spec[OF assms(1)] by auto
  have s2: "\<forall>v. lookup_or 0 m2 v = lookup_or 0 m' v - int (count_list ws v)" "distinct app2"
      "\<forall>v. v \<in> set app2 \<longleftrightarrow> 0 < lookup_or 0 m' v \<and> lookup_or 0 m' v \<le> int (count_list ws v)"
    using relax_edges_spec[OF assms(2)] by auto
  have "set app1 = set app2" using s1(3) s2(3) assms(4) cnt by auto
  then have "sort app1 = sort app2"
    using s1(2) s2(2) by (intro sorted_distinct_set_unique) simp_all
  with s1(1) s2(1) assms(4) cnt show ?thesis by simp
qed

lemma topo_loop_cong:
  "\<forall>v. lookup_or 0 m v = lookup_or 0 m' v \<Longrightarrow> \<forall>u. mset (succ u) = mset (succ' u) \<Longrightarrow>
    topo_loop succ m queue acc = topo_loop succ' m' queue acc"
proof (induction succ m queue acc arbitrary: m' rule: topo_loop.induct)
  case (2 succ m cur queue acc)
  obtain m1 app1 where r1: "relax_edges (succ cur) m [] = (m1, app1)" by force
  obtain m2 app2 where r2: "relax_edges (succ' cur) m' [] = (m2, app2)" by force
  have "mset (succ cur) = mset (succ' cur)" using 2(3) by blast
  note c = relax_edges_cong[OF r1 r2 this 2(2)]
  from 2(1)[OF r1[symmetric] refl conjunct1[OF c] 2(3)] c r1 r2 show ?case by simp
qed simp

lemma topo_order_cong:
  assumes "distinct N" "mset N = mset N'" "\<forall>u. mset (succ u) = mset (succ' u)"
  shows "topo_order N succ = topo_order N' succ'"
proof -
  have N': "distinct N'" "set N = set N'" using assms(1,2) mset_eq_imp_distinct_iff mset_eq_setD by blast+
  have "edges_into succ N v = edges_into succ' N' v" for v
  proof -
    have "count_list (succ u) v = count_list (succ' u) v" for u using assms(3) by (metis count_mset)
    then have "edges_into succ N v = edges_into succ' N v" by (simp add: edges_into_def)
    also have "\<dots> = edges_into succ' N' v" by (rule edges_into_mset[OF assms(2)])
    finally show ?thesis .
  qed
  then have look: "\<forall>v. lookup_or 0 (init_indegrees N succ) v = lookup_or 0 (init_indegrees N' succ') v"
    using N'(2) by (simp add: init_indegrees_spec)
  let ?q = "\<lambda>N succ. filter (\<lambda>u. lookup_or 0 (init_indegrees N succ) u = 0) (keys (init_indegrees N succ))"
  have "distinct (sort (?q N succ))" "distinct (sort (?q N' succ'))"
    using kahn_inv_init[OF assms(1), of succ] kahn_inv_init[OF N'(1), of succ'] by (auto simp: kahn_inv_def)
  moreover have "set (?q N succ) = set (?q N' succ')"
    using look N'(2) by (simp add: init_indegrees_spec del: set_map)
  ultimately have "sort (?q N succ) = sort (?q N' succ')"
    by (intro sorted_distinct_set_unique) (simp_all del: set_filter set_map)
  moreover have "length N = length N'" using assms(2) by (metis size_mset)
  ultimately show ?thesis
    unfolding topo_order_def Let_def using topo_loop_cong[OF look assms(3)] by simp
qed

end
