(* ===== verification/Graph_Dag.thy ===== *)
theory Graph_Dag
  imports Builder_Security Topo_Sort
begin

text \<open>
  \<open>pkg/interpreter/graph/graph.go\<close>, \<open>graph_checker.go\<close> and the graph construction of
  \<open>graph_builder.go\<close> (\<open>Build\<close>, \<open>FillPipeline\<close>): the execution DAG of a plan, its
  topological order, the reference counts and the final visibility check.

  The node map of a pipeline is the list of its nodes; tensors stay in the
  store, which the graph carries along (\<open>g_Tensors\<close>).  An edge names its end nodes
  by ID.
\<close>

section \<open>Graphs\<close>

record Pipeline =
  Batched :: bool
  InputTensors :: "tref list"
  OutputTensors :: "tref list"
  Nodes :: "ExecutionNode list"

record Graph =
  Pipelines :: "Pipeline list"
  NodeCnt :: nat
  OutputNames :: "string list"
  g_PartyInfo :: PartyInfo
  g_Tensors :: "Tensor list"

definition g_tensor :: "Graph \<Rightarrow> tref \<Rightarrow> Tensor" where
  "g_tensor g r = (if r < length (g_Tensors g) then g_Tensors g ! r else Tensor_zero)"

definition graph_nodes :: "Graph \<Rightarrow> ExecutionNode list" where
  "graph_nodes g = concat (map Nodes (Pipelines g))"

text \<open>\<open>t.RefNum += 1\<close> on an \<open>int32\<close>.\<close>

definition incr_ref :: "tref \<Rightarrow> Tensor list \<Rightarrow> Tensor list" where
  "incr_ref r ts = (if r < length ts
     then ts[r := (ts ! r)\<lparr>t_RefNum := signed_take_bit 31 (t_RefNum (ts ! r) + 1)\<rparr>] else ts)"

definition UpdateTensorRefNum :: "Graph \<Rightarrow> Graph" where
  "UpdateTensorRefNum g =
    g\<lparr>g_Tensors := fold (\<lambda>p ts. fold (\<lambda>n ts. fold incr_ref (node_ins n) ts) (Nodes p) ts)
      (Pipelines g) (g_Tensors g)\<rparr>"

section \<open>Topological order\<close>

definition find_node :: "ExecutionNode list \<Rightarrow> nat \<Rightarrow> ExecutionNode option" where
  "find_node ns i = find (\<lambda>n. n_ID n = i) ns"

definition edge_targets :: "ExecutionNode list \<Rightarrow> nat \<Rightarrow> nat list" where
  "edge_targets ns i = (case find_node ns i of None \<Rightarrow> [] | Some n \<Rightarrow> map e_To (n_Edges n))"

definition sort_pipeline :: "Pipeline \<Rightarrow> ExecutionNode list result" where
  "sort_pipeline p =
    bind_r (topo_order (map n_ID (Nodes p)) (edge_targets (Nodes p))) (\<lambda>ids.
    Inr (map (\<lambda>i. the (find_node (Nodes p) i)) ids))"

definition TopologicalSort :: "Graph \<Rightarrow> ExecutionNode list list result" where
  "TopologicalSort g = map_r sort_pipeline (Pipelines g)"

section \<open>Removing isolated nodes and edges\<close>

text \<open>Both degree maps are shared by all pipelines; the entries of a pipeline's nodes are reset when
  the pipeline is reached.\<close>

definition count_edge :: "Edge \<Rightarrow> (nat, int) gomap \<times> (nat, int) gomap \<Rightarrow> (nat, int) gomap \<times> (nat, int) gomap" where
  "count_edge e degs =
    (AList.update (e_To e) (lookup_or 0 (fst degs) (e_To e) + 1) (fst degs),
     AList.update (e_From e) (lookup_or 0 (snd degs) (e_From e) + 1) (snd degs))"

definition pipeline_degrees ::
    "Pipeline \<Rightarrow> (nat, int) gomap \<times> (nat, int) gomap \<Rightarrow> (nat, int) gomap \<times> (nat, int) gomap" where
  "pipeline_degrees p degs =
    fold (\<lambda>n. fold count_edge (n_Edges n)) (Nodes p)
      (fold (\<lambda>n (ins, outs). (AList.update (n_ID n) 0 ins, AList.update (n_ID n) 0 outs)) (Nodes p) degs)"

fun EliminateIsolatedNodes_loop ::
    "Pipeline list \<Rightarrow> (nat, int) gomap \<times> (nat, int) gomap \<Rightarrow> Pipeline list" where
  "EliminateIsolatedNodes_loop [] degs = []"
| "EliminateIsolatedNodes_loop (p # ps) degs =
    (let degs' = pipeline_degrees p degs;
         candidates = filter (\<lambda>i. lookup_or 0 (fst degs') i = 0 \<and> lookup_or 0 (snd degs') i = 0) (keys (fst degs'))
     in p\<lparr>Nodes := filter (\<lambda>n. n_ID n \<notin> set candidates) (Nodes p)\<rparr> # EliminateIsolatedNodes_loop ps degs')"

definition EliminateIsolatedNodes :: "Graph \<Rightarrow> Graph" where
  "EliminateIsolatedNodes g = g\<lparr>Pipelines := EliminateIsolatedNodes_loop (Pipelines g) ([], [])\<rparr>"

definition EliminateIsolatedEdges :: "Graph \<Rightarrow> Graph" where
  "EliminateIsolatedEdges g = g\<lparr>Pipelines := map (\<lambda>p.
    p\<lparr>Nodes := map (\<lambda>n. n\<lparr>n_Edges := filter (\<lambda>e. e_To e \<in> n_ID ` set (Nodes p)) (n_Edges n)\<rparr>) (Nodes p)\<rparr>)
    (Pipelines g)\<rparr>"

section \<open>The visibility check\<close>

definition check_tensor_ccl :: "Tensor \<Rightarrow> unit result" where
  "check_tensor_ccl t =
    (if t_status t = TENSORSTATUS_PRIVATE \<and> LevelFor (t_CC t) (t_OwnerPartyCode t) \<noteq> Plain
     then Inl (Errorf ''failed to check tensor ccl for tensor(%+v), ccl is not plaintext for it's owner'')
     else Inr ())"

definition checkGraph :: "Graph \<Rightarrow> unit result" where
  "checkGraph g = fold_r (\<lambda>t _. check_tensor_ccl (g_tensor g t))
    (concat (map node_outs (graph_nodes g))) ()"

definition Check :: "Graph \<Rightarrow> unit result" where
  "Check g = fold_r (\<lambda>rule _. rule g) [checkGraph] ()"

section \<open>Building the graph of a plan\<close>

record BuildMaps =
  inputTensorTo :: "(int, nat list) gomap"
  outputTensorFrom :: "(int, nat) gomap"
  tensorId2Tensor :: "(int, tref) gomap"

primrec number_pipelines :: "PipelineExecNode list \<Rightarrow> nat \<Rightarrow> Pipeline list \<times> nat" where
  "number_pipelines [] k = ([], k)"
| "number_pipelines (pe # pes) k =
    (let nodes = map (\<lambda>(i, n). n\<lparr>n_ID := i, n_Edges := []\<rparr>) (enumerate k (ExecutionNodes pe));
         (rest, k') = number_pipelines pes (k + length (ExecutionNodes pe))
     in (\<lparr>Batched = pe_Batched pe, InputTensors = [], OutputTensors = [], Nodes = nodes\<rparr> # rest, k'))"

definition link_input :: "(tref \<Rightarrow> int) \<Rightarrow> nat \<Rightarrow> tref \<Rightarrow> BuildMaps \<Rightarrow> BuildMaps" where
  "link_input tid node t m = m\<lparr>
    tensorId2Tensor := AList.update (tid t) t (tensorId2Tensor m),
    inputTensorTo := AList.update (tid t) (lookup_or [] (inputTensorTo m) (tid t) @ [node]) (inputTensorTo m)\<rparr>"

definition link_output :: "(tref \<Rightarrow> int) \<Rightarrow> nat \<Rightarrow> tref \<Rightarrow> BuildMaps \<Rightarrow> BuildMaps" where
  "link_output tid node t m = m\<lparr>
    tensorId2Tensor := AList.update (tid t) t (tensorId2Tensor m),
    outputTensorFrom := AList.update (tid t) node (outputTensorFrom m)\<rparr>"

definition link_node :: "(tref \<Rightarrow> int) \<Rightarrow> ExecutionNode \<Rightarrow> BuildMaps \<Rightarrow> BuildMaps" where
  "link_node tid n m =
    fold (link_output tid (n_ID n)) (node_outs n) (fold (link_input tid (n_ID n)) (node_ins n) m)"

text \<open>The edges of one tensor; \<open>outputTensorFrom[k].Edges\<close> is a nil dereference when no node creates
  the tensor.\<close>

definition tensor_edges :: "BuildMaps \<Rightarrow> int \<times> tref \<Rightarrow> Edge list result" where
  "tensor_edges m kv =
    (case lookup_or [] (inputTensorTo m) (fst kv) of
       [] \<Rightarrow> Inr []
     | ins \<Rightarrow>
       (case map_of (outputTensorFrom m) (fst kv) of
          None \<Rightarrow> Inl (Panic ''nil pointer dereference'')
        | Some from \<Rightarrow> Inr (map (\<lambda>i. \<lparr>e_From = from, e_To = i, e_Value = snd kv\<rparr>) ins)))"

definition attach_edges :: "Edge list \<Rightarrow> Pipeline \<Rightarrow> Pipeline" where
  "attach_edges es p = p\<lparr>Nodes := map (\<lambda>n. n\<lparr>n_Edges := filter (\<lambda>e. e_From e = n_ID n) es\<rparr>) (Nodes p)\<rparr>"

definition pipeline_in_ids :: "(tref \<Rightarrow> int) \<Rightarrow> Pipeline \<Rightarrow> int list" where
  "pipeline_in_ids tid p = remdups (map tid (concat (map node_ins (Nodes p))))"

definition pipeline_out_ids :: "(tref \<Rightarrow> int) \<Rightarrow> Pipeline \<Rightarrow> int list" where
  "pipeline_out_ids tid p = remdups (map tid (concat (map node_outs (Nodes p))))"

definition fill_inputs :: "(tref \<Rightarrow> Tensor) \<Rightarrow> (int, tref) gomap \<Rightarrow> Pipeline \<Rightarrow> Pipeline" where
  "fill_inputs deref idToTensor p =
    (let tid = (\<lambda>t. t_ID (deref t)); ins = pipeline_in_ids tid p; outs = pipeline_out_ids tid p in
     p\<lparr>Batched := Batched p \<and>
        list_all (\<lambda>n. list_all (\<lambda>t. t_status (deref t) = TENSORSTATUS_PRIVATE) (node_ins n @ node_outs n)) (Nodes p),
       InputTensors := sort_key tid (map (\<lambda>i. lookup_or 0 idToTensor i) (filter (\<lambda>i. i \<notin> set outs) ins))\<rparr>)"

fun fill_outputs :: "(tref \<Rightarrow> Tensor) \<Rightarrow> Pipeline list \<Rightarrow> Pipeline list" where
  "fill_outputs deref [] = []"
| "fill_outputs deref (p # ps) =
    (let tid = (\<lambda>t. t_ID (deref t)); outs = pipeline_out_ids tid p;
         used = fold (\<lambda>t m. AList.update (tid t) t m)
           (filter (\<lambda>t. tid t \<in> set outs) (concat (map InputTensors ps))) []
     in p\<lparr>OutputTensors := sort_key tid (OutputTensors p @ map snd used)\<rparr> # fill_outputs deref ps)"

definition FillPipeline :: "(tref \<Rightarrow> Tensor) \<Rightarrow> (int, tref) gomap \<Rightarrow> Pipeline list \<Rightarrow> Pipeline list" where
  "FillPipeline deref idToTensor ps = fill_outputs deref (map (fill_inputs deref idToTensor) ps)"

definition build_maps :: "(tref \<Rightarrow> int) \<Rightarrow> ExecutionNode list \<Rightarrow> BuildMaps" where
  "build_maps tid ns = fold (link_node tid) ns \<lparr>inputTensorTo = [], outputTensorFrom = [], tensorId2Tensor = []\<rparr>"

definition Build :: "GraphBuilder \<Rightarrow> Graph result" where
  "Build plan =
    (let (pipes, cnt) = number_pipelines (PipelineExeNodes plan) 0;
         tid = (\<lambda>t. t_ID (tensor plan t));
         m = build_maps tid (concat (map Nodes pipes))
     in bind_r (map_r (tensor_edges m) (tensorId2Tensor m)) (\<lambda>ess.
        let pipes' = map (attach_edges (concat ess)) pipes in
        Inr \<lparr>Pipelines = (if batched plan then FillPipeline (tensor plan) (tensorId2Tensor m) pipes' else pipes'),
          NodeCnt = cnt, OutputNames = OutputName plan, g_PartyInfo = gb_partyInfo plan,
          g_Tensors = Tensors plan\<rparr>))"

section \<open>Topological order: lemmas\<close>

lemma find_node_Some: "find_node ns i = Some n \<Longrightarrow> n \<in> set ns \<and> n_ID n = i"
  by (auto simp: find_node_def find_Some_iff)

lemma find_node_mem: "i \<in> n_ID ` set ns \<Longrightarrow> \<exists>n. find_node ns i = Some n"
  by (auto simp: find_node_def find_None_iff dest!: spec intro: ccontr simp flip: not_None_eq)

lemma find_node_unique: "distinct (map n_ID ns) \<Longrightarrow> n \<in> set ns \<Longrightarrow> find_node ns (n_ID n) = Some n"
  by (induction ns) (auto simp: find_node_def rev_image_eqI)

lemma edge_targets_node:
  "distinct (map n_ID ns) \<Longrightarrow> n \<in> set ns \<Longrightarrow> edge_targets ns (n_ID n) = map e_To (n_Edges n)"
  by (simp add: edge_targets_def find_node_unique)

text \<open>The edges inside a pipeline, as a relation on node IDs.\<close>

definition pipeline_edges :: "Pipeline \<Rightarrow> (nat \<times> nat) set" where
  "pipeline_edges p = {(n_ID n, e_To e) |n e. n \<in> set (Nodes p) \<and> e \<in> set (n_Edges n) \<and> e_To e \<in> n_ID ` set (Nodes p)}"

lemma edge_rel_pipeline:
  "distinct (map n_ID (Nodes p)) \<Longrightarrow> edge_rel (map n_ID (Nodes p)) (edge_targets (Nodes p)) = pipeline_edges p"
  unfolding edge_rel_def pipeline_edges_def
  by (auto simp: edge_targets_node image_iff) metis+

text \<open>What a topological order of a pipeline is: each node once, every edge forward.\<close>

definition ordered_nodes :: "Pipeline \<Rightarrow> ExecutionNode list \<Rightarrow> bool" where
  "ordered_nodes p out \<longleftrightarrow> distinct out \<and> set out = set (Nodes p)
    \<and> (\<forall>xs n ys. out = xs @ n # ys \<longrightarrow>
        (\<forall>m \<in> set (Nodes p). \<forall>e \<in> set (n_Edges m). e_To e = n_ID n \<longrightarrow> m \<in> set xs))"

lemma sort_pipeline_sound:
  assumes d: "distinct (map n_ID (Nodes p))" and s: "sort_pipeline p = Inr out"
  shows "ordered_nodes p out"
proof -
  let ?N = "map n_ID (Nodes p)" and ?get = "\<lambda>i. the (find_node (Nodes p) i)"
  obtain ids where ids: "topo_order ?N (edge_targets (Nodes p)) = Inr ids" "out = map ?get ids"
    using s by (auto simp: sort_pipeline_def result_simps split: sum.splits)
  have top: "topological ?N (edge_targets (Nodes p)) ids"
    by (rule topo_order_sound[OF d ids(1)])
  have set: "set ids = n_ID ` set (Nodes p)" and dist: "distinct ids"
    using top by (auto simp: topological_def)
  have get: "?get (n_ID n) = n" if "n \<in> set (Nodes p)" for n
    using find_node_unique[OF d that] by simp
  have getID: "n_ID (?get i) = i \<and> ?get i \<in> set (Nodes p)" if "i \<in> set ids" for i
    using that set get by auto
  have ID_out: "map n_ID out = ids"
    unfolding ids(2) using getID by (simp add: map_idI)
  have "set out = set (Nodes p)"
    unfolding ids(2) using set get by force
  moreover have "distinct out"
    using dist ID_out by (metis distinct_map)
  moreover have "m \<in> set xs" if "out = xs @ n # ys" "m \<in> set (Nodes p)" "e \<in> set (n_Edges m)" "e_To e = n_ID n"
    for xs n ys m e
  proof -
    have "ids = map n_ID xs @ n_ID n # map n_ID ys" using ID_out that(1) by simp
    moreover have "n_ID n \<in> set (edge_targets (Nodes p) (n_ID m))"
      using edge_targets_node[OF d that(2)] that(3,4) by force
    moreover have "n_ID m \<in> set ?N" using that(2) by simp
    ultimately have "n_ID m \<in> set (map n_ID xs)"
      using top unfolding topological_def by blast
    then obtain m' where m': "m' \<in> set xs" "n_ID m' = n_ID m" by auto
    then have "m' \<in> set (Nodes p)" using \<open>set out = set (Nodes p)\<close> that(1) by auto
    with m' get that(2) have "m' = m" by metis
    with m' show ?thesis by simp
  qed
  ultimately show ?thesis unfolding ordered_nodes_def by blast
qed

lemma sort_pipeline_total:
  assumes "distinct (map n_ID (Nodes p))"
  shows "(\<exists>out. sort_pipeline p = Inr out) \<longleftrightarrow> acyclic (pipeline_edges p)"
proof -
  have "(\<exists>out. sort_pipeline p = Inr out) \<longleftrightarrow> (\<exists>ids. topo_order (map n_ID (Nodes p)) (edge_targets (Nodes p)) = Inr ids)"
    by (auto simp: sort_pipeline_def result_simps split: sum.splits)
  with assms show ?thesis
    using topo_order_complete topological_acyclic[OF topo_order_sound] edge_rel_pipeline by metis
qed

lemma map_r_total: "(\<exists>ys. map_r f xs = Inr ys) \<longleftrightarrow> (\<forall>x \<in> set xs. \<exists>y. f x = Inr y)"
proof (induction xs)
  case (Cons x xs)
  then show ?case by (cases "f x") (simp_all add: result_simps)
qed simp

section \<open>Building: lemmas\<close>

lemma link_input_fold:
  "lookup_or [] (inputTensorTo (fold (link_input tid n) ts m)) k =
    lookup_or [] (inputTensorTo m) k @ replicate (count_list (map tid ts) k) n"
  "outputTensorFrom (fold (link_input tid n) ts m) = outputTensorFrom m"
  by (induction ts arbitrary: m) (simp_all add: link_input_def replicate_app_Cons_same)

lemma link_output_fold:
  "inputTensorTo (fold (link_output tid n) ts m) = inputTensorTo m"
  "map_of (outputTensorFrom (fold (link_output tid n) ts m)) k =
    (if k \<in> tid ` set ts then Some n else map_of (outputTensorFrom m) k)"
  by (induction ts arbitrary: m) (auto simp: link_output_def update_conv)

lemma link_consumers:
  "set (lookup_or [] (inputTensorTo (fold (link_node tid) ns m)) k) =
    set (lookup_or [] (inputTensorTo m) k) \<union> {n_ID n |n. n \<in> set ns \<and> k \<in> tid ` set (node_ins n)}"
  by (induction ns arbitrary: m)
    (auto simp: link_node_def link_input_fold link_output_fold count_list_0_iff split: if_splits)

lemma link_producer_None:
  "map_of (outputTensorFrom (fold (link_node tid) ns m)) k = None \<longleftrightarrow>
    map_of (outputTensorFrom m) k = None \<and> (\<forall>n \<in> set ns. k \<notin> tid ` set (node_outs n))"
  by (induction ns arbitrary: m) (auto simp: link_node_def link_input_fold link_output_fold split: if_splits)

lemma link_producer_Some:
  "map_of (outputTensorFrom (fold (link_node tid) ns m)) k = Some i \<Longrightarrow>
    map_of (outputTensorFrom m) k = Some i \<or> (\<exists>n \<in> set ns. n_ID n = i \<and> k \<in> tid ` set (node_outs n))"
proof (induction ns arbitrary: m)
  case (Cons n ns)
  have "map_of (outputTensorFrom (fold (link_node tid) ns (link_node tid n m))) k = Some i"
    using Cons.prems by simp
  from Cons.IH[OF this] show ?case
    by (auto simp: link_node_def link_input_fold link_output_fold split: if_splits)
qed simp

lemma link_tensors:
  assumes "set (keys (tensorId2Tensor m)) = K" "\<forall>(k, t) \<in> set (tensorId2Tensor m). tid t = k"
  shows "set (keys (tensorId2Tensor (fold (link_node tid) ns m))) =
      K \<union> (\<Union>n \<in> set ns. tid ` set (node_ins n) \<union> tid ` set (node_outs n))
    \<and> (\<forall>(k, t) \<in> set (tensorId2Tensor (fold (link_node tid) ns m)). tid t = k)"
proof -
  define good where "good m K \<longleftrightarrow> set (keys (tensorId2Tensor m)) = K \<and> (\<forall>(k, t) \<in> set (tensorId2Tensor m). tid t = k)" for m :: BuildMaps and K
  have upd: "set (AList.update k t xs) \<subseteq> insert (k, t) (set xs)" for k and t :: tref and xs
    by (induction xs) auto
  have step: "good m (insert (tid t) K)" if "good m0 K" "tensorId2Tensor m = AList.update (tid t) t (tensorId2Tensor m0)"
    for m m0 K t
    using that upd[of "tid t" t "tensorId2Tensor m0"] unfolding good_def by (auto simp del: set_map)
  have ins: "good (fold (link_input tid i) ts m) (K \<union> tid ` set ts)" if "good m K" for i ts m K
    using that
  proof (induction ts arbitrary: m K)
    case (Cons t ts)
    from Cons.IH[OF step[OF Cons.prems, of "link_input tid i t m" t]] show ?case by (simp add: link_input_def)
  qed simp
  have outs: "good (fold (link_output tid i) ts m) (K \<union> tid ` set ts)" if "good m K" for i ts m K
    using that
  proof (induction ts arbitrary: m K)
    case (Cons t ts)
    from Cons.IH[OF step[OF Cons.prems, of "link_output tid i t m" t]] show ?case by (simp add: link_output_def)
  qed simp
  have "good (fold (link_node tid) ns m) (K \<union> (\<Union>n \<in> set ns. tid ` set (node_ins n) \<union> tid ` set (node_outs n)))"
    if "good m K" for m K
    using that
  proof (induction ns arbitrary: m K)
    case (Cons n ns)
    from Cons.IH[OF outs[OF ins[OF Cons.prems, of "n_ID n" "node_ins n"], of "n_ID n" "node_outs n"]]
    show ?case by (simp add: link_node_def Un_assoc)
  qed simp
  from this[of m K] assms show ?thesis by (simp add: good_def)
qed

lemma number_pipelines_flat:
  "concat (map Nodes (fst (number_pipelines pes k))) =
    map (\<lambda>(i, n). n\<lparr>n_ID := i, n_Edges := []\<rparr>) (enumerate k (concat (map ExecutionNodes pes)))"
  "snd (number_pipelines pes k) = k + length (concat (map ExecutionNodes pes))"
  by (induction pes arbitrary: k) (simp_all add: Let_def split_beta enumerate_append_eq)

lemma FillPipeline_Nodes [simp]: "map Nodes (FillPipeline deref m ps) = map Nodes ps"
proof -
  have "map Nodes (fill_outputs deref qs) = map Nodes qs" for qs
    by (induction qs) (simp_all add: Let_def)
  then show ?thesis by (simp add: FillPipeline_def comp_def fill_inputs_def Let_def)
qed

text \<open>A plan in creation order: the inputs of a node are created by earlier nodes and no tensor is
  created twice.\<close>

fun well_ordered :: "(tref \<Rightarrow> int) \<Rightarrow> ExecutionNode list \<Rightarrow> int set \<Rightarrow> bool" where
  "well_ordered tid [] seen = True"
| "well_ordered tid (n # ns) seen =
    (list_all (\<lambda>t. tid t \<in> seen) (node_ins n) \<and> list_all (\<lambda>t. tid t \<notin> seen) (node_outs n)
     \<and> well_ordered tid ns (seen \<union> set (map tid (node_outs n))))"

definition created :: "(tref \<Rightarrow> int) \<Rightarrow> ExecutionNode list \<Rightarrow> int set" where
  "created tid ns = (\<Union>n \<in> set ns. tid ` set (node_outs n))"

lemma well_ordered_append:
  "well_ordered tid (xs @ ys) S \<longleftrightarrow> well_ordered tid xs S \<and> well_ordered tid ys (S \<union> created tid xs)"
  by (induction xs arbitrary: S) (simp_all add: created_def Un_assoc)

lemma well_ordered_disjoint: "well_ordered tid ns S \<Longrightarrow> n \<in> set ns \<Longrightarrow> t \<in> set (node_outs n) \<Longrightarrow> tid t \<notin> S"
  by (induction ns arbitrary: S) (auto simp: list_all_iff)

lemma well_ordered_earlier:
  assumes "well_ordered tid ns {}" "i < length ns" "j < length ns"
    and "t \<in> set (node_outs (ns ! i))" "u \<in> set (node_ins (ns ! j))" "tid t = tid u"
  shows "i < j"
proof (rule ccontr)
  assume "\<not> i < j"
  define xs ys where "xs = take j ns" and "ys = drop (Suc j) ns"
  have ns: "ns = xs @ ns ! j # ys" using assms(3) by (simp add: xs_def ys_def id_take_nth_drop)
  have "ns ! i \<in> set (drop j ns)"
    using \<open>\<not> i < j\<close> assms(2) by (auto simp: in_set_conv_nth intro!: exI[of _ "i - j"])
  then have "ns ! i \<in> set (ns ! j # ys)" using assms(3) by (simp add: ys_def Cons_nth_drop_Suc)
  moreover have w: "well_ordered tid (ns ! j # ys) (created tid xs)"
    using assms(1) ns well_ordered_append[of tid xs "ns ! j # ys" "{}"] by simp
  ultimately have "tid t \<notin> created tid xs" using well_ordered_disjoint assms(4) by blast
  moreover have "tid u \<in> created tid xs" using w assms(5) by (simp add: list_all_iff)
  ultimately show False using assms(6) by simp
qed

lemma well_ordered_producer:
  assumes "well_ordered tid ns {}" "n \<in> set ns" "u \<in> set (node_ins n)"
  shows "\<exists>m \<in> set ns. tid u \<in> tid ` set (node_outs m)"
proof -
  obtain xs ys where "ns = xs @ n # ys" using assms(2) by (meson split_list)
  with assms well_ordered_append[of tid xs "n # ys" "{}"] have "tid u \<in> created tid xs"
    by (simp add: list_all_iff)
  then show ?thesis unfolding created_def \<open>ns = xs @ n # ys\<close> by auto
qed

lemma well_ordered_unique:
  assumes "well_ordered tid ns {}" "i < length ns" "j < length ns"
    and "t \<in> set (node_outs (ns ! i))" "u \<in> set (node_outs (ns ! j))" "tid t = tid u"
  shows "i = j"
proof -
  have lt: False if "a < b" "b < length ns" "x \<in> set (node_outs (ns ! a))" "y \<in> set (node_outs (ns ! b))" "tid x = tid y" for a b x y
  proof -
    have ns: "ns = take b ns @ ns ! b # drop (Suc b) ns" using that(2) by (simp add: id_take_nth_drop)
    then have "well_ordered tid (ns ! b # drop (Suc b) ns) (created tid (take b ns))"
      using assms(1) well_ordered_append[of tid "take b ns" "ns ! b # drop (Suc b) ns" "{}"] by simp
    then have "tid y \<notin> created tid (take b ns)" using that(4) by (simp add: list_all_iff)
    moreover have "ns ! a \<in> set (take b ns)" using that(1,2) by (auto simp: in_set_conv_nth)
    ultimately show False using that(3) unfolding created_def that(5)[symmetric] by blast
  qed
  show ?thesis using lt[of i j t u] lt[of j i u t] assms(2-) by (cases i j rule: linorder_cases) auto
qed

definition plan_ordered :: "GraphBuilder \<Rightarrow> bool" where
  "plan_ordered plan = well_ordered (\<lambda>t. t_ID (tensor plan t)) (all_nodes plan) {}"

definition numbered_nodes :: "GraphBuilder \<Rightarrow> ExecutionNode list" where
  "numbered_nodes plan = map (\<lambda>(i, n). n\<lparr>n_ID := i, n_Edges := []\<rparr>) (enumerate 0 (all_nodes plan))"

lemma numbered_nth:
  "i < length (all_nodes plan) \<Longrightarrow> numbered_nodes plan ! i = (all_nodes plan ! i)\<lparr>n_ID := i, n_Edges := []\<rparr>"
  "length (numbered_nodes plan) = length (all_nodes plan)"
  by (simp_all add: numbered_nodes_def nth_enumerate_eq)

lemma node_ports_update [simp]:
  "node_ins (n\<lparr>n_ID := i\<rparr>) = node_ins n" "node_outs (n\<lparr>n_ID := i\<rparr>) = node_outs n"
  "node_ins (n\<lparr>n_Edges := es\<rparr>) = node_ins n" "node_outs (n\<lparr>n_Edges := es\<rparr>) = node_outs n"
  by (simp_all add: node_ins_def node_outs_def)

lemma numbered_ID: "n \<in> set (numbered_nodes plan) \<Longrightarrow>
    n_ID n < length (all_nodes plan) \<and> numbered_nodes plan ! n_ID n = n"
  by (auto simp: in_set_conv_nth numbered_nth)

lemma build_maps_spec:
  "set (lookup_or [] (inputTensorTo (build_maps tid ns)) k) = {n_ID n |n. n \<in> set ns \<and> k \<in> tid ` set (node_ins n)}"
  "map_of (outputTensorFrom (build_maps tid ns)) k = None \<longleftrightarrow> (\<forall>n \<in> set ns. k \<notin> tid ` set (node_outs n))"
  "map_of (outputTensorFrom (build_maps tid ns)) k = Some i \<Longrightarrow> \<exists>n \<in> set ns. n_ID n = i \<and> k \<in> tid ` set (node_outs n)"
  "set (keys (tensorId2Tensor (build_maps tid ns))) = (\<Union>n \<in> set ns. tid ` set (node_ins n) \<union> tid ` set (node_outs n))"
  "(k, t) \<in> set (tensorId2Tensor (build_maps tid ns)) \<Longrightarrow> tid t = k"
proof -
  let ?m = "\<lparr>inputTensorTo = [], outputTensorFrom = [], tensorId2Tensor = []\<rparr>"
  show "set (lookup_or [] (inputTensorTo (build_maps tid ns)) k) = {n_ID n |n. n \<in> set ns \<and> k \<in> tid ` set (node_ins n)}"
    using link_consumers[of tid ns ?m k] by (simp add: build_maps_def lookup_or_def)
  show "map_of (outputTensorFrom (build_maps tid ns)) k = None \<longleftrightarrow> (\<forall>n \<in> set ns. k \<notin> tid ` set (node_outs n))"
    using link_producer_None[of tid ns ?m k] by (simp add: build_maps_def)
  show "\<exists>n \<in> set ns. n_ID n = i \<and> k \<in> tid ` set (node_outs n)"
    if "map_of (outputTensorFrom (build_maps tid ns)) k = Some i"
    using link_producer_Some[of tid ns ?m k i] that by (simp add: build_maps_def)
  show "set (keys (tensorId2Tensor (build_maps tid ns))) = (\<Union>n \<in> set ns. tid ` set (node_ins n) \<union> tid ` set (node_outs n))"
    using link_tensors[of ?m "{}" tid ns] by (simp add: build_maps_def)
  show "tid t = k" if "(k, t) \<in> set (tensorId2Tensor (build_maps tid ns))"
    using link_tensors[of ?m "{}" tid ns] that by (auto simp: build_maps_def)
qed

lemma tensor_edges_total:
  "(\<exists>es. tensor_edges m kv = Inr es) \<longleftrightarrow>
    lookup_or [] (inputTensorTo m) (fst kv) = [] \<or> map_of (outputTensorFrom m) (fst kv) \<noteq> None"
  by (auto simp: tensor_edges_def split: list.splits option.splits)

lemma tensor_edges_set:
  "tensor_edges m kv = Inr es \<Longrightarrow> e \<in> set es \<longleftrightarrow>
    map_of (outputTensorFrom m) (fst kv) = Some (e_From e) \<and> e_To e \<in> set (lookup_or [] (inputTensorTo m) (fst kv))
    \<and> e_Value e = snd kv"
  by (cases e) (auto simp: tensor_edges_def split: list.splits option.splits)

text \<open>An edge from the node that creates a tensor to each node that reads it.\<close>

definition dataflow :: "(tref \<Rightarrow> int) \<Rightarrow> ExecutionNode \<Rightarrow> ExecutionNode \<Rightarrow> int \<Rightarrow> bool" where
  "dataflow tid a b k \<longleftrightarrow> k \<in> tid ` set (node_outs a) \<and> k \<in> tid ` set (node_ins b)"

lemma Build_Inr:
  assumes "Build plan = Inr g"
  obtains es where
    "graph_nodes g = map (\<lambda>n. n\<lparr>n_Edges := filter (\<lambda>e. e_From e = n_ID n) es\<rparr>) (numbered_nodes plan)"
    "\<And>e. e \<in> set es \<Longrightarrow> \<exists>a \<in> set (numbered_nodes plan). \<exists>b \<in> set (numbered_nodes plan).
       e_From e = n_ID a \<and> e_To e = n_ID b \<and> dataflow (\<lambda>t. t_ID (tensor plan t)) a b (t_ID (tensor plan (e_Value e)))"
    "\<And>a b k. plan_ordered plan \<Longrightarrow> a \<in> set (numbered_nodes plan) \<Longrightarrow> b \<in> set (numbered_nodes plan) \<Longrightarrow>
       dataflow (\<lambda>t. t_ID (tensor plan t)) a b k \<Longrightarrow>
       \<exists>e \<in> set es. e_From e = n_ID a \<and> e_To e = n_ID b \<and> t_ID (tensor plan (e_Value e)) = k"
proof -
  let ?tid = "\<lambda>t. t_ID (tensor plan t)" and ?ns = "numbered_nodes plan"
  let ?m = "build_maps ?tid ?ns" and ?ps = "fst (number_pipelines (PipelineExeNodes plan) 0)"
  have flat: "concat (map Nodes ?ps) = ?ns"
    by (simp add: number_pipelines_flat numbered_nodes_def all_nodes_def)
  obtain ess where ess: "map_r (tensor_edges ?m) (tensorId2Tensor ?m) = Inr ess"
    and g: "map Nodes (Pipelines g) = map Nodes (map (attach_edges (concat ess)) ?ps)"
    using assms flat by (auto simp: Build_def Let_def split_beta result_simps split: sum.splits if_splits)
  have "graph_nodes g = concat (map (\<lambda>p. map (\<lambda>n. n\<lparr>n_Edges := filter (\<lambda>e. e_From e = n_ID n) (concat ess)\<rparr>) (Nodes p)) ?ps)"
    unfolding graph_nodes_def g by (simp add: attach_edges_def comp_def)
  also have "\<dots> = map (\<lambda>n. n\<lparr>n_Edges := filter (\<lambda>e. e_From e = n_ID n) (concat ess)\<rparr>) (concat (map Nodes ?ps))"
    by (simp add: map_concat comp_def)
  finally have nodes: "graph_nodes g = map (\<lambda>n. n\<lparr>n_Edges := filter (\<lambda>e. e_From e = n_ID n) (concat ess)\<rparr>) ?ns"
    unfolding flat .
  have es: "e \<in> set (concat ess) \<longleftrightarrow> (\<exists>kv \<in> set (tensorId2Tensor ?m).
      map_of (outputTensorFrom ?m) (fst kv) = Some (e_From e)
      \<and> e_To e \<in> set (lookup_or [] (inputTensorTo ?m) (fst kv)) \<and> e_Value e = snd kv)" for e
  proof -
    have all2: "list_all2 (\<lambda>kv es. tensor_edges ?m kv = Inr es) (tensorId2Tensor ?m) ess"
      using ess by (simp add: map_r_Inr)
    have "e \<in> set (concat ess) \<longleftrightarrow> (\<exists>kv \<in> set (tensorId2Tensor ?m). \<exists>es. tensor_edges ?m kv = Inr es \<and> e \<in> set es)"
      using all2 by (induction rule: list_all2_induct) auto
    moreover have "\<exists>es. tensor_edges ?m kv = Inr es" if "kv \<in> set (tensorId2Tensor ?m)" for kv
      using map_r_total[of "tensor_edges ?m" "tensorId2Tensor ?m"] ess that by blast
    ultimately show ?thesis using tensor_edges_set by blast
  qed
  show thesis
  proof (rule that[OF nodes])
    fix e assume "e \<in> set (concat ess)"
    then obtain k t where kt: "(k, t) \<in> set (tensorId2Tensor ?m)" "map_of (outputTensorFrom ?m) k = Some (e_From e)"
        "e_To e \<in> set (lookup_or [] (inputTensorTo ?m) k)" "e_Value e = t"
      using es by auto
    obtain a where "a \<in> set ?ns" "n_ID a = e_From e" "k \<in> ?tid ` set (node_outs a)"
      using build_maps_spec(3)[OF kt(2)] by blast
    moreover obtain b where "b \<in> set ?ns" "n_ID b = e_To e" "k \<in> ?tid ` set (node_ins b)"
      using kt(3) unfolding build_maps_spec(1) by auto
    ultimately show "\<exists>a \<in> set ?ns. \<exists>b \<in> set ?ns. e_From e = n_ID a \<and> e_To e = n_ID b
        \<and> dataflow ?tid a b (?tid (e_Value e))"
      using build_maps_spec(5)[OF kt(1)] kt(4) unfolding dataflow_def by metis
  next
    fix a b k assume ord: "plan_ordered plan" and a: "a \<in> set ?ns" and b: "b \<in> set ?ns" and df: "dataflow ?tid a b k"
    have "k \<in> set (keys (tensorId2Tensor ?m))"
      unfolding build_maps_spec(4) using df a by (auto simp: dataflow_def)
    then obtain t where t: "(k, t) \<in> set (tensorId2Tensor ?m)" by auto
    obtain i where i: "map_of (outputTensorFrom ?m) k = Some i"
      using build_maps_spec(2)[of ?tid ?ns k] df a by (auto simp: dataflow_def)
    obtain a' where a': "a' \<in> set ?ns" "n_ID a' = i" "k \<in> ?tid ` set (node_outs a')"
      using build_maps_spec(3)[OF i] by blast
    have "n_ID a = n_ID a'"
    proof -
      obtain x y where xy: "x \<in> set (node_outs a)" "y \<in> set (node_outs a')" "?tid x = ?tid y"
        using a'(3) df by (auto simp: dataflow_def)
      have "node_outs (all_nodes plan ! n_ID c) = node_outs c" if "c \<in> set ?ns" for c
        using numbered_ID[OF that] numbered_nth(1)[of "n_ID c" plan] by (metis node_ports_update(2,4))
      then have "x \<in> set (node_outs (all_nodes plan ! n_ID a))" "y \<in> set (node_outs (all_nodes plan ! n_ID a'))"
        using xy a a'(1) by simp_all
      from well_ordered_unique[OF ord[unfolded plan_ordered_def] _ _ this xy(3)] show ?thesis
        using numbered_ID[OF a] numbered_ID[OF a'(1)] by blast
    qed
    moreover have "n_ID b \<in> set (lookup_or [] (inputTensorTo ?m) k)"
      unfolding build_maps_spec(1) using b df by (auto simp: dataflow_def)
    ultimately have "\<lparr>e_From = n_ID a, e_To = n_ID b, e_Value = t\<rparr> \<in> set (concat ess)"
      unfolding es using t i a'(2) by force
    then show "\<exists>e \<in> set (concat ess). e_From e = n_ID a \<and> e_To e = n_ID b \<and> ?tid (e_Value e) = k"
      using build_maps_spec(5)[OF t] by force
  qed
qed

lemma numbered_ports:
  assumes "c \<in> set (numbered_nodes plan)"
  shows "node_outs (all_nodes plan ! n_ID c) = node_outs c" "node_ins (all_nodes plan ! n_ID c) = node_ins c"
  using numbered_ID[OF assms] numbered_nth(1)[of "n_ID c" plan] by (metis node_ports_update)+

lemma Build_total:
  assumes "plan_ordered plan"
  shows "\<exists>g. Build plan = Inr g"
proof -
  let ?tid = "\<lambda>t. t_ID (tensor plan t)" and ?ns = "numbered_nodes plan"
  let ?m = "build_maps ?tid ?ns"
  have "\<exists>es. tensor_edges ?m kv = Inr es" for kv
  proof (cases "lookup_or [] (inputTensorTo ?m) (fst kv) = []")
    case False
    then obtain n where n: "n \<in> set ?ns" "fst kv \<in> ?tid ` set (node_ins n)"
      using hd_in_set[OF False] unfolding build_maps_spec(1) by blast
    then obtain u where u: "u \<in> set (node_ins (all_nodes plan ! n_ID n))" "fst kv = ?tid u"
      using numbered_ports(2)[OF n(1)] by auto
    moreover have "all_nodes plan ! n_ID n \<in> set (all_nodes plan)" using numbered_ID[OF n(1)] by simp
    ultimately obtain m where m: "m \<in> set (all_nodes plan)" "?tid u \<in> ?tid ` set (node_outs m)"
      using well_ordered_producer assms[unfolded plan_ordered_def] by metis
    then obtain i where i: "i < length (all_nodes plan)" "m = all_nodes plan ! i" by (metis in_set_conv_nth)
    then have "?ns ! i \<in> set ?ns" by (metis nth_mem numbered_nth(2))
    moreover have "node_outs (?ns ! i) = node_outs m" using i by (simp add: numbered_nth)
    ultimately have "map_of (outputTensorFrom ?m) (fst kv) \<noteq> None"
      unfolding build_maps_spec(2) u(2) using m(2) by metis
    then show ?thesis by (simp add: tensor_edges_total)
  qed (simp add: tensor_edges_total)
  then have "\<exists>ess. map_r (tensor_edges ?m) (tensorId2Tensor ?m) = Inr ess"
    by (simp only: map_r_total ball_simps) simp
  then obtain ess where "map_r (tensor_edges ?m) (tensorId2Tensor ?m) = Inr ess" ..
  moreover have "concat (map Nodes (fst (number_pipelines (PipelineExeNodes plan) 0))) = ?ns"
    by (simp add: number_pipelines_flat numbered_nodes_def all_nodes_def)
  ultimately show ?thesis by (simp add: Build_def Let_def split_beta result_simps)
qed

definition distinct_IDs :: "Graph \<Rightarrow> bool" where
  "distinct_IDs g = list_all (\<lambda>p. distinct (map n_ID (Nodes p))) (Pipelines g)"

lemma distinct_IDs_flat: "distinct (map n_ID (graph_nodes g)) \<Longrightarrow> distinct_IDs g"
proof -
  have "distinct (map n_ID (concat (map Nodes ps))) \<Longrightarrow> list_all (\<lambda>p. distinct (map n_ID (Nodes p))) ps" for ps
    by (induction ps) auto
  then show "distinct (map n_ID (graph_nodes g)) \<Longrightarrow> distinct_IDs g"
    by (simp add: distinct_IDs_def graph_nodes_def)
qed

lemma Build_IDs:
  assumes "Build plan = Inr g"
  shows "map n_ID (graph_nodes g) = [0..<length (all_nodes plan)]" "distinct_IDs g"
proof -
  obtain es where "graph_nodes g = map (\<lambda>n. n\<lparr>n_Edges := filter (\<lambda>e. e_From e = n_ID n) es\<rparr>) (numbered_nodes plan)"
    by (rule Build_Inr[OF assms]) (erule that)
  then show "map n_ID (graph_nodes g) = [0..<length (all_nodes plan)]"
    by (auto intro!: nth_equalityI simp: numbered_nth)
  then show "distinct_IDs g" by (intro distinct_IDs_flat) simp
qed

lemma Build_forward:
  assumes "Build plan = Inr g" "plan_ordered plan" "n \<in> set (graph_nodes g)" "e \<in> set (n_Edges n)"
  shows "n_ID n < e_To e"
proof -
  let ?tid = "\<lambda>t. t_ID (tensor plan t)"
  obtain es where es: "graph_nodes g = map (\<lambda>n. n\<lparr>n_Edges := filter (\<lambda>e. e_From e = n_ID n) es\<rparr>) (numbered_nodes plan)"
      "\<And>e. e \<in> set es \<Longrightarrow> \<exists>a \<in> set (numbered_nodes plan). \<exists>b \<in> set (numbered_nodes plan).
       e_From e = n_ID a \<and> e_To e = n_ID b \<and> dataflow ?tid a b (?tid (e_Value e))"
    by (rule Build_Inr[OF assms(1)]) (rule that)
  then have "e \<in> set es" "e_From e = n_ID n" using assms(3,4) by auto
  with es(2)[of e] obtain a b where ab: "a \<in> set (numbered_nodes plan)" "b \<in> set (numbered_nodes plan)"
      "n_ID n = n_ID a" "e_To e = n_ID b" "dataflow ?tid a b (?tid (e_Value e))" by metis
  then obtain t u where "t \<in> set (node_outs (all_nodes plan ! n_ID a))" "u \<in> set (node_ins (all_nodes plan ! n_ID b))"
      "?tid t = ?tid u"
    using numbered_ports(1)[OF ab(1)] numbered_ports(2)[OF ab(2)] by (auto simp: dataflow_def)
  from well_ordered_earlier[OF assms(2)[unfolded plan_ordered_def] _ _ this]
  have "n_ID a < n_ID b" using numbered_ID[OF ab(1)] numbered_ID[OF ab(2)] by blast
  then show ?thesis using ab(3,4) by simp
qed

lemma pipeline_edges_acyclic:
  assumes "\<forall>n \<in> set (Nodes p). \<forall>e \<in> set (n_Edges n). n_ID n < e_To e"
  shows "acyclic (pipeline_edges p)"
proof (rule acyclic_subset[OF wf_acyclic[OF wf_less_than]])
  show "pipeline_edges p \<subseteq> less_than" using assms by (auto simp: pipeline_edges_def)
qed

lemma TopologicalSort_sound:
  assumes "distinct_IDs g" "TopologicalSort g = Inr outs"
  shows "list_all2 ordered_nodes (Pipelines g) outs"
proof (rule list.rel_mono_strong)
  show "list_all2 (\<lambda>p out. sort_pipeline p = Inr out) (Pipelines g) outs"
    using assms(2) by (simp add: TopologicalSort_def map_r_Inr)
  show "ordered_nodes p out" if "p \<in> set (Pipelines g)" "sort_pipeline p = Inr out" for p out
    using that assms(1) sort_pipeline_sound by (simp add: distinct_IDs_def list_all_iff)
qed

lemma TopologicalSort_total:
  "distinct_IDs g \<Longrightarrow> (\<exists>outs. TopologicalSort g = Inr outs) \<longleftrightarrow> (\<forall>p \<in> set (Pipelines g). acyclic (pipeline_edges p))"
  using sort_pipeline_total by (auto simp: TopologicalSort_def map_r_total distinct_IDs_def list_all_iff)

lemma same_ports_well_ordered:
  "map (\<lambda>n. (node_ins n, node_outs n)) ns = map (\<lambda>n. (node_ins n, node_outs n)) ms \<Longrightarrow>
    well_ordered tid ns S = well_ordered tid ms S"
proof (induction ns arbitrary: ms S)
  case (Cons n ns)
  then obtain m ms' where "ms = m # ms'" "node_ins n = node_ins m" "node_outs n = node_outs m"
      "map (\<lambda>n. (node_ins n, node_outs n)) ns = map (\<lambda>n. (node_ins n, node_outs n)) ms'"
    by (cases ms) auto
  with Cons.IH[of ms'] show ?case by simp
qed simp

lemma Build_well_ordered:
  assumes "Build plan = Inr g" "plan_ordered plan"
  shows "well_ordered (\<lambda>t. t_ID (tensor plan t)) (graph_nodes g) {}"
proof -
  obtain es where es: "graph_nodes g = map (\<lambda>n. n\<lparr>n_Edges := filter (\<lambda>e. e_From e = n_ID n) es\<rparr>) (numbered_nodes plan)"
    by (rule Build_Inr[OF assms(1)]) (erule that)
  have "map (\<lambda>n. (node_ins n, node_outs n)) (graph_nodes g) = map (\<lambda>n. (node_ins n, node_outs n)) (all_nodes plan)"
    unfolding es by (rule nth_equalityI) (simp_all add: numbered_nth)
  from same_ports_well_ordered[OF this] assms(2) show ?thesis by (simp add: plan_ordered_def)
qed

subsection \<open>Pipelines of a batched plan\<close>

lemma fill_outputs_nth:
  "i < length ps \<Longrightarrow>
    Nodes (fill_outputs deref ps ! i) = Nodes (ps ! i) \<and> InputTensors (fill_outputs deref ps ! i) = InputTensors (ps ! i)
    \<and> (\<lambda>t. t_ID (deref t)) ` set (OutputTensors (fill_outputs deref ps ! i)) =
      (\<lambda>t. t_ID (deref t)) ` set (OutputTensors (ps ! i)) \<union>
      (set (pipeline_out_ids (\<lambda>t. t_ID (deref t)) (ps ! i))
        \<inter> (\<Union>q \<in> set (drop (Suc i) ps). (\<lambda>t. t_ID (deref t)) ` set (InputTensors q)))"
proof (induction ps arbitrary: i)
  case (Cons p ps)
  let ?tid = "\<lambda>t. t_ID (deref t)"
  have used: "?tid ` snd ` set (fold (\<lambda>t m. AList.update (?tid t) t m) ts m) = ?tid ` snd ` set m \<union> ?tid ` set ts"
    if "\<forall>(k, t) \<in> set m. ?tid t = k" for ts and m :: "(int, tref) gomap"
    using that
  proof (induction ts arbitrary: m)
    case (Cons t ts)
    have "?tid ` snd ` set (AList.update (?tid t) t m) = insert (?tid t) (?tid ` snd ` set m)"
      using Cons.prems by (induction m) auto
    moreover have "\<forall>(k, t) \<in> set (AList.update (?tid t) t m). ?tid t = k"
      using Cons.prems by (induction m) auto
    ultimately show ?case using Cons.IH by auto
  qed simp
  show ?case
  proof (cases i)
    case 0
    define F where "F = filter (\<lambda>t. ?tid t \<in> set (pipeline_out_ids ?tid p)) (concat (map InputTensors ps))"
    have "?tid ` snd ` set (fold (\<lambda>t m. AList.update (?tid t) t m) F []) = ?tid ` set F"
      using used[of "[]" F] by simp
    moreover have "?tid ` set F = set (pipeline_out_ids ?tid p) \<inter> (\<Union>q \<in> set ps. ?tid ` set (InputTensors q))"
      by (auto simp: F_def)
    moreover have "fill_outputs deref (p # ps) ! i = p\<lparr>OutputTensors :=
        sort_key ?tid (OutputTensors p @ map snd (fold (\<lambda>t m. AList.update (?tid t) t m) F []))\<rparr>"
      by (simp add: Let_def F_def 0)
    ultimately show ?thesis using 0 by (simp add: image_Un)
  next
    case (Suc j)
    then show ?thesis using Cons.IH[of j] Cons.prems by (simp add: Let_def)
  qed
qed simp

lemma fill_outputs_length [simp]: "length (fill_outputs deref ps) = length ps"
  by (induction ps) (simp_all add: Let_def)

lemma fill_inputs_ids:
  assumes "\<forall>k t. map_of m k = Some t \<longrightarrow> t_ID (deref t) = k"
    "\<forall>n \<in> set (Nodes p). \<forall>t \<in> set (node_ins n). map_of m (t_ID (deref t)) \<noteq> None"
  shows "(\<lambda>t. t_ID (deref t)) ` set (InputTensors (fill_inputs deref m p)) =
    set (pipeline_in_ids (\<lambda>t. t_ID (deref t)) p) - set (pipeline_out_ids (\<lambda>t. t_ID (deref t)) p)"
proof -
  have "t_ID (deref (lookup_or 0 m k)) = k" if "k \<in> set (pipeline_in_ids (\<lambda>t. t_ID (deref t)) p)" for k
    using that assms by (force simp: pipeline_in_ids_def lookup_or_def)
  then show ?thesis by (simp add: fill_inputs_def Let_def image_image) force
qed

lemma Build_batched:
  assumes b: "Build plan = Inr g" "batched plan" and i: "i < length (Pipelines g)"
  defines "tid \<equiv> (\<lambda>t. t_ID (tensor plan t))"
  shows "tid ` set (InputTensors (Pipelines g ! i)) =
      set (pipeline_in_ids tid (Pipelines g ! i)) - set (pipeline_out_ids tid (Pipelines g ! i))"
    "tid ` set (OutputTensors (Pipelines g ! i)) = set (pipeline_out_ids tid (Pipelines g ! i)) \<inter>
      (\<Union>q \<in> set (drop (Suc i) (Pipelines g)). tid ` set (InputTensors q))"
proof -
  let ?pipes = "fst (number_pipelines (PipelineExeNodes plan) 0)"
  let ?m = "build_maps tid (concat (map Nodes ?pipes))"
  obtain es where g: "Pipelines g = FillPipeline (tensor plan) (tensorId2Tensor ?m) (map (attach_edges es) ?pipes)"
    using b by (auto simp: Build_def Let_def tid_def split_beta result_simps split: sum.splits)
  define ps where "ps = map (attach_edges es) ?pipes"
  define qs where "qs = map (fill_inputs (tensor plan) (tensorId2Tensor ?m)) ps"
  have gq: "Pipelines g = fill_outputs (tensor plan) qs" using g by (simp add: FillPipeline_def qs_def ps_def)
  have "length (Pipelines g) = length ?pipes" using gq by (simp add: qs_def ps_def)
  then have len: "i < length qs" "i < length ps" "i < length ?pipes" using i by (simp_all add: qs_def ps_def)
  note fo = fill_outputs_nth[OF len(1), of "tensor plan", folded gq tid_def]
  have no_out: "OutputTensors p = []" if "p \<in> set (fst (number_pipelines pes k))" for p pes k
    using that by (induction pes arbitrary: k) (auto simp: Let_def split_beta)
  have qi: "qs ! i = fill_inputs (tensor plan) (tensorId2Tensor ?m) (ps ! i)" "ps ! i = attach_edges es (?pipes ! i)"
    unfolding qs_def ps_def using len(3) by simp_all
  then have out: "OutputTensors (qs ! i) = []" and nodes: "Nodes (qs ! i) = Nodes (ps ! i)"
    using no_out[OF nth_mem[OF len(3)]] by (simp_all add: fill_inputs_def attach_edges_def Let_def)
  have ids: "pipeline_in_ids tid (Pipelines g ! i) = pipeline_in_ids tid (ps ! i)"
      "pipeline_out_ids tid (Pipelines g ! i) = pipeline_out_ids tid (ps ! i)"
      "pipeline_out_ids tid (qs ! i) = pipeline_out_ids tid (ps ! i)"
    using fo nodes by (simp_all add: pipeline_in_ids_def pipeline_out_ids_def)
  have m1: "\<forall>k t. map_of (tensorId2Tensor ?m) k = Some t \<longrightarrow> tid t = k"
    by (meson build_maps_spec(5) map_of_SomeD)
  have m2: "map_of (tensorId2Tensor ?m) (tid t) \<noteq> None" if n: "n \<in> set (Nodes (ps ! i))" and t: "t \<in> set (node_ins n)" for n t
  proof -
    obtain n' where "n' \<in> set (Nodes (?pipes ! i))" "node_ins n' = node_ins n"
      using n unfolding qi(2) by (auto simp: attach_edges_def)
    moreover have "?pipes ! i \<in> set ?pipes" using len(3) by (rule nth_mem)
    ultimately have "n' \<in> set (concat (map Nodes ?pipes))" "tid t \<in> tid ` set (node_ins n')"
      using t by auto
    then have "tid t \<in> set (keys (tensorId2Tensor ?m))"
      unfolding build_maps_spec(4) by blast
    then show ?thesis by (simp add: map_of_None_keys del: set_map)
  qed
  have "tid ` set (InputTensors (qs ! i)) = set (pipeline_in_ids tid (ps ! i)) - set (pipeline_out_ids tid (ps ! i))"
  proof -
    have "\<forall>n \<in> set (Nodes (ps ! i)). \<forall>t \<in> set (node_ins n). map_of (tensorId2Tensor ?m) (tid t) \<noteq> None"
      by (intro ballI m2)
    from fill_inputs_ids[OF m1[unfolded tid_def] this[unfolded tid_def]] show ?thesis
      unfolding qi(1) tid_def .
  qed
  then show "tid ` set (InputTensors (Pipelines g ! i)) =
      set (pipeline_in_ids tid (Pipelines g ! i)) - set (pipeline_out_ids tid (Pipelines g ! i))"
    using fo ids by simp
  have "InputTensors (qs ! j) = InputTensors (Pipelines g ! j)" if "j < length qs" for j
    using fill_outputs_nth[OF that, of "tensor plan"] gq by simp
  then have "map InputTensors qs = map InputTensors (Pipelines g)"
    using gq by (intro nth_equalityI) simp_all
  then have ins: "InputTensors ` set (drop (Suc i) qs) = InputTensors ` set (drop (Suc i) (Pipelines g))"
    by (metis drop_map list.set_map)
  have "(\<Union>q \<in> A. tid ` set (InputTensors q)) = \<Union> ((\<lambda>ts. tid ` set ts) ` InputTensors ` A)" for A :: "Pipeline set"
    by (simp add: image_image)
  from trans[OF this[of "set (drop (Suc i) qs)", unfolded ins] this[of "set (drop (Suc i) (Pipelines g))", symmetric]]
  have "(\<Union>q \<in> set (drop (Suc i) qs). tid ` set (InputTensors q)) = (\<Union>q \<in> set (drop (Suc i) (Pipelines g)). tid ` set (InputTensors q))"
    .
  then show "tid ` set (OutputTensors (Pipelines g ! i)) = set (pipeline_out_ids tid (Pipelines g ! i)) \<inter>
      (\<Union>q \<in> set (drop (Suc i) (Pipelines g)). tid ` set (InputTensors q))"
    using fo out ids by simp
qed

lemma Build_exchange:
  assumes b: "Build plan = Inr g" "batched plan" "plan_ordered plan"
    and j: "j < length (Pipelines g)" "t \<in> set (InputTensors (Pipelines g ! j))"
  shows "\<exists>i<j. \<exists>u \<in> set (OutputTensors (Pipelines g ! i)). t_ID (tensor plan u) = t_ID (tensor plan t)"
proof -
  let ?tid = "\<lambda>t. t_ID (tensor plan t)" and ?p = "Pipelines g ! j"
  have k: "?tid t \<in> set (pipeline_in_ids ?tid ?p)" "?tid t \<notin> set (pipeline_out_ids ?tid ?p)"
    using Build_batched(1)[OF b(1,2) j(1)] j(2) by blast+
  obtain n u where n: "n \<in> set (Nodes ?p)" "u \<in> set (node_ins n)" "?tid u = ?tid t"
    using k(1) by (auto simp: pipeline_in_ids_def)
  obtain xs ys where xs: "Nodes ?p = xs @ n # ys" using n(1) by (meson split_list)
  let ?before = "concat (map Nodes (take j (Pipelines g)))"
  have "Pipelines g = take j (Pipelines g) @ ?p # drop (Suc j) (Pipelines g)" using j(1) by (simp add: id_take_nth_drop)
  then have "graph_nodes g = ?before @ Nodes ?p @ concat (map Nodes (drop (Suc j) (Pipelines g)))"
    unfolding graph_nodes_def by (metis concat.simps(2) concat_append list.simps(9) map_append)
  then have "graph_nodes g = (?before @ xs) @ n # (ys @ concat (map Nodes (drop (Suc j) (Pipelines g))))"
    unfolding xs by simp
  then have "?tid u \<in> created ?tid (?before @ xs)"
    using Build_well_ordered[OF b(1,3)] n(2)
      well_ordered_append[of ?tid "?before @ xs" "n # (ys @ concat (map Nodes (drop (Suc j) (Pipelines g))))" "{}"]
    by (simp add: list_all_iff)
  moreover have "?tid u \<notin> created ?tid xs"
    using k(2) n(3) xs by (auto simp: created_def pipeline_out_ids_def)
  ultimately obtain q where q: "q \<in> set (take j (Pipelines g))" "?tid t \<in> created ?tid (Nodes q)"
    using n(3) by (auto simp: created_def)
  then obtain i where i: "i < j" "i < length (Pipelines g)" "q = Pipelines g ! i" by (auto simp: in_set_conv_nth)
  have "?tid t \<in> set (pipeline_out_ids ?tid q)" using q(2) by (auto simp: created_def pipeline_out_ids_def)
  moreover have "?p \<in> set (drop (Suc i) (Pipelines g))"
    using i(1) j(1) by (auto simp: in_set_conv_nth intro!: exI[of _ "j - Suc i"])
  ultimately have "?tid t \<in> ?tid ` set (OutputTensors q)"
    unfolding Build_batched(2)[OF b(1,2) i(2), folded i(3)] using j(2) by blast
  then show ?thesis using i by force
qed

subsection \<open>Reference counts\<close>

lemma incr_ref_length [simp]: "length (incr_ref r ts) = length ts"
  by (simp add: incr_ref_def)

lemma incr_ref_nth: "i < length ts \<Longrightarrow>
    incr_ref r ts ! i = (if r = i then (ts ! i)\<lparr>t_RefNum := signed_take_bit 31 (t_RefNum (ts ! i) + 1)\<rparr> else ts ! i)"
  by (simp add: incr_ref_def)

lemma incr_refs_nth:
  "i < length ts \<Longrightarrow> fold incr_ref rs ts ! i =
    (if count_list rs i = 0 then ts ! i
     else (ts ! i)\<lparr>t_RefNum := signed_take_bit 31 (t_RefNum (ts ! i) + int (count_list rs i))\<rparr>)"
proof (induction rs arbitrary: ts)
  case (Cons r rs)
  have wrap: "signed_take_bit 31 (signed_take_bit 31 (x + 1) + c) = signed_take_bit 31 (x + (1 + c))" for x c :: int
    using signed_take_bit_add[of 31 "signed_take_bit 31 (x + 1)" c] signed_take_bit_add[of 31 "x + 1" c]
    by (simp add: add.assoc)
  show ?case
    using Cons.IH[of "incr_ref r ts"] Cons.prems wrap[of "t_RefNum (ts ! i)" "int (count_list rs i)"]
    by (simp add: incr_ref_nth)
qed simp

lemma UpdateTensorRefNum_flat:
  "UpdateTensorRefNum g = g\<lparr>g_Tensors := fold incr_ref (concat (map node_ins (graph_nodes g))) (g_Tensors g)\<rparr>"
proof -
  have nodes: "fold (\<lambda>n ts. fold incr_ref (node_ins n) ts) ns ts = fold incr_ref (concat (map node_ins ns)) ts" for ns ts
    by (induction ns arbitrary: ts) simp_all
  have "fold (\<lambda>p ts. fold incr_ref (concat (map node_ins (Nodes p))) ts) ps ts =
      fold incr_ref (concat (map node_ins (concat (map Nodes ps)))) ts" for ps :: "Pipeline list" and ts
    by (induction ps arbitrary: ts) simp_all
  then show ?thesis by (simp add: UpdateTensorRefNum_def graph_nodes_def nodes)
qed

lemma fold_r_unit: "fold_r (\<lambda>x _. f x) xs () = Inr () \<longleftrightarrow> (\<forall>x \<in> set xs. f x = Inr ())"
proof (induction xs)
  case (Cons x xs)
  then show ?case by (cases "f x") (simp_all add: result_simps)
qed simp

section \<open>Properties\<close>

text \<open>C19: on a graph whose nodes have distinct IDs, \<open>TopologicalSort\<close> always answers, and the answer is
  exact: it returns for every pipeline its nodes, each once, with every edge inside the pipeline going
  forward, or it fails with the error about a circle and then some pipeline really has a cycle.\<close>

theorem TopologicalSort_exact:
  assumes "distinct_IDs g"
  shows "(\<exists>outs. TopologicalSort g = Inr outs \<and> list_all2 ordered_nodes (Pipelines g) outs
      \<and> (\<forall>p \<in> set (Pipelines g). acyclic (pipeline_edges p)))
    \<or> (TopologicalSort g = Inl (Errorf ''topological sort fail: maybe circle in graph'')
      \<and> (\<exists>p \<in> set (Pipelines g). \<not> acyclic (pipeline_edges p)))"
proof (cases "TopologicalSort g")
  case (Inr outs)
  then show ?thesis using TopologicalSort_sound[OF assms Inr] TopologicalSort_total[OF assms] by blast
next
  case (Inl err)
  have "map_r sort_pipeline ps = Inl err \<Longrightarrow> err = Errorf ''topological sort fail: maybe circle in graph''" for ps
    by (induction ps) (auto simp: sort_pipeline_def topo_order_def Let_def result_simps split: sum.splits if_splits)
  with Inl have "err = Errorf ''topological sort fail: maybe circle in graph''"
    unfolding TopologicalSort_def by blast
  with Inl TopologicalSort_total[OF assms] show ?thesis by auto
qed

definition sample_node :: "string \<Rightarrow> tref list \<Rightarrow> tref list \<Rightarrow> ExecutionNode" where
  "sample_node op ins outs = \<lparr>n_ID = 0, n_Name = op, n_OpType = op, n_Inputs = [(''In'', ins)], n_Outputs = [(''Out'', outs)],
    n_Attributes = [], n_Edges = [], n_Parties = [''alice'', ''bob'']\<rparr>"

text \<open>A constant made private, in two pipelines.\<close>

definition sample_dag :: "bool \<Rightarrow> GraphBuilder" where
  "sample_dag b = (NewGraphBuilder \<lparr>participants = []\<rparr> b)\<lparr>
    Tensors := [NewTensor 0 ''c'', NewTensor 1 ''m''],
    PipelineExeNodes := [\<lparr>pe_Batched = True, ExecutionNodes = [sample_node OpNameConstant [] [0]]\<rparr>,
      \<lparr>pe_Batched = False, ExecutionNodes = [sample_node OpNameMakePrivate [0] [1], sample_node OpNamePublish [1] []]\<rparr>]\<rparr>"

definition sample_graph :: Graph where
  "sample_graph = projr (Build (sample_dag False))"

lemma sample_graph_built: "Build (sample_dag False) = Inr sample_graph"
proof -
  have "\<not> isl (Build (sample_dag False))" by code_simp
  then show ?thesis by (simp add: sample_graph_def)
qed

lemma sample_dag_ordered: "plan_ordered (sample_dag False)"
  by code_simp

theorem TopologicalSort_exact_witness:
  "distinct_IDs sample_graph \<and> (\<exists>outs. TopologicalSort sample_graph = Inr outs
    \<and> list_all2 ordered_nodes (Pipelines sample_graph) outs)"
proof -
  have "distinct_IDs sample_graph" "\<not> isl (TopologicalSort sample_graph)" by code_simp+
  with TopologicalSort_exact[of sample_graph] show ?thesis by auto
qed

text \<open>C26: the order \<open>TopologicalSort\<close> returns does not depend on the order in which Go ranges over the node
  and edge maps: two graphs whose pipelines hold the same nodes and, per node, the same out-edges, in
  whatever order, are sorted into the same sequence of node IDs.\<close>

theorem TopologicalSort_deterministic:
  assumes "distinct_IDs g"
    and "list_all2 (\<lambda>p q. mset (map n_ID (Nodes p)) = mset (map n_ID (Nodes q))
      \<and> (\<forall>i. mset (edge_targets (Nodes p) i) = mset (edge_targets (Nodes q) i))) (Pipelines g) (Pipelines g')"
  shows "map_sum id (map (map n_ID)) (TopologicalSort g) = map_sum id (map (map n_ID)) (TopologicalSort g')"
proof -
  have ID: "map_sum id (map n_ID) (sort_pipeline p) = topo_order (map n_ID (Nodes p)) (edge_targets (Nodes p))"
    if "distinct (map n_ID (Nodes p))" for p
  proof (cases "topo_order (map n_ID (Nodes p)) (edge_targets (Nodes p))")
    case (Inr ids)
    have "n_ID (the (find_node (Nodes p) i)) = i" if "i \<in> set ids" for i
      using find_node_mem[of i "Nodes p"] find_node_Some that topo_order_sound[OF \<open>distinct _\<close> Inr]
      by (fastforce simp: topological_def)
    with Inr show ?thesis by (simp add: sort_pipeline_def result_simps map_idI)
  qed (simp add: sort_pipeline_def result_simps)
  have same: "map_sum id (map n_ID) (sort_pipeline p) = map_sum id (map n_ID) (sort_pipeline q)"
    if "distinct (map n_ID (Nodes p))" "mset (map n_ID (Nodes p)) = mset (map n_ID (Nodes q))"
      "\<forall>i. mset (edge_targets (Nodes p) i) = mset (edge_targets (Nodes q) i)" for p q
    using ID[OF that(1)] ID[of q] topo_order_cong[OF that] mset_eq_imp_distinct_iff[OF that(2)] that(1) by simp
  have "map_sum id (map (map n_ID)) (map_r sort_pipeline ps) = map_sum id (map (map n_ID)) (map_r sort_pipeline qs)"
    if "list_all2 (\<lambda>p q. map_sum id (map n_ID) (sort_pipeline p) = map_sum id (map n_ID) (sort_pipeline q)) ps qs" for ps qs
    using that
  proof (induction rule: list_all2_induct)
    case (Cons p ps q qs)
    then show ?case
      by (cases "sort_pipeline p"; cases "sort_pipeline q"; cases "map_r sort_pipeline ps"; cases "map_r sort_pipeline qs")
        (auto simp: result_simps)
  qed simp
  moreover have "list_all2 (\<lambda>p q. map_sum id (map n_ID) (sort_pipeline p) = map_sum id (map n_ID) (sort_pipeline q))
      (Pipelines g) (Pipelines g')"
    using assms(2)
  proof (rule list.rel_mono_strong)
    fix p q :: Pipeline
    assume "p \<in> set (Pipelines g)" "mset (map n_ID (Nodes p)) = mset (map n_ID (Nodes q))
      \<and> (\<forall>i. mset (edge_targets (Nodes p) i) = mset (edge_targets (Nodes q) i))"
    then show "map_sum id (map n_ID) (sort_pipeline p) = map_sum id (map n_ID) (sort_pipeline q)"
      using same assms(1) by (simp add: distinct_IDs_def list_all_iff)
  qed
  ultimately show ?thesis unfolding TopologicalSort_def by blast
qed

definition sample_graph_rev :: Graph where
  "sample_graph_rev = sample_graph\<lparr>Pipelines := map (\<lambda>p. p\<lparr>Nodes := rev (Nodes p)\<rparr>) (Pipelines sample_graph)\<rparr>"

theorem TopologicalSort_deterministic_witness:
  "map_sum id (map (map n_ID)) (TopologicalSort sample_graph) = map_sum id (map (map n_ID)) (TopologicalSort sample_graph_rev)"
proof (rule TopologicalSort_deterministic)
  show "distinct_IDs sample_graph" by code_simp
  have "edge_targets (rev ns) i = edge_targets ns i" if "distinct (map n_ID ns)" for ns i
  proof (cases "i \<in> n_ID ` set ns")
    case True
    then obtain n where "n \<in> set ns" "i = n_ID n" by auto
    with that show ?thesis using edge_targets_node[of ns n] edge_targets_node[of "rev ns" n]
      by (simp add: rev_map[symmetric])
  next
    case False
    then have "find_node ms i = None" if "set ms = set ns" for ms
      using that by (auto simp: find_node_def find_None_iff)
    then show ?thesis by (simp add: edge_targets_def)
  qed
  then show "list_all2 (\<lambda>p q. mset (map n_ID (Nodes p)) = mset (map n_ID (Nodes q))
      \<and> (\<forall>i. mset (edge_targets (Nodes p) i) = mset (edge_targets (Nodes q) i))) (Pipelines sample_graph) (Pipelines sample_graph_rev)"
    using \<open>distinct_IDs sample_graph\<close>
    by (simp add: sample_graph_rev_def list_all2_map2 distinct_IDs_def list_all_iff) (rule list.rel_refl_strong, simp)
qed

text \<open>C20: for a plan in creation order, \<open>Build\<close> succeeds and its graph can be sorted: no nil dereference on
  a tensor without a producer, no circle, and every pipeline comes out as an order of its nodes in which
  edges go forward.\<close>

theorem Build_sortable:
  assumes "plan_ordered plan"
  shows "\<exists>g outs. Build plan = Inr g \<and> TopologicalSort g = Inr outs
    \<and> list_all2 ordered_nodes (Pipelines g) outs \<and> NodeCnt g = length (all_nodes plan)"
proof -
  obtain g where g: "Build plan = Inr g" using Build_total[OF assms] by blast
  have "acyclic (pipeline_edges p)" if "p \<in> set (Pipelines g)" for p
    using that Build_forward[OF g assms] by (intro pipeline_edges_acyclic) (auto simp: graph_nodes_def)
  then obtain outs where outs: "TopologicalSort g = Inr outs"
    using TopologicalSort_total[OF Build_IDs(2)[OF g]] by blast
  moreover have "NodeCnt g = length (all_nodes plan)"
    using g by (auto simp: Build_def Let_def split_beta number_pipelines_flat all_nodes_def result_simps split: sum.splits)
  ultimately show ?thesis using g TopologicalSort_sound[OF Build_IDs(2)[OF g] outs] by blast
qed

theorem Build_sortable_witness:
  "\<exists>g outs. Build (sample_dag False) = Inr g \<and> TopologicalSort g = Inr outs \<and> NodeCnt g = length (all_nodes (sample_dag False))"
  using Build_sortable[OF sample_dag_ordered] by blast

text \<open>C21: the edges \<open>Build\<close> creates are exactly the data flow of the plan: for a plan in creation order
  there is an edge from \<open>a\<close> to \<open>b\<close> carrying the tensor with ID \<open>k\<close> if and only if \<open>a\<close> outputs and \<open>b\<close>
  reads a tensor with this ID.\<close>

theorem Build_edges_are_dataflow:
  assumes "plan_ordered plan" "Build plan = Inr g" "a \<in> set (graph_nodes g)" "b \<in> set (graph_nodes g)"
  shows "(\<exists>e \<in> set (n_Edges a). e_To e = n_ID b \<and> t_ID (tensor plan (e_Value e)) = k)
    \<longleftrightarrow> dataflow (\<lambda>t. t_ID (tensor plan t)) a b k"
proof -
  let ?tid = "\<lambda>t. t_ID (tensor plan t)" and ?ns = "numbered_nodes plan"
  obtain es where nodes: "graph_nodes g = map (\<lambda>n. n\<lparr>n_Edges := filter (\<lambda>e. e_From e = n_ID n) es\<rparr>) ?ns"
    and fwd: "\<And>e. e \<in> set es \<Longrightarrow> \<exists>a \<in> set ?ns. \<exists>b \<in> set ?ns.
       e_From e = n_ID a \<and> e_To e = n_ID b \<and> dataflow ?tid a b (?tid (e_Value e))"
    and bwd: "\<And>a b k. plan_ordered plan \<Longrightarrow> a \<in> set ?ns \<Longrightarrow> b \<in> set ?ns \<Longrightarrow> dataflow ?tid a b k \<Longrightarrow>
       \<exists>e \<in> set es. e_From e = n_ID a \<and> e_To e = n_ID b \<and> ?tid (e_Value e) = k"
    by (rule Build_Inr[OF assms(2)]) (rule that)
  obtain a0 where a0: "a0 \<in> set ?ns" "a = a0\<lparr>n_Edges := filter (\<lambda>e. e_From e = n_ID a0) es\<rparr>"
    using assms(3) nodes by auto
  obtain b0 where b0: "b0 \<in> set ?ns" "b = b0\<lparr>n_Edges := filter (\<lambda>e. e_From e = n_ID b0) es\<rparr>"
    using assms(4) nodes by auto
  have df: "dataflow ?tid a b k = dataflow ?tid a0 b0 k" by (simp add: a0(2) b0(2) dataflow_def)
  show ?thesis
  proof
    assume "\<exists>e \<in> set (n_Edges a). e_To e = n_ID b \<and> ?tid (e_Value e) = k"
    then obtain e where e: "e \<in> set es" "e_From e = n_ID a0" "e_To e = n_ID b0" "?tid (e_Value e) = k"
      using a0 b0 by auto
    then obtain a1 b1 where ab: "a1 \<in> set ?ns" "b1 \<in> set ?ns" "n_ID a1 = n_ID a0" "n_ID b1 = n_ID b0" "dataflow ?tid a1 b1 k"
      using fwd[OF e(1)] by auto
    then have "a1 = a0" "b1 = b0" using numbered_ID a0(1) b0(1) by metis+
    with ab df show "dataflow ?tid a b k" by simp
  next
    assume "dataflow ?tid a b k"
    from bwd[OF assms(1) a0(1) b0(1) this[unfolded df]]
    show "\<exists>e \<in> set (n_Edges a). e_To e = n_ID b \<and> ?tid (e_Value e) = k"
      using a0(2) b0(2) by auto
  qed
qed

theorem Build_edges_are_dataflow_witness:
  "\<exists>a \<in> set (graph_nodes sample_graph). \<exists>b \<in> set (graph_nodes sample_graph). \<exists>e \<in> set (n_Edges a). e_To e = n_ID b"
proof -
  let ?a = "graph_nodes sample_graph ! 0" and ?b = "graph_nodes sample_graph ! 1"
  have len: "length (graph_nodes sample_graph) = 3" by code_simp
  have "dataflow (\<lambda>t. t_ID (tensor (sample_dag False) t)) ?a ?b 0" by code_simp
  with Build_edges_are_dataflow[OF sample_dag_ordered sample_graph_built, of ?a ?b 0] len
  have "\<exists>e \<in> set (n_Edges ?a). e_To e = n_ID ?b" by auto
  moreover have "?a \<in> set (graph_nodes sample_graph)" "?b \<in> set (graph_nodes sample_graph)" using len by simp_all
  ultimately show ?thesis by blast
qed

text \<open>C22: in the graph of a batched plan the declared tensors of the pipelines are exactly what they
  exchange. The input tensors of a pipeline are those it reads and does not create; its output tensors are
  those it creates and a later pipeline takes as input; and, the plan being in creation order, every input
  tensor of a pipeline is an output tensor of an earlier one.\<close>

theorem batched_pipelines_exchange:
  assumes "Build plan = Inr g" "batched plan" "plan_ordered plan" "j < length (Pipelines g)"
  shows "(\<lambda>t. t_ID (tensor plan t)) ` set (InputTensors (Pipelines g ! j)) =
      set (pipeline_in_ids (\<lambda>t. t_ID (tensor plan t)) (Pipelines g ! j)) -
      set (pipeline_out_ids (\<lambda>t. t_ID (tensor plan t)) (Pipelines g ! j))
    \<and> (\<lambda>t. t_ID (tensor plan t)) ` set (OutputTensors (Pipelines g ! j)) =
      set (pipeline_out_ids (\<lambda>t. t_ID (tensor plan t)) (Pipelines g ! j)) \<inter>
      (\<Union>q \<in> set (drop (Suc j) (Pipelines g)). (\<lambda>t. t_ID (tensor plan t)) ` set (InputTensors q))
    \<and> (\<forall>t \<in> set (InputTensors (Pipelines g ! j)). \<exists>i<j. \<exists>u \<in> set (OutputTensors (Pipelines g ! i)).
        t_ID (tensor plan u) = t_ID (tensor plan t))"
  by (intro conjI ballI Build_batched[OF assms(1,2,4)] Build_exchange[OF assms(1-4)])

theorem batched_pipelines_exchange_witness:
  "map InputTensors (Pipelines (projr (Build (sample_dag True)))) = [[], [0]]
   \<and> (\<exists>u \<in> set (OutputTensors (Pipelines (projr (Build (sample_dag True))) ! 0)). t_ID (tensor (sample_dag True) u) = t_ID (tensor (sample_dag True) 0))"
proof -
  let ?g = "projr (Build (sample_dag True))"
  have "\<not> isl (Build (sample_dag True))" by code_simp
  then have b: "Build (sample_dag True) = Inr ?g" by simp
  have b': "batched (sample_dag True)" "plan_ordered (sample_dag True)" by code_simp+
  have ins: "map InputTensors (Pipelines ?g) = [[], [0]]" by code_simp
  then have "length (Pipelines ?g) = 2" "InputTensors (Pipelines ?g ! 1) = [0]"
    by (auto simp: map_eq_Cons_conv)
  with batched_pipelines_exchange[OF b b', of 1] ins show ?thesis by simp
qed

text \<open>\<open>UpdateTensorRefNum\<close> adds to the reference count of a tensor the number of times the nodes of
  the graph read it, as an \<open>int32\<close>: the sum wraps at \<open>2^31\<close>, and a tensor no node reads keeps its count.\<close>

theorem UpdateTensorRefNum_counts:
  assumes "r < length (g_Tensors g)"
  defines "reads \<equiv> count_list (concat (map node_ins (graph_nodes g))) r"
  shows "g_tensor (UpdateTensorRefNum g) r =
    (if reads = 0 then g_tensor g r
     else (g_tensor g r)\<lparr>t_RefNum := signed_take_bit 31 (t_RefNum (g_tensor g r) + int reads)\<rparr>)"
proof -
  have "length (fold incr_ref rs ts) = length ts" for rs ts
    by (induction rs arbitrary: ts) simp_all
  with assms(1) show ?thesis
    by (simp add: UpdateTensorRefNum_flat g_tensor_def incr_refs_nth reads_def)
qed

theorem UpdateTensorRefNum_counts_witness: "t_RefNum (g_tensor (UpdateTensorRefNum sample_graph) 1) = 1"
proof -
  have "1 < length (g_Tensors sample_graph)" "count_list (concat (map node_ins (graph_nodes sample_graph))) 1 = 1"
      "t_RefNum (g_tensor sample_graph 1) = 0" by code_simp+
  then show ?thesis using UpdateTensorRefNum_counts[of 1 sample_graph] by simp
qed

text \<open>C25: the graph checker accepts exactly the graphs in which every private output tensor is plaintext
  for the party that owns it.\<close>

theorem Check_exact:
  "Check g = Inr () \<longleftrightarrow> (\<forall>n \<in> set (graph_nodes g). \<forall>t \<in> set (node_outs n).
    t_status (g_tensor g t) = TENSORSTATUS_PRIVATE \<longrightarrow> IsVisibleFor (t_CC (g_tensor g t)) (t_OwnerPartyCode (g_tensor g t)))"
proof -
  have "check_tensor_ccl t = Inr () \<longleftrightarrow>
      (t_status t = TENSORSTATUS_PRIVATE \<longrightarrow> IsVisibleFor (t_CC t) (t_OwnerPartyCode t))" for t
    by (simp add: check_tensor_ccl_def IsVisibleFor_Plain)
  moreover have "Check g = checkGraph g"
    by (cases "checkGraph g") (simp_all add: Check_def result_simps)
  ultimately show ?thesis
    by (simp add: checkGraph_def fold_r_unit)
qed

theorem Check_exact_witness:
  "Check (sample_graph\<lparr>g_Tensors := [NewTensor 0 ''c'', (NewTensor 1 ''m'')\<lparr>t_status := TENSORSTATUS_PRIVATE\<rparr>]\<rparr>) \<noteq> Inr ()"
proof -
  let ?g = "sample_graph\<lparr>g_Tensors := [NewTensor 0 ''c'', (NewTensor 1 ''m'')\<lparr>t_status := TENSORSTATUS_PRIVATE\<rparr>]\<rparr>"
  have "\<not> list_all (\<lambda>n. list_all (\<lambda>t. t_status (g_tensor ?g t) = TENSORSTATUS_PRIVATE \<longrightarrow>
      IsVisibleFor (t_CC (g_tensor ?g t)) (t_OwnerPartyCode (g_tensor ?g t))) (node_outs n)) (graph_nodes ?g)"
    by code_simp
  then show ?thesis unfolding Check_exact[of ?g] by (simp add: list_all_iff)
qed


end
