(* ===== verification/Algorithm.thy ===== *)
theory Algorithm
  imports Builder_Security Slice_Util
begin

text \<open>
  \<open>pkg/interpreter/translator/algorithm.go\<close> and the pure part of
  \<open>tensor_status_conversion.go\<close>: placements of tensors, the algorithms an operator
  can run with (a placement of its inputs and outputs and a cost), and the cost
  of converting a tensor to a placement.

  The lemmas show that no creator proposes a placement the control lists forbid,
  that the placements fit each other, and what the costs are.
\<close>

section \<open>Placements and costs\<close>

record algCost =
  communicationCost :: int
  calculationCost :: int

definition newAlgCost :: "int \<Rightarrow> int \<Rightarrow> algCost" where
  "newAlgCost commCost calCost = \<lparr>communicationCost = commCost, calculationCost = calCost\<rparr>"

definition calculateTotalCost :: "algCost \<Rightarrow> int" where
  "calculateTotalCost c = communicationCost c + calculationCost c"

definition addCost :: "algCost \<Rightarrow> algCost \<Rightarrow> algCost" where
  "addCost c cost = \<lparr>communicationCost = communicationCost c + communicationCost cost,
    calculationCost = calculationCost c + calculationCost cost\<rparr>"

datatype placement =
    privatePlacement string
  | publicPlacement "string list"
  | sharePlacement "string list"

fun Status :: "placement \<Rightarrow> TensorStatus" where
  "Status (privatePlacement _) = TENSORSTATUS_PRIVATE"
| "Status (publicPlacement _) = TENSORSTATUS_PUBLIC"
| "Status (sharePlacement _) = TENSORSTATUS_SECRET"

fun partyList :: "placement \<Rightarrow> string list" where
  "partyList (privatePlacement p) = [p]"
| "partyList (publicPlacement ps) = ps"
| "partyList (sharePlacement ps) = ps"

text \<open>\<open>%d-%v\<close> of the status number and the party list.\<close>

fun placement_toString :: "placement \<Rightarrow> string" where
  "placement_toString (privatePlacement p) = ''1-['' @ p @ '']''"
| "placement_toString (publicPlacement ps) = ''4-['' @ Join_strings ps CHR '' '' @ '']''"
| "placement_toString (sharePlacement ps) = ''2-['' @ Join_strings ps CHR '' '' @ '']''"

record materializedAlgorithm =
  cost :: algCost
  inputPlacement :: "(string, placement list) gomap"
  outputPlacement :: "(string, placement list) gomap"

type_synonym ccl_args = "(string, CCL list) gomap"

definition createPlacementByCCL :: "CCL \<Rightarrow> string list \<Rightarrow> placement list" where
  "createPlacementByCCL cc allParties =
    sharePlacement allParties # map privatePlacement (filter (IsVisibleFor cc) allParties)
    @ (if list_all (IsVisibleFor cc) allParties then [publicPlacement allParties] else [])"

definition createPlacementByStatus :: "TensorStatus \<Rightarrow> string list \<Rightarrow> placement result" where
  "createPlacementByStatus status partyCodes =
    (case status of
       TENSORSTATUS_PRIVATE \<Rightarrow>
         (case partyCodes of
            [p] \<Rightarrow> Inr (privatePlacement p)
          | _ \<Rightarrow> Inl (Errorf ''unsupported party codes number(%d) for private placement''))
     | TENSORSTATUS_SECRET \<Rightarrow> Inr (sharePlacement partyCodes)
     | TENSORSTATUS_PUBLIC \<Rightarrow> Inr (publicPlacement partyCodes)
     | _ \<Rightarrow> Inl (Errorf ''unsupported status %+v''))"

fun checkPlacementCCL :: "placement \<Rightarrow> CCL \<Rightarrow> bool" where
  "checkPlacementCCL (privatePlacement p) cc = IsVisibleFor cc p"
| "checkPlacementCCL (publicPlacement ps) cc = list_all (IsVisibleFor cc) ps"
| "checkPlacementCCL (sharePlacement ps) cc = True"

definition areStatusesAllPrivate :: "TensorStatus list \<Rightarrow> bool" where
  "areStatusesAllPrivate ss = list_all (\<lambda>s. s = TENSORSTATUS_PRIVATE) ss"

definition oneOfStatusesPrivate :: "TensorStatus list \<Rightarrow> bool" where
  "oneOfStatusesPrivate ss = list_ex (\<lambda>s. s = TENSORSTATUS_PRIVATE) ss"

definition oneOfStatusesShare :: "TensorStatus list \<Rightarrow> bool" where
  "oneOfStatusesShare ss = list_ex (\<lambda>s. s = TENSORSTATUS_SECRET) ss"

definition oneOfStatusesPublic :: "TensorStatus list \<Rightarrow> bool" where
  "oneOfStatusesPublic ss = list_ex (\<lambda>s. s = TENSORSTATUS_PUBLIC) ss"

definition binaryIOStatusMap :: "(TensorStatus \<times> TensorStatus, TensorStatus) gomap" where
  "binaryIOStatusMap = [
    ((TENSORSTATUS_PRIVATE, TENSORSTATUS_PRIVATE), TENSORSTATUS_PRIVATE),
    ((TENSORSTATUS_PRIVATE, TENSORSTATUS_PUBLIC), TENSORSTATUS_PRIVATE),
    ((TENSORSTATUS_PUBLIC, TENSORSTATUS_PRIVATE), TENSORSTATUS_PRIVATE),
    ((TENSORSTATUS_SECRET, TENSORSTATUS_SECRET), TENSORSTATUS_SECRET),
    ((TENSORSTATUS_PUBLIC, TENSORSTATUS_SECRET), TENSORSTATUS_SECRET),
    ((TENSORSTATUS_SECRET, TENSORSTATUS_PUBLIC), TENSORSTATUS_SECRET)]"

section \<open>Algorithm creators\<close>

text \<open>\<open>graph.Left\<close> etc.\<close>

definition arg_Left :: string where "arg_Left = ''Left''"
definition arg_Right :: string where "arg_Right = ''Right''"
definition arg_Out :: string where "arg_Out = ''Out''"
definition arg_Condition :: string where "arg_Condition = ''Condition''"
definition arg_ValueIfTrue :: string where "arg_ValueIfTrue = ''ValueIfTrue''"
definition arg_ValueIfFalse :: string where "arg_ValueIfFalse = ''ValueIfFalse''"
definition arg_Value :: string where "arg_Value = ''Value''"
definition arg_ValueElse :: string where "arg_ValueElse = ''ValueElse''"

lemmas arg_defs = arg_Left_def arg_Right_def arg_Out_def arg_Condition_def arg_ValueIfTrue_def
  arg_ValueIfFalse_def arg_Value_def arg_ValueElse_def

text \<open>The body of the double loop of \<open>createBinaryAlg\<close>; \<open>None\<close> is \<open>continue\<close>.\<close>

definition binary_alg :: "CCL \<Rightarrow> placement \<Rightarrow> placement \<Rightarrow> materializedAlgorithm option" where
  "binary_alg outCC lp rp =
    (case map_of binaryIOStatusMap (Status lp, Status rp) of
       None \<Rightarrow> None
     | Some status \<Rightarrow>
       if areStatusesAllPrivate [Status lp, Status rp] \<and> partyList lp ! 0 \<noteq> partyList rp ! 0 then None
       else
         (case createPlacementByStatus status
             (if areStatusesAllPrivate [Status rp] then partyList rp else partyList lp) of
            Inl _ \<Rightarrow> None
          | Inr outPlacement \<Rightarrow>
            if \<not> checkPlacementCCL outPlacement outCC then None
            else Some \<lparr>
              cost = newAlgCost
                (if oneOfStatusesShare [Status lp, Status rp] then 1 else 0)
                (if oneOfStatusesPrivate [Status lp, Status rp]
                 then (if oneOfStatusesPublic [Status lp, Status rp] then 2 else 1) else 3),
              inputPlacement = [(arg_Left, [lp]), (arg_Right, [rp])],
              outputPlacement = [(arg_Out, [outPlacement])]\<rparr>))"

definition createBinaryAlg :: "ccl_args \<Rightarrow> ccl_args \<Rightarrow> string list \<Rightarrow> materializedAlgorithm list result" where
  "createBinaryAlg ins outs allParties =
    (case (lookup_or [] ins arg_Left, lookup_or [] ins arg_Right) of
       ([l], [r]) \<Rightarrow>
         (case lookup_or [] outs arg_Out of
            [out] \<Rightarrow> Inr (concat (map (\<lambda>lp. List.map_filter (binary_alg out lp)
              (createPlacementByCCL r allParties)) (createPlacementByCCL l allParties)))
          | _ \<Rightarrow> Inl (Errorf ''verifyBinary: invalid output size %v''))
     | _ \<Rightarrow> Inl (Errorf ''verifyBinary: invalid input size Left(%d)/Right(%d)''))"

definition createBinaryAlgNoComm :: "ccl_args \<Rightarrow> ccl_args \<Rightarrow> string list \<Rightarrow> materializedAlgorithm list result" where
  "createBinaryAlgNoComm ins outs allParties =
    bind_r (createBinaryAlg ins outs allParties) (\<lambda>algs.
    Inr (map (\<lambda>alg. alg\<lparr>cost := (cost alg)\<lparr>communicationCost := 0\<rparr>\<rparr>) algs))"

definition in_alg :: "placement \<Rightarrow> placement \<Rightarrow> placement \<Rightarrow> materializedAlgorithm option" where
  "in_alg lp rp outp =
    (if \<not> areStatusesAllPrivate [Status lp, Status rp, Status outp] then None
     else if partyList outp ! 0 \<noteq> partyList lp ! 0 \<and> partyList outp ! 0 \<noteq> partyList rp ! 0 then None
     else Some \<lparr>cost = newAlgCost 1 3, inputPlacement = [(arg_Left, [lp]), (arg_Right, [rp])],
       outputPlacement = [(arg_Out, [outp])]\<rparr>)"

definition createInAlg :: "ccl_args \<Rightarrow> ccl_args \<Rightarrow> string list \<Rightarrow> materializedAlgorithm list result" where
  "createInAlg ins outs allParties =
    bind_r (at (lookup_or [] ins arg_Left) 0) (\<lambda>l.
    bind_r (at (lookup_or [] ins arg_Right) 0) (\<lambda>r.
    bind_r (at (lookup_or [] outs arg_Out) 0) (\<lambda>out.
    Inr (concat (map (\<lambda>lp. concat (map (\<lambda>rp. List.map_filter (in_alg lp rp)
      (createPlacementByCCL out allParties)) (createPlacementByCCL r allParties)))
      (createPlacementByCCL l allParties))))))"

definition extractCCLsFromMap :: "ccl_args \<Rightarrow> CCL list" where
  "extractCCLsFromMap ins = concat (ValueSortedByMapKey ins)"

text \<open>One placement per control list; a key without control lists gets no entry.\<close>

definition place_all :: "(CCL \<Rightarrow> placement) \<Rightarrow> ccl_args \<Rightarrow> (string, placement list) gomap" where
  "place_all f m = map (\<lambda>(key, ccls). (key, map f ccls)) (filter (\<lambda>(key, ccls). ccls \<noteq> []) (SortedMap m))"

definition createPrivateAlgForParty :: "ccl_args \<Rightarrow> ccl_args \<Rightarrow> string \<Rightarrow> algCost \<Rightarrow> materializedAlgorithm" where
  "createPrivateAlgForParty ins outs party c = \<lparr>cost = c,
    inputPlacement = place_all (\<lambda>_. privatePlacement party) ins,
    outputPlacement = place_all (\<lambda>_. privatePlacement party) outs\<rparr>"

definition createAllPrivateAlgs ::
    "ccl_args \<Rightarrow> ccl_args \<Rightarrow> string list \<Rightarrow> algCost \<Rightarrow> materializedAlgorithm list" where
  "createAllPrivateAlgs ins outs allParties c =
    map (\<lambda>p. createPrivateAlgForParty ins outs p c)
      (filter (\<lambda>p. list_all (\<lambda>cc. IsVisibleFor cc p) (extractCCLsFromMap ins @ extractCCLsFromMap outs)) allParties)"

definition createAllShareAlgs :: "ccl_args \<Rightarrow> ccl_args \<Rightarrow> string list \<Rightarrow> algCost \<Rightarrow> materializedAlgorithm" where
  "createAllShareAlgs ins outs allParties c = \<lparr>cost = c,
    inputPlacement = place_all (\<lambda>_. sharePlacement allParties) ins,
    outputPlacement = place_all (\<lambda>_. sharePlacement allParties) outs\<rparr>"

definition createSharePublicAlgs ::
    "ccl_args \<Rightarrow> ccl_args \<Rightarrow> string list \<Rightarrow> algCost \<Rightarrow> algCost \<Rightarrow> materializedAlgorithm" where
  "createSharePublicAlgs ins outs allParties privateCost shareCost =
    (let hasShareInput = list_ex (\<lambda>cc. \<not> IsVisibleForParties cc allParties) (extractCCLsFromMap ins) in
     \<lparr>cost = (if hasShareInput then shareCost else privateCost),
      inputPlacement = place_all (\<lambda>cc. if IsVisibleForParties cc allParties
        then publicPlacement allParties else sharePlacement allParties) ins,
      outputPlacement = place_all (\<lambda>cc. if IsVisibleForParties cc allParties \<and> \<not> hasShareInput
        then publicPlacement allParties else sharePlacement allParties) outs\<rparr>)"

definition MulComm :: int where "MulComm = 3"
definition EqualComm :: int where "EqualComm = 3"

definition createCaseWhenAlg :: "ccl_args \<Rightarrow> ccl_args \<Rightarrow> string list \<Rightarrow> materializedAlgorithm list result" where
  "createCaseWhenAlg ins outs allParties =
    (let cond_size = int (length (lookup_or [] ins arg_Condition));
         commCost = (cond_size + 1) * MulComm + (cond_size - 1) * 2 * EqualComm;
         calCost = cond_size * 3;
         privateCost = newAlgCost 0 calCost;
         shareCost = newAlgCost commCost calCost
     in Inr (createAllPrivateAlgs ins outs allParties privateCost
        @ [createAllShareAlgs ins outs allParties shareCost]
        @ [createSharePublicAlgs ins outs allParties privateCost shareCost]))"

definition createIfAlg :: "ccl_args \<Rightarrow> ccl_args \<Rightarrow> string list \<Rightarrow> materializedAlgorithm list result" where
  "createIfAlg ins outs allParties =
    (let privateIfCost = newAlgCost 0 3; shareIfCost = newAlgCost MulComm 3
     in Inr (createAllPrivateAlgs ins outs allParties privateIfCost
        @ [createAllShareAlgs ins outs allParties shareIfCost]
        @ [createSharePublicAlgs ins outs allParties privateIfCost shareIfCost]))"

type_synonym algCreateFunc = "ccl_args \<Rightarrow> ccl_args \<Rightarrow> string list \<Rightarrow> materializedAlgorithm list result"

definition NewAlgCreator :: "(string, algCreateFunc) gomap" where
  "NewAlgCreator = [
    (OpNameAdd, createBinaryAlgNoComm), (OpNameMinus, createBinaryAlgNoComm), (OpNameMul, createBinaryAlg),
    (OpNameDiv, createBinaryAlg), (OpNameIntDiv, createBinaryAlg), (OpNameMod, createBinaryAlg),
    (OpNameGreater, createBinaryAlg), (OpNameLess, createBinaryAlg), (OpNameGreaterEqual, createBinaryAlg),
    (OpNameLessEqual, createBinaryAlg), (OpNameEqual, createBinaryAlg), (OpNameNotEqual, createBinaryAlg),
    (OpNameLogicalAnd, createBinaryAlg), (OpNameLogicalOr, createBinaryAlg), (OpNameIn, createInAlg),
    (OpNameIf, createIfAlg), (OpNameCaseWhen, createCaseWhenAlg), (OpNameATan2, createBinaryAlg),
    (OpNamePow, createBinaryAlg)]"

definition getCreator :: "string \<Rightarrow> algCreateFunc option" where
  "getCreator opName = map_of NewAlgCreator opName"

section \<open>Cost of a conversion\<close>

definition getStatusConversionCost :: "Tensor \<Rightarrow> placement \<Rightarrow> algCost result" where
  "getStatusConversionCost inputT newPlacement =
    (let n = int (length (partyList newPlacement)) in
     case t_status inputT of
       TENSORSTATUS_PRIVATE \<Rightarrow>
         (case newPlacement of
            privatePlacement p \<Rightarrow> Inr (if t_OwnerPartyCode inputT = p then newAlgCost 0 0 else newAlgCost 1 0)
          | sharePlacement _ \<Rightarrow> Inr (newAlgCost (n - 1) 0)
          | publicPlacement _ \<Rightarrow> Inr (newAlgCost (n - 1) 0))
     | TENSORSTATUS_SECRET \<Rightarrow>
         (case newPlacement of
            privatePlacement _ \<Rightarrow> Inr (newAlgCost (n - 1) 0)
          | sharePlacement _ \<Rightarrow> Inr (newAlgCost 0 0)
          | publicPlacement _ \<Rightarrow> Inr (newAlgCost n 0))
     | TENSORSTATUS_PUBLIC \<Rightarrow>
         (case newPlacement of
            privatePlacement _ \<Rightarrow> Inr (newAlgCost 0 1)
          | sharePlacement _ \<Rightarrow> Inr (newAlgCost (n - 1) 0)
          | publicPlacement _ \<Rightarrow> Inr (newAlgCost 0 0))
     | _ \<Rightarrow> Inl (Errorf ''failed to find status conversion cost''))"

section \<open>Placements respect the control lists\<close>

lemma createPlacementByCCL_check: "pl \<in> set (createPlacementByCCL cc ps) \<Longrightarrow> checkPlacementCCL pl cc"
  by (auto simp: createPlacementByCCL_def split: if_splits)

lemma createPlacementByCCL_iff:
  "pl \<in> set (createPlacementByCCL cc ps) \<longleftrightarrow> checkPlacementCCL pl cc \<and>
    (case pl of privatePlacement p \<Rightarrow> p \<in> set ps | publicPlacement qs \<Rightarrow> qs = ps | sharePlacement qs \<Rightarrow> qs = ps)"
  by (cases pl) (auto simp: createPlacementByCCL_def)

lemma checkPlacementCCL_status:
  "checkPlacementCCL pl cc \<Longrightarrow> Status pl \<noteq> TENSORSTATUS_SECRET \<Longrightarrow> p \<in> set (partyList pl) \<Longrightarrow> IsVisibleFor cc p"
  by (cases pl) (auto simp: list_all_iff)

text \<open>Every placement is one the control list at its position allows.\<close>

definition respects_ccl :: "ccl_args \<Rightarrow> (string, placement list) gomap \<Rightarrow> bool" where
  "respects_ccl args places \<longleftrightarrow> (\<forall>key ps. map_of places key = Some ps \<longrightarrow>
    length ps \<le> length (lookup_or [] args key)
    \<and> (\<forall>i < length ps. checkPlacementCCL (ps ! i) (lookup_or [] args key ! i)))"

definition safe_alg :: "ccl_args \<Rightarrow> ccl_args \<Rightarrow> materializedAlgorithm \<Rightarrow> bool" where
  "safe_alg ins outs alg \<longleftrightarrow> respects_ccl ins (inputPlacement alg) \<and> respects_ccl outs (outputPlacement alg)"

lemma safe_alg_cost [simp]: "safe_alg ins outs (alg\<lparr>cost := c\<rparr>) = safe_alg ins outs alg"
  by (simp add: safe_alg_def)

lemma place_all_Some:
  assumes "map_of (place_all f m) key = Some ps"
  shows "\<exists>ccls. map_of m key = Some ccls \<and> ps = map f ccls"
proof -
  have "(key, ps) \<in> set (place_all f m)" using assms by (rule map_of_SomeD)
  then obtain ccls where "(key, ccls) \<in> set (SortedMap m)" "ps = map f ccls"
    by (auto simp: place_all_def)
  then have "key \<in> set (keys m)" "ccls = the (map_of m key)"
    by (auto simp: SortedMap_def SortMapKeyForDeterminism_def)
  then have "map_of m key = Some ccls" by (cases "map_of m key") (simp_all add: map_of_None_keys del: set_map)
  then show ?thesis using \<open>ps = map f ccls\<close> by blast
qed

lemma extractCCLsFromMap_mem:
  assumes "map_of m key = Some ccls" "cc \<in> set ccls"
  shows "cc \<in> set (extractCCLsFromMap m)"
proof -
  have "key \<in> set (keys m)" using assms(1) map_of_None_keys[of m key] by simp
  then have "the (map_of m key) \<in> set (ValueSortedByMapKey m)"
    by (simp add: ValueSortedByMapKey_def SortMapKeyForDeterminism_def)
  with assms show ?thesis by (auto simp: extractCCLsFromMap_def)
qed

lemma respects_ccl_Nil [simp]: "respects_ccl args []"
  by (simp add: respects_ccl_def)

lemma respects_ccl_single:
  "lookup_or [] args k = cc # ccs \<Longrightarrow> checkPlacementCCL p cc \<Longrightarrow> respects_ccl args rest \<Longrightarrow>
    respects_ccl args ((k, [p]) # rest)"
  by (simp add: respects_ccl_def)

lemma respects_ccl_place_all:
  assumes "\<And>cc. cc \<in> set (extractCCLsFromMap m) \<Longrightarrow> checkPlacementCCL (f cc) cc"
  shows "respects_ccl m (place_all f m)"
  unfolding respects_ccl_def
proof (intro allI impI)
  fix key ps assume "map_of (place_all f m) key = Some ps"
  from place_all_Some[OF this] obtain ccls where ccls: "map_of m key = Some ccls" "ps = map f ccls" by blast
  then show "length ps \<le> length (lookup_or [] m key)
      \<and> (\<forall>i < length ps. checkPlacementCCL (ps ! i) (lookup_or [] m key ! i))"
    using assms extractCCLsFromMap_mem[OF ccls(1)] by (simp add: lookup_or_def)
qed

lemma binary_alg_SomeD:
  assumes "binary_alg out lp rp = Some alg"
  shows "\<exists>op. inputPlacement alg = [(arg_Left, [lp]), (arg_Right, [rp])] \<and> outputPlacement alg = [(arg_Out, [op])]
    \<and> checkPlacementCCL op out"
  using assms by (auto simp: binary_alg_def split: option.splits if_splits sum.splits)

text \<open>What a client of the creators relies on.\<close>

locale algorithm_creator =
  fixes create :: algCreateFunc
  assumes safe: "create ins outs parties = Inr algs \<Longrightarrow> alg \<in> set algs \<Longrightarrow> safe_alg ins outs alg"
begin

lemma output_visible:
  assumes "create ins outs parties = Inr algs" "alg \<in> set algs"
    and "map_of (outputPlacement alg) key = Some ps" "i < length ps"
    and "Status (ps ! i) \<noteq> TENSORSTATUS_SECRET" "p \<in> set (partyList (ps ! i))"
  shows "IsVisibleFor (lookup_or [] outs key ! i) p"
  using safe[OF assms(1,2)] assms(3-6) checkPlacementCCL_status
  unfolding safe_alg_def respects_ccl_def by blast

end

lemma createBinaryAlg_safe:
  assumes "createBinaryAlg ins outs parties = Inr algs" "alg \<in> set algs"
  shows "safe_alg ins outs alg"
proof -
  obtain l r out where lro: "lookup_or [] ins arg_Left = [l]" "lookup_or [] ins arg_Right = [r]" "lookup_or [] outs arg_Out = [out]"
    and algs: "algs = concat (map (\<lambda>lp. List.map_filter (binary_alg out lp) (createPlacementByCCL r parties)) (createPlacementByCCL l parties))"
    using assms(1) by (auto simp: createBinaryAlg_def split: list.splits)
  then obtain lp rp where "lp \<in> set (createPlacementByCCL l parties)" "rp \<in> set (createPlacementByCCL r parties)"
      "binary_alg out lp rp = Some alg"
    using assms(2) by (auto simp: List.map_filter_def)
  with binary_alg_SomeD[OF this(3)] createPlacementByCCL_check lro show ?thesis
    by (auto simp: safe_alg_def intro!: respects_ccl_single)
qed

interpretation binary: algorithm_creator createBinaryAlg
  by unfold_locales (rule createBinaryAlg_safe)

interpretation binary_no_comm: algorithm_creator createBinaryAlgNoComm
proof
  fix ins outs parties algs alg
  assume "createBinaryAlgNoComm ins outs parties = Inr algs" "alg \<in> set algs"
  then obtain algs0 alg0 where "createBinaryAlg ins outs parties = Inr algs0" "alg0 \<in> set algs0"
      "alg = alg0\<lparr>cost := (cost alg0)\<lparr>communicationCost := 0\<rparr>\<rparr>"
    by (auto simp: createBinaryAlgNoComm_def bind_r_Inr)
  with createBinaryAlg_safe[OF this(1,2)] show "safe_alg ins outs alg" by simp
qed

interpretation psi_in: algorithm_creator createInAlg
proof
  fix ins outs parties algs alg
  assume "createInAlg ins outs parties = Inr algs" "alg \<in> set algs"
  then obtain l ls r rs out os lp rp op where
      ccls: "lookup_or [] ins arg_Left = l # ls" "lookup_or [] ins arg_Right = r # rs" "lookup_or [] outs arg_Out = out # os"
    and ps: "lp \<in> set (createPlacementByCCL l parties)" "rp \<in> set (createPlacementByCCL r parties)"
      "op \<in> set (createPlacementByCCL out parties)" and alg: "in_alg lp rp op = Some alg"
    by (auto simp: createInAlg_def bind_r_Inr at_def neq_Nil_conv List.map_filter_def split: if_splits)
  from alg ccls ps[THEN createPlacementByCCL_check] show "safe_alg ins outs alg"
    by (auto simp: in_alg_def safe_alg_def split: if_splits intro!: respects_ccl_single)
qed

lemma private_algs_safe: "alg \<in> set (createAllPrivateAlgs ins outs parties c) \<Longrightarrow> safe_alg ins outs alg"
  by (auto simp: createAllPrivateAlgs_def createPrivateAlgForParty_def safe_alg_def list_all_iff
      intro!: respects_ccl_place_all)

lemma share_alg_safe: "safe_alg ins outs (createAllShareAlgs ins outs parties c)"
  by (auto simp: createAllShareAlgs_def safe_alg_def intro!: respects_ccl_place_all)

lemma share_public_alg_safe: "safe_alg ins outs (createSharePublicAlgs ins outs parties c d)"
  by (auto simp: createSharePublicAlgs_def Let_def safe_alg_def IsVisibleForParties_all list_all_iff
      intro!: respects_ccl_place_all)

interpretation case_when: algorithm_creator createCaseWhenAlg
  by unfold_locales (auto simp: createCaseWhenAlg_def Let_def private_algs_safe share_alg_safe share_public_alg_safe)

interpretation if_alg: algorithm_creator createIfAlg
  by unfold_locales (auto simp: createIfAlg_def Let_def private_algs_safe share_alg_safe share_public_alg_safe)

lemma creators_safe:
  assumes "getCreator opName = Some create"
  shows "algorithm_creator create"
  using assms unfolding getCreator_def NewAlgCreator_def
  by (auto split: if_splits intro: binary.algorithm_creator_axioms binary_no_comm.algorithm_creator_axioms
      psi_in.algorithm_creator_axioms case_when.algorithm_creator_axioms if_alg.algorithm_creator_axioms)

section \<open>Properties\<close>

text \<open>C18: whatever operator has an algorithm creator, no algorithm it proposes places a tensor against its
  control list: a private placement only at a party to which the tensor is plaintext, a public one only
  when it is plaintext for every party, for the inputs as well as for the outputs.\<close>

theorem creators_respect_ccl:
  assumes "getCreator opName = Some create" "create ins outs parties = Inr algs" "alg \<in> set algs"
  shows "respects_ccl ins (inputPlacement alg) \<and> respects_ccl outs (outputPlacement alg)"
  using algorithm_creator.safe[OF creators_safe[OF assms(1)] assms(2,3)] by (simp add: safe_alg_def)

definition sample_cc :: "string list \<Rightarrow> CCL" where
  "sample_cc ps = fold (\<lambda>p cc. SetLevelForParty cc p Plain) ps NewCCL"

theorem creators_respect_ccl_witness:
  "case createIfAlg [(arg_Condition, [sample_cc [''alice'']]), (arg_ValueIfTrue, [sample_cc [''alice'', ''bob'']]),
      (arg_ValueIfFalse, [sample_cc [''alice'', ''bob'']])] [(arg_Out, [sample_cc [''alice'']])] [''alice'', ''bob''] of
     Inr (alg # _) \<Rightarrow> respects_ccl [(arg_Out, [sample_cc [''alice'']])] (outputPlacement alg)
       \<and> outputPlacement alg = [(arg_Out, [privatePlacement ''alice''])]
   | _ \<Rightarrow> False"
proof -
  let ?ins = "[(arg_Condition, [sample_cc [''alice'']]), (arg_ValueIfTrue, [sample_cc [''alice'', ''bob'']]),
      (arg_ValueIfFalse, [sample_cc [''alice'', ''bob'']])]"
  let ?outs = "[(arg_Out, [sample_cc [''alice'']])]"
  obtain alg algs where algs: "createIfAlg ?ins ?outs [''alice'', ''bob''] = Inr (alg # algs)"
      "outputPlacement alg = [(arg_Out, [privatePlacement ''alice''])]"
  proof -
    have "case createIfAlg ?ins ?outs [''alice'', ''bob''] of
        Inr (alg # _) \<Rightarrow> outputPlacement alg = [(arg_Out, [privatePlacement ''alice''])] | _ \<Rightarrow> False"
      by code_simp
    then show thesis using that by (auto split: sum.splits list.splits)
  qed
  have "getCreator OpNameIf = Some createIfAlg"
    by (simp add: getCreator_def NewAlgCreator_def op_name_defs)
  from creators_respect_ccl[OF this algs(1), of alg] algs show ?thesis by simp
qed



text \<open>C28: revealing a secret tensor to a single party is always costed at zero: the formula
  \<open>len(newPlacement.partyList())-1\<close> reads the party list of the private placement, which has one entry.
  Every other conversion between two different statuses costs at least one, with two or more parties.\<close>

theorem secret_to_private_costs_nothing:
  assumes "t_status t \<in> {TENSORSTATUS_PRIVATE, TENSORSTATUS_SECRET, TENSORSTATUS_PUBLIC}"
    and "Status pl = TENSORSTATUS_PRIVATE \<or> 2 \<le> length (partyList pl)"
  shows "getStatusConversionCost t pl = Inr (newAlgCost 0 0) \<longleftrightarrow>
    t_status t = TENSORSTATUS_SECRET \<and> Status pl = TENSORSTATUS_PRIVATE
    \<or> t_status t = Status pl \<and> (Status pl = TENSORSTATUS_PRIVATE \<longrightarrow> pl = privatePlacement (t_OwnerPartyCode t))"
  using assms by (cases pl) (auto simp: getStatusConversionCost_def newAlgCost_def split: if_splits)

theorem secret_to_private_costs_nothing_witness:
  "getStatusConversionCost ((NewTensor 0 ''x'')\<lparr>t_status := TENSORSTATUS_SECRET\<rparr>) (privatePlacement ''alice'') = Inr (newAlgCost 0 0)"
  using secret_to_private_costs_nothing[of "(NewTensor 0 ''x'')\<lparr>t_status := TENSORSTATUS_SECRET\<rparr>" "privatePlacement ''alice''"]
  by simp

end
