(* ===== verification/Status_Converter.thy ===== *)
theory Status_Converter
  imports Algorithm
begin

text \<open>
  \<open>pkg/interpreter/translator/tensor_status_conversion.go\<close> and the choice of an
  algorithm in \<open>translator.go\<close>: the state of the translator, the conversion of
  tensors to a placement with its cache, and \<open>getBestAlg\<close>.

  \<open>convertTo\<close> is shown to return a tensor that has the requested placement and the
  control list of its argument (the invariant is that of the cache,
  \<open>converter_ok\<close>); \<open>getBestAlg\<close> to return a cheapest admissible algorithm.
\<close>

section \<open>The translator's state\<close>

text \<open>Of the compile options, what the translation reads.\<close>

record CompileOptions =
  GroupByThreshold :: int
  PsiAlgorithmType :: int

record ColumnControl =
  cc_PartyCode :: string
  cc_Visibility :: CCLLevel
  cc_DatabaseName :: string
  cc_TableName :: string
  cc_ColumnName :: string

text \<open>\<open>createdAt\<close> is represented by the Unix time of the instant and of the beginning of its day.\<close>

record translator =
  ep :: GraphBuilder
  issuerPartyCode :: string
  enginesInfo :: EnginesInfo
  sc :: "ColumnControl list"
  CompileOpts :: CompileOptions
  AffectedByGroupThreshold :: bool
  convertMap :: "(int \<times> string, tref) gomap"
  createdAt :: int
  createdDate :: int

type_synonym 'a tr = "(translator, 'a) op"

text \<open>A call of a builder method on \<open>t.ep\<close>.\<close>

definition in_ep :: "'a build \<Rightarrow> 'a tr" where
  "in_ep m = (\<lambda>t. bind_r (m (ep t)) (\<lambda>(a, plan). Inr (a, t\<lparr>ep := plan\<rparr>)))"

lemma in_ep_app [code]: "in_ep m t = bind_r (m (ep t)) (\<lambda>(a, plan). Inr (a, t\<lparr>ep := plan\<rparr>))"
  by (simp add: in_ep_def)

definition read_t :: "tref \<Rightarrow> Tensor tr" where
  "read_t r = in_ep (read r)"

text \<open>\<open>t.enginesInfo.GetParties()\<close>, also reached through \<open>GetPartyInfo()\<close>.\<close>

definition engine_parties :: "string list tr" where
  "engine_parties = gets_s (\<lambda>t. PartyInfo_GetParties (partyInfo (enginesInfo t)))"

definition NewTranslator ::
    "EnginesInfo \<Rightarrow> ColumnControl list option \<Rightarrow> string \<Rightarrow> CompileOptions \<Rightarrow> bool \<Rightarrow> int \<Rightarrow> int \<Rightarrow> translator result" where
  "NewTranslator info security issuer opts isBatched now today =
    (case security of
       None \<Rightarrow> Inl (Errorf ''translate: empty CCL'')
     | Some controls \<Rightarrow>
       (let allPartyCodes = issuer # PartyInfo_GetParties (partyInfo info) in
        Inr \<lparr>ep = NewGraphBuilder (partyInfo info) isBatched, issuerPartyCode = issuer, enginesInfo = info,
          sc = filter (\<lambda>cc. cc_PartyCode cc \<in> set allPartyCodes) controls, CompileOpts = opts,
          AffectedByGroupThreshold = False, convertMap = [], createdAt = now, createdDate = today\<rparr>))"

section \<open>Conversion of a tensor to a placement\<close>

definition getExpectTensorFromMap :: "tref \<Rightarrow> placement \<Rightarrow> translator \<Rightarrow> tref option" where
  "getExpectTensorFromMap r expectPlace t =
    map_of (convertMap t) (t_ID (tensor (ep t) r), placement_toString expectPlace)"

definition revealString :: "tref \<Rightarrow> string \<Rightarrow> tref build" where
  "revealString r revealParty =
    bind_s (read r) (\<lambda>input.
    bind_s GetParties (\<lambda>parties.
    case t_SecretStringOwners input of
      [owner] \<Rightarrow>
        bind_s (wrap_s ''revealString: %v'' (AddMakePrivateNode ''make_private'' r owner parties)) (\<lambda>privateT.
        if owner \<noteq> revealParty then AddCopyNode ''copy'' privateT owner revealParty else return_s privateT)
    | _ \<Rightarrow>
        bind_s (if t_status input \<noteq> TENSORSTATUS_PUBLIC
          then wrap_s ''revealString: %v'' (AddMakePublicNode ''make_public'' r parties) else return_s r) (\<lambda>r'.
        AddMakePrivateNode ''make_private'' r' revealParty parties)))"

definition reveal_to :: "tref \<Rightarrow> Tensor \<Rightarrow> string \<Rightarrow> tref build" where
  "reveal_to r input revealParty =
    (if t_DType input = STRING then revealString r revealParty
     else bind_s GetParties (\<lambda>parties. AddMakePrivateNode ''make_private'' r revealParty parties))"

definition addTensorStatusConversion :: "tref \<Rightarrow> placement \<Rightarrow> tref build" where
  "addTensorStatusConversion r pl =
    bind_s (read r) (\<lambda>input.
    case t_status input of
      TENSORSTATUS_PRIVATE \<Rightarrow>
        (case pl of
           publicPlacement ps \<Rightarrow> AddMakePublicNode ''make_public'' r ps
         | privatePlacement p \<Rightarrow>
             if t_OwnerPartyCode input \<noteq> p
             then wrap_s ''addTensorStatusConversion: %v'' (AddCopyNode ''copy'' r (t_OwnerPartyCode input) p)
             else return_s r
         | sharePlacement ps \<Rightarrow> AddMakeShareNode ''make_share'' r ps)
    | TENSORSTATUS_SECRET \<Rightarrow>
        (case pl of
           publicPlacement ps \<Rightarrow> AddMakePublicNode ''make_public'' r ps
         | sharePlacement ps \<Rightarrow> return_s r
         | privatePlacement p \<Rightarrow> reveal_to r input p)
    | TENSORSTATUS_PUBLIC \<Rightarrow>
        (case pl of
           privatePlacement p \<Rightarrow> reveal_to r input p
         | sharePlacement ps \<Rightarrow> AddMakeShareNode ''make_share'' r ps
         | publicPlacement ps \<Rightarrow> return_s r)
    | _ \<Rightarrow> fail_s (Errorf ''addTensorStatusConversion doesn't support converting from %v to %v''))"

definition convertTo :: "tref \<Rightarrow> placement \<Rightarrow> tref tr" where
  "convertTo r expectPlace =
    bind_s get_s (\<lambda>t.
    case getExpectTensorFromMap r expectPlace t of
      Some r' \<Rightarrow> return_s r'
    | None \<Rightarrow>
        bind_s (in_ep (addTensorStatusConversion r expectPlace)) (\<lambda>r'.
        bind_s (modify_s (\<lambda>t. t\<lparr>convertMap := AList.update
          (t_ID (tensor (ep t) r), placement_toString expectPlace) r' (convertMap t)\<rparr>)) (\<lambda>_.
        return_s r')))"

text \<open>\<open>expect[key][i]\<close> panics when there is no such placement.\<close>

definition convertStatusForMap ::
    "(string, tref list) gomap \<Rightarrow> (string, placement list) gomap \<Rightarrow> (string, tref list) gomap tr" where
  "convertStatusForMap inputT expect =
    bind_s (map_s (\<lambda>(key, ts).
      bind_s (map_s (\<lambda>(i, r).
        bind_s (lift_r (at (lookup_or [] expect key) i)) (convertTo r)) (enumerate 0 ts)) (\<lambda>ts'.
      return_s (key, ts'))) (SortedMap inputT)) (\<lambda>result.
    return_s (filter (\<lambda>(key, ts'). ts' \<noteq> []) result))"

definition converter_getStatusConversionCost :: "translator \<Rightarrow> tref \<Rightarrow> placement \<Rightarrow> algCost result" where
  "converter_getStatusConversionCost t r expectPlace =
    (case getExpectTensorFromMap r expectPlace t of
       Some _ \<Rightarrow> Inr (newAlgCost 0 0)
     | None \<Rightarrow> getStatusConversionCost (tensor (ep t) r) expectPlace)"

section \<open>Choice of an algorithm\<close>

text \<open>The inner loop over the tensors of one parameter, with its \<open>break\<close>: the accumulated cost and the flag
  \<open>unsupportedAlgFlag\<close>.\<close>

fun alg_param_cost ::
    "translator \<Rightarrow> OperatorDef \<Rightarrow> materializedAlgorithm \<Rightarrow> string \<Rightarrow> (nat \<times> tref) list \<Rightarrow>
     algCost \<times> bool \<Rightarrow> (algCost \<times> bool) result" where
  "alg_param_cost t op alg key [] st = Inr st"
| "alg_param_cost t op alg key ((i, r) # rs) (c, unsupported) =
    bind_r (at (lookup_or [] (inputPlacement alg) key) i) (\<lambda>newPlacement.
    case converter_getStatusConversionCost t r newPlacement of
      Inl _ \<Rightarrow> Inr (c, True)
    | Inr extra \<Rightarrow>
        if CheckParamStatusConstraint Status op (inputPlacement alg) (outputPlacement alg) \<noteq> Inr ()
        then Inr (c, True)
        else alg_param_cost t op alg key rs (addCost c extra, unsupported))"

definition alg_cost ::
    "translator \<Rightarrow> OperatorDef \<Rightarrow> (string, tref list) gomap \<Rightarrow> materializedAlgorithm \<Rightarrow> materializedAlgorithm option result" where
  "alg_cost t op inputs alg =
    bind_r (fold_r (\<lambda>(key, ts). alg_param_cost t op alg key (enumerate 0 ts)) (SortedMap inputs) (cost alg, False))
      (\<lambda>(c, unsupported). Inr (if unsupported then None else Some (alg\<lparr>cost := c\<rparr>)))"

primrec cheapest :: "materializedAlgorithm \<Rightarrow> materializedAlgorithm list \<Rightarrow> materializedAlgorithm" where
  "cheapest best [] = best"
| "cheapest best (alg # algs) =
    cheapest (if calculateTotalCost (cost alg) < calculateTotalCost (cost best) then alg else best) algs"

definition getBestAlg ::
    "string \<Rightarrow> (string, tref list) gomap \<Rightarrow> materializedAlgorithm list \<Rightarrow> materializedAlgorithm tr" where
  "getBestAlg opType inputs algs =
    bind_s (lift_r (FindOpDef opType)) (\<lambda>op.
    bind_s get_s (\<lambda>t.
    bind_s (lift_r (map_r (alg_cost t op inputs) algs)) (\<lambda>costed.
    case List.map_filter id costed of
      [] \<Rightarrow> fail_s (Errorf ''getBestAlg: failed to find a algorithm'')
    | best # rest \<Rightarrow> return_s (cheapest best rest))))"

section \<open>The translator only extends its plan\<close>

definition same_static :: "translator \<Rightarrow> translator \<Rightarrow> bool" where
  "same_static s t \<longleftrightarrow> issuerPartyCode t = issuerPartyCode s \<and> enginesInfo t = enginesInfo s \<and> sc t = sc s
    \<and> CompileOpts t = CompileOpts s \<and> createdAt t = createdAt s \<and> createdDate t = createdDate s"

definition tgrows :: "translator \<Rightarrow> translator \<Rightarrow> bool" where
  "tgrows s t \<longleftrightarrow> grows (ep s) (ep t) \<and> same_static s t"

interpretation tr: state_preorder tgrows
  by unfold_locales (auto simp: tgrows_def same_static_def builder.refl intro: builder.trans)

lemma in_ep_Inr: "in_ep m t = Inr (a, t') \<longleftrightarrow> (\<exists>plan. m (ep t) = Inr (a, plan) \<and> t' = t\<lparr>ep := plan\<rparr>)"
  by (auto simp: in_ep_def bind_r_Inr)

lemma keeps_in_ep: "keeps grows m \<Longrightarrow> keeps tgrows (in_ep m)"
  by (rule keepsI) (auto simp: in_ep_Inr tgrows_def same_static_def dest: keepsD)

lemma keeps_read_t: "keeps tgrows (read_t r)"
  unfolding read_t_def by (intro keeps_in_ep keeps_read)

lemma keeps_engine_parties: "keeps tgrows engine_parties"
  unfolding engine_parties_def by (rule tr.keeps_gets)

lemma keeps_case_status [keeps_intros]:
  "keeps R a \<Longrightarrow> keeps R b \<Longrightarrow> keeps R c \<Longrightarrow> keeps R d \<Longrightarrow> keeps R e \<Longrightarrow>
    keeps R (case z of TENSORSTATUS_UNKNOWN \<Rightarrow> a | TENSORSTATUS_PRIVATE \<Rightarrow> b | TENSORSTATUS_SECRET \<Rightarrow> c
      | TENSORSTATUS_CIPHER \<Rightarrow> d | TENSORSTATUS_PUBLIC \<Rightarrow> e)"
  by (cases z) auto

lemma keeps_case_placement [keeps_intros]:
  "(\<And>p. keeps R (f p)) \<Longrightarrow> (\<And>ps. keeps R (g ps)) \<Longrightarrow> (\<And>ps. keeps R (h ps)) \<Longrightarrow>
    keeps R (case pl of privatePlacement p \<Rightarrow> f p | publicPlacement ps \<Rightarrow> g ps | sharePlacement ps \<Rightarrow> h ps)"
  by (cases pl) auto

text \<open>A call that creates revealing nodes writes them only to new tensors.\<close>

definition cgrows :: "GraphBuilder \<Rightarrow> GraphBuilder \<Rightarrow> bool" where
  "cgrows s t \<longleftrightarrow> grows s t \<and> (\<exists>ns. all_nodes t = all_nodes s @ ns \<and>
    (\<forall>n \<in> set ns. n_OpType n \<in> {OpNameMakePrivate, OpNameCopy} \<longrightarrow> (\<forall>out \<in> set (node_outs n). length (Tensors s) \<le> out)))"

lemma cgrows_trans: "cgrows s t \<Longrightarrow> cgrows t u \<Longrightarrow> cgrows s u"
proof -
  assume st: "cgrows s t" and tu: "cgrows t u"
  then have "length (Tensors s) \<le> length (Tensors t)" by (simp add: cgrows_def grows_def extends_length)
  with st tu show "cgrows s u"
    unfolding cgrows_def by (fastforce intro: builder.trans)
qed

interpretation conv: state_preorder cgrows
  by unfold_locales (simp add: cgrows_def builder.refl, rule cgrows_trans)

lemma one_output_fresh:
  assumes "bind_s (AddTensorAs_set r f) (\<lambda>out. returning out (AddExecutionNode name opType ins [(''Out'', [out])] attrs parties)) plan
    = Inr (out, plan')" "grows plan plan'"
  shows "cgrows plan plan'"
  using assms unfolding one_output_Inr cgrows_def by (auto simp: node_outs_def)

lemma conversion_keeps:
  "keeps cgrows (AddMakePrivateNode name r p parties)" "keeps cgrows (AddCopyNode name r src dst)"
  "keeps cgrows (AddMakePublicNode name r parties)" "keeps cgrows (AddMakeShareNode name r parties)"
proof -
  show "keeps cgrows (AddMakePrivateNode name r p parties)"
    by (rule keepsI) (rule one_output_fresh[OF conjunct2[OF AddMakePrivateNode_Inr[THEN iffD1]]], assumption,
        rule keepsD[OF keeps_AddMakePrivateNode], assumption)
  show "keeps cgrows (AddCopyNode name r src dst)"
    by (rule keepsI) (rule one_output_fresh[OF conjunct2[OF AddCopyNode_Inr[THEN iffD1]]], assumption,
        rule keepsD[OF keeps_AddCopyNode], assumption)
  show "keeps cgrows (AddMakePublicNode name r parties)"
    by (rule keepsI) (rule one_output_fresh[OF conjunct2[OF AddMakePublicNode_Inr[THEN iffD1]]], assumption,
        rule keepsD[OF keeps_AddMakePublicNode], assumption)
  show "keeps cgrows (AddMakeShareNode name r parties)"
  proof (rule keepsI)
    fix s a t assume "AddMakeShareNode name r parties s = Inr (a, t)"
    with keepsD[OF keeps_AddMakeShareNode this] show "cgrows s t"
      unfolding AddMakeShareNode_def by (subst (asm) bind_s_app) (simp, erule (1) one_output_fresh)
  qed
qed

lemma conv_read: "keeps cgrows (read r)" "keeps cgrows GetParties"
  by (simp_all add: keeps_def conv.refl)

lemmas conv_keeps = conversion_keeps conv_read conv.keeps_rules keeps_intros

lemma keeps_revealString: "keeps cgrows (revealString r p)"
  unfolding revealString_def by (intro conv_keeps)

lemma keeps_addTensorStatusConversion: "keeps cgrows (addTensorStatusConversion r pl)"
  unfolding addTensorStatusConversion_def reveal_to_def by (intro conv_keeps keeps_revealString)

definition ctgrows :: "translator \<Rightarrow> translator \<Rightarrow> bool" where
  "ctgrows s t \<longleftrightarrow> cgrows (ep s) (ep t) \<and> same_static s t \<and> AffectedByGroupThreshold t = AffectedByGroupThreshold s"

interpretation ctr: state_preorder ctgrows
  by unfold_locales (auto simp: ctgrows_def same_static_def conv.refl intro: cgrows_trans)

lemma ctgrows_tgrows: "ctgrows s t \<Longrightarrow> tgrows s t"
  by (simp add: ctgrows_def tgrows_def cgrows_def)

lemma keeps_in_ep_c: "keeps cgrows m \<Longrightarrow> keeps ctgrows (in_ep m)"
  by (rule keepsI) (auto simp: in_ep_Inr ctgrows_def same_static_def dest: keepsD)

lemma keeps_cache: "keeps ctgrows (modify_s (\<lambda>t. t\<lparr>convertMap := f t\<rparr>))"
  by (rule ctr.keeps_modify) (simp add: ctgrows_def same_static_def conv.refl)

lemma keeps_convertTo_c: "keeps ctgrows (convertTo r pl)"
  unfolding convertTo_def by (intro ctr.keeps_rules keeps_intros keeps_in_ep_c keeps_addTensorStatusConversion keeps_cache)

lemma keeps_convertStatusForMap_c: "keeps ctgrows (convertStatusForMap ts pls)"
  unfolding convertStatusForMap_def by (intro ctr.keeps_rules keeps_intros keeps_convertTo_c)

lemma keeps_c: "keeps ctgrows m \<Longrightarrow> keeps tgrows m"
  by (auto simp: keeps_def intro: ctgrows_tgrows)

lemma keeps_getBestAlg: "keeps tgrows (getBestAlg opType inputs algs)"
  unfolding getBestAlg_def by (intro tr.keeps_rules keeps_intros)

section \<open>What a conversion returns\<close>

definition placed :: "Tensor \<Rightarrow> placement \<Rightarrow> bool" where
  "placed t pl \<longleftrightarrow> t_status t = Status pl \<and> (\<forall>p. pl = privatePlacement p \<longrightarrow> t_OwnerPartyCode t = p)"

text \<open>Same data type and, for every party, the same level of control.\<close>

definition same_view :: "Tensor \<Rightarrow> Tensor \<Rightarrow> bool" where
  "same_view t u \<longleftrightarrow> t_DType u = t_DType t \<and> (\<forall>p. LevelFor (t_CC u) p = LevelFor (t_CC t) p)"

lemma same_view_refl [simp]: "same_view t t"
  by (simp add: same_view_def)

lemma same_view_trans: "same_view t u \<Longrightarrow> same_view u v \<Longrightarrow> same_view t v"
  by (simp add: same_view_def)

lemma one_output_tensor:
  assumes "bind_s (AddTensorAs_set r f) (\<lambda>out. returning out (AddExecutionNode name opType ins [(''Out'', [out])] attrs parties)) plan
    = Inr (out, plan')"
  shows "out < length (Tensors plan') \<and> tensor plan' out = f (tensor_as (tensor plan r) (int (tensorNum plan)))"
  using assms unfolding one_output_Inr by auto

lemma AddMakePrivateNode_result:
  assumes "AddMakePrivateNode name r p parties plan = Inr (out, plan')"
  shows "out < length (Tensors plan') \<and> placed (tensor plan' out) (privatePlacement p) \<and> same_view (tensor plan r) (tensor plan' out)"
  using one_output_tensor[OF conjunct2[OF AddMakePrivateNode_Inr[THEN iffD1, OF assms]]]
  by (simp add: placed_def same_view_def)

lemma AddCopyNode_result:
  assumes "AddCopyNode name r src dst plan = Inr (out, plan')"
  shows "out < length (Tensors plan') \<and> t_OwnerPartyCode (tensor plan' out) = dst
    \<and> t_status (tensor plan' out) = t_status (tensor plan r) \<and> same_view (tensor plan r) (tensor plan' out)"
  using one_output_tensor[OF conjunct2[OF AddCopyNode_Inr[THEN iffD1, OF assms]]]
  by (simp add: same_view_def)

lemma AddMakePublicNode_result:
  assumes "AddMakePublicNode name r parties plan = Inr (out, plan')"
  shows "out < length (Tensors plan') \<and> placed (tensor plan' out) (publicPlacement parties) \<and> same_view (tensor plan r) (tensor plan' out)"
  using one_output_tensor[OF conjunct2[OF AddMakePublicNode_Inr[THEN iffD1, OF assms]]]
  by (simp add: placed_def same_view_def)

lemma AddMakeShareNode_result:
  assumes "AddMakeShareNode name r parties plan = Inr (out, plan')"
  shows "out < length (Tensors plan') \<and> placed (tensor plan' out) (sharePlacement parties) \<and> same_view (tensor plan r) (tensor plan' out)"
proof -
  from assms have "bind_s (AddTensorAs_set r (\<lambda>output. output\<lparr>t_status := TENSORSTATUS_SECRET, t_OwnerPartyCode := [],
      t_SecretStringOwners := (if t_DType (tensor plan r) = STRING then [t_OwnerPartyCode (tensor plan r)]
        else t_SecretStringOwners output)\<rparr>)) (\<lambda>output.
    returning output (AddExecutionNode name OpNameMakeShare [(''In'', [r])] [(''Out'', [output])] [] parties)) plan = Inr (out, plan')"
    unfolding AddMakeShareNode_def by (subst (asm) bind_s_app) simp
  from one_output_tensor[OF this] show ?thesis by (simp add: placed_def same_view_def)
qed

lemma revealString_result:
  assumes "revealString r p plan = Inr (out, plan')"
  shows "out < length (Tensors plan') \<and> placed (tensor plan' out) (privatePlacement p) \<and> same_view (tensor plan r) (tensor plan' out)"
proof (cases "\<exists>owner. t_SecretStringOwners (tensor plan r) = [owner]")
  case True
  then obtain owner where owner: "t_SecretStringOwners (tensor plan r) = [owner]" by blast
  let ?ps = "PartyInfo_GetParties (gb_partyInfo plan)"
  from assms obtain r1 plan1 where mk: "AddMakePrivateNode ''make_private'' r owner ?ps plan = Inr (r1, plan1)"
    and fin: "(if owner \<noteq> p then AddCopyNode ''copy'' r1 owner p else return_s r1) plan1 = Inr (out, plan')"
    by (auto simp: revealString_def bind_s_Inr owner)
  from AddMakePrivateNode_result[OF mk] have 1: "r1 < length (Tensors plan1)" "placed (tensor plan1 r1) (privatePlacement owner)"
      "same_view (tensor plan r) (tensor plan1 r1)" by auto
  show ?thesis
  proof (cases "owner = p")
    case True
    with fin 1 show ?thesis by simp
  next
    case False
    then have "AddCopyNode ''copy'' r1 owner p plan1 = Inr (out, plan')" using fin by simp
    from AddCopyNode_result[OF this] 1 show ?thesis by (auto simp: placed_def intro: same_view_trans)
  qed
next
  case False
  let ?ps = "PartyInfo_GetParties (gb_partyInfo plan)"
  from assms False obtain r1 plan1 where
      pub: "(if t_status (tensor plan r) \<noteq> TENSORSTATUS_PUBLIC
          then wrap_s ''revealString: %v'' (AddMakePublicNode ''make_public'' r ?ps) else return_s r) plan = Inr (r1, plan1)"
    and mk: "AddMakePrivateNode ''make_private'' r1 p ?ps plan1 = Inr (out, plan')"
    by (auto simp: revealString_def bind_s_Inr split: list.splits)
  have "same_view (tensor plan r) (tensor plan1 r1)"
    using pub AddMakePublicNode_result by (auto split: if_splits)
  with AddMakePrivateNode_result[OF mk] show ?thesis by (blast intro: same_view_trans)
qed

lemma status_in_store: "t_status (tensor plan r) \<noteq> TENSORSTATUS_UNKNOWN \<Longrightarrow> r < length (Tensors plan)"
  by (auto simp: tensor_def Tensor_zero_def split: if_splits)

lemma reveal_to_result:
  assumes "reveal_to r input p plan = Inr (out, plan')"
  shows "out < length (Tensors plan') \<and> placed (tensor plan' out) (privatePlacement p) \<and> same_view (tensor plan r) (tensor plan' out)"
  using assms revealString_result AddMakePrivateNode_result
  by (auto simp: reveal_to_def bind_s_Inr split: if_splits)

lemma conversion_result:
  assumes "addTensorStatusConversion r pl plan = Inr (out, plan')"
  shows "out < length (Tensors plan') \<and> placed (tensor plan' out) pl \<and> same_view (tensor plan r) (tensor plan' out)"
proof (cases "t_status (tensor plan r)")
  case TENSORSTATUS_PRIVATE
  show ?thesis
  proof (cases pl)
    case (privatePlacement p)
    show ?thesis
    proof (cases "t_OwnerPartyCode (tensor plan r) = p")
      case True
      with assms TENSORSTATUS_PRIVATE privatePlacement have "out = r" "plan' = plan"
        by (auto simp: addTensorStatusConversion_def bind_s_Inr)
      with True TENSORSTATUS_PRIVATE privatePlacement show ?thesis using status_in_store[of plan r] by (simp add: placed_def)
    next
      case False
      with assms TENSORSTATUS_PRIVATE privatePlacement
      have "AddCopyNode ''copy'' r (t_OwnerPartyCode (tensor plan r)) p plan = Inr (out, plan')"
        by (simp add: addTensorStatusConversion_def bind_s_Inr)
      from AddCopyNode_result[OF this] TENSORSTATUS_PRIVATE privatePlacement show ?thesis by (simp add: placed_def)
    qed
  next
    case (publicPlacement ps)
    with assms TENSORSTATUS_PRIVATE show ?thesis
      by (auto simp: addTensorStatusConversion_def bind_s_Inr dest: AddMakePublicNode_result)
  next
    case (sharePlacement ps)
    with assms TENSORSTATUS_PRIVATE show ?thesis
      by (auto simp: addTensorStatusConversion_def bind_s_Inr dest: AddMakeShareNode_result)
  qed
next
  case TENSORSTATUS_SECRET
  then show ?thesis
    using assms status_in_store[of plan r]
    by (cases pl) (auto simp: addTensorStatusConversion_def bind_s_Inr placed_def
        dest: AddMakePublicNode_result[unfolded placed_def] reveal_to_result[unfolded placed_def])
next
  case TENSORSTATUS_PUBLIC
  then show ?thesis
    using assms status_in_store[of plan r]
    by (cases pl) (auto simp: addTensorStatusConversion_def bind_s_Inr placed_def
        dest: AddMakeShareNode_result[unfolded placed_def] reveal_to_result[unfolded placed_def])
qed (use assms in \<open>simp_all add: addTensorStatusConversion_def bind_s_Inr\<close>)

section \<open>The cache of conversions\<close>

lemma placement_toString_placed:
  "placement_toString a = placement_toString b \<Longrightarrow> placed t a \<longleftrightarrow> placed t b"
  by (cases a; cases b) (auto simp: placed_def)

definition converter_ok :: "translator \<Rightarrow> bool" where
  "converter_ok t \<longleftrightarrow> (\<forall>k str r'. map_of (convertMap t) (k, str) = Some r' \<longrightarrow>
    r' < length (Tensors (ep t)) \<and> nat k < length (Tensors (ep t)) \<and>
    (\<exists>pl. str = placement_toString pl \<and> placed (tensor (ep t) r') pl
      \<and> same_view (tensor (ep t) (nat k)) (tensor (ep t) r')))"

lemma converter_okD:
  assumes "converter_ok t" "map_of (convertMap t) (k, placement_toString pl) = Some r'"
  shows "r' < length (Tensors (ep t)) \<and> nat k < length (Tensors (ep t)) \<and> placed (tensor (ep t) r') pl
    \<and> same_view (tensor (ep t) (nat k)) (tensor (ep t) r')"
  using assms placement_toString_placed unfolding converter_ok_def by metis

lemma converter_ok_extends:
  assumes "converter_ok s" "extends (ep s) (ep t)" "convertMap t = convertMap s"
  shows "converter_ok t"
  unfolding converter_ok_def
proof (intro allI impI)
  fix k str r' assume "map_of (convertMap t) (k, str) = Some r'"
  with assms(1,3) have old: "r' < length (Tensors (ep s))" "nat k < length (Tensors (ep s))"
      "\<exists>pl. str = placement_toString pl \<and> placed (tensor (ep s) r') pl
        \<and> same_view (tensor (ep s) (nat k)) (tensor (ep s) r')"
    unfolding converter_ok_def by auto
  then show "r' < length (Tensors (ep t)) \<and> nat k < length (Tensors (ep t)) \<and>
      (\<exists>pl. str = placement_toString pl \<and> placed (tensor (ep t) r') pl
        \<and> same_view (tensor (ep t) (nat k)) (tensor (ep t) r'))"
    using extends_tensor[OF assms(2)] extends_length[OF assms(2)] by simp
qed

lemma ids_ok_tensor: "ids_ok plan \<Longrightarrow> r < length (Tensors plan) \<Longrightarrow> t_ID (tensor plan r) = int r"
  by (simp add: ids_ok_def tensor_def)

lemma convertTo_cases:
  assumes "convertTo r pl s = Inr (r', s')"
  obtains (cached) "map_of (convertMap s) (t_ID (tensor (ep s) r), placement_toString pl) = Some r'" "s' = s"
  | (fresh) plan where "map_of (convertMap s) (t_ID (tensor (ep s) r), placement_toString pl) = None"
      "addTensorStatusConversion r pl (ep s) = Inr (r', plan)"
      "s' = s\<lparr>ep := plan, convertMap := AList.update (t_ID (tensor plan r), placement_toString pl) r' (convertMap s)\<rparr>"
  using assms
  by (auto simp: convertTo_def bind_s_Inr in_ep_Inr getExpectTensorFromMap_def split: option.splits)

lemma convertTo_result:
  assumes ok: "ids_ok (ep s)" "converter_ok s" "r < length (Tensors (ep s))"
    and run: "convertTo r pl s = Inr (r', s')"
  shows "r' < length (Tensors (ep s')) \<and> placed (tensor (ep s') r') pl
    \<and> same_view (tensor (ep s) r) (tensor (ep s') r') \<and> converter_ok s'
    \<and> map_of (convertMap s') (t_ID (tensor (ep s') r), placement_toString pl) = Some r'"
  using run
proof (cases rule: convertTo_cases)
  case cached
  with converter_okD[OF ok(2) cached(1)] ids_ok_tensor[OF ok(1,3)] ok show ?thesis by simp
next
  case (fresh plan)
  from conversion_result[OF fresh(2)] have res: "r' < length (Tensors plan)" "placed (tensor plan r') pl"
      "same_view (tensor (ep s) r) (tensor plan r')" by auto
  have ext: "extends (ep s) plan"
    using keepsD[OF keeps_addTensorStatusConversion fresh(2)] by (simp add: cgrows_def grows_def)
  have r: "tensor plan r = tensor (ep s) r" "r < length (Tensors plan)"
    using extends_tensor[OF ext ok(3)] extends_length[OF ext] ok(3) by auto
  have "converter_ok (s\<lparr>ep := plan\<rparr>)"
    by (rule converter_ok_extends[OF ok(2)]) (simp_all add: ext)
  then have "converter_ok s'"
    using res r ids_ok_tensor[OF ok(1,3)] unfolding fresh(3) converter_ok_def by (auto simp: update_conv')
  then show ?thesis using res r by (simp add: fresh(3) update_conv')
qed

section \<open>The cost of an algorithm\<close>

definition conversion_cost :: "translator \<Rightarrow> materializedAlgorithm \<Rightarrow> string \<Rightarrow> nat \<times> tref \<Rightarrow> int" where
  "conversion_cost t alg key ir =
    (case converter_getStatusConversionCost t (snd ir) (lookup_or [] (inputPlacement alg) key ! fst ir) of
       Inl _ \<Rightarrow> 0 | Inr c \<Rightarrow> calculateTotalCost c)"

text \<open>The conversions an algorithm needs for its inputs, in total.\<close>

definition conversions_total :: "translator \<Rightarrow> (string, tref list) gomap \<Rightarrow> materializedAlgorithm \<Rightarrow> int" where
  "conversions_total t inputs alg =
    sum_list (map (\<lambda>(key, ts). sum_list (map (conversion_cost t alg key) (enumerate 0 ts))) (SortedMap inputs))"

lemma total_addCost [simp]: "calculateTotalCost (addCost c d) = calculateTotalCost c + calculateTotalCost d"
  by (simp add: calculateTotalCost_def addCost_def)

lemma alg_param_cost_spec:
  "alg_param_cost t op alg key irs (c, u) = Inr (c', u') \<Longrightarrow> \<not> u' \<Longrightarrow>
    \<not> u \<and> calculateTotalCost c' = calculateTotalCost c + sum_list (map (conversion_cost t alg key) irs)
    \<and> (irs \<noteq> [] \<longrightarrow> CheckParamStatusConstraint Status op (inputPlacement alg) (outputPlacement alg) = Inr ())"
proof (induction irs arbitrary: c)
  case (Cons ir irs)
  obtain i r where ir: "ir = (i, r)" by force
  from Cons.prems obtain pl where pl: "at (lookup_or [] (inputPlacement alg) key) i = Inr pl"
    by (auto simp: ir bind_r_Inr)
  then have nth: "lookup_or [] (inputPlacement alg) key ! i = pl" by (auto simp: at_def split: if_splits)
  obtain extra where extra: "converter_getStatusConversionCost t r pl = Inr extra"
    and chk: "CheckParamStatusConstraint Status op (inputPlacement alg) (outputPlacement alg) = Inr ()"
    and rec: "alg_param_cost t op alg key irs (addCost c extra, u) = Inr (c', u')"
    using Cons.prems pl by (auto simp: ir split: sum.splits if_splits)
  from Cons.IH[OF rec Cons.prems(2)] extra chk nth show ?case
    by (simp add: ir conversion_cost_def)
qed simp

lemma alg_costs_spec:
  "fold_r (\<lambda>(key, ts). alg_param_cost t op alg key (enumerate 0 ts)) kts (c, u) = Inr (c', u') \<Longrightarrow> \<not> u' \<Longrightarrow>
    \<not> u \<and> calculateTotalCost c' = calculateTotalCost c
      + sum_list (map (\<lambda>(key, ts). sum_list (map (conversion_cost t alg key) (enumerate 0 ts))) kts)
    \<and> (\<forall>(key, ts) \<in> set kts. ts \<noteq> [] \<longrightarrow> CheckParamStatusConstraint Status op (inputPlacement alg) (outputPlacement alg) = Inr ())"
proof (induction kts arbitrary: c u)
  case (Cons kt kts)
  obtain key ts where kt: "kt = (key, ts)" by force
  from Cons.prems(1) obtain c1 u1 where
      step: "alg_param_cost t op alg key (enumerate 0 ts) (c, u) = Inr (c1, u1)"
    and rec: "fold_r (\<lambda>(key, ts). alg_param_cost t op alg key (enumerate 0 ts)) kts (c1, u1) = Inr (c', u')"
    by (auto simp: kt bind_r_Inr)
  from Cons.IH[OF rec Cons.prems(2)] have IH: "\<not> u1" "calculateTotalCost c' = calculateTotalCost c1
      + sum_list (map (\<lambda>(key, ts). sum_list (map (conversion_cost t alg key) (enumerate 0 ts))) kts)"
    "\<forall>(key, ts) \<in> set kts. ts \<noteq> [] \<longrightarrow> CheckParamStatusConstraint Status op (inputPlacement alg) (outputPlacement alg) = Inr ()"
    by blast+
  from alg_param_cost_spec[OF step IH(1)] IH show ?case
    by (cases ts) (auto simp: kt)
qed simp

lemma alg_cost_spec:
  assumes "alg_cost t op inputs alg = Inr (Some a)"
  shows "inputPlacement a = inputPlacement alg \<and> outputPlacement a = outputPlacement alg
    \<and> calculateTotalCost (cost a) = calculateTotalCost (cost alg) + conversions_total t inputs alg
    \<and> (\<forall>(key, ts) \<in> set (SortedMap inputs). ts \<noteq> [] \<longrightarrow>
        CheckParamStatusConstraint Status op (inputPlacement alg) (outputPlacement alg) = Inr ())"
proof -
  from assms obtain c where
      run: "fold_r (\<lambda>(key, ts). alg_param_cost t op alg key (enumerate 0 ts)) (SortedMap inputs) (cost alg, False) = Inr (c, False)"
    and a: "a = alg\<lparr>cost := c\<rparr>"
    by (auto simp: alg_cost_def bind_r_Inr split: if_splits)
  from alg_costs_spec[OF run] show ?thesis
    by (auto simp: a conversions_total_def)
qed

lemma cheapest_spec:
  "cheapest best algs \<in> set (best # algs) \<and>
    (\<forall>a \<in> set (best # algs). calculateTotalCost (cost (cheapest best algs)) \<le> calculateTotalCost (cost a))"
proof (induction algs arbitrary: best)
  case (Cons alg algs)
  from Cons.IH[of alg] Cons.IH[of best] show ?case by (simp add: not_less) fastforce
qed simp

lemma getBestAlg_Inr:
  assumes "getBestAlg opType inputs algs s = Inr (best, s')"
  obtains op alg where "s' = s" "FindOpDef opType = Inr op" "alg \<in> set algs" "alg_cost s op inputs alg = Inr (Some best)"
    "\<And>alg a. alg \<in> set algs \<Longrightarrow> alg_cost s op inputs alg = Inr (Some a) \<Longrightarrow>
      calculateTotalCost (cost best) \<le> calculateTotalCost (cost a)"
proof -
  from assms obtain op costed where op: "FindOpDef opType = Inr op"
    and costed: "map_r (alg_cost s op inputs) algs = Inr costed"
    and run: "(case List.map_filter id costed of
      [] \<Rightarrow> fail_s (Errorf ''getBestAlg: failed to find a algorithm'')
    | best # rest \<Rightarrow> return_s (cheapest best rest)) s = Inr (best, s')"
    unfolding getBestAlg_def by (auto simp: bind_s_app bind_r_Inr simp del: fail_s_app return_s_app)
  then obtain b bs where bs: "List.map_filter id costed = b # bs" and best: "best = cheapest b bs" "s' = s"
    by (cases "List.map_filter id costed") auto
  have all2: "list_all2 (\<lambda>alg x. alg_cost s op inputs alg = Inr x) algs costed" using costed by (simp add: map_r_Inr)
  have mem: "a \<in> set (b # bs) \<longleftrightarrow> Some a \<in> set costed" for a
    unfolding bs[symmetric] by (auto simp: List.map_filter_def image_iff)
  have in_costed: "Some a \<in> set costed \<longleftrightarrow> (\<exists>alg \<in> set algs. alg_cost s op inputs alg = Inr (Some a))" for a
    using all2 by (induction rule: list_all2_induct) auto
  obtain alg where "alg \<in> set algs" "alg_cost s op inputs alg = Inr (Some best)"
    using cheapest_spec[of b bs] mem in_costed best(1) by metis
  moreover have "calculateTotalCost (cost best) \<le> calculateTotalCost (cost a)"
    if "alg \<in> set algs" "alg_cost s op inputs alg = Inr (Some a)" for alg a
    using cheapest_spec[of b bs] mem[of a] in_costed[of a] that best(1) by auto
  ultimately show thesis using that[OF best(2) op] by blast
qed

section \<open>Properties\<close>


definition sample_translator :: translator where
  "sample_translator = \<lparr>ep = (NewGraphBuilder \<lparr>participants = []\<rparr> False)
      \<lparr>Tensors := [(NewTensor 0 ''x'')\<lparr>t_status := TENSORSTATUS_PRIVATE, t_OwnerPartyCode := ''alice'', t_DType := INT64,
          t_CC := sample_cc [''alice'', ''bob'']\<rparr>], tensorNum := 1\<rparr>,
    issuerPartyCode = ''alice'', enginesInfo = NewEnginesInfo \<lparr>participants = []\<rparr> [], sc = [],
    CompileOpts = \<lparr>GroupByThreshold = 0, PsiAlgorithmType = 0\<rparr>, AffectedByGroupThreshold = False,
    convertMap = [], createdAt = 0, createdDate = 0\<rparr>"

lemma sample_translator_ok: "ids_ok (ep sample_translator)" "converter_ok sample_translator"
    "0 < length (Tensors (ep sample_translator))"
  by (simp_all add: sample_translator_def NewGraphBuilder_def NewTensor_def ids_ok_def converter_ok_def)




end
