(* ===== verification/Translator_Nodes.thy ===== *)
theory Translator_Nodes
  imports Status_Converter
begin

text \<open>
  \<open>pkg/interpreter/translator/translator.go\<close>: the methods of the translator that
  add one execution node, with the conversions its inputs need, and the helpers
  of \<open>build_helper.go\<close> they use.

  Every method only extends the plan and never creates a node that reveals a
  tensor against its control list; the output of an operator whose algorithm is
  chosen by cost is placed where the control list computed for it allows it.
\<close>

section \<open>Helpers\<close>

text \<open>\<open>out := t.ep.AddTensor(name)\<close> followed by assignments to its fields.\<close>

definition AddTensor_set :: "string \<Rightarrow> (Tensor \<Rightarrow> Tensor) \<Rightarrow> tref build" where
  "AddTensor_set name f =
    bind_s (AddTensor name) (\<lambda>r. bind_s (modify_s (set_tensor r f)) (\<lambda>_. return_s r))"

definition add_node ::
    "string \<Rightarrow> string \<Rightarrow> (string, tref list) gomap \<Rightarrow> (string, tref list) gomap \<Rightarrow> (string, Attribute) gomap \<Rightarrow>
     string list \<Rightarrow> unit tr" where
  "add_node name opType ins outs attrs parties =
    in_ep (returning () (AddExecutionNode name opType ins outs attrs parties))"

definition mergeTensors :: "GraphBuilder \<Rightarrow> tref list \<Rightarrow> tref list \<Rightarrow> tref list" where
  "mergeTensors plan ts1 ts2 =
    (let tsMap = map (\<lambda>r. t_ID (tensor plan r)) ts1 in
     ts1 @ filter (\<lambda>r. t_ID (tensor plan r) \<notin> set tsMap) ts2)"

definition extractEQColumns :: "Expression \<Rightarrow> (Column \<times> Column) result" where
  "extractEQColumns e =
    (case e of
       ScalarFunction name _ [ColumnExpr leftCol, ColumnExpr rightCol] \<Rightarrow>
         if name = ''eq'' then Inr (leftCol, rightCol)
         else Inl (Errorf ''extractEQColumns: unsupported eq condition %v'')
     | _ \<Rightarrow> Inl (Errorf ''extractEQColumns: unsupported eq condition %v''))"

definition assertTensorsBelongTo :: "Tensor list \<Rightarrow> string \<Rightarrow> unit result" where
  "assertTensorsBelongTo tensors partyCode =
    guard_r (list_all (\<lambda>it. t_status it = TENSORSTATUS_PRIVATE \<and> t_OwnerPartyCode it = partyCode) tensors)
      (Errorf ''all tensors must belong to the same party code %s, but got %s'')"

definition checkInputTypeNotString :: "Tensor list \<Rightarrow> unit result" where
  "checkInputTypeNotString inputs =
    guard_r (list_all (\<lambda>input. t_DType input \<noteq> STRING) inputs) (Errorf ''input type %v is not supported'')"

definition extractPartyCodeFromTensor :: "tref \<Rightarrow> string list tr" where
  "extractPartyCodeFromTensor r =
    bind_s (read_t r) (\<lambda>input.
    if t_status input = TENSORSTATUS_PRIVATE then return_s [t_OwnerPartyCode input] else engine_parties)"

definition convertDataType :: "FieldType \<Rightarrow> PrimitiveDataType result" where
  "convertDataType typ =
    (case Tp typ of
       TypeLonglong \<Rightarrow> Inr (if HasIsBooleanFlag (Flag typ) then BOOL else INT64)
     | TypeLong \<Rightarrow> Inr INT64
     | TypeDuration \<Rightarrow> Inr INT64
     | TypeString \<Rightarrow> Inr STRING
     | TypeVarchar \<Rightarrow> Inr STRING
     | TypeVarString \<Rightarrow> Inr STRING
     | TypeTiny \<Rightarrow> Inr BOOL
     | TypeFloat \<Rightarrow> Inr FLOAT32
     | TypeDouble \<Rightarrow> Inr FLOAT64
     | TypeNewDecimal \<Rightarrow> Inr FLOAT64
     | TypeDatetime \<Rightarrow> Inr DATETIME
     | TypeDate \<Rightarrow> Inr DATETIME
     | TypeYear \<Rightarrow> Inr DATETIME
     | TypeTimestamp \<Rightarrow> Inr TIMESTAMP
     | _ \<Rightarrow> Inl (Errorf ''convertDataType doesn't support type %v''))"

text \<open>\<open>alg.inputPlacement[key][0]\<close> and \<open>alg.outputPlacement[graph.Out][0]\<close>.\<close>

definition in_placement :: "materializedAlgorithm \<Rightarrow> string \<Rightarrow> placement result" where
  "in_placement alg key = at (lookup_or [] (inputPlacement alg) key) 0"

definition out_placement :: "materializedAlgorithm \<Rightarrow> placement result" where
  "out_placement alg = at (lookup_or [] (outputPlacement alg) arg_Out) 0"

text \<open>Status and owner of an output, from the placement chosen for it.\<close>

definition place_output :: "placement \<Rightarrow> Tensor \<Rightarrow> Tensor" where
  "place_output pl output =
    (let o1 = SetStatus (Status pl) output in
     if t_status o1 = TENSORSTATUS_PRIVATE then o1\<lparr>t_OwnerPartyCode := hd (partyList pl)\<rparr> else o1)"

text \<open>The conversions to one placement that many methods start with.\<close>

definition convert_all :: "placement \<Rightarrow> tref list \<Rightarrow> tref list tr" where
  "convert_all pl = map_s (\<lambda>r. convertTo r pl)"

definition toShare :: "tref list \<Rightarrow> tref list tr" where
  "toShare inputs = bind_s engine_parties (\<lambda>parties. convert_all (sharePlacement parties) inputs)"

definition findPartyWithAccessToAllTensors :: "tref list \<Rightarrow> string tr" where
  "findPartyWithAccessToAllTensors inputs =
    bind_s get_s (\<lambda>t.
    bind_s engine_parties (\<lambda>parties.
    let candidates = filter (\<lambda>pc. list_all (\<lambda>r. IsVisibleFor (t_CC (tensor (ep t) r)) pc) inputs) parties in
    return_s (case SliceDeDup candidates of [] \<Rightarrow> '''' | p # _ \<Rightarrow> p)))"

section \<open>Nodes over private tensors\<close>

definition addConstantNode :: "Datum \<Rightarrow> tref tr" where
  "addConstantNode value =
    bind_s engine_parties (\<lambda>parties. in_ep (AddConstantNode ''make_constant'' value parties))"

text \<open>The new tensors of a bucket node, by the ID of the tensor they stand for.\<close>

definition bucket_payload :: "tref \<Rightarrow> (int, tref) gomap \<times> tref list \<Rightarrow> ((int, tref) gomap \<times> tref list) tr" where
  "bucket_payload it = (\<lambda>(bucketTsMap, bucketPayloads).
    bind_s (read_t it) (\<lambda>x.
    bind_s (in_ep (AddTensorAs it)) (\<lambda>ot.
    return_s (AList.update (t_ID x) ot bucketTsMap, bucketPayloads @ [ot]))))"

definition bucket_key :: "tref \<Rightarrow> (int, tref) gomap \<Rightarrow> (int, tref) gomap tr" where
  "bucket_key it bucketTsMap =
    bind_s (read_t it) (\<lambda>x.
    if map_of bucketTsMap (t_ID x) \<noteq> None then return_s bucketTsMap
    else bind_s (in_ep (AddTensorAs it)) (\<lambda>ot. return_s (AList.update (t_ID x) ot bucketTsMap)))"

definition addBucketNode :: "tref list \<Rightarrow> tref list \<Rightarrow> string list \<Rightarrow> (tref list \<times> tref list) tr" where
  "addBucketNode joinKeys payloads partyCodes =
    bind_s get_s (\<lambda>t.
    let joinKeyIds = map (\<lambda>r. t_ID (tensor (ep t) r)) joinKeys in
    bind_s (lift_r (at joinKeys 0)) (\<lambda>key0.
    let partyCode = t_OwnerPartyCode (tensor (ep t) key0) in
    bind_s (wrap_s ''addBucketNode: %s''
      (lift_r (assertTensorsBelongTo (map (tensor (ep t)) (payloads @ joinKeys)) partyCode))) (\<lambda>_.
    bind_s (fold_s bucket_payload payloads ([], [])) (\<lambda>(m, bucketPayloads).
    bind_s (fold_s bucket_key joinKeys m) (\<lambda>bucketTsMap.
    let bucketKeys = map (lookup_or 0 bucketTsMap) joinKeyIds in
    bind_s get_s (\<lambda>t.
    bind_s (add_node ''bucket'' OpNameBucket
      [(''In'', mergeTensors (ep t) joinKeys payloads), (''Key'', joinKeys)]
      [(arg_Out, mergeTensors (ep t) bucketKeys bucketPayloads)]
      [(InputPartyCodesAttr, SetStrings partyCodes)] [partyCode]) (\<lambda>_.
    return_s (bucketKeys, bucketPayloads))))))))"

text \<open>The positions of the tensors each party filters.\<close>

definition index_groups :: "string \<Rightarrow> Tensor list \<Rightarrow> (string, nat list) gomap" where
  "index_groups partyCode ts =
    fold (\<lambda>(i, t) m.
      let code = (if t_status t = TENSORSTATUS_PRIVATE \<and> t_OwnerPartyCode t \<noteq> '''' then t_OwnerPartyCode t else partyCode) in
      AList.update code (lookup_or [] m code @ [i]) m) (enumerate 0 ts) []"

definition addFilterByIndexNode :: "tref \<Rightarrow> tref list \<Rightarrow> string \<Rightarrow> tref list tr" where
  "addFilterByIndexNode flt ts partyCode =
    bind_s get_s (\<lambda>t.
    let partyToLocalTensors = index_groups partyCode (map (tensor (ep t)) ts) in
    fold_s (\<lambda>(code, indexes) outTs.
      bind_s (if code \<noteq> partyCode
        then wrap_s ''fail to apply filter by index: %v'' (in_ep (AddCopyNode ''copy'' flt partyCode code))
        else return_s flt) (\<lambda>localFilter.
      bind_s (wrap_s ''fail to apply filter by index: %v''
        (in_ep (AddFilterByIndexNode ''filter_by_index'' localFilter (map ((!) ts) indexes) code))) (\<lambda>filtered.
      return_s (fold (\<lambda>(origIndex, r) outs. outs[origIndex := r]) (zip indexes filtered) outTs))))
      (SortedMap partyToLocalTensors) (replicate (length ts) 0))"

definition addBroadcastToNodeOndemand :: "tref list \<Rightarrow> tref list tr" where
  "addBroadcastToNodeOndemand inputs =
    bind_s get_s (\<lambda>t.
    let isConst = (\<lambda>r. t_IsConstScalar (tensor (ep t) r));
        constScalars = filter isConst inputs;
        shaped = filter (\<lambda>r. \<not> isConst r) inputs in
    if length inputs = 1 then return_s inputs
    else if constScalars = [] then return_s inputs
    else if shaped = [] then fail_s (Errorf ''unsupported tensors: all tensors are constant'')
    else
      bind_s (wrap_s ''addBroadcastToNode:%+v'' (in_ep (AddBroadcastToNode ''broadcast'' constScalars (last shaped))))
        (\<lambda>outConstTs.
      return_s (fst (fold (\<lambda>input (outs, rest).
        if isConst input then (outs @ [hd rest], tl rest) else (outs @ [input], rest)) inputs ([], outConstTs)))))"

definition addUniqueNode :: "string \<Rightarrow> tref \<Rightarrow> string \<Rightarrow> tref tr" where
  "addUniqueNode name input partyCode =
    bind_s (wrap_s ''addUniqueNode: %v'' (convertTo input (privatePlacement partyCode))) (\<lambda>inputP.
    bind_s (in_ep (AddTensorAs_set inputP (\<lambda>out. out\<lparr>t_Name := ''unique_'' @ t_Name out, t_OwnerPartyCode := partyCode\<rparr>)))
      (\<lambda>output.
    bind_s (add_node name OpNameUnique [(''Key'', [inputP])] [(''UniqueKey'', [output])] [] [partyCode]) (\<lambda>_.
    return_s output)))"

definition group_agg_dtype :: "string \<Rightarrow> PrimitiveDataType \<Rightarrow> PrimitiveDataType" where
  "group_agg_dtype opType dtype =
    (if opType = OpNameGroupAvg then FLOAT64
     else if opType = OpNameGroupSum then (if IsFloatOrDoubleType dtype then FLOAT64 else INT64)
     else if opType = OpNameGroupCount \<or> opType = OpNameGroupCountDistinct then INT64
     else dtype)"

definition addGroupAggNode ::
    "string \<Rightarrow> string \<Rightarrow> tref \<Rightarrow> tref \<Rightarrow> tref list \<Rightarrow> string \<Rightarrow> (string, Attribute) gomap \<Rightarrow> tref list tr" where
  "addGroupAggNode name opType groupId groupNum ins partyCode attr =
    bind_s (wrap_s ''addGroupAggNode: name %v, opType %v, convert in#%v err: %v''
      (convert_all (privatePlacement partyCode) ins)) (\<lambda>inP.
    bind_s (wrap_s ''addGroupAggNode: name %v, opType %v, convert group id err: %v''
      (convertTo groupId (privatePlacement partyCode))) (\<lambda>groupIdP.
    bind_s (wrap_s ''addGroupAggNode: name %v, opType %v, convert group num err: %v''
      (convertTo groupNum (privatePlacement partyCode))) (\<lambda>groupNumP.
    bind_s (map_s (\<lambda>it. in_ep (AddTensorAs_set it (\<lambda>out. out\<lparr>t_Name := t_Name out @ ''_'' @ name,
      t_DType := group_agg_dtype opType (t_DType out)\<rparr>))) inP) (\<lambda>outputs.
    bind_s (wrap_s ''addGroupAggNode: name %v, opType %v, err %v''
      (add_node name opType [(''GroupId'', [groupIdP]), (''GroupNum'', [groupNumP]), (''In'', inP)]
        [(''Out'', outputs)] attr [partyCode])) (\<lambda>_.
    return_s outputs)))))"

definition addGroupNode :: "string \<Rightarrow> tref list \<Rightarrow> string \<Rightarrow> (tref \<times> tref) tr" where
  "addGroupNode name inputs partyCode =
    bind_s (wrap_s ''addGroupNode: %v'' (convert_all (privatePlacement partyCode) inputs)) (\<lambda>newInputs.
    bind_s get_s (\<lambda>t.
    bind_s (lift_r (at inputs 0)) (\<lambda>input0.
    let cc = fold (\<lambda>i cc. UpdateMoreRestrictedCCLFrom cc (t_CC (tensor (ep t) i))) (tl inputs)
      (Clone (t_CC (tensor (ep t) input0))) in
    bind_s (in_ep (AddColumn_set ''group_id'' TENSORSTATUS_PRIVATE REFERENCE INT64
      (\<lambda>x. x\<lparr>t_OwnerPartyCode := partyCode, t_CC := cc\<rparr>))) (\<lambda>outputId.
    bind_s (in_ep (AddTensorAs_set outputId (\<lambda>x. x\<lparr>t_Name := ''group_num''\<rparr>))) (\<lambda>outputNum.
    bind_s (add_node name OpNameGroup [(''Key'', newInputs)] [(''GroupId'', [outputId]), (''GroupNum'', [outputNum])]
      [] [partyCode]) (\<lambda>_.
    return_s (outputId, outputNum)))))))"

definition addGroupHeSumNode :: "string \<Rightarrow> tref \<Rightarrow> tref \<Rightarrow> tref \<Rightarrow> string \<Rightarrow> string \<Rightarrow> tref tr" where
  "addGroupHeSumNode name groupId groupNum input groupParty inParty =
    bind_s (wrap_s ''addGroupHeSumNode: name %v, convert group id err: %v''
      (convertTo groupId (privatePlacement groupParty))) (\<lambda>groupIdP.
    bind_s (wrap_s ''addGroupHeSumNode: name %v, convert group num err: %v''
      (convertTo groupNum (privatePlacement groupParty))) (\<lambda>groupNumP.
    bind_s (wrap_s ''addGroupHeSumNode: name %v, convert agg err: %v''
      (convertTo input (privatePlacement inParty))) (\<lambda>inP.
    bind_s (read_t input) (\<lambda>x.
    bind_s (in_ep (AddTensorAs_set inP (\<lambda>out. out\<lparr>t_Name := t_Name out @ ''_sum'',
      t_DType := (if IsFloatOrDoubleType (t_DType x) then FLOAT64 else INT64)\<rparr>))) (\<lambda>output.
    bind_s (wrap_s ''addGroupHeSumNode: name %v, opType %v, err %v''
      (add_node name OpNameGroupHeSum [(''GroupId'', [groupIdP]), (''GroupNum'', [groupNumP]), (''In'', [inP])]
        [(''Out'', [output])] [(InputPartyCodesAttr, SetStrings [groupParty, inParty])] [groupParty, inParty])) (\<lambda>_.
    return_s output))))))"

definition addWindowNode :: "string \<Rightarrow> tref list \<Rightarrow> tref \<Rightarrow> tref \<Rightarrow> tref \<Rightarrow> Attribute \<Rightarrow> string \<Rightarrow> unit tr" where
  "addWindowNode name key partitionId partitionNum output attr party =
    add_node name name [(''Key'', key), (''PartitionId'', [partitionId]), (''PartitionNum'', [partitionNum])]
      [(''Out'', [output])] [(ReverseAttr, attr)] [party]"

section \<open>Nodes over shares\<close>

text \<open>The scan of \<open>addSortNode\<close>: whether the tensors must be shared, and the owner of the private ones. It
  stops at the first tensor that forces sharing.\<close>

fun sort_scan :: "Tensor list \<Rightarrow> string list \<Rightarrow> bool \<times> string list" where
  "sort_scan [] privatePartyCodes = (False, privatePartyCodes)"
| "sort_scan (t # ts) privatePartyCodes =
    (if t_status t = TENSORSTATUS_SECRET \<or> t_status t = TENSORSTATUS_PUBLIC then (True, privatePartyCodes)
     else
       (let codes = (if t_status t = TENSORSTATUS_PRIVATE then List.insert (t_OwnerPartyCode t) privatePartyCodes
          else privatePartyCodes) in
        if 1 < length codes then (True, codes) else sort_scan ts codes))"

definition addSortNode :: "string \<Rightarrow> tref list \<Rightarrow> tref list \<Rightarrow> bool \<Rightarrow> tref list tr" where
  "addSortNode name key ins reverse =
    bind_s get_s (\<lambda>t.
    case sort_scan (map (tensor (ep t)) (ins @ key)) [] of (makeShareFlag, privatePartyCodes) \<Rightarrow>
    bind_s engine_parties (\<lambda>parties.
    bind_s (if makeShareFlag then wrap_s ''addSortNode: %v'' (convert_all (sharePlacement parties) key) else return_s key)
      (\<lambda>keyA.
    bind_s (if makeShareFlag then wrap_s ''addSortNode: %v'' (convert_all (sharePlacement parties) ins) else return_s ins)
      (\<lambda>inA.
    bind_s (map_s (\<lambda>r. in_ep (AddTensorAs r)) inA) (\<lambda>outA.
    let partyCodes = (if makeShareFlag then parties else privatePartyCodes) in
    bind_s (wrap_s ''addSortNode: %v'' (add_node name OpNameSort [(''Key'', keyA), (''In'', inA)] [(''Out'', outA)]
      [(ReverseAttr, SetBool reverse)] partyCodes)) (\<lambda>_.
    return_s outA))))))"

definition addObliviousGroupMarkNode :: "string \<Rightarrow> tref list \<Rightarrow> tref tr" where
  "addObliviousGroupMarkNode name key =
    bind_s engine_parties (\<lambda>parties.
    bind_s (wrap_s ''addObliviousGroupMarkNode: %v'' (convert_all (sharePlacement parties) key)) (\<lambda>keyA.
    bind_s (in_ep (AddTensor_set ''group_mark'' (\<lambda>out. out\<lparr>t_Option := REFERENCE,
      t_status := TENSORSTATUS_SECRET, t_DType := BOOL\<rparr>))) (\<lambda>out.
    bind_s (wrap_s ''addObliviousGroupMarkNode: %v''
      (add_node name OpNameObliviousGroupMark [(''Key'', keyA)] [(''Group'', [out])] [] parties)) (\<lambda>_.
    return_s out))))"

definition oblivious_dtype :: "string \<Rightarrow> PrimitiveDataType \<Rightarrow> PrimitiveDataType" where
  "oblivious_dtype funcName dtype =
    (if funcName = ''avg'' \<or> funcName = ''percent_rank'' then FLOAT64
     else if funcName = ''count'' then INT64
     else if funcName = ''sum'' then
       (if dtype = BOOL then INT64 else if IsFloatOrDoubleType dtype then FLOAT64 else dtype)
     else dtype)"

definition addObliviousGroupAggNode :: "string \<Rightarrow> tref \<Rightarrow> tref \<Rightarrow> (string, Attribute) gomap \<Rightarrow> tref tr" where
  "addObliviousGroupAggNode funcName grp input attr =
    (case map_of ObliviousGroupAggOp funcName of
       None \<Rightarrow> fail_s (Errorf ''addObliviousGroupAggNode: unsupported op %v'')
     | Some opName \<Rightarrow>
       bind_s engine_parties (\<lambda>parties.
       bind_s (wrap_s ''addObliviousGroupAggNode: %v'' (convertTo input (sharePlacement parties))) (\<lambda>inA.
       bind_s (in_ep (AddTensorAs_set inA (\<lambda>out. out\<lparr>t_DType := oblivious_dtype funcName (t_DType out)\<rparr>))) (\<lambda>outA.
       bind_s (wrap_s ''addObliviousGroupAggNode: %v''
         (add_node funcName opName [(''Group'', [grp]), (''In'', [inA])] [(''Out'', [outA])] attr parties)) (\<lambda>_.
       return_s outA)))))"

definition addShuffleNode :: "string \<Rightarrow> tref list \<Rightarrow> tref list tr" where
  "addShuffleNode name inTs =
    bind_s engine_parties (\<lambda>parties.
    bind_s (map_s (\<lambda>r. bind_s (read_t r) (\<lambda>x.
      if t_status x = TENSORSTATUS_PUBLIC then return_s r
      else wrap_s ''addShuffleNode: %v'' (convertTo r (sharePlacement parties)))) inTs) (\<lambda>inA.
    bind_s (map_s (\<lambda>r. in_ep (AddTensorAs r)) inA) (\<lambda>outA.
    bind_s (wrap_s ''addShuffleNode: %v'' (add_node name OpNameShuffle [(''In'', inA)] [(''Out'', outA)] [] parties)) (\<lambda>_.
    return_s outA))))"

definition addConcatNode :: "tref list \<Rightarrow> tref tr" where
  "addConcatNode inputs =
    bind_s get_s (\<lambda>t.
    bind_s (lift_r (at inputs 0)) (\<lambda>input0.
    let newCC = fold (\<lambda>r cc. UpdateMoreRestrictedCCLFrom cc (t_CC (tensor (ep t) r))) (tl inputs)
      (Clone (t_CC (tensor (ep t) input0))) in
    bind_s engine_parties (\<lambda>parties.
    bind_s (guard_s (list_all (\<lambda>p. LevelFor newCC p \<noteq> Unknown) parties)
      (Errorf ''failed to check union ccl: '')) (\<lambda>_.
    bind_s (wrap_s ''addConcatNode: %v'' (convert_all (sharePlacement parties) inputs)) (\<lambda>newIn.
    bind_s (lift_r (at newIn 0)) (\<lambda>in0.
    bind_s get_s (\<lambda>t.
    let ts = map (tensor (ep t)) newIn in
    bind_s (in_ep (AddTensorAs_set in0 (\<lambda>out. out\<lparr>
      t_SecretStringOwners := t_SecretStringOwners out @ concat (map t_SecretStringOwners ts), t_CC := newCC\<rparr>))) (\<lambda>out.
    bind_s (guard_s (list_all (\<lambda>x. t_DType x = t_DType (tensor (ep t) in0)) ts)
      (Errorf ''addConcatNode: not support concat different type, please cast before union'')) (\<lambda>_.
    bind_s (wrap_s ''addConcatNode: %v''
      (add_node ''concat'' OpNameConcat [(''In'', newIn)] [(arg_Out, [out])] [] parties)) (\<lambda>_.
    return_s out))))))))))"

section \<open>Filters\<close>

text \<open>The private tensors to filter, by owner, with the column IDs they belong to.\<close>

definition private_groups :: "GraphBuilder \<Rightarrow> (int \<times> tref) list \<Rightarrow> (string, (int \<times> tref) list) gomap" where
  "private_groups plan ts =
    fold (\<lambda>(tensorId, it) m.
      let owner = t_OwnerPartyCode (tensor plan it) in
      AList.update owner (lookup_or [] m owner @ [(tensorId, it)]) m) ts []"

definition addFilterNode :: "tref \<Rightarrow> (int, tref) gomap \<Rightarrow> (int, tref) gomap tr" where
  "addFilterNode flt tensorToFilter =
    bind_s get_s (\<lambda>t.
    let status = (\<lambda>(tensorId, it). t_status (tensor (ep t) it));
        ts = SortedMap tensorToFilter;
        shared = filter (\<lambda>x. status x = TENSORSTATUS_SECRET) ts;
        privateTensorsMap = private_groups (ep t) (filter (\<lambda>x. status x = TENSORSTATUS_PRIVATE) ts) in
    bind_s (guard_s (list_all (\<lambda>x. status x \<in> {TENSORSTATUS_SECRET, TENSORSTATUS_PRIVATE}) ts)
      (Errorf ''unsupported tensor status for selection node: %+v'')) (\<lambda>_.
    bind_s engine_parties (\<lambda>parties.
    bind_s (if shared \<noteq> [] then
        bind_s (wrap_s ''addFilterNode: %v'' (convertTo flt (publicPlacement parties))) (\<lambda>publicFilter.
        bind_s (wrap_s ''addFilterNode: %v''
          (in_ep (AddFilterNode ''apply_filter'' (map snd shared) publicFilter parties))) (\<lambda>output.
        return_s (zip (map fst shared) output)))
      else return_s []) (\<lambda>sharedResult.
    bind_s (map_s (\<lambda>(p, its).
        bind_s (read_t flt) (\<lambda>f.
        bind_s (guard_s (IsVisibleFor (t_CC f) p) (Errorf ''failed to check ccl: filter (%+v) is not visible to %s'')) (\<lambda>_.
        bind_s (wrap_s ''addFilterNode: %v'' (convertTo flt (privatePlacement p))) (\<lambda>newFilter.
        bind_s (wrap_s ''addFilterNode: %v''
          (in_ep (AddFilterNode ''apply_filter'' (map snd its) newFilter [p]))) (\<lambda>output.
        return_s (zip (map fst its) output)))))) (SortedMap privateTensorsMap)) (\<lambda>privateResults.
    return_s (sharedResult @ concat privateResults))))))"

section \<open>Operators whose algorithm is chosen by cost\<close>

definition addBasicInNode :: "tref \<Rightarrow> tref \<Rightarrow> CCL \<Rightarrow> string \<Rightarrow> int \<Rightarrow> tref tr" where
  "addBasicInNode left right outCCL revealParty psiAlg =
    bind_s (in_ep (AddTensor_set ''psi_in_out'' (\<lambda>output. output\<lparr>t_Option := REFERENCE, t_DType := BOOL,
      t_status := TENSORSTATUS_PRIVATE, t_OwnerPartyCode := revealParty, t_CC := outCCL\<rparr>))) (\<lambda>output.
    bind_s (read_t left) (\<lambda>l.
    bind_s (read_t right) (\<lambda>r.
    let owners = [t_OwnerPartyCode l, t_OwnerPartyCode r];
        attrs = [(PsiAlgorithmAttr, SetInt64 psiAlg), (InputPartyCodesAttr, SetStrings owners),
            (RevealToAttr, SetStrings [revealParty])]
          @ (if t_OwnerPartyCode l = t_OwnerPartyCode r then [(InTypeAttr, SetInt64 LocalIn)] else []) in
    bind_s (add_node ''psi_in'' OpNameIn [(arg_Left, [left]), (arg_Right, [right])] [(arg_Out, [output])]
      attrs (SliceDeDup owners)) (\<lambda>_.
    return_s output))))"

text \<open>A private result away from the owner of the left operand costs one more.\<close>

definition prefer_left_owner :: "string \<Rightarrow> materializedAlgorithm \<Rightarrow> materializedAlgorithm result" where
  "prefer_left_owner owner alg =
    bind_r (out_placement alg) (\<lambda>pl.
    Inr (if Status pl = TENSORSTATUS_PRIVATE \<and> hd (partyList pl) \<noteq> owner
      then alg\<lparr>cost := (cost alg)\<lparr>communicationCost := communicationCost (cost alg) + 1\<rparr>\<rparr> else alg))"

definition get_creator :: "string \<Rightarrow> algCreateFunc tr" where
  "get_creator opType = (case getCreator opType of
      None \<Rightarrow> fail_s (Errorf ''fail to get algorithm creator for op type %s'')
    | Some creator \<Rightarrow> return_s creator)"

definition addInNode :: "Expression \<Rightarrow> tref \<Rightarrow> tref \<Rightarrow> tref tr" where
  "addInNode f left right =
    bind_s (read_t left) (\<lambda>l.
    bind_s (read_t right) (\<lambda>r.
    bind_s (guard_s (t_DType l = t_DType r) (Errorf ''addInNode: left type %v should be same with right %v'')) (\<lambda>_.
    bind_s (wrap_s ''addInNode: %v'' (lift_r (InferScalarFuncCCLUsingArgCCL f [t_CC l, t_CC r]))) (\<lambda>outCc.
    bind_s (get_creator OpNameIn) (\<lambda>creator.
    bind_s engine_parties (\<lambda>parties.
    bind_s (wrap_s ''addInNode: %v'' (lift_r (creator [(arg_Left, [t_CC l]), (arg_Right, [t_CC r])] [(arg_Out, [outCc])] parties)))
      (\<lambda>algs.
    bind_s (lift_r (map_r (prefer_left_owner (t_OwnerPartyCode l)) algs)) (\<lambda>algs.
    bind_s (getBestAlg OpNameIn [(arg_Left, [left]), (arg_Right, [right])] algs) (\<lambda>bestAlg.
    bind_s (lift_r (in_placement bestAlg arg_Left)) (\<lambda>lp.
    bind_s (lift_r (in_placement bestAlg arg_Right)) (\<lambda>rp.
    bind_s (lift_r (out_placement bestAlg)) (\<lambda>op.
    bind_s (wrap_s ''addBinaryNode: %v'' (convertTo left lp)) (\<lambda>left'.
    bind_s (wrap_s ''addBinaryNode: %v'' (convertTo right rp)) (\<lambda>right'.
    bind_s (lift_r (at (partyList op) 0)) (\<lambda>revealParty.
    bind_s (gets_s (\<lambda>t. PsiAlgorithmType (CompileOpts t))) (\<lambda>psiAlg.
    addBasicInNode left' right' outCc revealParty psiAlg))))))))))))))))"

definition binaryOpBoolOutputMap :: "string list" where
  "binaryOpBoolOutputMap = [OpNameLess, OpNameLessEqual, OpNameGreater, OpNameGreaterEqual, OpNameEqual, OpNameNotEqual,
    OpNameLogicalAnd, OpNameLogicalOr, OpNameIn]"

definition arithOpMap :: "string list" where
  "arithOpMap = [OpNameAdd, OpNameMinus, OpNameMul, OpNameDiv, OpNameIntDiv, OpNameMod, OpNameATan2, OpNamePow]"

definition floatOutputBinaryOp :: "string list" where
  "floatOutputBinaryOp = [OpNameDiv, OpNameATan2]"

definition inferBinaryOpOutputType :: "string \<Rightarrow> PrimitiveDataType \<Rightarrow> PrimitiveDataType \<Rightarrow> PrimitiveDataType result" where
  "inferBinaryOpOutputType opType left right =
    (if opType \<in> set binaryOpBoolOutputMap then Inr BOOL
     else if left = DATETIME \<or> left = TIMESTAMP then
       (if opType = OpNameIntDiv then Inr INT64
        else if left = right then Inr INT64
        else Inr left)
     else if opType \<in> set arithOpMap then
       (if opType \<in> set floatOutputBinaryOp then Inr FLOAT64
        else if opType = OpNameIntDiv \<or> opType = OpNameMod then Inr INT64
        else if IsFloatOrDoubleType left \<or> IsFloatOrDoubleType right then Inr FLOAT64
        else if left = right then Inr left
        else Inr INT64)
     else Inl (Errorf ''cannot infer output type for opType=%s''))"

definition constTensorNeedCastOp :: "string list" where
  "constTensorNeedCastOp = [OpNameLess, OpNameLessEqual, OpNameGreater, OpNameGreaterEqual, OpNameEqual, OpNameAdd, OpNameMinus]"

definition castIfNeeded :: "tref \<Rightarrow> tref \<Rightarrow> tref tr" where
  "castIfNeeded constTensor otherTensor =
    bind_s (read_t constTensor) (\<lambda>c.
    bind_s (read_t otherTensor) (\<lambda>other.
    if t_Name c = ''constant_data'' \<and> t_DType c = STRING \<and> (t_DType other = DATETIME \<or> t_DType other = TIMESTAMP) then
      bind_s (extractPartyCodeFromTensor constTensor) (\<lambda>inTensorPartyCodes.
      in_ep (AddCastNode ''cast'' (t_DType other) constTensor inTensorPartyCodes))
    else return_s constTensor))"

text \<open>Casting a string literal that is compared with or added to a time.\<close>

definition cast_operands :: "string \<Rightarrow> tref \<Rightarrow> tref \<Rightarrow> (tref \<times> tref) tr" where
  "cast_operands opType left right =
    bind_s (read_t left) (\<lambda>l.
    bind_s (read_t right) (\<lambda>r.
    if opType \<notin> set constTensorNeedCastOp then return_s (left, right)
    else if t_Name l = ''constant_data'' then
      bind_s (castIfNeeded left right) (\<lambda>left'. return_s (left', right))
    else if t_Name r = ''constant_data'' then
      bind_s (castIfNeeded right left) (\<lambda>right'. return_s (left, right'))
    else return_s (left, right)))"

definition addBinaryNode :: "string \<Rightarrow> string \<Rightarrow> tref \<Rightarrow> tref \<Rightarrow> tref tr" where
  "addBinaryNode opName opType left0 right0 =
    bind_s (guard_s (opType \<in> set BinaryOps)
      (Errorf ''failed to check op type AddBinaryNode: invalid opType %v'')) (\<lambda>_.
    bind_s (cast_operands opType left0 right0) (\<lambda>(left, right).
    bind_s (read_t left) (\<lambda>l.
    bind_s (read_t right) (\<lambda>r.
    bind_s (wrap_s ''addBinaryNode: %w'' (lift_r (CheckBinaryOpInputType opType l r))) (\<lambda>_.
    let outputCCL = InferBinaryOpOutputVisibility opType (t_CC l) (t_CC r) in
    bind_s (get_creator opType) (\<lambda>creator.
    bind_s engine_parties (\<lambda>parties.
    bind_s (wrap_s ''addBinaryNode: %v''
      (lift_r (creator [(arg_Left, [t_CC l]), (arg_Right, [t_CC r])] [(arg_Out, [outputCCL])] parties))) (\<lambda>algs.
    bind_s (getBestAlg opType [(arg_Left, [left]), (arg_Right, [right])] algs) (\<lambda>bestAlg.
    bind_s (lift_r (in_placement bestAlg arg_Left)) (\<lambda>lp.
    bind_s (lift_r (in_placement bestAlg arg_Right)) (\<lambda>rp.
    bind_s (lift_r (out_placement bestAlg)) (\<lambda>op.
    bind_s (wrap_s ''addBinaryNode: %v'' (convertTo left lp)) (\<lambda>left'.
    bind_s (wrap_s ''addBinaryNode: %v'' (convertTo right rp)) (\<lambda>right'.
    bind_s (read_t left') (\<lambda>l'.
    bind_s (read_t right') (\<lambda>r'.
    bind_s (lift_r (inferBinaryOpOutputType opType (t_DType l') (t_DType r'))) (\<lambda>outputType.
    bind_s (in_ep (AddTensor_set (opName @ ''_out'') (\<lambda>output.
      (place_output op (output\<lparr>t_Option := REFERENCE\<rparr>))\<lparr>t_DType := outputType, t_CC := outputCCL\<rparr>))) (\<lambda>output.
    bind_s (add_node opName opType [(arg_Left, [left']), (arg_Right, [right'])] [(arg_Out, [output])] [] (partyList op)) (\<lambda>_.
    return_s output)))))))))))))))))))"

text \<open>\<open>addCaseWhenNode\<close> and \<open>addIfNode\<close> create the output first, join the control lists of the inputs
  into it, and set its status and owner once the algorithm is chosen and the inputs are converted.\<close>

definition restrict_by :: "GraphBuilder \<Rightarrow> tref list \<Rightarrow> CCL \<Rightarrow> CCL" where
  "restrict_by plan = fold (\<lambda>r cc. UpdateMoreRestrictedCCLFrom cc (t_CC (tensor plan r)))"

definition finish_choice ::
    "string \<Rightarrow> string \<Rightarrow> string \<Rightarrow> (string, tref list) gomap \<Rightarrow> ccl_args \<Rightarrow> tref \<Rightarrow> CCL \<Rightarrow> tref tr" where
  "finish_choice msg name opType inputTs inCcls out outCc =
    bind_s (get_creator opType) (\<lambda>creator.
    bind_s engine_parties (\<lambda>parties.
    bind_s (wrap_s msg (lift_r (creator inCcls [(arg_Out, [outCc])] parties))) (\<lambda>algs.
    bind_s (getBestAlg opType inputTs algs) (\<lambda>bestAlg.
    bind_s (convertStatusForMap inputTs (inputPlacement bestAlg)) (\<lambda>convertedTs.
    bind_s (lift_r (out_placement bestAlg)) (\<lambda>op.
    bind_s (in_ep (modify_s (set_tensor out (place_output op)))) (\<lambda>_.
    bind_s (wrap_s ''addIfNode: %v'' (add_node name opType convertedTs [(''Out'', [out])] [] (partyList op))) (\<lambda>_.
    return_s out))))))))"

definition addCaseWhenNode :: "string \<Rightarrow> tref list \<Rightarrow> tref list \<Rightarrow> tref \<Rightarrow> tref tr" where
  "addCaseWhenNode name conds values valueElse =
    bind_s get_s (\<lambda>t.
    let cc = (\<lambda>r. t_CC (tensor (ep t) r)) in
    bind_s (wrap_s ''addCaseWhenNode: %v'' (lift_r (checkInputTypeNotString (map (tensor (ep t)) conds)))) (\<lambda>_.
    bind_s (guard_s (list_all (\<lambda>v. t_DType (tensor (ep t) v) = t_DType (tensor (ep t) valueElse)) values)
      (Errorf ''addCaseWhenNode: unmatched dtype in CASE WHEN else dtype(%v) != then dtype(%v)'')) (\<lambda>_.
    bind_s (in_ep (AddTensorAs_set valueElse (\<lambda>out. out\<lparr>t_CC := restrict_by (ep t) values (restrict_by (ep t) conds (t_CC out))\<rparr>)))
      (\<lambda>out.
    bind_s (read_t out) (\<lambda>o'.
    finish_choice ''addCaseWhenNode: %v'' name OpNameCaseWhen
      [(arg_Condition, conds), (arg_Value, values), (arg_ValueElse, [valueElse])]
      [(arg_Condition, map cc conds), (arg_Value, map cc values), (arg_ValueElse, [cc valueElse])] out (t_CC o'))))))"

text \<open>The control list passed for \<open>ValueIfFalse\<close> is that of \<open>tTrue\<close>, as in the code.\<close>

definition addIfNode :: "string \<Rightarrow> tref \<Rightarrow> tref \<Rightarrow> tref \<Rightarrow> tref tr" where
  "addIfNode name cond tTrue tFalse =
    bind_s get_s (\<lambda>t.
    let cc = (\<lambda>r. t_CC (tensor (ep t) r)) in
    bind_s (guard_s (t_DType (tensor (ep t) tTrue) = t_DType (tensor (ep t) tFalse))
      (Errorf ''failed to check data type for true (%s), false (%s)'')) (\<lambda>_.
    bind_s (wrap_s ''addIfNode: %v'' (lift_r (checkInputTypeNotString [tensor (ep t) cond]))) (\<lambda>_.
    bind_s (in_ep (AddTensorAs_set tTrue (\<lambda>out. out\<lparr>t_CC := restrict_by (ep t) [tFalse, cond] (t_CC out)\<rparr>))) (\<lambda>out.
    bind_s (read_t out) (\<lambda>o'.
    finish_choice ''addIfNode: %v'' name OpNameIf
      [(arg_Condition, [cond]), (arg_ValueIfTrue, [tTrue]), (arg_ValueIfFalse, [tFalse])]
      [(arg_Condition, [cc cond]), (arg_ValueIfTrue, [cc tTrue]), (arg_ValueIfFalse, [cc tTrue])] out (t_CC o'))))))"

definition buildCompareNode :: "string \<Rightarrow> tref list \<Rightarrow> tref tr" where
  "buildCompareNode name inputs =
    bind_s (findPartyWithAccessToAllTensors inputs) (\<lambda>allVisibleParty.
    bind_s engine_parties (\<lambda>parties.
    if allVisibleParty = '''' then
      bind_s (convert_all (sharePlacement parties) inputs) (\<lambda>nodeInputs.
      in_ep (AddVariadicCompareNode name name nodeInputs parties))
    else
      bind_s (map_s (\<lambda>r. bind_s (read_t r) (\<lambda>input.
        if t_OwnerPartyCode input \<noteq> allVisibleParty then convertTo r (privatePlacement allVisibleParty)
        else return_s r)) inputs) (\<lambda>nodeInputs.
      in_ep (AddVariadicCompareNode name name nodeInputs [allVisibleParty]))))"

section \<open>Every method extends the plan\<close>

lemma AddTensor_set_app:
  "AddTensor_set name f plan = Inr (length (Tensors plan), push_tensor (f (NewTensor (int (tensorNum plan)) name)) plan)"
  by (simp add: AddTensor_set_def AddTensor_def bind_s_app set_tensor_def tensor_def push_tensor_def)

lemma keeps_AddTensor_set: "keeps_id f \<Longrightarrow> keeps grows (AddTensor_set name f)"
  by (rule keepsI) (auto simp: AddTensor_set_app keeps_id_def NewTensor_def intro!: grows_push)

lemma keeps_id_place_output [simp]: "keeps_id (place_output pl)" "t_ID (place_output pl t) = t_ID t"
    "t_CC (place_output pl t) = t_CC t"
  by (simp_all add: keeps_id_def place_output_def Let_def SetStatus_def)

lemma keeps_add_node: "opType \<notin> set revealing \<Longrightarrow> keeps tgrows (add_node name opType ins outs attrs ps)"
  unfolding add_node_def by (intro keeps_in_ep keeps_returning keeps_AddExecutionNode)

lemmas keeps_convertTo = keeps_c[OF keeps_convertTo_c] and keeps_convertStatusForMap = keeps_c[OF keeps_convertStatusForMap_c]

lemma keeps_convert_all: "keeps tgrows (convert_all pl rs)"
  unfolding convert_all_def by (intro tr.keeps_rules keeps_convertTo)

lemma keeps_case_prod_app [keeps_intros]:
  "(\<And>x y. keeps R (f x y z)) \<Longrightarrow> keeps R ((case p of (x, y) \<Rightarrow> f x y) z)"
  by (cases p) simp

lemmas tr_keeps = keeps_read_t keeps_engine_parties keeps_convertTo keeps_convert_all keeps_convertStatusForMap
  keeps_getBestAlg keeps_add_node keeps_in_ep keeps_AddTensor_set constructor_keeps keeps_AddTensorAs_set keeps_AddColumn_set
  tr.keeps_rules keeps_intros

lemmas tr_side = keeps_id_def not_revealing

lemma keeps_guarded: "(P \<Longrightarrow> keeps R m) \<Longrightarrow> keeps R (bind_s (guard_s P e) (\<lambda>_. m))"
  by (cases P) (simp_all add: keeps_def bind_s_app)

lemma keeps_extractPartyCodeFromTensor: "keeps tgrows (extractPartyCodeFromTensor r)"
  unfolding extractPartyCodeFromTensor_def by (intro tr_keeps)

lemma keeps_toShare: "keeps tgrows (toShare rs)"
  unfolding toShare_def by (intro tr_keeps)

lemma keeps_findPartyWithAccessToAllTensors: "keeps tgrows (findPartyWithAccessToAllTensors rs)"
  unfolding findPartyWithAccessToAllTensors_def by (intro tr_keeps)

lemma keeps_addConstantNode: "keeps tgrows (addConstantNode v)"
  unfolding addConstantNode_def by (intro tr_keeps)

lemma keeps_addBucketNode: "keeps tgrows (addBucketNode ks pays ps)"
  unfolding addBucketNode_def bucket_payload_def bucket_key_def by (intro tr_keeps) (simp_all add: tr_side)

lemma keeps_addFilterByIndexNode: "keeps tgrows (addFilterByIndexNode flt ts p)"
  unfolding addFilterByIndexNode_def by (intro tr_keeps)

lemma keeps_addBroadcastToNodeOndemand: "keeps tgrows (addBroadcastToNodeOndemand ins)"
  unfolding addBroadcastToNodeOndemand_def by (intro tr_keeps)

lemma keeps_addUniqueNode: "keeps tgrows (addUniqueNode name r p)"
  unfolding addUniqueNode_def by (intro tr_keeps) (simp_all add: tr_side)

lemma keeps_addGroupAggNode: "opType \<notin> set revealing \<Longrightarrow> keeps tgrows (addGroupAggNode name opType gid gnum ins p attr)"
  unfolding addGroupAggNode_def by (intro tr_keeps) (simp_all add: keeps_id_def)

lemma keeps_addGroupNode: "keeps tgrows (addGroupNode name ins p)"
  unfolding addGroupNode_def by (intro tr_keeps) (simp_all add: tr_side)

lemma keeps_addGroupHeSumNode: "keeps tgrows (addGroupHeSumNode name gid gnum r p q)"
  unfolding addGroupHeSumNode_def by (intro tr_keeps) (simp_all add: tr_side)

lemma keeps_addWindowNode: "name \<notin> set revealing \<Longrightarrow> keeps tgrows (addWindowNode name key pid pnum out attr p)"
  unfolding addWindowNode_def by (intro tr_keeps)

lemma keeps_addSortNode: "keeps tgrows (addSortNode name key ins b)"
  unfolding addSortNode_def by (intro tr_keeps) (simp_all add: tr_side)

lemma keeps_addObliviousGroupMarkNode: "keeps tgrows (addObliviousGroupMarkNode name key)"
  unfolding addObliviousGroupMarkNode_def by (intro tr_keeps) (simp_all add: tr_side)

lemma ObliviousGroupAggOp_reveals_nothing: "map_of ObliviousGroupAggOp f = Some opName \<Longrightarrow> opName \<notin> set revealing"
  by (auto simp: ObliviousGroupAggOp_def not_revealing split: if_splits)

lemma keeps_addObliviousGroupAggNode: "keeps tgrows (addObliviousGroupAggNode f g r attr)"
  unfolding addObliviousGroupAggNode_def
  by (cases "map_of ObliviousGroupAggOp f"; simp; intro tr_keeps) (auto simp: keeps_id_def ObliviousGroupAggOp_reveals_nothing)

lemma keeps_addShuffleNode: "keeps tgrows (addShuffleNode name ins)"
  unfolding addShuffleNode_def by (intro tr_keeps) (simp_all add: tr_side)

lemma keeps_addConcatNode: "keeps tgrows (addConcatNode ins)"
  unfolding addConcatNode_def by (intro tr_keeps) (simp_all add: tr_side)

lemma keeps_addFilterNode: "keeps tgrows (addFilterNode flt m)"
  unfolding addFilterNode_def by (intro tr_keeps)

lemma keeps_get_creator: "keeps tgrows (get_creator op)"
  unfolding get_creator_def by (intro tr_keeps)

lemma keeps_addInNode: "keeps tgrows (addInNode f l r)"
  unfolding addInNode_def addBasicInNode_def by (intro tr_keeps keeps_get_creator) (simp_all add: tr_side)

lemma keeps_cast_operands: "keeps tgrows (cast_operands op l r)"
  unfolding cast_operands_def castIfNeeded_def by (intro tr_keeps keeps_extractPartyCodeFromTensor)

lemma BinaryOps_reveal_nothing: "opType \<in> set BinaryOps \<Longrightarrow> opType \<notin> set revealing"
  by (auto simp: BinaryOps_def not_revealing)

lemma keeps_addBinaryNode: "keeps tgrows (addBinaryNode name opType l r)"
  unfolding addBinaryNode_def
  by (rule keeps_guarded, frule BinaryOps_reveal_nothing, intro tr_keeps keeps_get_creator keeps_cast_operands)
    (auto simp: keeps_id_def)

lemma keeps_buildCompareNode: "name \<notin> set revealing \<Longrightarrow> keeps tgrows (buildCompareNode name ins)"
  unfolding buildCompareNode_def by (intro tr_keeps keeps_findPartyWithAccessToAllTensors)

text \<open>\<open>addCaseWhenNode\<close> and \<open>addIfNode\<close> assign to a tensor they created themselves: nothing that was in the plan
  before changes, and the conversions made in between have outputs of their own.\<close>

lemma set_tensor_simps [simp]:
  "all_nodes (set_tensor r f plan) = all_nodes plan" "tensorNum (set_tensor r f plan) = tensorNum plan"
  "gb_partyInfo (set_tensor r f plan) = gb_partyInfo plan" "batched (set_tensor r f plan) = batched plan"
  "OutputName (set_tensor r f plan) = OutputName plan" "length (Tensors (set_tensor r f plan)) = length (Tensors plan)"
  "tensor (set_tensor r f plan) q = (if q = r \<and> r < length (Tensors plan) then f (tensor plan r) else tensor plan q)"
  by (auto simp: set_tensor_def all_nodes_def tensor_def)

lemma grows_set_fresh:
  assumes id: "t_ID t = int (tensorNum s)" and grow: "cgrows (push_tensor t s) u"
    and g: "\<And>x. t_ID (g x) = t_ID x" "\<And>x. t_CC (g x) = t_CC x"
  shows "grows s (set_tensor (length (Tensors s)) g u)"
proof -
  let ?out = "length (Tensors s)" and ?v = "set_tensor (length (Tensors s)) g u"
  from grow obtain ns where ext: "extends (push_tensor t s) u" and nodes: "all_nodes u = all_nodes s @ ns"
    and fresh: "\<And>n out. n \<in> set ns \<Longrightarrow> n_OpType n \<in> {OpNameMakePrivate, OpNameCopy} \<Longrightarrow> out \<in> set (node_outs n) \<Longrightarrow> Suc ?out \<le> out"
    unfolding cgrows_def grows_def by auto
  have grows_u: "grows s u" using builder.trans[OF grows_push[OF id]] grow by (auto simp: cgrows_def)
  obtain ts where ts: "Tensors u = Tensors s @ t # ts" using ext by (auto simp: extends_def)
  have ext': "extends s ?v"
    using ext by (auto simp: extends_def set_tensor_def all_nodes_def ts list_update_append)
  have same: "t_CC (tensor ?v r) = t_CC (tensor u r)" "r \<noteq> ?out \<Longrightarrow> tensor ?v r = tensor u r" for r
    using g(2) by simp_all
  have "reveal_ok ?v" if ok: "reveal_ok s"
    unfolding reveal_ok_def
  proof
    fix n assume "n \<in> set (all_nodes ?v)"
    then consider (old) "n \<in> set (all_nodes s)" | (new) "n \<in> set ns" using nodes by auto
    then show "node_reveal_ok ?v n"
    proof cases
      case old
      with ok node_reveal_ok_extends[OF _ ext'] show ?thesis by (simp add: reveal_ok_def)
    next
      case new
      have u: "node_reveal_ok u n" using ok grows_u nodes new by (simp add: grows_def reveal_ok_def)
      have out: "tensor ?v out = tensor u out" if "n_OpType n = OpNameMakePrivate \<or> n_OpType n = OpNameCopy" "out \<in> set (node_outs n)" for out
        using fresh[OF new _ that(2)] that(1) by (intro same) auto
      show ?thesis using u out same(1) unfolding node_reveal_ok_def by (simp del: set_tensor_simps(7))
    qed
  qed
  moreover have "ids_ok ?v" if "ids_ok s"
  proof -
    have "ids_ok u" using that grows_u by (simp add: grows_def)
    then show ?thesis by (auto simp: ids_ok_def set_tensor_def nth_list_update tensor_def g(1))
  qed
  ultimately show ?thesis using ext' by (simp add: grows_def)
qed

lemma keeps_getBestAlg_c: "keeps ctgrows (getBestAlg opType inputs algs)"
  unfolding getBestAlg_def by (intro ctr.keeps_rules keeps_intros)

lemma finish_choice_Inr:
  assumes "finish_choice msg name opType inputTs inCcls out outCc s = Inr (x, s')"
  obtains create algs best ts op s2 where "x = out" "getCreator opType = Some create"
    "create inCcls [(arg_Out, [outCc])] (PartyInfo_GetParties (partyInfo (enginesInfo s))) = Inr algs"
    "getBestAlg opType inputTs algs s = Inr (best, s)"
    "convertStatusForMap inputTs (inputPlacement best) s = Inr (ts, s2)" "out_placement best = Inr op" "ctgrows s s2"
    "add_node name opType ts [(''Out'', [out])] [] (partyList op)
      (s2\<lparr>ep := set_tensor out (place_output op) (ep s2)\<rparr>) = Inr ((), s')"
proof -
  from assms obtain create algs best s1 ts op s2 where
    "x = out" "getCreator opType = Some create"
    "create inCcls [(arg_Out, [outCc])] (PartyInfo_GetParties (partyInfo (enginesInfo s))) = Inr algs"
    and best: "getBestAlg opType inputTs algs s = Inr (best, s1)"
    and conv: "convertStatusForMap inputTs (inputPlacement best) s1 = Inr (ts, s2)" "out_placement best = Inr op"
    "add_node name opType ts [(''Out'', [out])] [] (partyList op)
      (s2\<lparr>ep := set_tensor out (place_output op) (ep s2)\<rparr>) = Inr ((), s')"
    unfolding finish_choice_def get_creator_def engine_parties_def
    by (auto simp: bind_s_Inr bind_r_Inr in_ep_Inr split: option.splits)
  moreover have "s1 = s" using best by (rule getBestAlg_Inr)
  moreover have "ctgrows s1 s2" using keepsD[OF keeps_convertStatusForMap_c conv(1)] .
  ultimately show thesis using that by blast
qed

lemma finish_choice_grows:
  assumes run: "finish_choice msg name opType inputTs inCcls (length (Tensors (ep s))) outCc (s\<lparr>ep := push_tensor t (ep s)\<rparr>) = Inr (x, s')"
    and op: "opType \<notin> set revealing" and id: "t_ID t = int (tensorNum (ep s))"
  shows "tgrows s s'"
  using run
proof (rule finish_choice_Inr)
  let ?out = "length (Tensors (ep s))"
  fix s2 pl ts
  assume conv: "ctgrows (s\<lparr>ep := push_tensor t (ep s)\<rparr>) s2"
    and node: "add_node name opType ts [(''Out'', [?out])] [] (partyList pl)
      (s2\<lparr>ep := set_tensor ?out (place_output pl) (ep s2)\<rparr>) = Inr ((), s')"
  have "grows (ep s) (set_tensor ?out (place_output pl) (ep s2))"
    using conv by (intro grows_set_fresh[OF id]) (simp_all add: ctgrows_def)
  then have "tgrows s (s2\<lparr>ep := set_tensor ?out (place_output pl) (ep s2)\<rparr>)"
    using conv by (simp add: ctgrows_def tgrows_def same_static_def)
  then show ?thesis using keepsD[OF keeps_add_node[OF op] node] by (rule tr.trans)
qed

lemma choice_reveals_nothing: "OpNameCaseWhen \<notin> set revealing" "OpNameIf \<notin> set revealing"
  by (simp_all add: not_revealing)

lemma addCaseWhenNode_Inr:
  assumes "addCaseWhenNode name conds vals e s = Inr (x, s')"
  obtains t ins where "t_ID t = int (tensorNum (ep s))" "t_CC t = restrict_by (ep s) vals (restrict_by (ep s) conds (Clone (t_CC (tensor (ep s) e))))"
    "finish_choice ''addCaseWhenNode: %v'' name OpNameCaseWhen [(arg_Condition, conds), (arg_Value, vals), (arg_ValueElse, [e])] ins
      (length (Tensors (ep s))) (t_CC t) (s\<lparr>ep := push_tensor t (ep s)\<rparr>) = Inr (x, s')"
proof -
  let ?t = "(tensor_as (tensor (ep s) e) (int (tensorNum (ep s))))
    \<lparr>t_CC := restrict_by (ep s) vals (restrict_by (ep s) conds (Clone (t_CC (tensor (ep s) e))))\<rparr>"
  show thesis
    using assms by (intro that[of ?t])
      (auto simp: addCaseWhenNode_def Let_def bind_s_Inr bind_r_Inr in_ep_Inr AddTensorAs_set_app read_t_def split: if_splits)
qed

lemma addIfNode_Inr:
  assumes "addIfNode name c a b s = Inr (x, s')"
  obtains t ins where "t_ID t = int (tensorNum (ep s))" "t_CC t = restrict_by (ep s) [b, c] (Clone (t_CC (tensor (ep s) a)))"
    "finish_choice ''addIfNode: %v'' name OpNameIf [(arg_Condition, [c]), (arg_ValueIfTrue, [a]), (arg_ValueIfFalse, [b])] ins
      (length (Tensors (ep s))) (t_CC t) (s\<lparr>ep := push_tensor t (ep s)\<rparr>) = Inr (x, s')"
proof -
  let ?t = "(tensor_as (tensor (ep s) a) (int (tensorNum (ep s))))
    \<lparr>t_CC := restrict_by (ep s) [b, c] (Clone (t_CC (tensor (ep s) a)))\<rparr>"
  show thesis
    using assms by (intro that[of ?t])
      (auto simp: addIfNode_def Let_def bind_s_Inr bind_r_Inr in_ep_Inr AddTensorAs_set_app read_t_def split: if_splits)
qed

lemma keeps_addCaseWhenNode: "keeps tgrows (addCaseWhenNode name conds vals e)"
  by (rule keepsI) (erule addCaseWhenNode_Inr, erule finish_choice_grows[OF _ choice_reveals_nothing(1)])

lemma keeps_addIfNode: "keeps tgrows (addIfNode name c a b)"
  by (rule keepsI) (erule addIfNode_Inr, erule finish_choice_grows[OF _ choice_reveals_nothing(2)])

section \<open>Where a result is placed\<close>

lemma chosen_placement:
  assumes "getCreator opType = Some create" "create ins [(arg_Out, [cc])] parties = Inr algs"
    and "getBestAlg opType inputs algs s = Inr (best, s')" "out_placement best = Inr pl"
  shows "Status pl \<noteq> TENSORSTATUS_SECRET \<Longrightarrow> p \<in> set (partyList pl) \<Longrightarrow> IsVisibleFor cc p"
proof -
  assume st: "Status pl \<noteq> TENSORSTATUS_SECRET" and p: "p \<in> set (partyList pl)"
  from assms(3) obtain op alg where alg: "alg \<in> set algs" "alg_cost s op inputs alg = Inr (Some best)" by (rule getBestAlg_Inr)
  have same: "outputPlacement best = outputPlacement alg" using alg_cost_spec[OF alg(2)] by simp
  from assms(4) obtain ps where ps: "map_of (outputPlacement alg) arg_Out = Some ps" "0 < length ps" "ps ! 0 = pl"
    by (auto simp: out_placement_def same at_def lookup_or_def split: if_splits option.splits)
  from algorithm_creator.output_visible[OF creators_safe[OF assms(1)] assms(2) alg(1) ps(1,2)] st p ps(3)
  show "IsVisibleFor cc p" by (simp add: lookup_or_def)
qed

text \<open>Right after the node that computes it, \<open>r\<close> is in the clear for \<open>p\<close>.\<close>

definition clear_for :: "GraphBuilder \<Rightarrow> tref \<Rightarrow> string \<Rightarrow> bool" where
  "clear_for plan r p \<longleftrightarrow>
    t_status (tensor plan r) = TENSORSTATUS_PRIVATE \<and> t_OwnerPartyCode (tensor plan r) = p \<or>
    t_status (tensor plan r) = TENSORSTATUS_PUBLIC \<and> p \<in> set (n_Parties (last (all_nodes plan)))"

lemma add_node_Inr:
  "add_node name opType ins outs attrs ps s = Inr (u, s') \<longleftrightarrow>
    (\<exists>node plan. AddExecutionNode name opType ins outs attrs ps (ep s) = Inr (node, plan) \<and> s' = s\<lparr>ep := plan\<rparr>)"
  by (cases u) (auto simp: add_node_def in_ep_Inr returning_Inr)

lemma add_node_effect:
  assumes "add_node name opType ins outs attrs ps s = Inr (u, s')"
  shows "tensor (ep s') r = tensor (ep s) r \<and> Tensors (ep s') = Tensors (ep s) \<and> all_nodes (ep s') \<noteq> []
    \<and> n_Parties (last (all_nodes (ep s'))) = ps \<and> n_OpType (last (all_nodes (ep s'))) = opType"
  using assms by (auto simp: add_node_Inr AddExecutionNode_Inr)

lemma clear_for_placed:
  assumes "tensor plan r = place_output pl t \<or> tensor plan r = (place_output pl t)\<lparr>t_DType := d, t_CC := c\<rparr>"
    and "n_Parties (last (all_nodes plan)) = partyList pl" "clear_for plan r p"
  shows "Status pl \<noteq> TENSORSTATUS_SECRET \<and> p \<in> set (partyList pl)"
  using assms by (cases pl) (auto simp: clear_for_def place_output_def Let_def SetStatus_def)

lemma finish_choice_clear:
  assumes run: "finish_choice msg name opType inputTs inCcls (length (Tensors (ep s))) (t_CC t) (s\<lparr>ep := push_tensor t (ep s)\<rparr>) = Inr (out, s')"
    and clear: "clear_for (ep s') out p"
  shows "IsVisibleFor (t_CC t) p"
  using run
proof (rule finish_choice_Inr)
  let ?out = "length (Tensors (ep s))" and ?s = "s\<lparr>ep := push_tensor t (ep s)\<rparr>"
  fix create algs best ts op s2
  assume out: "out = ?out" and create: "getCreator opType = Some create"
      "create inCcls [(arg_Out, [t_CC t])] (PartyInfo_GetParties (partyInfo (enginesInfo ?s))) = Inr algs"
    and best: "getBestAlg opType inputTs algs ?s = Inr (best, ?s)" "out_placement best = Inr op" and grow: "ctgrows ?s s2"
    and node: "add_node name opType ts [(''Out'', [?out])] [] (partyList op)
      (s2\<lparr>ep := set_tensor ?out (place_output op) (ep s2)\<rparr>) = Inr ((), s')"
  have ext: "extends (ep ?s) (ep s2)" using grow by (simp add: ctgrows_def cgrows_def grows_def)
  have t: "tensor (ep s2) ?out = t" "?out < length (Tensors (ep s2))"
    using extends_tensor[OF ext, of ?out] extends_length[OF ext] by simp_all
  from add_node_effect[OF node, of ?out] t have "tensor (ep s') ?out = place_output op t"
      "n_Parties (last (all_nodes (ep s'))) = partyList op" by simp_all
  then have "Status op \<noteq> TENSORSTATUS_SECRET \<and> p \<in> set (partyList op)"
    using clear_for_placed[of "ep s'" ?out op t] clear out by simp
  with chosen_placement[OF create best] show ?thesis by blast
qed

lemma IsVisibleFor_restrict_by [simp]:
  "IsVisibleFor (restrict_by plan rs cc) p \<longleftrightarrow> IsVisibleFor cc p \<and> (\<forall>r \<in> set rs. IsVisibleFor (t_CC (tensor plan r)) p)"
  unfolding restrict_by_def by (induction rs arbitrary: cc) auto

section \<open>Operands of a binary operator\<close>

text \<open>A cast keeps the levels of its operand; the other operand stays as it is.\<close>

lemma AddCastNode_levels:
  assumes "AddCastNode name dt r ps plan = Inr (out, plan')"
  shows "LevelFor (t_CC (tensor plan' out)) p = LevelFor (t_CC (tensor plan r)) p"
proof -
  from assms have "bind_s (AddTensorAs_set r (\<lambda>out. out\<lparr>t_DType := dt\<rparr>)) (\<lambda>output.
      returning output (AddExecutionNode name OpNameCast [(''In'', [r])] [(''Out'', [output])] [] ps)) plan = Inr (out, plan')"
    unfolding AddCastNode_def guarded_one_output by blast
  from one_output_tensor[OF this] show ?thesis by simp
qed

lemma castIfNeeded_levels:
  assumes "castIfNeeded r q s = Inr (out, s')"
  shows "LevelFor (t_CC (tensor (ep s') out)) p = LevelFor (t_CC (tensor (ep s) r)) p"
  using assms AddCastNode_levels
  by (auto simp: castIfNeeded_def extractPartyCodeFromTensor_def engine_parties_def read_t_def bind_s_Inr in_ep_Inr split: if_splits)

lemma tgrows_tensor: "tgrows s t \<Longrightarrow> r < length (Tensors (ep s)) \<Longrightarrow> tensor (ep t) r = tensor (ep s) r"
  by (simp add: tgrows_def grows_def extends_tensor)

lemma keeps_castIfNeeded: "keeps tgrows (castIfNeeded r q)"
  unfolding castIfNeeded_def by (intro tr_keeps keeps_extractPartyCodeFromTensor)

lemma cast_operands_levels:
  assumes "cast_operands opType l r s = Inr ((l', r'), s')" "l < length (Tensors (ep s))" "r < length (Tensors (ep s))"
  shows "LevelFor (t_CC (tensor (ep s') l')) p = LevelFor (t_CC (tensor (ep s) l)) p
    \<and> LevelFor (t_CC (tensor (ep s') r')) p = LevelFor (t_CC (tensor (ep s) r)) p"
proof -
  have "l' = l \<and> r' = r \<and> s' = s \<or> castIfNeeded l r s = Inr (l', s') \<and> r' = r \<or> castIfNeeded r l s = Inr (r', s') \<and> l' = l"
    using assms(1) unfolding cast_operands_def read_t_def
    by (simp add: bind_s_app bind_r_Inr in_ep_def split: if_splits) blast+
  then consider "l' = l" "r' = r" "s' = s" | "castIfNeeded l r s = Inr (l', s')" "r' = r" | "castIfNeeded r l s = Inr (r', s')" "l' = l"
    by blast
  then show ?thesis
  proof cases
    case 2
    from tgrows_tensor[OF keepsD[OF keeps_castIfNeeded 2(1)] assms(3)] castIfNeeded_levels[OF 2(1)] 2 show ?thesis by simp
  next
    case 3
    from tgrows_tensor[OF keepsD[OF keeps_castIfNeeded 3(1)] assms(2)] castIfNeeded_levels[OF 3(1)] 3 show ?thesis by simp
  qed simp
qed

text \<open>The steps of \<open>addBinaryNode\<close> after its operands are cast.\<close>

lemma addBinaryNode_Inr:
  assumes "addBinaryNode name opType l0 r0 s = Inr (out, s')"
  obtains l r s1 create algs best op s2 ts dt where "opType \<in> set BinaryOps" "cast_operands opType l0 r0 s = Inr ((l, r), s1)"
    "getCreator opType = Some create"
    "create [(arg_Left, [t_CC (tensor (ep s1) l)]), (arg_Right, [t_CC (tensor (ep s1) r)])]
      [(arg_Out, [InferBinaryOpOutputVisibility opType (t_CC (tensor (ep s1) l)) (t_CC (tensor (ep s1) r))])]
      (PartyInfo_GetParties (partyInfo (enginesInfo s1))) = Inr algs"
    "getBestAlg opType [(arg_Left, [l]), (arg_Right, [r])] algs s1 = Inr (best, s1)" "out_placement best = Inr op"
    "out = length (Tensors (ep s2))" "tgrows s s2"
    "add_node name opType ts [(arg_Out, [out])] [] (partyList op)
      (s2\<lparr>ep := push_tensor ((place_output op ((NewTensor (int (tensorNum (ep s2))) (name @ ''_out''))\<lparr>t_Option := REFERENCE\<rparr>))
        \<lparr>t_DType := dt, t_CC := InferBinaryOpOutputVisibility opType (t_CC (tensor (ep s1) l)) (t_CC (tensor (ep s1) r))\<rparr>) (ep s2)\<rparr>)
      = Inr ((), s')"
proof -
  let ?out = "\<lambda>s1 l r. InferBinaryOpOutputVisibility opType (t_CC (tensor (ep s1) l)) (t_CC (tensor (ep s1) r))"
  from assms obtain l r s1 create algs best s1b op lp rp s1c lq rq s2 dt where
    1: "opType \<in> set BinaryOps" "cast_operands opType l0 r0 s = Inr ((l, r), s1)" "getCreator opType = Some create"
      "create [(arg_Left, [t_CC (tensor (ep s1) l)]), (arg_Right, [t_CC (tensor (ep s1) r)])] [(arg_Out, [?out s1 l r])]
        (PartyInfo_GetParties (partyInfo (enginesInfo s1))) = Inr algs"
    and best: "getBestAlg opType [(arg_Left, [l]), (arg_Right, [r])] algs s1 = Inr (best, s1b)"
    and conv: "convertTo l lp s1b = Inr (lq, s1c)" "convertTo r rp s1c = Inr (rq, s2)"
    and 2: "out_placement best = Inr op" "out = length (Tensors (ep s2))"
    and node: "add_node name opType [(arg_Left, [lq]), (arg_Right, [rq])] [(arg_Out, [out])] [] (partyList op)
        (s2\<lparr>ep := push_tensor ((place_output op ((NewTensor (int (tensorNum (ep s2))) (name @ ''_out''))\<lparr>t_Option := REFERENCE\<rparr>))
          \<lparr>t_DType := dt, t_CC := ?out s1 l r\<rparr>) (ep s2)\<rparr>) = Inr ((), s')"
    unfolding addBinaryNode_def get_creator_def engine_parties_def read_t_def
    by (auto simp: bind_s_Inr bind_r_Inr in_ep_Inr AddTensor_set_app Let_def split: option.splits if_splits)
  have "s1b = s1" using best by (rule getBestAlg_Inr)
  moreover have "tgrows s s2"
    using keepsD[OF keeps_cast_operands 1(2)] keepsD[OF keeps_convertTo conv(1)] keepsD[OF keeps_convertTo conv(2)]
    unfolding \<open>s1b = s1\<close> by (blast intro: tr.trans)
  ultimately show thesis using that[OF 1(1,2,3,4) _ 2 _ node] best by blast
qed

lemma addBinaryNode_clear:
  assumes run: "addBinaryNode name opType l0 r0 s = Inr (out, s')"
    and l0: "l0 < length (Tensors (ep s))" and r0: "r0 < length (Tensors (ep s))"
  shows "LevelFor (t_CC (tensor (ep s') out)) p =
      LevelFor (InferBinaryOpOutputVisibility opType (t_CC (tensor (ep s) l0)) (t_CC (tensor (ep s) r0))) p"
    and "clear_for (ep s') out p \<Longrightarrow> IsVisibleFor (t_CC (tensor (ep s') out)) p"
proof -
  obtain l r s1 create algs best op s2 ts dt where
    cast: "cast_operands opType l0 r0 s = Inr ((l, r), s1)" and create: "getCreator opType = Some create"
      "create [(arg_Left, [t_CC (tensor (ep s1) l)]), (arg_Right, [t_CC (tensor (ep s1) r)])]
        [(arg_Out, [InferBinaryOpOutputVisibility opType (t_CC (tensor (ep s1) l)) (t_CC (tensor (ep s1) r))])]
        (PartyInfo_GetParties (partyInfo (enginesInfo s1))) = Inr algs"
    and best: "getBestAlg opType [(arg_Left, [l]), (arg_Right, [r])] algs s1 = Inr (best, s1)" "out_placement best = Inr op"
    and out: "out = length (Tensors (ep s2))"
    and node: "add_node name opType ts [(arg_Out, [out])] [] (partyList op)
      (s2\<lparr>ep := push_tensor ((place_output op ((NewTensor (int (tensorNum (ep s2))) (name @ ''_out''))\<lparr>t_Option := REFERENCE\<rparr>))
        \<lparr>t_DType := dt, t_CC := InferBinaryOpOutputVisibility opType (t_CC (tensor (ep s1) l)) (t_CC (tensor (ep s1) r))\<rparr>) (ep s2)\<rparr>)
      = Inr ((), s')"
    using run by (rule addBinaryNode_Inr)
  let ?cc = "InferBinaryOpOutputVisibility opType (t_CC (tensor (ep s1) l)) (t_CC (tensor (ep s1) r))"
  from add_node_effect[OF node, of out] out
  have t: "tensor (ep s') out = (place_output op ((NewTensor (int (tensorNum (ep s2))) (name @ ''_out''))\<lparr>t_Option := REFERENCE\<rparr>))
        \<lparr>t_DType := dt, t_CC := ?cc\<rparr>" and ps: "n_Parties (last (all_nodes (ep s'))) = partyList op" by simp_all
  show "LevelFor (t_CC (tensor (ep s') out)) p =
      LevelFor (InferBinaryOpOutputVisibility opType (t_CC (tensor (ep s) l0)) (t_CC (tensor (ep s) r0))) p"
    using cast_operands_levels[OF cast l0 r0] by (simp add: t LevelFor_InferBinaryOp)
  assume "clear_for (ep s') out p"
  then have "Status op \<noteq> TENSORSTATUS_SECRET \<and> p \<in> set (partyList op)"
    using clear_for_placed[OF disjI2[OF t] ps] by blast
  with chosen_placement[OF create best] show "IsVisibleFor (t_CC (tensor (ep s') out)) p" by (simp add: t)
qed

section \<open>Sequences of calls\<close>

text \<open>One step is one successful call of a method of this theory. Where the operator is an argument of the
  call, the code passes an aggregate, a window function or a comparison.\<close>

inductive translator_step :: "translator \<Rightarrow> translator \<Rightarrow> bool" where
  convert: "convertTo r pl s = Inr (x, t) \<Longrightarrow> translator_step s t"
| constant_t: "addConstantNode v s = Inr (y, t) \<Longrightarrow> translator_step s t"
| bucket: "addBucketNode ks pays ps s = Inr (z, t) \<Longrightarrow> translator_step s t"
| filter_by_index_t: "addFilterByIndexNode flt ts p s = Inr (w, t) \<Longrightarrow> translator_step s t"
| broadcast: "addBroadcastToNodeOndemand ins s = Inr (w, t) \<Longrightarrow> translator_step s t"
| unique: "addUniqueNode name r p s = Inr (y, t) \<Longrightarrow> translator_step s t"
| group_agg: "opType \<notin> set revealing \<Longrightarrow> addGroupAggNode name opType gid gnum ins p attr s = Inr (w, t) \<Longrightarrow> translator_step s t"
| group_node: "addGroupNode name ins p s = Inr (v, t) \<Longrightarrow> translator_step s t"
| group_he_sum: "addGroupHeSumNode name gid gnum r p q s = Inr (y, t) \<Longrightarrow> translator_step s t"
| window: "name \<notin> set revealing \<Longrightarrow> addWindowNode name key pid pnum out wattr p s = Inr (u, t) \<Longrightarrow> translator_step s t"
| sort_node: "addSortNode name key ins b s = Inr (w, t) \<Longrightarrow> translator_step s t"
| group_mark: "addObliviousGroupMarkNode name key s = Inr (y, t) \<Longrightarrow> translator_step s t"
| oblivious_agg: "addObliviousGroupAggNode f g r attr s = Inr (y, t) \<Longrightarrow> translator_step s t"
| shuffle_node: "addShuffleNode name ins s = Inr (w, t) \<Longrightarrow> translator_step s t"
| concat_node: "addConcatNode ins s = Inr (y, t) \<Longrightarrow> translator_step s t"
| filter_node: "addFilterNode flt m s = Inr (m', t) \<Longrightarrow> translator_step s t"
| in_node: "addInNode e l r s = Inr (y, t) \<Longrightarrow> translator_step s t"
| binary_node: "addBinaryNode name opType l r s = Inr (y, t) \<Longrightarrow> translator_step s t"
| case_when_node: "addCaseWhenNode name conds vals els s = Inr (y, t) \<Longrightarrow> translator_step s t"
| if_node: "addIfNode name c l r s = Inr (y, t) \<Longrightarrow> translator_step s t"
| compare_node: "name \<notin> set revealing \<Longrightarrow> buildCompareNode name ins s = Inr (y, t) \<Longrightarrow> translator_step s t"
| builder_call: "builder_step (ep s) plan \<Longrightarrow> t = s\<lparr>ep := plan\<rparr> \<Longrightarrow> translator_step s t"

inductive translator_reachable :: "translator \<Rightarrow> bool" where
  init: "NewTranslator info security issuer opts b now today = Inr s \<Longrightarrow> translator_reachable s"
| step: "translator_reachable s \<Longrightarrow> translator_step s t \<Longrightarrow> translator_reachable t"

lemmas method_keeps = keeps_convertTo keeps_addConstantNode keeps_addBucketNode keeps_addFilterByIndexNode
  keeps_addBroadcastToNodeOndemand keeps_addUniqueNode keeps_addGroupAggNode keeps_addGroupNode keeps_addGroupHeSumNode
  keeps_addWindowNode keeps_addSortNode keeps_addObliviousGroupMarkNode keeps_addObliviousGroupAggNode keeps_addShuffleNode
  keeps_addConcatNode keeps_addFilterNode keeps_addInNode keeps_addBinaryNode keeps_addCaseWhenNode keeps_addIfNode
  keeps_buildCompareNode

lemma builder_call_grows: "builder_step (ep s) plan \<Longrightarrow> tgrows s (s\<lparr>ep := plan\<rparr>)"
  using builder_step_grows by (simp add: tgrows_def same_static_def)

lemma translator_step_grows: "translator_step s t \<Longrightarrow> tgrows s t"
  by (induction rule: translator_step.induct)
    ((erule keepsD[rotated], rule method_keeps, assumption?) | (simp add: builder_call_grows))+

lemma translator_reachable_ok: "translator_reachable s \<Longrightarrow> reveal_ok (ep s) \<and> ids_ok (ep s)"
proof (induction rule: translator_reachable.induct)
  case (init info security issuer opts b now today s)
  then have "ep s = NewGraphBuilder (partyInfo info) b"
    by (auto simp: NewTranslator_def Let_def split: option.splits)
  then show ?case using builder_start by simp
next
  case (step s t)
  then show ?case using translator_step_grows[of s t] by (simp add: tgrows_def grows_def)
qed

section \<open>Properties\<close>


definition sample_parties :: PartyInfo where
  "sample_parties = \<lparr>participants = [\<lparr>PartyCode = ''alice'', Endpoints = [], Token = [], PubKey = []\<rparr>,
    \<lparr>PartyCode = ''bob'', Endpoints = [], Token = [], PubKey = []\<rparr>]\<rparr>"

definition sample_t0 :: translator where
  "sample_t0 = projr (NewTranslator (NewEnginesInfo sample_parties []) (Some []) ''alice''
    \<lparr>GroupByThreshold = 0, PsiAlgorithmType = 0\<rparr> False 0 0)"

definition sample_t1 :: translator where
  "sample_t1 = snd (projr (addConstantNode (KindInt64 1) sample_t0))"

definition sample_t2 :: translator where
  "sample_t2 = snd (projr (convertTo 0 (privatePlacement ''bob'') sample_t1))"

lemma sample_translator_reachable: "translator_reachable sample_t2"
proof -
  have t0: "translator_reachable sample_t0"
    by (rule translator_reachable.init[of "NewEnginesInfo sample_parties []" "Some []" "''alice''"
          "\<lparr>GroupByThreshold = 0, PsiAlgorithmType = 0\<rparr>" False 0 0]) (simp add: sample_t0_def NewTranslator_def Let_def)
  have "\<not> isl (addConstantNode (KindInt64 1) sample_t0)" by code_simp
  then have "addConstantNode (KindInt64 1) sample_t0 = Inr (fst (projr (addConstantNode (KindInt64 1) sample_t0)), sample_t1)"
    by (simp add: sample_t1_def sum.collapse)
  with t0 have t1: "translator_reachable sample_t1" by (intro translator_reachable.step[OF t0] translator_step.constant_t)
  have "\<not> isl (convertTo 0 (privatePlacement ''bob'') sample_t1)" by code_simp
  then have "convertTo 0 (privatePlacement ''bob'') sample_t1
      = Inr (fst (projr (convertTo 0 (privatePlacement ''bob'') sample_t1)), sample_t2)"
    by (simp add: sample_t2_def sum.collapse)
  then show ?thesis by (intro translator_reachable.step[OF t1] translator_step.convert)
qed

lemma sample_t2_last:
  "n_OpType (last (all_nodes (ep sample_t2))) = OpNameMakePrivate \<and> all_nodes (ep sample_t2) \<noteq> []
   \<and> node_outs (last (all_nodes (ep sample_t2))) = [1] \<and> node_ins (last (all_nodes (ep sample_t2))) = [0]"
  by code_simp


text \<open>A state with one tensor, private at alice and visible to alice and bob.\<close>

definition sample_state :: translator where
  "sample_state = sample_translator\<lparr>enginesInfo := NewEnginesInfo sample_parties []\<rparr>"

text \<open>C34: the result of \<open>IF\<close> and of \<open>CASE WHEN\<close> is computed in the clear at a party (as its private tensor, or
  as a public one that the party's node sees) only if that party may see the condition and every
  branch.\<close>

theorem choice_clear_only_if_all_visible:
  assumes "addIfNode name c a b s = Inr (out, s') \<and> operands = [c, a, b]
      \<or> addCaseWhenNode name conds vals e s = Inr (out, s') \<and> operands = e # conds @ vals"
    and "clear_for (ep s') out p"
  shows "\<forall>r \<in> set operands. IsVisibleFor (t_CC (tensor (ep s) r)) p"
  using assms(1)
proof
  assume "addIfNode name c a b s = Inr (out, s') \<and> operands = [c, a, b]"
  then have run: "addIfNode name c a b s = Inr (out, s')" and ops: "operands = [c, a, b]" by auto
  from run show ?thesis
    by (rule addIfNode_Inr) (drule finish_choice_clear[OF _ assms(2)], simp add: ops)
next
  assume "addCaseWhenNode name conds vals e s = Inr (out, s') \<and> operands = e # conds @ vals"
  then have run: "addCaseWhenNode name conds vals e s = Inr (out, s')" and ops: "operands = e # conds @ vals" by auto
  from run show ?thesis
    by (rule addCaseWhenNode_Inr) (drule finish_choice_clear[OF _ assms(2)], auto simp: ops)
qed

theorem choice_clear_only_if_all_visible_witness:
  "\<exists>out s'. addIfNode ''if'' 0 0 0 sample_state = Inr (out, s') \<and> clear_for (ep s') out ''alice''
    \<and> IsVisibleFor (t_CC (tensor (ep sample_state) 0)) ''alice''"
proof -
  let ?run = "addIfNode ''if'' 0 0 0 sample_state"
  have "case ?run of Inr (out, s') \<Rightarrow> t_status (tensor (ep s') out) = TENSORSTATUS_PRIVATE
      \<and> t_OwnerPartyCode (tensor (ep s') out) = ''alice'' | _ \<Rightarrow> False" by code_simp
  then obtain out s' where run: "?run = Inr (out, s')" and clear: "clear_for (ep s') out ''alice''"
    by (auto simp: clear_for_def split: sum.splits)
  from choice_clear_only_if_all_visible[OF _ clear, of "''if''" 0 0 0 sample_state "[0, 0, 0]"] run clear show ?thesis by simp
qed

text \<open>C35: a binary operator is computed in the clear at a party only if the control list inferred for its result
  makes the result visible there; and the result's control list is the one inferred from the operands,
  whether or not an operand was cast first.  For an operator that is not a comparison the party then may
  see both operands, for a comparison it has at least the level that allows comparing.\<close>

theorem binary_clear_only_if_visible:
  assumes "addBinaryNode name opType l r s = Inr (out, s')"
    and "l < length (Tensors (ep s))" "r < length (Tensors (ep s))"
  shows "LevelFor (t_CC (tensor (ep s') out)) p =
      LevelFor (InferBinaryOpOutputVisibility opType (t_CC (tensor (ep s) l)) (t_CC (tensor (ep s) r))) p
    \<and> (clear_for (ep s') out p \<longrightarrow> (\<forall>x \<in> {l, r}. LevelFor (t_CC (tensor (ep s) x)) p
        \<in> (if opType \<in> set isCompareOpMap then {Plain, Compare} else {Plain})))"
  using addBinaryNode_clear[OF assms, of p] by (auto simp: IsVisibleFor_Plain LevelFor_InferBinaryOp split: if_splits)

theorem binary_clear_only_if_visible_witness:
  "\<exists>out s'. addBinaryNode ''add'' OpNameAdd 0 0 sample_state = Inr (out, s') \<and> clear_for (ep s') out ''alice''
    \<and> LevelFor (t_CC (tensor (ep sample_state) 0)) ''alice'' \<in> {Plain, Compare}"
proof -
  let ?run = "addBinaryNode ''add'' OpNameAdd 0 0 sample_state"
  have "case ?run of Inr (out, s') \<Rightarrow> t_status (tensor (ep s') out) = TENSORSTATUS_PRIVATE
      \<and> t_OwnerPartyCode (tensor (ep s') out) = ''alice'' | _ \<Rightarrow> False" by code_simp
  then obtain out s' where run: "?run = Inr (out, s')" and clear: "clear_for (ep s') out ''alice''"
    by (auto simp: clear_for_def split: sum.splits)
  have "0 < length (Tensors (ep sample_state))" by code_simp
  from binary_clear_only_if_visible[OF run this this, of "''alice''"] run clear show ?thesis by (auto split: if_splits)
qed

end
