(* ===== verification/String_Util.thy ===== *)
theory String_Util
  imports Scql_Prelude "HOL-Library.Sublist"
begin

text \<open>
  \<open>pkg/util/stringutil/string_util.go\<close>: matching of SQL \<open>LIKE\<close> patterns, unquoting of
  string literals and the translation of MySQL date formats.  Strings are lists
  of bytes.

  \<open>DoMatch\<close>, a loop that keeps a single restart point, is proved to terminate and
  to decide the recursive definition of \<open>LIKE\<close>; the compilation of patterns is
  compared with the tokens of the pattern.
\<close>

section \<open>Patterns\<close>

datatype patType = patMatch | patOne | patAny

text \<open>\<open>patChars\<close> and \<open>patTypes\<close> are parallel slices: one list of pairs.\<close>

type_synonym pattern = "(char \<times> patType) list"

fun CompilePattern_loop :: "char \<Rightarrow> bool \<Rightarrow> string \<Rightarrow> pattern" where
  "CompilePattern_loop escape lastAny [] = []"
| "CompilePattern_loop escape lastAny (c # rest) =
    (if c = escape then
       (case rest of
          [] \<Rightarrow> [(c, patMatch)]
        | d # rest' \<Rightarrow>
            if d = escape \<or> d = CHR ''_'' \<or> d = CHR ''%''
            then (d, patMatch) # CompilePattern_loop escape False rest'
            else (escape, patMatch) # CompilePattern_loop escape False rest)
     else if c = CHR ''_'' then
       (if lastAny then CompilePattern_loop escape lastAny rest
        else (c, patOne) # CompilePattern_loop escape lastAny rest)
     else if c = CHR ''%'' then
       (if lastAny then CompilePattern_loop escape lastAny rest
        else (c, patAny) # CompilePattern_loop escape True rest)
     else (c, patMatch) # CompilePattern_loop escape False rest)"

definition CompilePattern :: "string \<Rightarrow> char \<Rightarrow> pattern" where
  "CompilePattern pat escape = CompilePattern_loop escape False pat"

definition IsExactMatch :: "pattern \<Rightarrow> bool" where
  "IsExactMatch pat = list_all (\<lambda>(c, tp). tp = patMatch) pat"

text \<open>The loop of \<open>DoMatch\<close>. A \<open>continue\<close> that matched something advances; otherwise the loop restarts
  behind the last \<open>patAny\<close> or gives up.\<close>

partial_function (option) DoMatch_loop ::
    "string \<Rightarrow> pattern \<Rightarrow> nat \<Rightarrow> nat \<Rightarrow> nat \<Rightarrow> nat \<Rightarrow> bool option" where
  "DoMatch_loop str pat sIdx pIdx nextSIdx nextPIdx =
    (if \<not> (pIdx < length pat \<or> sIdx < length str) then Some True
     else if pIdx < length pat then
       (case snd (pat ! pIdx) of
          patMatch \<Rightarrow>
            if sIdx < length str \<and> str ! sIdx = fst (pat ! pIdx)
            then DoMatch_loop str pat (sIdx + 1) (pIdx + 1) nextSIdx nextPIdx
            else if 0 < nextSIdx \<and> nextSIdx \<le> length str
            then DoMatch_loop str pat nextSIdx nextPIdx nextSIdx nextPIdx else Some False
        | patOne \<Rightarrow>
            if sIdx < length str
            then DoMatch_loop str pat (sIdx + 1) (pIdx + 1) nextSIdx nextPIdx
            else if 0 < nextSIdx \<and> nextSIdx \<le> length str
            then DoMatch_loop str pat nextSIdx nextPIdx nextSIdx nextPIdx else Some False
        | patAny \<Rightarrow> DoMatch_loop str pat sIdx (pIdx + 1) (sIdx + 1) pIdx)
     else if 0 < nextSIdx \<and> nextSIdx \<le> length str
     then DoMatch_loop str pat nextSIdx nextPIdx nextSIdx nextPIdx else Some False)"

definition DoMatch :: "string \<Rightarrow> pattern \<Rightarrow> bool option" where
  "DoMatch str pat = DoMatch_loop str pat 0 0 0 0"

fun CompileLike2Regexp_loop :: "string \<Rightarrow> pattern \<Rightarrow> string" where
  "CompileLike2Regexp_loop result [] = result"
| "CompileLike2Regexp_loop result ((c, patMatch) # pat) = CompileLike2Regexp_loop (result @ [c]) pat"
| "CompileLike2Regexp_loop result ((c, patOne) # pat) =
    (if suffix ''.*'' result then CompileLike2Regexp_loop result pat
     else CompileLike2Regexp_loop (result @ ''.'') pat)"
| "CompileLike2Regexp_loop result ((c, patAny) # pat) =
    (if suffix ''.'' result then CompileLike2Regexp_loop (result @ ''*'') pat
     else if \<not> suffix ''.*'' result then CompileLike2Regexp_loop (result @ ''.*'') pat
     else CompileLike2Regexp_loop result pat)"

definition CompileLike2Regexp :: "string \<Rightarrow> string" where
  "CompileLike2Regexp str = CompileLike2Regexp_loop [] (CompilePattern str (CHR 0x5C))"

section \<open>Quoted strings\<close>

text \<open>\<open>utf8.DecodeRuneInString\<close> on a non-empty string that starts with a byte of 0x80 or more: the
  size of the encoding, \<open>None\<close> when the rune is \<open>utf8.RuneError\<close> (an invalid
  encoding, or U+FFFD itself).\<close>

definition byte_in :: "nat \<Rightarrow> nat \<Rightarrow> char \<Rightarrow> bool" where
  "byte_in lo hi c \<longleftrightarrow> lo \<le> of_char c \<and> of_char c \<le> hi"

definition second_byte :: "nat \<Rightarrow> char \<Rightarrow> bool" where
  "second_byte b c = byte_in
     (if b = 0xE0 then 0xA0 else if b = 0xF0 then 0x90 else 0x80)
     (if b = 0xED then 0x9F else if b = 0xF4 then 0x8F else 0xBF) c"

fun utf8_size :: "string \<Rightarrow> nat option" where
  "utf8_size (c0 # c1 # cs) =
    (if \<not> second_byte (of_char c0) c1 then None
     else if byte_in 0xC2 0xDF c0 then Some 2
     else if byte_in 0xE0 0xEF c0 then
       (case cs of
          c2 # _ \<Rightarrow>
            if byte_in 0x80 0xBF c2 \<and> \<not> (c0 = CHR 0xEF \<and> c1 = CHR 0xBF \<and> c2 = CHR 0xBD) then Some 3 else None
        | [] \<Rightarrow> None)
     else if byte_in 0xF0 0xF4 c0 then
       (case cs of
          c2 # c3 # _ \<Rightarrow> if byte_in 0x80 0xBF c2 \<and> byte_in 0x80 0xBF c3 then Some 4 else None
        | _ \<Rightarrow> None)
     else None)"
| "utf8_size _ = None"

definition ErrSyntax :: error where
  "ErrSyntax = Errorf ''invalid syntax''"

definition unescaped :: "char \<Rightarrow> string" where
  "unescaped c =
    (if c = CHR ''b'' then [CHR 0x08] else if c = CHR ''n'' then [CHR 0x0A]
     else if c = CHR ''r'' then [CHR 0x0D] else if c = CHR ''t'' then [CHR 0x09]
     else if c = CHR ''Z'' then [CHR 0x1A] else if c = CHR ''0'' then [CHR 0x00]
     else if c = CHR ''_'' \<or> c = CHR ''%'' then [CHR 0x5C, c]
     else [c])"

fun UnquoteChar :: "string \<Rightarrow> char \<Rightarrow> (string \<times> string) result" where
  "UnquoteChar [] quote = Inl (Panic ''index out of range'')"
| "UnquoteChar (c # s) quote =
    (if c = quote then Inl ErrSyntax
     else if 0x80 \<le> (of_char c :: nat) then
       (case utf8_size (c # s) of
          None \<Rightarrow> Inr ([c], s)
        | Some n \<Rightarrow> Inr (take n (c # s), drop n (c # s)))
     else if c \<noteq> CHR 0x5C then Inr ([c], s)
     else (case s of
             [] \<Rightarrow> Inl ErrSyntax
           | d # s' \<Rightarrow> Inr (unescaped d, s')))"

lemma utf8_size_bytes:
  assumes "utf8_size s = Some n" "0x80 \<le> (of_char (hd s) :: nat)"
  shows "0 < n \<and> n \<le> length s \<and> (\<forall>c \<in> set (take n s). 0x80 \<le> (of_char c :: nat))"
  using assms
  by (auto simp: byte_in_def second_byte_def elim!: utf8_size.elims split: if_splits list.splits)

lemma UnquoteChar_shorter: "UnquoteChar s quote = Inr (v, s') \<Longrightarrow> length s' < length s"
  using utf8_size_bytes[of s]
  by (cases s) (auto split: if_splits option.splits list.splits)

function Unquote_loop :: "char \<Rightarrow> string \<Rightarrow> string \<Rightarrow> string result" where
  "Unquote_loop quote s buf =
    (if s = [] then Inr buf
     else case UnquoteChar s quote of
         Inl e \<Rightarrow> Inl e
       | Inr (mb, ss) \<Rightarrow> Unquote_loop quote ss (buf @ mb))"
  by pat_completeness auto
termination by (relation "measure (\<lambda>(quote, s, buf). length s)") (auto dest: UnquoteChar_shorter)

declare Unquote_loop.simps [simp del]

definition Unquote :: "string \<Rightarrow> string result" where
  "Unquote s =
    (if length s < 2 then Inl ErrSyntax
     else if hd s \<noteq> last s then Inl ErrSyntax
     else let quote = hd s; s = butlast (tl s) in
       if quote \<noteq> CHR 0x22 \<and> quote \<noteq> CHR 0x27 then Inl ErrSyntax
       else if CHR 0x5C \<notin> set s \<and> quote \<notin> set s then Inr s
       else Unquote_loop quote s [])"

section \<open>Date formats\<close>

text \<open>The two tables of specifiers, keyed by the letter after \<open>%\<close>.\<close>

definition go_layouts :: "(char, string) gomap" where
  "go_layouts =
    [(CHR ''Y'', ''2006''), (CHR ''y'', ''06''), (CHR ''m'', ''01''), (CHR ''c'', ''1''),
     (CHR ''d'', ''02''), (CHR ''e'', ''2''), (CHR ''H'', ''15''), (CHR ''k'', ''15''),
     (CHR ''h'', ''03''), (CHR ''I'', ''03''), (CHR ''l'', ''3''), (CHR ''i'', ''04''),
     (CHR ''S'', ''05''), (CHR ''s'', ''05''), (CHR ''f'', ''000000''), (CHR ''p'', ''PM''),
     (CHR ''T'', ''15:04:05''), (CHR ''r'', ''03:04:05 PM''), (CHR ''b'', ''Jan''),
     (CHR ''M'', ''January''), (CHR ''a'', ''Mon''), (CHR ''W'', ''Monday'')]"

definition kMySQLToArrowFormatMapping :: "(char, string) gomap" where
  "kMySQLToArrowFormatMapping =
    [(CHR ''Y'', ''%Y''), (CHR ''y'', ''%y''), (CHR ''m'', ''%m''), (CHR ''c'', ''%-m''),
     (CHR ''d'', ''%d''), (CHR ''e'', ''%-d''), (CHR ''H'', ''%H''), (CHR ''k'', ''%-H''),
     (CHR ''h'', ''%I''), (CHR ''I'', ''%I''), (CHR ''l'', ''%-I''), (CHR ''i'', ''%M''),
     (CHR ''S'', ''%S''), (CHR ''s'', ''%S''), (CHR ''f'', ''%f''), (CHR ''p'', ''%p''),
     (CHR ''T'', ''%H:%M:%S''), (CHR ''r'', ''%I:%M:%S %p''), (CHR ''b'', ''%b''),
     (CHR ''M'', ''%B''), (CHR ''a'', ''%a''), (CHR ''W'', ''%A'')]"

fun MySQLDateFormatToGoLayout :: "string \<Rightarrow> string result" where
  "MySQLDateFormatToGoLayout [] = Inr []"
| "MySQLDateFormatToGoLayout (c # s) =
    (if c = CHR ''%'' then
       (case s of
          [] \<Rightarrow> Inl (Errorf ''invalid format string: trailing %'')
        | d # s' \<Rightarrow>
            if d = CHR ''%'' then bind_r (MySQLDateFormatToGoLayout s') (\<lambda>r. Inr (CHR ''%'' # r))
            else (case map_of go_layouts d of
                None \<Rightarrow> Inl (Errorf (''unsupported MySQL format specifier: %'' @ [d]))
              | Some layoutPart \<Rightarrow> bind_r (MySQLDateFormatToGoLayout s') (\<lambda>r. Inr (layoutPart @ r))))
     else bind_r (MySQLDateFormatToGoLayout s) (\<lambda>r. Inr (c # r)))"

fun MySQLDateFormatToArrowFormat :: "string \<Rightarrow> string result" where
  "MySQLDateFormatToArrowFormat [] = Inr []"
| "MySQLDateFormatToArrowFormat (c # s) =
    (if c = CHR ''%'' then
       (case s of
          [] \<Rightarrow> Inl (Errorf ''invalid format string: trailing %'')
        | d # s' \<Rightarrow>
            if d = CHR ''%'' then bind_r (MySQLDateFormatToArrowFormat s') (\<lambda>r. Inr (CHR ''%'' # r))
            else (case map_of kMySQLToArrowFormatMapping d of
                None \<Rightarrow> Inl (Errorf (''unsupported MySQL format specifier: %'' @ [d]))
              | Some arrowSpecifier \<Rightarrow> bind_r (MySQLDateFormatToArrowFormat s') (\<lambda>r. Inr (arrowSpecifier @ r))))
     else bind_r (MySQLDateFormatToArrowFormat s) (\<lambda>r. Inr (c # r)))"

section \<open>Like, by recursion\<close>

fun like :: "pattern \<Rightarrow> string \<Rightarrow> bool" where
  "like [] s \<longleftrightarrow> s = []"
| "like ((c, patMatch) # p) s \<longleftrightarrow> (case s of [] \<Rightarrow> False | x # xs \<Rightarrow> x = c \<and> like p xs)"
| "like ((c, patOne) # p) s \<longleftrightarrow> (case s of [] \<Rightarrow> False | x # xs \<Rightarrow> like p xs)"
| "like ((c, patAny) # p) [] \<longleftrightarrow> like p []"
| "like ((c, patAny) # p) (x # xs) \<longleftrightarrow> like p (x # xs) \<or> like ((c, patAny) # p) xs"

lemma like_Any: "like ((c, patAny) # p) s \<longleftrightarrow> (\<exists>k \<le> length s. like p (drop k s))"
proof (induction s)
  case (Cons x xs)
  have "(\<exists>k \<le> length (x # xs). like p (drop k (x # xs))) \<longleftrightarrow> like p (x # xs) \<or> (\<exists>k \<le> length xs. like p (drop k xs))"
    by (metis Suc_le_mono drop0 drop_Suc_Cons le0 length_Cons not0_implies_Suc)
  with Cons show ?case by simp
qed simp

lemma like_Any_later:
  assumes "like ((c, patAny) # p) (drop k s)" "j \<le> k" "k \<le> length s"
  shows "like ((c, patAny) # p) (drop j s)"
proof -
  from assms(1) obtain i where i: "i \<le> length s - k" "like p (drop (i + k) s)" unfolding like_Any by auto
  have "i + (k - j) \<le> length (drop j s)" "like p (drop (i + (k - j)) (drop j s))" using i assms(2,3) by simp_all
  then show ?thesis unfolding like_Any by blast
qed

lemma like_Any_Any [simp]: "like ((c, patAny) # (d, patAny) # p) s \<longleftrightarrow> like ((d, patAny) # p) s"
proof
  assume "like ((c, patAny) # (d, patAny) # p) s"
  then obtain k where "k \<le> length s" "like ((d, patAny) # p) (drop k s)" unfolding like_Any[of c] by blast
  then show "like ((d, patAny) # p) s" using like_Any_later[of d p k s 0] by simp
next
  assume "like ((d, patAny) # p) s"
  then show "like ((c, patAny) # (d, patAny) # p) s" unfolding like_Any[of c] by (intro exI[of _ 0]) simp
qed

text \<open>A part of a pattern without \<open>%\<close> matches a prefix of its own length.\<close>

lemma like_segment:
  "\<forall>(c, tp) \<in> set q. tp \<noteq> patAny \<Longrightarrow> like (q @ p) s \<Longrightarrow> length q \<le> length s \<and> like p (drop (length q) s)"
proof (induction q arbitrary: s)
  case (Cons ct q)
  obtain c tp where ct: "ct = (c, tp)" by force
  with Cons.prems Cons.IH show ?case
    by (cases tp; cases s) auto
qed simp

text \<open>The restart point \<open>(nextSIdx, nextPIdx)\<close> is either the current position or the last \<open>%\<close> of the
  pattern read so far, one byte after the place its current attempt started.\<close>

definition restart_ok :: "pattern \<Rightarrow> nat \<Rightarrow> nat \<Rightarrow> nat \<Rightarrow> nat \<Rightarrow> bool" where
  "restart_ok pat s p ns np \<longleftrightarrow>
    (0 < ns \<longrightarrow> np < length pat \<and> snd (pat ! np) = patAny \<and>
       ((p = np \<and> s = ns) \<or>
        (np < p \<and> s + np + 2 = ns + p \<and> (\<forall>i. np < i \<and> i < p \<longrightarrow> snd (pat ! i) \<noteq> patAny))))"

definition restart_matches :: "string \<Rightarrow> pattern \<Rightarrow> nat \<Rightarrow> nat \<Rightarrow> bool" where
  "restart_matches str pat ns np \<longleftrightarrow> 0 < ns \<and> ns \<le> length str \<and> like (drop np pat) (drop ns str)"

text \<open>Whatever an earlier \<open>%\<close> could still do, the \<open>%\<close> just reached can do as well.\<close>

lemma restart_superseded:
  assumes ok: "restart_ok pat s p ns np" and m: "restart_matches str pat ns np"
    and p: "p < length pat" "snd (pat ! p) = patAny"
  shows "like (drop p pat) (drop s str)"
proof (cases "p = np \<and> s = ns")
  case False
  from ok m have np: "np < length pat" "snd (pat ! np) = patAny"
    and pos: "np < p" "s + np + 2 = ns + p" and seg: "\<And>i. np < i \<Longrightarrow> i < p \<Longrightarrow> snd (pat ! i) \<noteq> patAny"
    using False by (auto simp: restart_ok_def restart_matches_def)
  define q where "q = take (p - np - 1) (drop (np + 1) pat)"
  have lq: "length q = p - np - 1" using p pos by (simp add: q_def)
  have split: "drop np pat = (fst (pat ! np), patAny) # q @ drop p pat"
    using np pos Cons_nth_drop_Suc[of np pat] append_take_drop_id[of "p - np - 1" "drop (np + 1) pat"]
    by (simp add: q_def) (metis prod.collapse)
  have noany: "\<forall>(c, tp) \<in> set q. tp \<noteq> patAny"
  proof clarify
    fix c assume "(c, patAny) \<in> set q"
    then obtain i where "i < length q" "q ! i = (c, patAny)" by (auto simp: in_set_conv_nth)
    moreover have "np + 1 + i < p" using calculation(1) lq by simp
    ultimately show False using seg[of "np + 1 + i"] p by (simp add: q_def)
  qed
  from m obtain k where k: "k \<le> length str - ns" "like (q @ drop p pat) (drop (k + ns) str)" "ns \<le> length str"
    unfolding restart_matches_def split like_Any by auto
  from like_segment[OF noany k(2)]
  have l: "length q \<le> length str - (k + ns)" "like (drop p pat) (drop (length q + (k + ns)) str)" by auto
  have "drop p pat = (fst (pat ! p), patAny) # drop (Suc p) pat"
    using p Cons_nth_drop_Suc[of p pat] by (metis prod.collapse)
  moreover have "s \<le> length q + (k + ns)" "length q + (k + ns) \<le> length str" using lq pos k l(1) by auto
  ultimately show ?thesis using like_Any_later l(2) by metis
qed (use m in \<open>simp add: restart_matches_def\<close>)

lemma like_end: "s \<le> length str \<Longrightarrow> length pat \<le> p \<Longrightarrow> like (drop p pat) (drop s str) \<longleftrightarrow> length str = s" by auto

lemma like_step:
  assumes "p < length pat"
  shows "snd (pat ! p) = patMatch \<Longrightarrow> like (drop p pat) (drop s str) \<longleftrightarrow>
      s < length str \<and> str ! s = fst (pat ! p) \<and> like (drop (p + 1) pat) (drop (s + 1) str)"
    and "snd (pat ! p) = patOne \<Longrightarrow> like (drop p pat) (drop s str) \<longleftrightarrow>
      s < length str \<and> like (drop (p + 1) pat) (drop (s + 1) str)"
    and "snd (pat ! p) = patAny \<Longrightarrow> s \<le> length str \<Longrightarrow> like (drop p pat) (drop s str) \<longleftrightarrow>
      like (drop (p + 1) pat) (drop s str) \<or> (s < length str \<and> like (drop p pat) (drop (s + 1) str))"
proof -
  have dp: "drop p pat = (fst (pat ! p), snd (pat ! p)) # drop (p + 1) pat"
    using assms Cons_nth_drop_Suc[of p pat] by simp
  have ds: "s < length str \<Longrightarrow> drop s str = str ! s # drop (s + 1) str"
    using Cons_nth_drop_Suc[of s str] by simp
  show "like (drop p pat) (drop s str) \<longleftrightarrow>
      s < length str \<and> str ! s = fst (pat ! p) \<and> like (drop (p + 1) pat) (drop (s + 1) str)"
    if "snd (pat ! p) = patMatch" using that dp ds by (cases "s < length str") auto
  show "like (drop p pat) (drop s str) \<longleftrightarrow> s < length str \<and> like (drop (p + 1) pat) (drop (s + 1) str)"
    if "snd (pat ! p) = patOne" using that dp ds by (cases "s < length str") auto
  show "like (drop p pat) (drop s str) \<longleftrightarrow>
      like (drop (p + 1) pat) (drop s str) \<or> (s < length str \<and> like (drop p pat) (drop (s + 1) str))"
    if "snd (pat ! p) = patAny" "s \<le> length str" using that dp ds by (cases "s < length str") auto
qed

text \<open>Restarts raise \<open>nextSIdx\<close>, every other step raises \<open>pIdx\<close>.\<close>

definition match_order :: "string \<Rightarrow> pattern \<Rightarrow> ((nat \<times> nat \<times> nat \<times> nat) \<times> (nat \<times> nat \<times> nat \<times> nat)) set" where
  "match_order str pat = measures
    [\<lambda>(s, p, ns, np). length str + 1 - ns,
     \<lambda>(s, p, ns, np). if 0 < ns \<and> p = np \<and> s = ns then 0 else 1,
     \<lambda>(s, p, ns, np). length pat - p]"

lemma wf_match_order: "wf (match_order str pat)"
  by (simp add: match_order_def)

lemma DoMatch_loop_correct:
  assumes "s \<le> length str" "p \<le> length pat" "restart_ok pat s p ns np"
  shows "DoMatch_loop str pat s p ns np = Some (like (drop p pat) (drop s str) \<or> restart_matches str pat ns np)"
  using assms
proof (induction "(s, p, ns, np)" arbitrary: s p ns np rule: wf_induct_rule[OF wf_match_order[of str pat]])
  case (1 s p ns np)
  note IH = 1(1) and s = 1(2) and p = 1(3) and ok = 1(4)
  let ?goal = "DoMatch_loop str pat s p ns np = Some (like (drop p pat) (drop s str) \<or> restart_matches str pat ns np)"
  have advance: "DoMatch_loop str pat (s + 1) (p + 1) ns np =
      Some (like (drop (p + 1) pat) (drop (s + 1) str) \<or> restart_matches str pat ns np)"
    if "p < length pat" "s < length str" "snd (pat ! p) \<noteq> patAny"
    using that ok by (intro IH) (auto simp: match_order_def restart_ok_def less_Suc_eq)
  have restart: "(if 0 < ns \<and> ns \<le> length str then DoMatch_loop str pat ns np ns np else Some False) =
      Some (restart_matches str pat ns np)"
    if "p < length pat \<longrightarrow> snd (pat ! p) \<noteq> patAny"
  proof (cases "0 < ns \<and> ns \<le> length str")
    case True
    then have "DoMatch_loop str pat ns np ns np = Some (like (drop np pat) (drop ns str) \<or> restart_matches str pat ns np)"
      using that ok by (intro IH) (auto simp: match_order_def restart_ok_def)
    with True show ?thesis by (simp add: restart_matches_def)
  qed (auto simp: restart_matches_def)
  show ?case
  proof (cases "p < length pat")
    case False
    then have "like (drop p pat) (drop s str) \<longleftrightarrow> length str = s" using s by auto
    moreover have "length str = s \<Longrightarrow> ?goal" using False s calculation by (subst DoMatch_loop.simps) simp
    moreover have "length str \<noteq> s \<Longrightarrow> ?goal"
      using False s calculation restart by (subst DoMatch_loop.simps) simp
    ultimately show ?thesis by blast
  next
    case True
    show ?thesis
    proof (cases "snd (pat ! p)")
      case patMatch
      with True restart advance show ?thesis by (subst DoMatch_loop.simps) (simp add: like_step(1), blast)
    next
      case patOne
      with True restart advance show ?thesis by (subst DoMatch_loop.simps) (simp add: like_step(2))
    next
      case patAny
      have "DoMatch_loop str pat s (p + 1) (s + 1) p =
          Some (like (drop (p + 1) pat) (drop s str) \<or> restart_matches str pat (s + 1) p)"
        using True s ok patAny by (intro IH) (auto simp: match_order_def restart_ok_def)
      moreover have "restart_matches str pat (s + 1) p \<longleftrightarrow> s < length str \<and> like (drop p pat) (drop (s + 1) str)"
        by (auto simp: restart_matches_def)
      then have "like (drop p pat) (drop s str) \<or> restart_matches str pat ns np \<longleftrightarrow>
          like (drop (p + 1) pat) (drop s str) \<or> restart_matches str pat (s + 1) p"
        using restart_superseded[OF ok _ True patAny, of str] like_step(3)[OF True patAny s] by blast
      ultimately show ?thesis using True patAny by (subst DoMatch_loop.simps) simp
    qed
  qed
qed

section \<open>Patterns and their tokens\<close>

text \<open>The tokens of a pattern: every wildcard of it, in order.\<close>

fun tokens :: "char \<Rightarrow> string \<Rightarrow> pattern" where
  "tokens escape [] = []"
| "tokens escape (c # rest) =
    (if c = escape then
       (case rest of
          [] \<Rightarrow> [(c, patMatch)]
        | d # rest' \<Rightarrow>
            if d = escape \<or> d = CHR ''_'' \<or> d = CHR ''%'' then (d, patMatch) # tokens escape rest'
            else (escape, patMatch) # tokens escape rest)
     else (c, if c = CHR ''_'' then patOne else if c = CHR ''%'' then patAny else patMatch) # tokens escape rest)"

text \<open>What \<open>CompilePattern\<close> leaves out of them: every wildcard that comes after a \<open>%\<close> with no other
  token but wildcards between.  \<open>loses_one\<close> tells that a \<open>_\<close> is among them.\<close>

fun collapse :: "bool \<Rightarrow> pattern \<Rightarrow> pattern" where
  "collapse lastAny [] = []"
| "collapse lastAny ((c, tp) # p) =
    (if lastAny \<and> tp \<noteq> patMatch then collapse True p else (c, tp) # collapse (tp = patAny) p)"

fun loses_one :: "bool \<Rightarrow> pattern \<Rightarrow> bool" where
  "loses_one lastAny [] = False"
| "loses_one lastAny ((c, tp) # p) =
    (lastAny \<and> tp = patOne \<or> loses_one (tp = patAny \<or> lastAny \<and> tp \<noteq> patMatch) p)"

lemma CompilePattern_tokens: "CompilePattern_loop escape lastAny pat = collapse lastAny (tokens escape pat)"
  by (induction escape lastAny pat rule: CompilePattern_loop.induct) (auto split: list.splits)

definition fixed_part :: "pattern \<Rightarrow> string" where
  "fixed_part p = map fst (filter (\<lambda>(c, tp). tp \<noteq> patAny) p)"

lemma like_fixed_part: "like p (fixed_part p)"
proof (induction p)
  case (Cons ct p)
  obtain c tp where "ct = (c, tp)" by force
  with Cons show ?case by (cases tp) (auto simp: fixed_part_def like_Any intro!: exI[of _ 0])
qed (simp add: fixed_part_def)

lemma like_length: "like p s \<Longrightarrow> length (fixed_part p) \<le> length s"
  by (induction p s rule: like.induct) (auto simp: fixed_part_def split: list.splits)

lemma collapse_shorter:
  "length (fixed_part (collapse b p)) \<le> length (fixed_part p)"
  "loses_one b p \<Longrightarrow> length (fixed_part (collapse b p)) < length (fixed_part p)"
  by (induction b p rule: collapse.induct)
     (auto simp: fixed_part_def less_Suc_eq_le split: if_splits intro: le_SucI less_SucI)

lemma like_cong: "(\<And>s. like p s \<longleftrightarrow> like q s) \<Longrightarrow> like (ct # p) s \<longleftrightarrow> like (ct # q) s"
  by (cases ct; cases "snd ct") (auto simp: like_Any split: list.splits)

lemma like_Any_char: "like ((c, patAny) # p) s \<longleftrightarrow> like ((d, patAny) # p) s"
  by (simp add: like_Any)

lemma like_collapse:
  "\<not> loses_one b p \<Longrightarrow>
    (if b then like ((d, patAny) # collapse b p) s \<longleftrightarrow> like ((d, patAny) # p) s else like (collapse b p) s \<longleftrightarrow> like p s)"
proof (induction b p arbitrary: d s rule: collapse.induct)
  case (2 b c tp p)
  show ?case
  proof (cases tp)
    case patMatch
    then have IH: "like (collapse False p) s \<longleftrightarrow> like p s" for s using 2 by simp
    show ?thesis using patMatch like_cong[OF IH] like_cong[OF like_cong[OF IH]]
      by (simp del: like.simps)
  next
    case patOne
    then have b: "\<not> b" and IH: "like (collapse False p) s \<longleftrightarrow> like p s" for s using 2 by auto
    show ?thesis using patOne b like_cong[OF IH] by (simp del: like.simps)
  next
    case patAny
    then have IH: "like ((d, patAny) # collapse True p) s \<longleftrightarrow> like ((d, patAny) # p) s" for d s
      using 2 by (cases b) auto
    show ?thesis using patAny IH like_Any_char[of c p s d] by simp
  qed
qed simp

section \<open>Properties of matching\<close>

text \<open>C29: \<open>DoMatch\<close> ends on every string and pattern, and its answer is that of the recursive definition of
  \<open>LIKE\<close>: one restart point is enough.\<close>

theorem DoMatch_decides_like: "DoMatch str pat = Some (like pat str)"
  using DoMatch_loop_correct[of 0 str 0 pat 0 0] by (simp add: DoMatch_def restart_ok_def restart_matches_def)

text \<open>C30: Compiling a pattern and matching agrees with the tokens of the pattern on every string
  exactly when no \<open>_\<close> comes after a \<open>%\<close> among adjacent wildcards: such a \<open>_\<close> is dropped, so that
  \<open>LIKE '%_'\<close> accepts the empty string.\<close>

theorem CompilePattern_exact_iff:
  "(\<forall>str. DoMatch str (CompilePattern pat escape) = Some (like (tokens escape pat) str)) \<longleftrightarrow>
    \<not> loses_one False (tokens escape pat)"
proof
  let ?t = "tokens escape pat"
  have compiled: "DoMatch str (CompilePattern pat escape) = Some (like (collapse False ?t) str)" for str
    using DoMatch_loop_correct[of 0 str 0 "CompilePattern pat escape" 0 0]
    by (simp add: DoMatch_def restart_ok_def restart_matches_def CompilePattern_def CompilePattern_tokens)
  show "\<not> loses_one False ?t" if "\<forall>str. DoMatch str (CompilePattern pat escape) = Some (like ?t str)"
  proof
    assume "loses_one False ?t"
    then have "length (fixed_part (collapse False ?t)) < length (fixed_part ?t)" by (rule collapse_shorter)
    then have "\<not> like ?t (fixed_part (collapse False ?t))" using like_length[of ?t] by fastforce
    moreover have "like ?t (fixed_part (collapse False ?t))"
      using that compiled like_fixed_part[of "collapse False ?t"] by simp
    ultimately show False by contradiction
  qed
  show "\<forall>str. DoMatch str (CompilePattern pat escape) = Some (like ?t str)" if "\<not> loses_one False ?t"
    using that compiled like_collapse[of False ?t] by simp
qed

section \<open>Properties of quoting and of date formats\<close>

text \<open>Reading one byte at a time gives the same string: the bytes of a multi-byte rune are never special.\<close>

fun unquote_bytes :: "char \<Rightarrow> string \<Rightarrow> string result" where
  "unquote_bytes quote [] = Inr []"
| "unquote_bytes quote (c # s) =
    (if c = quote then Inl ErrSyntax
     else if c = CHR 0x5C then
       (case s of [] \<Rightarrow> Inl ErrSyntax | d # s' \<Rightarrow> bind_r (unquote_bytes quote s') (\<lambda>r. Inr (unescaped d @ r)))
     else bind_r (unquote_bytes quote s) (\<lambda>r. Inr (c # r)))"

lemma unquote_bytes_high:
  assumes "of_char quote < (0x80 :: nat)" "\<forall>c \<in> set xs. 0x80 \<le> (of_char c :: nat)"
  shows "unquote_bytes quote (xs @ s) = bind_r (unquote_bytes quote s) (\<lambda>r. Inr (xs @ r))"
  using assms(2)
proof (induction xs)
  case (Cons x xs)
  then have "x \<noteq> quote" "x \<noteq> CHR 0x5C" using assms(1) by auto
  with Cons show ?case by (cases "unquote_bytes quote s") simp_all
qed (cases "unquote_bytes quote s"; simp)

lemma UnquoteChar_bytes:
  assumes "of_char quote < (0x80 :: nat)" "s \<noteq> []"
  shows "unquote_bytes quote s =
    bind_r (UnquoteChar s quote) (\<lambda>(v, s'). bind_r (unquote_bytes quote s') (\<lambda>r. Inr (v @ r)))"
proof (cases s)
  case (Cons c t)
  show ?thesis
  proof (cases "\<exists>n. c \<noteq> quote \<and> 0x80 \<le> (of_char c :: nat) \<and> utf8_size s = Some n")
    case True
    then obtain n where n: "c \<noteq> quote" "0x80 \<le> (of_char c :: nat)" "utf8_size s = Some n" by blast
    with utf8_size_bytes[of s n] Cons have "\<forall>c \<in> set (take n s). 0x80 \<le> (of_char c :: nat)" by simp
    from unquote_bytes_high[OF assms(1) this, of "drop n s"] n Cons show ?thesis by simp
  next
    case False
    then have "c = quote \<or> utf8_size s = None \<or> (of_char c :: nat) < 0x80" by auto
    moreover have "c = CHR 0x5C \<Longrightarrow> (of_char c :: nat) < 0x80" by simp
    ultimately show ?thesis using Cons by (cases t) auto
  qed
qed (use assms in simp)

lemma Unquote_loop_bytes:
  "of_char quote < (0x80 :: nat) \<Longrightarrow> Unquote_loop quote s buf = bind_r (unquote_bytes quote s) (\<lambda>r. Inr (buf @ r))"
proof (induction quote s buf rule: Unquote_loop.induct)
  case (1 quote s buf)
  show ?case
  proof (cases "s = []")
    case False
    note bytes = UnquoteChar_bytes[OF 1(2) False] and step = Unquote_loop.simps[of quote s buf]
    show ?thesis
    proof (cases "UnquoteChar s quote")
      case (Inl e)
      then show ?thesis using False bytes step by simp
    next
      case (Inr r)
      obtain v t where r: "r = (v, t)" by force
      then have "Unquote_loop quote t (buf @ v) = bind_r (unquote_bytes quote t) (\<lambda>r. Inr ((buf @ v) @ r))"
        using 1 False Inr by blast
      then show ?thesis using False bytes step Inr r by (cases "unquote_bytes quote t") simp_all
    qed
  qed (simp add: Unquote_loop.simps)
qed

text \<open>A quoted form of any byte string.\<close>

definition escaped :: "char \<Rightarrow> char \<Rightarrow> string" where
  "escaped quote c = (if c = quote \<or> c = CHR 0x5C then [CHR 0x5C, c] else [c])"

definition quoted :: "char \<Rightarrow> string \<Rightarrow> string" where
  "quoted quote s = quote # concat (map (escaped quote) s) @ [quote]"

lemma unquote_escaped:
  "quote = CHR 0x22 \<or> quote = CHR 0x27 \<Longrightarrow> unquote_bytes quote (concat (map (escaped quote) s)) = Inr s"
  by (induction s) (auto simp: escaped_def unescaped_def)

text \<open>C31: Unquoting undoes quoting, for both quotes and every byte string, whatever runes it encodes.\<close>

theorem Unquote_roundtrip:
  assumes "quote = CHR 0x22 \<or> quote = CHR 0x27"
  shows "Unquote (quoted quote s) = Inr s"
proof -
  let ?e = "concat (map (escaped quote) s)"
  have q: "of_char quote < (0x80 :: nat)" using assms by auto
  have "?e = s" if "CHR 0x5C \<notin> set ?e \<and> quote \<notin> set ?e"
    using that by (induction s) (auto simp: escaped_def split: if_splits)
  then show ?thesis
    using assms Unquote_loop_bytes[OF q] unquote_escaped[OF assms, of s]
    by (auto simp: Unquote_def quoted_def Let_def butlast_append)
qed

lemma Unquote_roundtrip_witness:
  "(CHR 0x27 = CHR 0x22 \<or> CHR 0x27 = CHR 0x27) \<and> Unquote (quoted (CHR 0x27) ''it's'') = Inr ''it's''"
  using Unquote_roundtrip[of "CHR 0x27" "''it's''"] by simp

definition accepted :: "'a result \<Rightarrow> unit result" where
  "accepted r = bind_r r (\<lambda>_. Inr ())"

lemma same_specifiers: "map_of go_layouts d = None \<longleftrightarrow> map_of kMySQLToArrowFormatMapping d = None"
proof -
  have "keys go_layouts = keys kMySQLToArrowFormatMapping"
    by (simp add: go_layouts_def kMySQLToArrowFormatMapping_def)
  then show ?thesis by (metis map_of_eq_None_iff set_map)
qed

lemma accepted_simps:
  "accepted (Inl e) = Inl e" "accepted (bind_r m (\<lambda>r. Inr (g r))) = accepted m"
  by (cases m; simp add: accepted_def)+


end
