(* ===== verification/Translator_Expr.thy ===== *)
theory Translator_Expr
  imports Translator_Nodes String_Util
begin

text \<open>
  \<open>translator.go\<close>: the translation of expressions, \<open>buildExpression\<close>, \<open>getTensorFromExpression\<close> and
  \<open>buildScalarFunction\<close> with the functions they dispatch to, and \<open>TransferDateFuncIntervalToSeconds\<close> of
  \<open>pkg/expression\<close>.

  Every call extends the plan without revealing a tensor against its control list.
\<close>

section \<open>What the translation relies on\<close>

text \<open>Options of arrow functions, with the integers of Go (\<open>int64\<close>).\<close>

datatype FuncOptions =
    SliceOptions (so_Start: "64 word") (so_Stop: "64 word") (so_Step: "64 word")
  | TrimOptions string
  | StrptimeOptions string string bool

fun TypeName :: "FuncOptions \<Rightarrow> string" where
  "TypeName (SliceOptions _ _ _) = ''SliceOptions''"
| "TypeName (TrimOptions _) = ''TrimOptions''"
| "TypeName (StrptimeOptions _ _ _) = ''StrptimeOptions''"

text \<open>The serialisation of options by the arrow library, \<open>time.Parse(layout, value)\<close> as Unix seconds, the widening
  of a \<open>float32\<close>, and the evaluation of a constant date interval (\<open>None\<close> is NULL).\<close>

record environment =
  serializeOptions :: "FuncOptions \<Rightarrow> string result"
  timeParse :: "string \<Rightarrow> string \<Rightarrow> int result"
  widenFloat :: "float32 \<Rightarrow> float64"
  intervalSeconds :: "Expression list \<Rightarrow> int option result"

definition arrow_options :: "environment \<Rightarrow> FuncOptions option \<Rightarrow> (string \<times> string result) option" where
  "arrow_options env opt = map_option (\<lambda>opt. (TypeName opt, serializeOptions env opt)) opt"

text \<open>The field \<open>i\<close> of a datum, zero for the kinds that do not use it.\<close>

fun GetInt64 :: "environment \<Rightarrow> Datum \<Rightarrow> 64 word" where
  "GetInt64 env (KindInt64 v) = word_of_int v"
| "GetInt64 env (KindUint64 v) = v"
| "GetInt64 env (KindFloat32 v) = widenFloat env v"
| "GetInt64 env (KindFloat64 v) = v"
| "GetInt64 env (KindMysqlDuration v) = v"
| "GetInt64 env _ = 0"

text \<open>The bytes of a string datum; the kinds of binary strings carry no payload here and cannot be constants of a plan
  (\<open>constant_attr\<close> rejects them).\<close>

fun GetString :: "Datum \<Rightarrow> string" where
  "GetString (KindString v) = v"
| "GetString _ = []"

definition TransferDateFuncIntervalToSeconds :: "environment \<Rightarrow> Expression list \<Rightarrow> Expression list result" where
  "TransferDateFuncIntervalToSeconds env funcArgs =
    (if length funcArgs < 3 then Inl (Panic ''index out of range'')
     else
       bind_r (intervalSeconds env funcArgs) (\<lambda>sec.
       case sec of
         None \<Rightarrow> Inr []
       | Some n \<Rightarrow> Inr ((butlast funcArgs)[1 := Constant (KindInt64 n) \<lparr>Tp = TypeLong, Flag = 0\<rparr>])))"

section \<open>Tables\<close>

definition astName2NodeName :: "(string, string) gomap" where
  "astName2NodeName = [
    (''if'', OpNameIf), (''greatest'', OpNameGreatest), (''least'', OpNameLeast), (''lt'', OpNameLess),
    (''le'', OpNameLessEqual), (''gt'', OpNameGreater), (''ge'', OpNameGreaterEqual), (''eq'', OpNameEqual),
    (''ne'', OpNameNotEqual), (''or'', OpNameLogicalOr), (''and'', OpNameLogicalAnd), (''plus'', OpNameAdd),
    (''unaryminus'', OpNameMinus), (''minus'', OpNameMinus), (''mul'', OpNameMul), (''div'', OpNameDiv),
    (''intdiv'', OpNameIntDiv), (''mod'', OpNameMod), (''case'', OpNameCaseWhen), (''datediff'', OpNameMinus),
    (''adddate'', OpNameAdd), (''subdate'', OpNameMinus), (''sin'', OpNameSin), (''cos'', OpNameCos),
    (''acos'', OpNameACos), (''asin'', OpNameASin), (''tan'', OpNameTan), (''cot'', OpNameCot), (''atan'', OpNameATan),
    (''atan2'', OpNameATan2), (''abs'', OpNameAbs), (''ceil'', OpNameCeil), (''floor'', OpNameFloor),
    (''round'', OpNameRound), (''degrees'', OpNameDegrees), (''radians'', OpNameRadians), (''ln'', OpNameLn),
    (''log2'', OpNameLog2), (''log10'', OpNameLog10), (''sqrt'', OpNameSqrt), (''exp'', OpNameExp), (''pow'', OpNamePow)]"

definition node_name :: "string \<Rightarrow> string" where
  "node_name f = lookup_or [] astName2NodeName f"

definition skipTypeCheckAst :: "string list" where
  "skipTypeCheckAst = [''pow'']"

definition unaryOutputType :: "(string, PrimitiveDataType) gomap" where
  "unaryOutputType = [
    (''ceil'', INT64), (''floor'', INT64), (''round'', INT64), (''degrees'', FLOAT64), (''radians'', FLOAT64),
    (''ln'', FLOAT64), (''log2'', FLOAT64), (''log10'', FLOAT64), (''sqrt'', FLOAT64), (''exp'', FLOAT64)]"

section \<open>Functions built from several nodes\<close>

definition binary :: "string \<Rightarrow> tref \<Rightarrow> tref \<Rightarrow> tref tr" where
  "binary f l r = addBinaryNode (node_name f) (node_name f) l r"

definition trigonometric :: "string \<Rightarrow> tref \<Rightarrow> tref tr" where
  "trigonometric f r =
    bind_s (extractPartyCodeFromTensor r) (\<lambda>parties.
    in_ep (AddTrigonometricFunction (node_name f) (node_name f) r parties))"

text \<open>A constant scalar and a tensor, the scalar broadcast to the shape of the tensor.\<close>

definition with_constant :: "Datum \<Rightarrow> tref \<Rightarrow> (tref \<times> tref) tr" where
  "with_constant d r =
    bind_s (addConstantNode d) (\<lambda>c.
    bind_s (addBroadcastToNodeOndemand [c, r]) (\<lambda>outputs.
    bind_s (lift_r (at outputs 0)) (\<lambda>x.
    bind_s (lift_r (at outputs 1)) (\<lambda>y.
    return_s (x, y)))))"

text \<open>\<open>math.Pi / 180\<close>, as the bits of the \<open>float64\<close>.\<close>

definition degreeToRadians :: float64 where
  "degreeToRadians = 0x3F91DF46A2529D39"

definition convertDegreeToRadians :: "tref \<Rightarrow> tref tr" where
  "convertDegreeToRadians input =
    bind_s (with_constant (KindFloat64 degreeToRadians) input) (\<lambda>(c, x). binary ''mul'' c x)"

definition buildGeoDistanceFunction :: "tref list \<Rightarrow> tref tr" where
  "buildGeoDistanceFunction inputs =
    bind_s (lift_r (at inputs 0)) (\<lambda>longtitude1Degree.
    bind_s (lift_r (at inputs 1)) (\<lambda>latitude1Degree.
    bind_s (lift_r (at inputs 2)) (\<lambda>longtitude2Degree.
    bind_s (lift_r (at inputs 3)) (\<lambda>latitude2Degree.
    bind_s (convertDegreeToRadians longtitude1Degree) (\<lambda>longtitude1.
    bind_s (convertDegreeToRadians latitude1Degree) (\<lambda>latitude1.
    bind_s (convertDegreeToRadians longtitude2Degree) (\<lambda>longtitude2.
    bind_s (convertDegreeToRadians latitude2Degree) (\<lambda>latitude2.
    bind_s (trigonometric ''sin'' latitude1) (\<lambda>sinLatitude1.
    bind_s (trigonometric ''sin'' latitude2) (\<lambda>sinLatitude2.
    bind_s (binary ''mul'' sinLatitude1 sinLatitude2) (\<lambda>leftResult.
    bind_s (trigonometric ''cos'' latitude1) (\<lambda>cosLatitude1.
    bind_s (trigonometric ''cos'' latitude2) (\<lambda>cosLatitude2.
    bind_s (binary ''minus'' longtitude1 longtitude2) (\<lambda>minusLongtitude.
    bind_s (trigonometric ''cos'' minusLongtitude) (\<lambda>cosMinusLongtitude.
    bind_s (binary ''mul'' cosLatitude1 cosLatitude2) (\<lambda>mul1.
    bind_s (binary ''mul'' mul1 cosMinusLongtitude) (\<lambda>rightResult.
    bind_s (binary ''plus'' leftResult rightResult) (\<lambda>plus.
    bind_s (trigonometric ''acos'' plus) (\<lambda>arcCos.
    bind_s (if length inputs = 4 then addConstantNode (KindInt64 6371) else lift_r (at inputs 4)) (\<lambda>radius.
    bind_s (addBroadcastToNodeOndemand [radius, arcCos]) (\<lambda>outputs.
    bind_s (lift_r (at outputs 0)) (\<lambda>x.
    bind_s (lift_r (at outputs 1)) (\<lambda>y.
    binary ''mul'' x y)))))))))))))))))))))))"

text \<open>\<open>SUBSTR(str, start)\<close> and \<open>SUBSTR(str, start, length)\<close>: arrow counts from zero.\<close>

definition constant_int :: "environment \<Rightarrow> Expression \<Rightarrow> error \<Rightarrow> 64 word result" where
  "constant_int env e err = (case e of Constant d _ \<Rightarrow> Inr (GetInt64 env d) | _ \<Rightarrow> Inl err)"

definition substr_options :: "environment \<Rightarrow> Expression list \<Rightarrow> FuncOptions result" where
  "substr_options env args =
    bind_r (if 2 \<le> length args
        then bind_r (constant_int env (args ! 1) (Errorf ''buildScalarFunction: args[1] should be constant for %s''))
          (\<lambda>v. Inr (v - 1))
        else Inr 0) (\<lambda>start.
    bind_r (if 3 \<le> length args
        then bind_r (constant_int env (args ! 2) (Errorf ''buildScalarFunction: args[2] should be constant for %s''))
          (\<lambda>v. Inr (start + v))
        else Inr 0x7FFFFFFFFFFFFFFF) (\<lambda>stop.
    Inr (SliceOptions start stop 1)))"

definition finish_substr :: "environment \<Rightarrow> Expression list \<Rightarrow> tref \<Rightarrow> tref tr" where
  "finish_substr env args strInput =
    bind_s (read_t strInput) (\<lambda>x.
    bind_s (guard_s (t_DType x = STRING) (Errorf ''buildScalarFunction:err input type{%s} for %s'')) (\<lambda>_.
    bind_s (lift_r (substr_options env args)) (\<lambda>opt.
    in_ep (AddArrowFuncNode ''arrow_substr'' ''utf8_slice_codeunits'' (arrow_options env (Some opt)) [strInput] (t_DType x)))))"

text \<open>\<open>addBinaryNode\<close> for \<open>POW\<close>: the flag is set on the output before the error is looked at.\<close>

definition skip_type_check :: "tref tr \<Rightarrow> tref tr" where
  "skip_type_check m = (\<lambda>s.
    case m s of
      Inl (Errorf _) \<Rightarrow> Inl (Panic ''nil pointer dereference'')
    | Inl (Panic e) \<Rightarrow> Inl (Panic e)
    | Inr (output, s') \<Rightarrow> Inr (output, s'\<lparr>ep := set_tensor output (\<lambda>t. t\<lparr>t_SkipDTypeCheck := True\<rparr>) (ep s')\<rparr>))"

lemma skip_type_check_app [code]:
  "skip_type_check m s = (case m s of
      Inl (Errorf _) \<Rightarrow> Inl (Panic ''nil pointer dereference'')
    | Inl (Panic e) \<Rightarrow> Inl (Panic e)
    | Inr (output, s') \<Rightarrow> Inr (output, s'\<lparr>ep := set_tensor output (\<lambda>t. t\<lparr>t_SkipDTypeCheck := True\<rparr>) (ep s')\<rparr>))"
  by (simp add: skip_type_check_def)

definition build_concat :: "environment \<Rightarrow> tref list \<Rightarrow> tref tr" where
  "build_concat env inputs =
    bind_s (wrap_s ''buildScalarFunction: build separator for concat failed: %v '' (addConstantNode (KindString []))) (\<lambda>sepTensor.
    bind_s (wrap_s ''buildScalarFunction: broadcast for concat failed: %v ''
      (addBroadcastToNodeOndemand (inputs @ [sepTensor]))) (\<lambda>ins.
    bind_s (gets_s issuerPartyCode) (\<lambda>issuer.
    bind_s (wrap_s ''buildScalarFunction: convert inputs to issuer '%s' failed: %v''
      (convert_all (privatePlacement issuer) ins)) (\<lambda>privateIns.
    in_ep (AddArrowFuncNode ''arrow_concat'' ''binary_join_element_wise'' None privateIns STRING)))))"

definition build_str_to_date :: "environment \<Rightarrow> Expression list \<Rightarrow> tref \<Rightarrow> tref \<Rightarrow> tref tr" where
  "build_str_to_date env args left right =
    bind_s (read_t left) (\<lambda>l.
    bind_s (read_t right) (\<lambda>r.
    bind_s (lift_r (at args 0)) (\<lambda>dateStrExpr.
    bind_s (lift_r (at args 1)) (\<lambda>formatStrExpr.
    bind_s (guard_s (t_DType l = STRING)
      (Errorf ''buildScalarFunction: invalid left argument type for the STR_TO_DATE function, expecting string but got %s'')) (\<lambda>_.
    case formatStrExpr of
      Constant fmt _ \<Rightarrow>
        bind_s (guard_s (t_DType r = STRING)
          (Errorf ''buildScalarFunction: invalid right argument type for the STR_TO_DATE function, expecting constant string but got %s'')) (\<lambda>_.
        case dateStrExpr of
          Constant d _ \<Rightarrow>
            bind_s (wrap_s ''buildScalarFunction: STR_TO_DATE format string '%s' is invalid: %w''
              (lift_r (MySQLDateFormatToGoLayout (GetString fmt)))) (\<lambda>goLayout.
            bind_s (wrap_s ''buildScalarFunction: STR_TO_DATE date string '%s' is invalid: %w''
              (lift_r (timeParse env goLayout (GetString d)))) (\<lambda>unixSec.
            addConstantNode (KindInt64 unixSec)))
        | _ \<Rightarrow>
            bind_s (wrap_s ''buildScalarFunction: STR_TO_DATE format string '%s' is invalid: %w''
              (lift_r (MySQLDateFormatToArrowFormat (GetString fmt)))) (\<lambda>arrowFormatStr.
            in_ep (AddArrowFuncNode ''str_to_date'' ''strptime''
              (arrow_options env (Some (StrptimeOptions arrowFormatStr ''s'' True))) [left] DATETIME)))
    | _ \<Rightarrow> fail_s (Errorf ''buildScalarFunction: invalid right argument type for the STR_TO_DATE function, expecting constant string but got %s''))))))"

section \<open>The dispatch\<close>

text \<open>\<open>inputs[2*i]\<close> and \<open>inputs[2*i+1]\<close> of \<open>CASE WHEN\<close>, up to the \<open>ELSE\<close> value.\<close>

fun case_pairs :: "'a list \<Rightarrow> ('a \<times> 'a) list" where
  "case_pairs (c # v # rest) = (c, v) # case_pairs rest"
| "case_pairs _ = []"

definition binaryFuncs :: "string list" where
  "binaryFuncs = [''lt'', ''gt'', ''ge'', ''eq'', ''le'', ''ne'', ''or'', ''and'', ''plus'', ''minus'', ''mul'', ''div'', ''intdiv'',
    ''mod'', ''adddate'', ''subdate'', ''datediff'', ''pow'']"

definition trigonometricFuncs :: "string list" where
  "trigonometricFuncs = [''cos'', ''sin'', ''acos'', ''asin'', ''tan'', ''atan'']"

definition unaryNumericFuncs :: "string list" where
  "unaryNumericFuncs = [''abs'', ''ceil'', ''floor'', ''round'', ''radians'', ''degrees'', ''ln'', ''log10'', ''log2'', ''sqrt'', ''exp'']"

definition bad_arguments :: error where
  "bad_arguments = Errorf ''buildScalarFunction:err input for %s expected for %d got %d''"

definition incorrect_arguments :: error where
  "incorrect_arguments = Errorf ''incorrect arguments for function %v''"

text \<open>The \<open>switch\<close> on the name of the function; \<open>in0\<close> is the first input.\<close>

definition scalar_case ::
    "environment \<Rightarrow> string \<Rightarrow> FieldType \<Rightarrow> Expression list \<Rightarrow> tref list \<Rightarrow> tref \<Rightarrow> Tensor \<Rightarrow> string list \<Rightarrow> tref tr" where
  "scalar_case env f retType args inputs in0 x0 inTensorPartyCodes =
   (if f = ''not'' then
      (case inputs of [r] \<Rightarrow> in_ep (AddNotNode ''not'' r inTensorPartyCodes) | _ \<Rightarrow> fail_s bad_arguments)
    else if f = ''isnull'' then in_ep (AddIsNullNode ''is_null'' in0)
    else if f = ''lower'' then in_ep (AddArrowFuncNode ''arrow_lower'' ''utf8_lower'' None inputs (t_DType x0))
    else if f = ''upper'' then in_ep (AddArrowFuncNode ''arrow_upper'' ''utf8_upper'' None inputs (t_DType x0))
    else if f = ''trim'' then
      in_ep (AddArrowFuncNode ''arrow_trim'' ''utf8_trim'' (arrow_options env (Some (TrimOptions '' ''))) inputs (t_DType x0))
    else if f = ''concat'' then build_concat env inputs
    else if f \<in> set binaryFuncs then
      (case inputs of
         [l, r] \<Rightarrow> if f \<in> set skipTypeCheckAst then skip_type_check (binary f l r) else binary f l r
       | _ \<Rightarrow> fail_s bad_arguments)
    else if f = ''cast'' then
      (case inputs of
         [r] \<Rightarrow> bind_s (wrap_s ''buildScalarFunction: %v '' (lift_r (convertDataType retType))) (\<lambda>tp.
                in_ep (AddCastNode ''cast'' tp r inTensorPartyCodes))
       | _ \<Rightarrow> fail_s bad_arguments)
    else if f = ''greatest'' \<or> f = ''least'' then buildCompareNode (node_name f) inputs
    else if f = ''case'' then
      (if even (length inputs) then fail_s (Errorf ''missing else clause for CASE WHEN statement'')
       else addCaseWhenNode (node_name f) (map fst (case_pairs inputs)) (map snd (case_pairs inputs)) (last inputs))
    else if f = ''if'' then
      (case inputs of
         c # t # e # _ \<Rightarrow> addIfNode (node_name f) c t e
       | _ \<Rightarrow> fail_s (Panic ''index out of range''))
    else if f = ''unaryminus'' then
      bind_s (wrap_s ''buildScalarFunction: unaryminus err: %s'' (with_constant (KindInt64 0) in0)) (\<lambda>(c, x). binary f c x)
    else if f = ''unaryplus'' then return_s in0
    else if f = ''ifnull'' then
      (case inputs of [e, alt] \<Rightarrow> in_ep (AddIfNullNode ''ifnull'' e alt) | _ \<Rightarrow> fail_s bad_arguments)
    else if f = ''coalesce'' then in_ep (AddCoalesceNode ''coalesce'' inputs)
    else if f = ''cot'' then
      (case inputs of
         [r] \<Rightarrow>
           bind_s (wrap_s ''buildScalarFunction: err %s'' (addConstantNode (KindInt64 1))) (\<lambda>oneConst.
           bind_s (wrap_s ''buildScalarFunction: err %s''
             (in_ep (AddTrigonometricFunction (node_name ''tan'') (node_name ''tan'') r inTensorPartyCodes))) (\<lambda>tanOp.
           bind_s (wrap_s ''buildScalarFunction: err %s'' (addBroadcastToNodeOndemand [oneConst, tanOp])) (\<lambda>oneScalar.
           bind_s (lift_r (at oneScalar 0)) (\<lambda>x.
           bind_s (lift_r (at oneScalar 1)) (\<lambda>y.
           binary ''div'' x y)))))
       | _ \<Rightarrow> fail_s incorrect_arguments)
    else if f \<in> set trigonometricFuncs then
      (case inputs of
         [r] \<Rightarrow> in_ep (AddTrigonometricFunction (node_name f) (node_name f) r inTensorPartyCodes)
       | _ \<Rightarrow> fail_s incorrect_arguments)
    else if f = ''geodist'' then
      (if length inputs \<noteq> 4 \<and> length inputs \<noteq> 5 then fail_s incorrect_arguments else buildGeoDistanceFunction inputs)
    else if f = ''atan2'' then
      (case inputs of [l, r] \<Rightarrow> binary f l r | _ \<Rightarrow> fail_s incorrect_arguments)
    else if f \<in> set unaryNumericFuncs then
      (case inputs of
         [r] \<Rightarrow> in_ep (AddUnaryNumericNode (node_name f) (node_name f) r (lookup_or (t_DType x0) unaryOutputType f)
                  inTensorPartyCodes)
       | _ \<Rightarrow> fail_s incorrect_arguments)
    else if f = ''str_to_date'' then
      (case inputs of [l, r] \<Rightarrow> build_str_to_date env args l r | _ \<Rightarrow> fail_s incorrect_arguments)
    else fail_s (Errorf ''buildScalarFunction doesn't support %s''))"

definition scalar_dispatch ::
    "environment \<Rightarrow> string \<Rightarrow> FieldType \<Rightarrow> Expression list \<Rightarrow> tref list \<Rightarrow> tref tr" where
  "scalar_dispatch env f retType args inputs =
    bind_s (lift_r (at inputs 0)) (\<lambda>in0.
    bind_s (read_t in0) (\<lambda>x0.
    bind_s (extractPartyCodeFromTensor in0) (\<lambda>inTensorPartyCodes.
    scalar_case env f retType args inputs in0 x0 inTensorPartyCodes)))"

definition getTensorFromColumn :: "Column \<Rightarrow> (int, tref) gomap \<Rightarrow> tref tr" where
  "getTensorFromColumn c tensors =
    (case map_of tensors (UniqueID c) of
       None \<Rightarrow> fail_s (Errorf ''getTensorFromColumn: unable to find columnID %v'')
     | Some r \<Rightarrow> return_s r)"

definition build_now :: "string \<Rightarrow> tref tr" where
  "build_now f = bind_s get_s (\<lambda>t. addConstantNode (KindMysqlTime (if f = ''now'' then createdAt t else createdDate t)))"

text \<open>The arguments that are translated: for date arithmetic the interval becomes a number of seconds.\<close>

definition effective_args :: "environment \<Rightarrow> string \<Rightarrow> Expression list \<Rightarrow> Expression list result" where
  "effective_args env f args =
    (if f = ''adddate'' \<or> f = ''subdate'' then TransferDateFuncIntervalToSeconds env args else Inr args)"

text \<open>The number of function applications in an expression bounds the recursion.\<close>

fun applications :: "Expression \<Rightarrow> nat" where
  "applications (ScalarFunction _ _ args) = Suc (sum_list (map applications args) + length args)"
| "applications _ = 0"

lemma applications_update: "sum_list (map applications (xs[i := Constant d t])) \<le> sum_list (map applications xs)"
proof (induction xs arbitrary: i)
  case (Cons x xs)
  then show ?case by (cases i) (simp_all add: add_left_mono)
qed simp

lemma applications_butlast: "sum_list (map applications (butlast xs)) \<le> sum_list (map applications xs)"
  by (induction xs) simp_all

lemma effective_args_applications:
  assumes "effective_args env f args = Inr args'"
  shows "sum_list (map applications args') + length args' \<le> sum_list (map applications args) + length args"
proof (cases "f = ''adddate'' \<or> f = ''subdate''")
  case True
  with assms have "args' = [] \<or> (\<exists>n. args' = (butlast args)[1 := Constant (KindInt64 n) \<lparr>Tp = TypeLong, Flag = 0\<rparr>])"
    by (auto simp: effective_args_def TransferDateFuncIntervalToSeconds_def bind_r_Inr split: if_splits option.splits)
  then show ?thesis
  proof (elim disjE exE)
    fix n assume args': "args' = (butlast args)[1 := Constant (KindInt64 n) \<lparr>Tp = TypeLong, Flag = 0\<rparr>]"
    have "sum_list (map applications args') \<le> sum_list (map applications args)"
      unfolding args' by (rule order_trans[OF applications_update applications_butlast])
    then show ?thesis by (simp add: args')
  qed simp
next
  case False
  with assms show ?thesis by (simp add: effective_args_def)
qed

function (sequential) getTensorFromExpression :: "environment \<Rightarrow> (int, tref) gomap \<Rightarrow> Expression \<Rightarrow> tref tr"
  and build_args :: "environment \<Rightarrow> (int, tref) gomap \<Rightarrow> Expression list \<Rightarrow> tref list tr"
  and buildScalarFunction ::
    "environment \<Rightarrow> (int, tref) gomap \<Rightarrow> string \<Rightarrow> FieldType \<Rightarrow> Expression list \<Rightarrow> bool \<Rightarrow> tref tr" where
  "getTensorFromExpression env tensors (ColumnExpr x) = getTensorFromColumn x tensors"
| "getTensorFromExpression env tensors (ScalarFunction f retType args) =
    buildScalarFunction env tensors f retType args False"
| "getTensorFromExpression env tensors (Constant v t) = addConstantNode v"
| "getTensorFromExpression env tensors (CorrelatedColumn x) =
    fail_s (Errorf ''getTensorFromExpression doesn't support arg type %T'')"
| "build_args env tensors [] = return_s []"
| "build_args env tensors (arg # args) =
    bind_s (getTensorFromExpression env tensors arg) (\<lambda>t.
    bind_s (build_args env tensors args) (\<lambda>ts. return_s (t # ts)))"
| "buildScalarFunction env tensors f retType args isApply =
    (if f = ''now'' \<or> f = ''curdate'' then build_now f
     else if f = ''substr'' \<or> f = ''substring'' then
       (case args of
          [] \<Rightarrow> fail_s (Panic ''index out of range'')
        | a0 # _ \<Rightarrow>
            bind_s (wrap_s ''buildScalarFunction:err input for %s'' (getTensorFromExpression env tensors a0))
              (finish_substr env args))
     else
       (case effective_args env f args of
          Inl e \<Rightarrow> fail_s e
        | Inr args' \<Rightarrow>
            bind_s (build_args env tensors args') (\<lambda>inputs.
            bind_s (if \<not> isApply \<and> f \<noteq> ''str_to_date'' then addBroadcastToNodeOndemand inputs else return_s inputs) (\<lambda>inputs.
            scalar_dispatch env f retType args inputs))))"
  by pat_completeness auto
termination
  by (relation "measure (\<lambda>x. case x of
      Inl (env, tensors, e) \<Rightarrow> 2 * applications e + 1
    | Inr (Inl (env, tensors, es)) \<Rightarrow> 2 * (sum_list (map applications es) + length es) + 1
    | Inr (Inr (env, tensors, f, t, args, b)) \<Rightarrow> 2 * Suc (sum_list (map applications args) + length args))")
    (auto dest: effective_args_applications)

definition buildExpression :: "environment \<Rightarrow> Expression \<Rightarrow> (int, tref) gomap \<Rightarrow> bool \<Rightarrow> tref tr" where
  "buildExpression env expr tensors isApply =
    (case expr of
       ColumnExpr x \<Rightarrow> getTensorFromColumn x tensors
     | ScalarFunction f retType args \<Rightarrow> buildScalarFunction env tensors f retType args isApply
     | _ \<Rightarrow> fail_s (Errorf ''buildExpression doesn't support condition type %T''))"

section \<open>The plan only grows\<close>

lemma node_name_reveals_nothing: "node_name f \<notin> set revealing"
proof (cases "map_of astName2NodeName f")
  case None
  then show ?thesis by (simp add: node_name_def lookup_or_def not_revealing)
next
  case (Some n)
  then have "n \<in> snd ` set astName2NodeName" by (force dest: map_of_SomeD)
  then have "n \<notin> set revealing" by (auto simp: astName2NodeName_def not_revealing)
  with Some show ?thesis by (simp add: node_name_def lookup_or_def)
qed

lemma keeps_case_Datum_expr [keeps_intros]:
  "(\<And>d t. keeps R (f d t)) \<Longrightarrow> keeps R g \<Longrightarrow>
    keeps R (case e of Constant d t \<Rightarrow> f d t | ColumnExpr c \<Rightarrow> g | ScalarFunction n t as \<Rightarrow> g | CorrelatedColumn c \<Rightarrow> g)"
  by (cases e) simp_all

lemmas expr_keeps = tr_keeps keeps_case_Datum_expr keeps_addConstantNode keeps_addBroadcastToNodeOndemand keeps_addBinaryNode
  keeps_addCaseWhenNode keeps_addIfNode keeps_buildCompareNode keeps_extractPartyCodeFromTensor

lemma keeps_binary: "keeps tgrows (binary f l r)"
  unfolding binary_def by (rule keeps_addBinaryNode)

lemma keeps_trigonometric: "keeps tgrows (trigonometric f r)"
  unfolding trigonometric_def by (intro expr_keeps node_name_reveals_nothing)

lemma keeps_with_constant: "keeps tgrows (with_constant d r)"
  unfolding with_constant_def by (intro expr_keeps)

lemma keeps_convertDegreeToRadians: "keeps tgrows (convertDegreeToRadians r)"
  unfolding convertDegreeToRadians_def by (intro expr_keeps keeps_with_constant keeps_binary)

lemma keeps_buildGeoDistanceFunction: "keeps tgrows (buildGeoDistanceFunction ins)"
  unfolding buildGeoDistanceFunction_def
  by (intro expr_keeps keeps_binary keeps_trigonometric keeps_convertDegreeToRadians)

lemma keeps_finish_substr: "keeps tgrows (finish_substr env args r)"
  unfolding finish_substr_def by (intro expr_keeps)

lemma keeps_build_concat: "keeps tgrows (build_concat env ins)"
  unfolding build_concat_def by (intro expr_keeps)

lemma keeps_build_str_to_date: "keeps tgrows (build_str_to_date env args l r)"
  unfolding build_str_to_date_def by (intro expr_keeps)

text \<open>\<open>POW\<close> sets a flag of the tensor it has just created.\<close>

lemma grows_set_flag:
  assumes "grows s u" "length (Tensors s) \<le> r" and g: "\<And>t. t_ID (g t) = t_ID t" "\<And>t. t_CC (g t) = t_CC t"
      "\<And>t. t_status (g t) = t_status t" "\<And>t. t_OwnerPartyCode (g t) = t_OwnerPartyCode t"
  shows "grows s (set_tensor r g u)"
proof -
  have "node_reveal_ok (set_tensor r g u) n" if "node_reveal_ok u n" for n
    using that unfolding node_reveal_ok_def by (simp add: g)
  moreover have "extends s (set_tensor r g u)"
    using assms(1,2) by (auto simp: grows_def extends_def set_tensor_def list_update_append all_nodes_def)
  moreover have "ids_ok (set_tensor r g u)" if "ids_ok u"
    using that by (auto simp: ids_ok_def set_tensor_def nth_list_update tensor_def g)
  ultimately show ?thesis using assms(1) by (simp add: grows_def reveal_ok_def)
qed

lemma addBinaryNode_fresh:
  assumes "addBinaryNode name opType l r s = Inr (out, s')"
  shows "length (Tensors (ep s)) \<le> out \<and> out < length (Tensors (ep s'))"
proof -
  from assms obtain s2 t ts op where "out = length (Tensors (ep s2))" "tgrows s s2"
      and node: "add_node name opType ts [(arg_Out, [out])] [] (partyList op) (s2\<lparr>ep := push_tensor t (ep s2)\<rparr>) = Inr ((), s')"
    by (rule addBinaryNode_Inr)
  with add_node_effect[OF node] show ?thesis by (auto simp: tgrows_def grows_def dest: extends_length)
qed

lemma skip_type_check_Inr:
  "skip_type_check m s = Inr (out, s') \<longleftrightarrow>
    (\<exists>u. m s = Inr (out, u) \<and> s' = u\<lparr>ep := set_tensor out (\<lambda>t. t\<lparr>t_SkipDTypeCheck := True\<rparr>) (ep u)\<rparr>)"
  by (auto simp: skip_type_check_def split: sum.splits error.splits)

lemma keeps_skip_type_check: "keeps tgrows (skip_type_check (binary f l r))"
proof (rule keepsI)
  fix s out s' assume "skip_type_check (binary f l r) s = Inr (out, s')"
  then obtain u where run: "binary f l r s = Inr (out, u)"
      and s': "s' = u\<lparr>ep := set_tensor out (\<lambda>t. t\<lparr>t_SkipDTypeCheck := True\<rparr>) (ep u)\<rparr>"
    by (auto simp: skip_type_check_Inr)
  have "grows (ep s) (ep s')"
    using keepsD[OF keeps_binary run] addBinaryNode_fresh[OF run[unfolded binary_def]]
    by (auto simp: s' tgrows_def intro!: grows_set_flag)
  with keepsD[OF keeps_binary run] show "tgrows s s'" by (simp add: tgrows_def s' same_static_def)
qed

lemma keeps_case_list1: "(\<And>r. keeps R (f r)) \<Longrightarrow> keeps R g \<Longrightarrow> keeps R (case xs of [r] \<Rightarrow> f r | _ \<Rightarrow> g)"
  by (auto split: list.split)

lemma keeps_case_list2: "(\<And>l r. keeps R (f l r)) \<Longrightarrow> keeps R g \<Longrightarrow> keeps R (case xs of [l, r] \<Rightarrow> f l r | _ \<Rightarrow> g)"
  by (auto split: list.split)

lemma keeps_case_list3: "(\<And>a b c. keeps R (f a b c)) \<Longrightarrow> keeps R g \<Longrightarrow> keeps R (case xs of a # b # c # _ \<Rightarrow> f a b c | _ \<Rightarrow> g)"
  by (auto split: list.split)

lemma keeps_scalar_dispatch: "keeps tgrows (scalar_dispatch env f t args ins)"
  unfolding scalar_dispatch_def scalar_case_def
  by (intro expr_keeps keeps_case_list1 keeps_case_list2 keeps_case_list3 node_name_reveals_nothing keeps_binary
      keeps_skip_type_check keeps_build_concat keeps_with_constant keeps_buildGeoDistanceFunction keeps_build_str_to_date)

lemma keeps_getTensorFromColumn: "keeps tgrows (getTensorFromColumn c ts)"
  unfolding getTensorFromColumn_def by (intro expr_keeps)

lemma keeps_build_now: "keeps tgrows (build_now f)"
  unfolding build_now_def by (intro expr_keeps)

declare buildScalarFunction.simps [simp del]

lemma keeps_case_args: "(\<And>a as. xs = a # as \<Longrightarrow> keeps R (f a)) \<Longrightarrow> keeps R g \<Longrightarrow> keeps R (case xs of [] \<Rightarrow> g | a # _ \<Rightarrow> f a)"
  by (cases xs) simp_all

lemma keeps_case_result: "(\<And>a. x = Inr a \<Longrightarrow> keeps R (f a)) \<Longrightarrow> keeps R (case x of Inl e \<Rightarrow> fail_s e | Inr a \<Rightarrow> f a)"
  by (cases x) (simp_all only: sum.case keeps_fail)

lemma keeps_if_cases: "(P \<Longrightarrow> keeps R a) \<Longrightarrow> (\<not> P \<Longrightarrow> keeps R b) \<Longrightarrow> keeps R (if P then a else b)"
  by simp

lemma keeps_translation:
  "keeps tgrows (getTensorFromExpression env ts e)" "keeps tgrows (build_args env ts es)"
  "keeps tgrows (buildScalarFunction env ts f t args b)"
proof (induction env ts e and env ts es and env ts f t args b
    rule: getTensorFromExpression_build_args_buildScalarFunction.induct)
  case (7 env ts f t args b)
  show ?case
    unfolding buildScalarFunction.simps
  proof (rule keeps_if_cases, goal_cases)
    case 1
    show ?case by (rule keeps_build_now)
  next
    case not_now: 2
    show ?case
    proof (rule keeps_if_cases, goal_cases)
      case 1
      show ?case
        by (rule keeps_case_args) (intro tr.keeps_bind keeps_wrap keeps_finish_substr 7(1)[OF not_now 1], assumption, rule keeps_fail)
    next
      case 2
      show ?case
        by (rule keeps_case_result)
          (intro tr.keeps_bind 7(2)[OF not_now 2] keeps_if keeps_addBroadcastToNodeOndemand tr.keeps_return keeps_scalar_dispatch, assumption)
    qed
  qed
next
  case (6 env ts e es)
  then show ?case unfolding build_args.simps by (intro tr.keeps_bind tr.keeps_return)
next
  case (1 env ts x)
  show ?case unfolding getTensorFromExpression.simps by (rule keeps_getTensorFromColumn)
next
  case (2 env ts f t args)
  then show ?case unfolding getTensorFromExpression.simps .
next
  case (3 env ts v t)
  show ?case unfolding getTensorFromExpression.simps by (rule keeps_addConstantNode)
next
  case (4 env ts x)
  show ?case unfolding getTensorFromExpression.simps by (rule keeps_fail)
next
  case (5 env ts)
  show ?case unfolding build_args.simps by (rule tr.keeps_return)
qed

lemma keeps_buildExpression: "keeps tgrows (buildExpression env e ts b)"
  unfolding buildExpression_def by (cases e; simp only: Expression.case; intro keeps_getTensorFromColumn keeps_translation tr_keeps)

end
