(* ===== verification/Expr_Levels.thy ===== *)
theory Expr_Levels
  imports Translator_Expr
begin

text \<open>
  Control lists along the translation of an expression.  The tensor built for an expression has, for every party,
  the level that the planner infers for the expression (\<open>InferExpressionCCL\<close>), for the functions whose nodes join
  the control lists of their arguments.  Those that do not are named.
\<close>

section \<open>Levels\<close>

definition ref_ok :: "translator \<Rightarrow> tref \<Rightarrow> bool" where
  "ref_ok s r \<longleftrightarrow> r < length (Tensors (ep s))"

definition level :: "string \<Rightarrow> translator \<Rightarrow> tref \<Rightarrow> CCLLevel" where
  "level p s r = LevelFor (t_CC (tensor (ep s) r)) p"

lemma tgrows_level: "tgrows s t \<Longrightarrow> ref_ok s r \<Longrightarrow> ref_ok t r \<and> level p t r = level p s r"
  by (auto simp: ref_ok_def level_def tgrows_tensor tgrows_def grows_def dest: extends_length)

text \<open>A constructor whose output has the levels of the tensor \<open>r\<close>.\<close>

definition levels_of :: "tref \<Rightarrow> tref build \<Rightarrow> bool" where
  "levels_of r m \<longleftrightarrow> (\<forall>plan out plan' p. m plan = Inr (out, plan') \<longrightarrow>
    out < length (Tensors plan') \<and> LevelFor (t_CC (tensor plan' out)) p = LevelFor (t_CC (tensor plan r)) p)"

lemma levels_of_in_ep:
  assumes "in_ep m s = Inr (out, s')" "levels_of r m"
  shows "ref_ok s' out \<and> level p s' out = level p s r"
  using assms by (auto simp: in_ep_Inr levels_of_def ref_ok_def level_def)

lemma levels_of_bind:
  assumes "\<And>a. levels_of r (k a)" "\<And>plan a plan'. m plan = Inr (a, plan') \<Longrightarrow> plan' = plan"
  shows "levels_of r (bind_s m k)"
  using assms unfolding levels_of_def by (auto simp: bind_s_Inr) blast+

lemma levels_of_output:
  assumes "\<And>t p. LevelFor (t_CC (f t)) p = LevelFor (t_CC t) p"
  shows "levels_of r (bind_s (AddTensorAs_set r f) (\<lambda>out. returning out (AddExecutionNode name opType ins [(''Out'', [out])] attrs parties)))"
  using one_output_tensor assms unfolding levels_of_def by (fastforce)

lemma AddTensorAs_as_set: "AddTensorAs r = AddTensorAs_set r (\<lambda>t. t)"
  by (rule ext) (simp add: AddTensorAs_app AddTensorAs_set_app)

lemma levels_of_AddNotNode: "levels_of r (AddNotNode name r ps)"
  unfolding AddNotNode_def AddTensorAs_as_set by (rule levels_of_output) simp

lemma levels_of_AddIsNullNode: "levels_of r (AddIsNullNode name r)"
  unfolding AddIsNullNode_def by (rule levels_of_bind, rule levels_of_output) simp_all

lemma levels_of_AddIfNullNode: "levels_of r (AddIfNullNode name r alt)"
  unfolding AddIfNullNode_def by (rule levels_of_bind, rule levels_of_output) simp_all

lemma levels_of_AddTrigonometricFunction: "levels_of r (AddTrigonometricFunction name opType r ps)"
  unfolding AddTrigonometricFunction_def
  by (rule levels_of_bind, rule levels_of_bind, rule levels_of_output) (simp_all split: if_splits)

lemma levels_of_AddUnaryNumericNode: "levels_of r (AddUnaryNumericNode name opType r dt ps)"
  unfolding AddUnaryNumericNode_def
  by (rule levels_of_bind, rule levels_of_bind, rule levels_of_output) (simp_all split: if_splits)

lemma levels_of_AddArrowFuncNode: "levels_of r (AddArrowFuncNode name fn opt (r # rs) dt)"
  unfolding levels_of_def AddArrowFuncNode_def
  by (auto simp: bind_s_Inr bind_r_Inr AddTensorAs_set_app returning_Inr AddExecutionNode_Inr at_def simp del: tensor_push)
    (simp_all add: tensor_push)

lemma levels_of_AddCoalesceNode: "levels_of r (AddCoalesceNode name (r # rs))"
  unfolding levels_of_def AddCoalesceNode_def
  by (auto simp: bind_s_Inr bind_r_Inr AddTensorAs_set_app returning_Inr AddExecutionNode_Inr at_def simp del: tensor_push)
    (simp_all add: tensor_push)

lemma levels_of_AddCastNode: "levels_of r (AddCastNode name dt r ps)"
  unfolding AddCastNode_def
  by (rule levels_of_bind, rule levels_of_bind, rule levels_of_output) (simp_all split: if_splits)

text \<open>Constants are in the clear for every party of the plan.\<close>

definition participant :: "translator \<Rightarrow> string \<Rightarrow> bool" where
  "participant s p \<longleftrightarrow> p \<in> set (PartyInfo_GetParties (partyInfo (enginesInfo s)))"

lemma tgrows_participant: "tgrows s t \<Longrightarrow> participant t p = participant s p"
  by (simp add: tgrows_def same_static_def participant_def)

lemma addConstantNode_level:
  assumes "addConstantNode v s = Inr (out, s')" "participant s p"
  shows "ref_ok s' out \<and> level p s' out = Plain"
  using assms unfolding addConstantNode_def engine_parties_def AddConstantNode_def
  by (auto simp: bind_s_Inr in_ep_Inr AddColumn_set_app returning_Inr AddExecutionNode_Inr ref_ok_def level_def participant_def
      LevelFor_fold_Plain)

text \<open>Broadcasting replaces constants by tensors of the same levels.\<close>

lemma map_s_AddTensorAs_levels:
  assumes "map_s (\<lambda>ref. AddTensorAs_set ref f) rs plan = Inr (outs, plan')"
    and "\<And>t p. LevelFor (t_CC (f t)) p = LevelFor (t_CC t) p" "\<forall>r \<in> set rs. r < length (Tensors plan)"
  shows "list_all2 (\<lambda>r out. out < length (Tensors plan') \<and> LevelFor (t_CC (tensor plan' out)) p = LevelFor (t_CC (tensor plan r)) p) rs outs
    \<and> extends plan plan'"
  using assms(1,3)
proof (induction rs arbitrary: plan outs)
  case (Cons r rs)
  let ?t = "f (tensor_as (tensor plan r) (int (tensorNum plan)))"
  let ?mid = "push_tensor ?t plan" and ?out = "length (Tensors plan)"
  from Cons.prems obtain out mid outs' where "AddTensorAs_set r f plan = Inr (out, mid)" "outs = out # outs'"
      "map_s (\<lambda>ref. AddTensorAs_set ref f) rs mid = Inr (outs', plan')"
    by (auto simp: bind_s_Inr)
  then have outs: "outs = ?out # outs'" and rest: "map_s (\<lambda>ref. AddTensorAs_set ref f) rs ?mid = Inr (outs', plan')"
    by (auto simp: AddTensorAs_set_app[of r f plan])
  have ih: "list_all2 (\<lambda>r out. out < length (Tensors plan') \<and> LevelFor (t_CC (tensor plan' out)) p = LevelFor (t_CC (tensor ?mid r)) p) rs outs'"
      "extends ?mid plan'"
    using Cons.IH[OF rest] Cons.prems(2) by (auto intro: less_SucI)
  have keep: "tensor ?mid q = tensor plan q" if "q < length (Tensors plan)" for q
    using extends_tensor[OF extends_push that] .
  have "list_all2 (\<lambda>r out. out < length (Tensors plan') \<and> LevelFor (t_CC (tensor plan' out)) p = LevelFor (t_CC (tensor plan r)) p) rs outs'"
    using ih(1) Cons.prems(2) keep by (auto simp: list_all2_conv_all_nth simp del: tensor_push)
  moreover have "tensor plan' ?out = ?t" "?out < length (Tensors plan')"
    using extends_tensor[OF ih(2), of ?out] extends_length[OF ih(2)] by simp_all
  ultimately show ?case
    using extends_trans[OF extends_push ih(2)] assms(2) by (simp add: outs)
qed auto

lemma AddBroadcastToNode_levels:
  assumes "AddBroadcastToNode name ins shape plan = Inr (outs, plan')" "\<forall>r \<in> set ins. r < length (Tensors plan)"
  shows "list_all2 (\<lambda>r out. out < length (Tensors plan') \<and> LevelFor (t_CC (tensor plan' out)) p = LevelFor (t_CC (tensor plan r)) p) ins outs"
proof -
  let ?f = "\<lambda>out. if t_status (tensor plan shape) = TENSORSTATUS_PRIVATE
      then out\<lparr>t_IsConstScalar := False, t_status := TENSORSTATUS_PRIVATE, t_OwnerPartyCode := t_OwnerPartyCode (tensor plan shape)\<rparr>
      else out\<lparr>t_IsConstScalar := False\<rparr>"
  from assms(1) obtain mid where m: "map_s (\<lambda>ref. AddTensorAs_set ref ?f) ins plan = Inr (outs, mid)"
      and "Tensors plan' = Tensors mid"
    unfolding AddBroadcastToNode_def Let_def
    by (auto simp: bind_s_Inr returning_Inr AddExecutionNode_Inr)
  then have "tensor plan' r = tensor mid r" for r by (simp add: tensor_def)
  with map_s_AddTensorAs_levels[OF m _ assms(2), of p] \<open>Tensors plan' = Tensors mid\<close> show ?thesis
    by (auto simp: elim!: list_all2_mono)
qed

lemma broadcast_merge:
  "length rest = length (filter c ins) \<Longrightarrow> list_all2 R (filter c ins) rest \<Longrightarrow> (\<And>r. r \<in> set ins \<Longrightarrow> \<not> c r \<Longrightarrow> R r r) \<Longrightarrow>
    list_all2 R ins' outs \<Longrightarrow>
    list_all2 R (ins' @ ins) (fst (fold (\<lambda>input (outs, rest). if c input then (outs @ [hd rest], tl rest) else (outs @ [input], rest))
      ins (outs, rest)))"
proof (induction ins arbitrary: ins' outs rest)
  case (Cons r ins)
  show ?case
  proof (cases "c r")
    case True
    with Cons.prems obtain q rest' where "rest = q # rest'" "R r q" "list_all2 R (filter c ins) rest'"
      by (auto simp: list_all2_Cons1)
    with True Cons.IH[of rest' "ins' @ [r]" "outs @ [q]"] Cons.prems show ?thesis
      by (auto intro: list_all2_appendI dest: list_all2_lengthD)
  next
    case False
    with Cons.IH[of rest "ins' @ [r]" "outs @ [r]"] Cons.prems show ?thesis
      by (auto intro: list_all2_appendI)
  qed
qed simp

definition same_levels :: "string \<Rightarrow> translator \<Rightarrow> translator \<Rightarrow> tref \<Rightarrow> tref \<Rightarrow> bool" where
  "same_levels p s s' r out \<longleftrightarrow> ref_ok s' out \<and> level p s' out = level p s r"

lemma addBroadcastToNodeOndemand_levels:
  assumes "addBroadcastToNodeOndemand ins s = Inr (outs, s')" "\<forall>r \<in> set ins. ref_ok s r"
  shows "list_all2 (same_levels p s s') ins outs"
proof -
  let ?c = "\<lambda>r. t_IsConstScalar (tensor (ep s) r)"
  have same: "list_all2 (same_levels p s s) ins ins"
    using assms(2) by (auto simp: list_all2_same same_levels_def)
  have "outs = ins \<and> s' = s \<or> (\<exists>rest shape. in_ep (AddBroadcastToNode ''broadcast'' (filter ?c ins) shape) s = Inr (rest, s') \<and>
      outs = fst (fold (\<lambda>input (outs, rest). if ?c input then (outs @ [hd rest], tl rest) else (outs @ [input], rest)) ins ([], rest)))"
    using assms(1) unfolding addBroadcastToNodeOndemand_def Let_def
    by (simp add: bind_s_app bind_r_Inr wrap_s_def wrap_r_def split: if_splits sum.splits error.splits) blast+
  then show ?thesis
  proof (elim disjE exE conjE)
    fix rest shape
    assume run: "in_ep (AddBroadcastToNode ''broadcast'' (filter ?c ins) shape) s = Inr (rest, s')"
      and outs: "outs = fst (fold (\<lambda>input (outs, rest). if ?c input then (outs @ [hd rest], tl rest) else (outs @ [input], rest)) ins ([], rest))"
    have lv: "list_all2 (same_levels p s s') (filter ?c ins) rest"
      using run AddBroadcastToNode_levels[of "''broadcast''" "filter ?c ins" shape "ep s" rest _ p] assms(2)
      by (auto simp: in_ep_Inr same_levels_def ref_ok_def level_def elim!: list_all2_mono)
    have "tgrows s s'" by (rule keepsD[OF keeps_in_ep[OF keeps_AddBroadcastToNode] run])
    then have "same_levels p s s' r r" if "r \<in> set ins" for r
      using tgrows_level assms(2) that by (simp add: same_levels_def)
    with broadcast_merge[of rest ?c ins "same_levels p s s'" "[]" "[]"] lv show ?thesis
      by (auto simp: outs dest: list_all2_lengthD)
  qed (use same in simp)
qed

lemma compare_names: "node_name f \<in> set isCompareOpMap \<longleftrightarrow> f \<in> set isCompareAstFuncMap \<and> f \<noteq> ''geodist''"
proof (cases "map_of astName2NodeName f")
  case None
  then have "f \<notin> fst ` set astName2NodeName" by (simp add: map_of_eq_None_iff)
  then show ?thesis using None
    by (simp add: node_name_def lookup_or_def isCompareOpMap_def isCompareAstFuncMap_def astName2NodeName_def op_name_defs)
next
  case (Some n)
  then have "(f, n) \<in> set astName2NodeName" by (rule map_of_SomeD)
  with Some show ?thesis
    by (simp add: node_name_def lookup_or_def)
      (auto simp: isCompareOpMap_def isCompareAstFuncMap_def astName2NodeName_def op_name_defs)
qed

text \<open>The level that inference gives a function of arguments with the levels \<open>ls\<close>.\<close>

definition combine :: "string \<Rightarrow> CCLLevel list \<Rightarrow> CCLLevel" where
  "combine f ls = foldl (if f \<in> set isCompareAstFuncMap then inferCompareFuncCCL else LookUpVis) (hd ls) (tl ls)"

lemma combine_simps:
  "combine f [l] = l"
  "f \<notin> set isCompareAstFuncMap \<Longrightarrow> combine f [k, l] = sup k l"
  "f \<notin> set isCompareAstFuncMap \<Longrightarrow> combine f (l # ls) = Sup_fin (set (l # ls))"
proof -
  have "foldl LookUpVis l ls = fold sup ls l"
    by (induction ls arbitrary: l) (simp_all add: LookUpVis_sup sup_commute)
  then show "f \<notin> set isCompareAstFuncMap \<Longrightarrow> combine f (l # ls) = Sup_fin (set (l # ls))"
    unfolding Sup_fin.set_eq_fold by (simp add: combine_def)
qed (simp_all add: combine_def LookUpVis_sup)

lemma binary_level:
  assumes "binary f l r s = Inr (out, s')" "ref_ok s l" "ref_ok s r" "f \<noteq> ''geodist''"
  shows "ref_ok s' out \<and> level p s' out = combine f [level p s l, level p s r]"
  using addBinaryNode_clear(1)[OF assms(1)[unfolded binary_def], of p] addBinaryNode_fresh[OF assms(1)[unfolded binary_def]] assms(2-)
  by (simp add: ref_ok_def level_def LevelFor_InferBinaryOp compare_names combine_def)

lemma finish_choice_level:
  assumes run: "finish_choice msg name opType inputTs inCcls (length (Tensors (ep s))) (t_CC t) (s\<lparr>ep := push_tensor t (ep s)\<rparr>) = Inr (out, s')"
  shows "ref_ok s' out \<and> level p s' out = LevelFor (t_CC t) p"
  using run
proof (rule finish_choice_Inr)
  let ?out = "length (Tensors (ep s))" and ?s = "s\<lparr>ep := push_tensor t (ep s)\<rparr>"
  fix ts op s2
  assume out: "out = ?out" and grow: "ctgrows ?s s2"
    and node: "add_node name opType ts [(''Out'', [?out])] [] (partyList op)
      (s2\<lparr>ep := set_tensor ?out (place_output op) (ep s2)\<rparr>) = Inr ((), s')"
  have ext: "extends (ep ?s) (ep s2)" using grow by (simp add: ctgrows_def cgrows_def grows_def)
  have "tensor (ep s2) ?out = t" "?out < length (Tensors (ep s2))"
    using extends_tensor[OF ext, of ?out] extends_length[OF ext] by simp_all
  with add_node_effect[OF node, of ?out] out show ?thesis by (simp add: ref_ok_def level_def)
qed

lemma LevelFor_restrict_by:
  "LevelFor (restrict_by (ep s) rs cc) p = fold sup (map (level p s) rs) (LevelFor cc p)"
  unfolding restrict_by_def by (induction rs arbitrary: cc) (simp_all add: LookUpVis_sup level_def sup_commute)

lemma case_pairs_set: "odd (length xs) \<Longrightarrow> set xs = set (map fst (case_pairs xs)) \<union> set (map snd (case_pairs xs)) \<union> {last xs}"
  by (induction xs rule: case_pairs.induct) auto

lemma addCaseWhenNode_level:
  assumes "addCaseWhenNode name conds vals e s = Inr (out, s')"
  shows "ref_ok s' out \<and> level p s' out = Sup_fin (level p s ` (set conds \<union> set vals \<union> {e}))"
  using assms
proof (rule addCaseWhenNode_Inr)
  fix t ins
  assume cc: "t_CC t = restrict_by (ep s) vals (restrict_by (ep s) conds (Clone (t_CC (tensor (ep s) e))))"
    and run: "finish_choice ''addCaseWhenNode: %v'' name OpNameCaseWhen [(arg_Condition, conds), (arg_Value, vals), (arg_ValueElse, [e])] ins
      (length (Tensors (ep s))) (t_CC t) (s\<lparr>ep := push_tensor t (ep s)\<rparr>) = Inr (out, s')"
  have "LevelFor (t_CC t) p = fold sup (map (level p s) (conds @ vals)) (level p s e)"
    by (simp add: cc LevelFor_restrict_by level_def)
  also have "\<dots> = Sup_fin (set (level p s e # map (level p s) (conds @ vals)))" unfolding Sup_fin.set_eq_fold ..
  finally show ?thesis using finish_choice_level[OF run, of p] by (simp add: image_Un)
qed

lemma addIfNode_level:
  assumes "addIfNode name c a b s = Inr (out, s')"
  shows "ref_ok s' out \<and> level p s' out = Sup_fin (level p s ` {c, a, b})"
  using assms
proof (rule addIfNode_Inr)
  fix t ins
  assume cc: "t_CC t = restrict_by (ep s) [b, c] (Clone (t_CC (tensor (ep s) a)))"
    and run: "finish_choice ''addIfNode: %v'' name OpNameIf [(arg_Condition, [c]), (arg_ValueIfTrue, [a]), (arg_ValueIfFalse, [b])] ins
      (length (Tensors (ep s))) (t_CC t) (s\<lparr>ep := push_tensor t (ep s)\<rparr>) = Inr (out, s')"
  have "LevelFor (t_CC t) p = fold sup (map (level p s) [b, c]) (level p s a)"
    by (simp add: cc LevelFor_restrict_by level_def)
  also have "\<dots> = Sup_fin (set (level p s a # map (level p s) [b, c]))" unfolding Sup_fin.set_eq_fold ..
  finally show ?thesis using finish_choice_level[OF run, of p] by (simp add: insert_commute)
qed

lemma with_constant_level:
  assumes "with_constant d r s = Inr ((c, x), s')" "ref_ok s r" "participant s p"
  shows "ref_ok s' c \<and> ref_ok s' x \<and> level p s' c = Plain \<and> level p s' x = level p s r"
proof -
  from assms(1) obtain c0 s1 outs where c0: "addConstantNode d s = Inr (c0, s1)"
      and b: "addBroadcastToNodeOndemand [c0, r] s1 = Inr (outs, s')" and outs: "outs = c # x # drop 2 outs"
    unfolding with_constant_def
    by (auto simp: bind_s_Inr bind_r_Inr at_def split: if_splits) (metis Cons_nth_drop_Suc One_nat_def Suc_lessD drop0 numeral_2_eq_2)
  note lc = addConstantNode_level[OF c0 assms(3)]
  have r: "ref_ok s1 r \<and> level p s1 r = level p s r"
    using tgrows_level[OF keepsD[OF keeps_addConstantNode c0] assms(2)] .
  have "list_all2 (same_levels p s1 s') [c0, r] outs"
    using addBroadcastToNodeOndemand_levels[OF b] lc r by simp
  then show ?thesis using lc r by (subst (asm) outs) (simp add: same_levels_def)
qed

text \<open>Functions with one argument of the same level as the result.\<close>

definition unaryFuncs :: "string list" where
  "unaryFuncs = [''isnull'', ''lower'', ''upper'', ''trim'', ''unaryplus'', ''unaryminus'']"

text \<open>Functions whose result is not, or not always, the join of what they are given.\<close>

definition leakyFuncs :: "string list" where
  "leakyFuncs = [''ifnull'', ''coalesce'', ''concat'', ''geodist'']"

definition regular :: "string \<Rightarrow> nat \<Rightarrow> bool" where
  "regular f n \<longleftrightarrow> f \<notin> set leakyFuncs \<and> f \<notin> {''greatest'', ''least''}
    \<and> (f \<in> set unaryFuncs \<longrightarrow> n = 1) \<and> (f = ''if'' \<longrightarrow> n = 3)"

lemmas func_lists = unaryFuncs_def leakyFuncs_def binaryFuncs_def trigonometricFuncs_def unaryNumericFuncs_def
  isCompareAstFuncMap_def skipTypeCheckAst_def

text \<open>The names with a branch of their own, disjoint from the groups of names that share one.\<close>

definition namedFuncs :: "string list" where
  "namedFuncs = [''not'', ''isnull'', ''lower'', ''upper'', ''trim'', ''concat'', ''cast'', ''greatest'', ''least'', ''case'', ''if'',
    ''unaryminus'', ''unaryplus'', ''ifnull'', ''coalesce'', ''cot'', ''geodist'', ''atan2'', ''str_to_date'']"

lemma names_disjoint:
  "f \<in> set binaryFuncs \<Longrightarrow> f \<notin> set namedFuncs"
  "f \<in> set trigonometricFuncs \<Longrightarrow> f \<notin> set namedFuncs \<and> f \<notin> set binaryFuncs"
  "f \<in> set unaryNumericFuncs \<Longrightarrow> f \<notin> set namedFuncs \<and> f \<notin> set binaryFuncs \<and> f \<notin> set trigonometricFuncs"
  "f \<in> set namedFuncs \<Longrightarrow> f \<notin> set binaryFuncs \<and> f \<notin> set trigonometricFuncs \<and> f \<notin> set unaryNumericFuncs"
proof -
  have "\<forall>f \<in> set namedFuncs. f \<notin> set binaryFuncs \<and> f \<notin> set trigonometricFuncs \<and> f \<notin> set unaryNumericFuncs"
    by code_simp
  moreover have "\<forall>f \<in> set trigonometricFuncs. f \<notin> set binaryFuncs" by code_simp
  moreover have "\<forall>f \<in> set unaryNumericFuncs. f \<notin> set binaryFuncs \<and> f \<notin> set trigonometricFuncs" by code_simp
  ultimately show "f \<in> set binaryFuncs \<Longrightarrow> f \<notin> set namedFuncs"
    "f \<in> set trigonometricFuncs \<Longrightarrow> f \<notin> set namedFuncs \<and> f \<notin> set binaryFuncs"
    "f \<in> set unaryNumericFuncs \<Longrightarrow> f \<notin> set namedFuncs \<and> f \<notin> set binaryFuncs \<and> f \<notin> set trigonometricFuncs"
    "f \<in> set namedFuncs \<Longrightarrow> f \<notin> set binaryFuncs \<and> f \<notin> set trigonometricFuncs \<and> f \<notin> set unaryNumericFuncs"
    by blast+
qed

lemma scalar_case_binary:
  "f \<in> set binaryFuncs \<Longrightarrow> scalar_case env f t args ins r x ps =
    (case ins of
       [l, r] \<Rightarrow> if f \<in> set skipTypeCheckAst then skip_type_check (binary f l r) else binary f l r
     | _ \<Rightarrow> fail_s bad_arguments)"
  using names_disjoint(1)[of f] by (simp add: scalar_case_def namedFuncs_def)

lemma scalar_case_trigonometric:
  "f \<in> set trigonometricFuncs \<Longrightarrow> scalar_case env f t args ins r x ps =
    (case ins of
       [r] \<Rightarrow> in_ep (AddTrigonometricFunction (node_name f) (node_name f) r ps)
     | _ \<Rightarrow> fail_s incorrect_arguments)"
  using names_disjoint(2)[of f] by (simp add: scalar_case_def namedFuncs_def)

lemma scalar_case_numeric:
  "f \<in> set unaryNumericFuncs \<Longrightarrow> scalar_case env f t args ins r x ps =
    (case ins of
       [r] \<Rightarrow> in_ep (AddUnaryNumericNode (node_name f) (node_name f) r (lookup_or (t_DType x) unaryOutputType f) ps)
     | _ \<Rightarrow> fail_s incorrect_arguments)"
  using names_disjoint(3)[of f] by (simp add: scalar_case_def namedFuncs_def)

lemma scalar_case_unsupported:
  "f \<notin> set (binaryFuncs @ trigonometricFuncs @ unaryNumericFuncs @ namedFuncs) \<Longrightarrow>
    scalar_case env f t args ins r x ps = fail_s (Errorf ''buildScalarFunction doesn't support %s'')"
  by (simp add: namedFuncs_def scalar_case_def)

lemma scalar_case_named:
  "scalar_case env ''not'' t args ins r x ps =
    (case ins of [r] \<Rightarrow> in_ep (AddNotNode ''not'' r ps) | _ \<Rightarrow> fail_s bad_arguments)"
  "scalar_case env ''isnull'' t args ins r x ps = in_ep (AddIsNullNode ''is_null'' r)"
  "scalar_case env ''lower'' t args ins r x ps = in_ep (AddArrowFuncNode ''arrow_lower'' ''utf8_lower'' None ins (t_DType x))"
  "scalar_case env ''upper'' t args ins r x ps = in_ep (AddArrowFuncNode ''arrow_upper'' ''utf8_upper'' None ins (t_DType x))"
  "scalar_case env ''trim'' t args ins r x ps =
    in_ep (AddArrowFuncNode ''arrow_trim'' ''utf8_trim'' (arrow_options env (Some (TrimOptions '' ''))) ins (t_DType x))"
  "scalar_case env ''cast'' t args ins r x ps =
    (case ins of
       [r] \<Rightarrow> bind_s (wrap_s ''buildScalarFunction: %v '' (lift_r (convertDataType t))) (\<lambda>tp. in_ep (AddCastNode ''cast'' tp r ps))
     | _ \<Rightarrow> fail_s bad_arguments)"
  "scalar_case env ''atan2'' t args ins r x ps =
    (case ins of [l, r] \<Rightarrow> binary ''atan2'' l r | _ \<Rightarrow> fail_s incorrect_arguments)"
  "scalar_case env ''if'' t args ins r x ps =
    (case ins of c # t # e # _ \<Rightarrow> addIfNode (node_name ''if'') c t e | _ \<Rightarrow> fail_s (Panic ''index out of range''))"
  "scalar_case env ''unaryplus'' t args ins r x ps = return_s r"
  "scalar_case env ''ifnull'' t args ins r x ps =
    (case ins of [e, alt] \<Rightarrow> in_ep (AddIfNullNode ''ifnull'' e alt) | _ \<Rightarrow> fail_s bad_arguments)"
  "scalar_case env ''coalesce'' t args ins r x ps = in_ep (AddCoalesceNode ''coalesce'' ins)"
  "scalar_case env ''concat'' t args ins r x ps = build_concat env ins"
  "scalar_case env ''str_to_date'' t args ins r x ps =
    (case ins of [l, r] \<Rightarrow> build_str_to_date env args l r | _ \<Rightarrow> fail_s incorrect_arguments)"
  by (simp_all add: scalar_case_def func_lists)

lemma scalar_case_cot: "scalar_case env ''cot'' t args ins r x ps s = Inr y \<Longrightarrow> \<exists>q. ins = [q]"
  by (simp add: scalar_case_def func_lists split: list.splits)

definition oneArgFuncs :: "string list" where
  "oneArgFuncs = [''not'', ''isnull'', ''lower'', ''upper'', ''trim'', ''cast'']"

lemma named_cases:
  "f \<in> set namedFuncs \<Longrightarrow> f \<in> set leakyFuncs \<or> f \<in> {''greatest'', ''least''} \<or> f = ''str_to_date'' \<or> f \<in> set oneArgFuncs
    \<or> f = ''atan2'' \<or> f = ''case'' \<or> f = ''if'' \<or> f = ''unaryminus'' \<or> f = ''unaryplus'' \<or> f = ''cot''"
proof -
  have "\<forall>f \<in> set namedFuncs. f \<in> set leakyFuncs \<or> f \<in> {''greatest'', ''least''} \<or> f = ''str_to_date'' \<or> f \<in> set oneArgFuncs
    \<or> f = ''atan2'' \<or> f = ''case'' \<or> f = ''if'' \<or> f = ''unaryminus'' \<or> f = ''unaryplus'' \<or> f = ''cot''"
    by code_simp
  then show "f \<in> set namedFuncs \<Longrightarrow> f \<in> set leakyFuncs \<or> f \<in> {''greatest'', ''least''} \<or> f = ''str_to_date'' \<or> f \<in> set oneArgFuncs
    \<or> f = ''atan2'' \<or> f = ''case'' \<or> f = ''if'' \<or> f = ''unaryminus'' \<or> f = ''unaryplus'' \<or> f = ''cot''" by (rule bspec)
qed

lemma unaryminus_level:
  assumes "scalar_case env ''unaryminus'' t args ins r x ps s = Inr (out, s')" "ref_ok s r" "participant s p"
  shows "ref_ok s' out \<and> level p s' out = level p s r"
proof -
  from assms(1) obtain c y s1 where c: "with_constant (KindInt64 0) r s = Inr ((c, y), s1)"
      and run: "binary ''unaryminus'' c y s1 = Inr (out, s')"
    by (auto simp: scalar_case_def func_lists bind_s_Inr)
  note l = with_constant_level[OF c assms(2,3)]
  with binary_level[OF run, of p] show ?thesis by (simp add: combine_def isCompareAstFuncMap_def LookUpVis_def)
qed

lemma cot_level:
  assumes "scalar_case env ''cot'' t args [r] q x ps s = Inr (out, s')" "ref_ok s r" "participant s p"
  shows "ref_ok s' out \<and> level p s' out = level p s r"
proof -
  from assms(1) obtain c s1 tan s2 outs s3 where c: "addConstantNode (KindInt64 1) s = Inr (c, s1)"
      and t: "in_ep (AddTrigonometricFunction (node_name ''tan'') (node_name ''tan'') r ps) s1 = Inr (tan, s2)"
      and b: "addBroadcastToNodeOndemand [c, tan] s2 = Inr (outs, s3)"
      and run: "binary ''div'' (outs ! 0) (outs ! 1) s3 = Inr (out, s')"
    by (auto simp: scalar_case_def func_lists bind_s_Inr bind_r_Inr at_def split: if_splits)
  have gt: "tgrows s1 s2" by (rule keepsD[OF keeps_in_ep[OF keeps_AddTrigonometricFunction[OF node_name_reveals_nothing]] t])
  have r: "ref_ok s1 r" "level p s1 r = level p s r"
    using tgrows_level[OF keepsD[OF keeps_addConstantNode c] assms(2), of p] by simp_all
  have c2: "ref_ok s2 c" "level p s2 c = Plain" using tgrows_level[OF gt, of c p] addConstantNode_level[OF c assms(3)] by simp_all
  have t2: "ref_ok s2 tan" "level p s2 tan = level p s r"
    using levels_of_in_ep[OF t levels_of_AddTrigonometricFunction, of p] r by simp_all
  have "list_all2 (same_levels p s2 s3) [c, tan] outs" using addBroadcastToNodeOndemand_levels[OF b] c2 t2 by simp
  then obtain a d where "outs = [a, d]" "same_levels p s2 s3 c a" "same_levels p s2 s3 tan d"
    by (auto simp: list_all2_Cons1)
  with binary_level[OF run, of p] c2 t2 show ?thesis
    by (simp add: same_levels_def combine_def isCompareAstFuncMap_def LookUpVis_def)
qed

lemma case_level:
  assumes "scalar_case env ''case'' t args ins r x ps s = Inr (out, s')"
  shows "ref_ok s' out \<and> level p s' out = combine ''case'' (map (level p s) ins)"
proof -
  from assms have odd: "odd (length ins)"
      and run: "addCaseWhenNode (node_name ''case'') (map fst (case_pairs ins)) (map snd (case_pairs ins)) (last ins) s = Inr (out, s')"
    by (auto simp: scalar_case_def func_lists split: if_splits)
  then obtain a rest where ins: "ins = a # rest" by (cases ins) auto
  have "combine ''case'' (map (level p s) ins) = Sup_fin (level p s ` set ins)"
    by (simp add: ins combine_simps(3) isCompareAstFuncMap_def)
  with addCaseWhenNode_level[OF run, of p] case_pairs_set[OF odd] show ?thesis by simp
qed

lemma scalar_case_level:
  assumes run: "scalar_case env f t args (r # rs) r x ps s = Inr (out, s')"
    and ok: "\<forall>i \<in> set (r # rs). ref_ok s i" "participant s p"
    and f: "regular f (length (r # rs))" "f \<noteq> ''str_to_date''"
  shows "ref_ok s' out \<and> level p s' out = combine f (map (level p s) (r # rs))"
proof -
  have one: ?thesis if "in_ep m s = Inr (out, s')" "levels_of r m" "rs = []" for m
    using levels_of_in_ep[OF that(1,2), of p] that(3) by (simp add: combine_simps)
  have two: ?thesis if "binary f r b s = Inr (out, s')" "rs = [b]" for b
    using binary_level[OF that(1), of p] ok f that(2) by (auto simp: regular_def leakyFuncs_def)
  consider "f \<in> set binaryFuncs" | "f \<in> set trigonometricFuncs" | "f \<in> set unaryNumericFuncs" | "f \<in> set namedFuncs"
    | "f \<notin> set (binaryFuncs @ trigonometricFuncs @ unaryNumericFuncs @ namedFuncs)" by auto
  then show ?thesis
  proof cases
    case 1
    with run obtain b where rs: "rs = [b]"
        and b: "(if f \<in> set skipTypeCheckAst then skip_type_check (binary f r b) else binary f r b) s = Inr (out, s')"
      by (auto simp: scalar_case_binary split: list.splits)
    show ?thesis
    proof (cases "f \<in> set skipTypeCheckAst")
      case True
      with b obtain u where u: "binary f r b s = Inr (out, u)"
          and s': "s' = u\<lparr>ep := set_tensor out (\<lambda>t. t\<lparr>t_SkipDTypeCheck := True\<rparr>) (ep u)\<rparr>" by (auto simp: skip_type_check_Inr)
      have "ref_ok u out \<and> level p u out = combine f [level p s r, level p s b]"
        using binary_level[OF u, of p] ok f rs by (auto simp: regular_def leakyFuncs_def)
      with rs show ?thesis by (simp add: s' ref_ok_def level_def)
    qed (use b rs two in simp)
  next
    case 2
    with run one levels_of_AddTrigonometricFunction show ?thesis
      by (auto simp: scalar_case_trigonometric split: list.splits)
  next
    case 3
    with run one levels_of_AddUnaryNumericNode show ?thesis
      by (auto simp: scalar_case_numeric split: list.splits)
  next
    case 4
    with f have "f \<in> set oneArgFuncs \<or> f = ''atan2'' \<or> f = ''case'' \<or> f = ''if''
        \<or> f = ''unaryminus'' \<or> f = ''unaryplus'' \<or> f = ''cot''"
      using named_cases[of f] by (simp add: regular_def)
    then show ?thesis
    proof (elim disjE)
      assume 1: "f \<in> set oneArgFuncs"
      show ?thesis
      proof (cases "f = ''not'' \<or> f = ''cast''")
        case True
        then show ?thesis
        proof
          assume "f = ''not''"
          with run have "in_ep (AddNotNode ''not'' r ps) s = Inr (out, s')" "rs = []"
            by (cases rs; simp add: scalar_case_named)+
          with one levels_of_AddNotNode show ?thesis by blast
        next
          assume "f = ''cast''"
          with run obtain tp where "in_ep (AddCastNode ''cast'' tp r ps) s = Inr (out, s')" "rs = []"
            by (cases rs) (auto simp: scalar_case_named bind_s_Inr bind_r_Inr)
          with one levels_of_AddCastNode show ?thesis by blast
        qed
      next
        case False
        with 1 f have rs: "rs = []" by (auto simp: regular_def unaryFuncs_def oneArgFuncs_def)
        have "in_ep (AddIsNullNode ''is_null'' r) s = Inr (out, s') \<or> (\<exists>name fn opt dt. in_ep (AddArrowFuncNode name fn opt [r] dt) s = Inr (out, s'))"
          using 1 False run rs by (auto simp: scalar_case_named oneArgFuncs_def)
        then show ?thesis
        proof (elim disjE exE)
          assume "in_ep (AddIsNullNode ''is_null'' r) s = Inr (out, s')"
          from one[OF this levels_of_AddIsNullNode rs] show ?thesis .
        next
          fix name fn opt dt assume "in_ep (AddArrowFuncNode name fn opt [r] dt) s = Inr (out, s')"
          from one[OF this levels_of_AddArrowFuncNode rs] show ?thesis .
        qed
      qed
    next
      assume 2: "f = ''atan2''"
      with run obtain b where "binary f r b s = Inr (out, s')" "rs = [b]"
        by (cases rs; cases "tl rs") (simp_all add: scalar_case_named)
      then show ?thesis by (rule two)
    next
      assume 3: "f = ''case''"
      with run case_level[of env t args "r # rs"] show ?thesis by simp
    next
      assume 4: "f = ''if''"
      with f obtain a b where rs: "rs = [a, b]" by (auto simp: regular_def numeral_2_eq_2 length_Suc_conv)
      have "addIfNode (node_name f) r a b s = Inr (out, s')" using run 4 by (simp add: rs scalar_case_named)
      from addIfNode_level[OF this, of p] 4 show ?thesis by (simp add: rs combine_simps(3) isCompareAstFuncMap_def)
    next
      assume 5: "f = ''unaryminus''"
      with f run unaryminus_level[of env t args "r # rs" r x ps s out s' p] ok show ?thesis
        by (simp add: regular_def unaryFuncs_def combine_simps)
    next
      assume 6: "f = ''unaryplus''"
      with f run ok show ?thesis by (simp add: scalar_case_named regular_def unaryFuncs_def combine_simps)
    next
      assume 7: "f = ''cot''"
      with run scalar_case_cot[of env t args "r # rs"] have "rs = []" by auto
      with 7 run cot_level[of env t args r r x ps s out s' p] ok show ?thesis by (simp add: combine_simps)
    qed
  next
    case 5
    with run show ?thesis by (simp add: scalar_case_unsupported)
  qed
qed

definition is_constant :: "Expression \<Rightarrow> bool" where
  "is_constant e = (case e of Constant _ _ \<Rightarrow> True | _ \<Rightarrow> False)"

lemma is_constantE: "is_constant e \<Longrightarrow> (\<And>d t. e = Constant d t \<Longrightarrow> thesis) \<Longrightarrow> thesis"
  by (cases e) (simp_all add: is_constant_def)

lemma str_to_date_level:
  assumes "build_str_to_date env args l r s = Inr (out, s')" "participant s p"
  shows "1 < length args \<and> is_constant (args ! 1) \<and> ref_ok s' out
    \<and> level p s' out = (if is_constant (args ! 0) then Plain else level p s l)"
proof -
  from assms(1) have len: "1 < length args" and c: "is_constant (args ! 1)"
      and res: "is_constant (args ! 0) \<and> (\<exists>n. addConstantNode (KindInt64 n) s = Inr (out, s')) \<or>
        \<not> is_constant (args ! 0) \<and> (\<exists>m. in_ep m s = Inr (out, s') \<and> levels_of l m)"
    using levels_of_AddArrowFuncNode[of l]
    unfolding build_str_to_date_def
    by (auto simp: bind_s_Inr bind_r_Inr at_def is_constant_def read_t_def in_ep_Inr split: if_splits Expression.splits)
  from res show ?thesis
    using len c addConstantNode_level[OF _ assms(2)] levels_of_in_ep by (auto simp: is_constant_def)
qed

section \<open>The translation agrees with the inference\<close>

definition regular_call :: "string \<Rightarrow> Expression list \<Rightarrow> bool" where
  "regular_call f args =
    (if f = ''now'' \<or> f = ''curdate'' then args = []
     else if f = ''substr'' \<or> f = ''substring'' then length args \<le> 3
     else if f = ''adddate'' \<or> f = ''subdate'' then length args = 3 \<and> list_all is_constant (tl args)
     else regular f (length args))"

fun regular_expr :: "Expression \<Rightarrow> bool" where
  "regular_expr (ScalarFunction f t args) \<longleftrightarrow> regular_call f args \<and> (\<forall>a \<in> set args. regular_expr a)"
| "regular_expr _ \<longleftrightarrow> True"

definition columns_agree :: "string \<Rightarrow> translator \<Rightarrow> (int, tref) gomap \<Rightarrow> (int, CCL) gomap \<Rightarrow> bool" where
  "columns_agree p s tensors m \<longleftrightarrow> (\<forall>i r. map_of tensors i = Some r \<longrightarrow>
    ref_ok s r \<and> (\<forall>cc. map_of m i = Some cc \<longrightarrow> LevelFor cc p = level p s r))"

lemma columns_agree_grows: "columns_agree p s ts m \<Longrightarrow> tgrows s t \<Longrightarrow> columns_agree p t ts m"
  unfolding columns_agree_def using tgrows_level by metis

definition has_level :: "string \<Rightarrow> translator \<Rightarrow> tref \<Rightarrow> CCL \<Rightarrow> bool" where
  "has_level p s r cc \<longleftrightarrow> ref_ok s r \<and> level p s r = LevelFor cc p"

lemma has_level_grows: "has_level p s r cc \<Longrightarrow> tgrows s t \<Longrightarrow> has_level p t r cc"
  by (simp add: has_level_def tgrows_level)

lemma has_levels_map: "list_all2 (has_level p s) rs ccs \<Longrightarrow> map (level p s) rs = map (\<lambda>cc. LevelFor cc p) ccs"
  by (induction rule: list_all2_induct) (simp_all add: has_level_def)

lemma infer_constant:
  assumes "InferExpressionCCL e m = Inr cc" "is_constant e" "p \<in> set (ExtractPartyCodes (map snd m))"
  shows "LevelFor cc p = Plain"
  using assms by (cases e) (auto simp: is_constant_def Let_def simp del: set_ExtractPartyCodes split: if_splits)

lemma infer_call:
  assumes "InferExpressionCCL (ScalarFunction f t args) m = Inr cc" "args \<noteq> []"
  obtains ccs where "InferExpressionCCL_args args m = Inr ccs" "length ccs = length args"
    "LevelFor cc p = combine f (map (\<lambda>cc. LevelFor cc p) ccs)"
proof -
  from assms obtain ccs where ccs: "InferExpressionCCL_args args m = Inr ccs"
      and sf: "InferScalarFuncCCLUsingArgCCL (ScalarFunction f t args) ccs = Inr cc"
    by (auto simp: bind_r_Inr Let_def)
  have "length ccs = length args" using ccs
    by (induction args arbitrary: ccs) (auto simp: bind_r_Inr)
  with that[OF ccs] InferScalar_Inr(2)[OF sf, of p] InferScalar_Inr(1)[OF sf] show thesis
    by (simp add: combine_def hd_map map_tl)
qed

lemma combine_Plains:
  "f \<notin> set isCompareAstFuncMap \<Longrightarrow> \<forall>l \<in> set ls. l = Plain \<Longrightarrow> combine f (l # ls) = l"
proof -
  have "LookUpVis k Plain = k" for k by (cases k) (simp_all add: LookUpVis_def)
  then show "f \<notin> set isCompareAstFuncMap \<Longrightarrow> \<forall>l \<in> set ls. l = Plain \<Longrightarrow> combine f (l # ls) = l"
    unfolding combine_def by (induction ls) simp_all
qed

lemma scalar_dispatch_level:
  assumes run: "scalar_dispatch env f t args ins s = Inr (out, s')"
    and ok: "\<forall>i \<in> set ins. ref_ok s i" "participant s p"
    and f: "regular f (length ins)" "f \<noteq> ''str_to_date''"
  shows "ref_ok s' out \<and> level p s' out = combine f (map (level p s) ins)"
proof -
  from run obtain r rs x ps where ins: "ins = r # rs" and c: "scalar_case env f t args ins r x ps s = Inr (out, s')"
    unfolding scalar_dispatch_def extractPartyCodeFromTensor_def engine_parties_def
    by (cases ins) (auto simp: bind_s_Inr bind_r_Inr at_def read_t_def in_ep_Inr split: if_splits)
  from scalar_case_level[OF c[unfolded ins] _ ok(2)] ok f show ?thesis by (simp add: ins)
qed

lemma scalar_dispatch_nonempty: "scalar_dispatch env f t args ins s = Inr (out, s') \<Longrightarrow> ins \<noteq> []"
  by (auto simp: scalar_dispatch_def bind_s_Inr bind_r_Inr at_def)

text \<open>What the translation of an expression, of its arguments and of a call guarantee, for a party \<open>p\<close> and the
  levels \<open>m\<close> of the columns.\<close>

definition translates :: "string \<Rightarrow> (int, CCL) gomap \<Rightarrow> (int, tref) gomap \<Rightarrow> tref tr \<Rightarrow> Expression \<Rightarrow> bool" where
  "translates p m ts run e \<longleftrightarrow> (\<forall>s out s' cc. run s = Inr (out, s') \<longrightarrow> columns_agree p s ts m \<longrightarrow> participant s p \<longrightarrow>
    p \<in> set (ExtractPartyCodes (map snd m)) \<longrightarrow> regular_expr e \<longrightarrow> InferExpressionCCL e m = Inr cc \<longrightarrow> has_level p s' out cc)"

definition translates_all :: "string \<Rightarrow> (int, CCL) gomap \<Rightarrow> (int, tref) gomap \<Rightarrow> tref list tr \<Rightarrow> Expression list \<Rightarrow> bool" where
  "translates_all p m ts run es \<longleftrightarrow> (\<forall>s outs s' ccs. run s = Inr (outs, s') \<longrightarrow> columns_agree p s ts m \<longrightarrow> participant s p \<longrightarrow>
    p \<in> set (ExtractPartyCodes (map snd m)) \<longrightarrow> (\<forall>e \<in> set es. regular_expr e) \<longrightarrow> InferExpressionCCL_args es m = Inr ccs \<longrightarrow>
    list_all2 (has_level p s') outs ccs)"

lemma translatesD:
  "translates p m ts run e \<Longrightarrow> run s = Inr (out, s') \<Longrightarrow> columns_agree p s ts m \<Longrightarrow> participant s p \<Longrightarrow>
    p \<in> set (ExtractPartyCodes (map snd m)) \<Longrightarrow> regular_expr e \<Longrightarrow> InferExpressionCCL e m = Inr cc \<Longrightarrow> has_level p s' out cc"
  unfolding translates_def by blast

lemma translates_allD:
  "translates_all p m ts run es \<Longrightarrow> run s = Inr (outs, s') \<Longrightarrow> columns_agree p s ts m \<Longrightarrow> participant s p \<Longrightarrow>
    p \<in> set (ExtractPartyCodes (map snd m)) \<Longrightarrow> \<forall>e \<in> set es. regular_expr e \<Longrightarrow> InferExpressionCCL_args es m = Inr ccs \<Longrightarrow>
    list_all2 (has_level p s') outs ccs"
  unfolding translates_all_def by blast

lemma translates_column: "translates p m ts (getTensorFromColumn x ts) (ColumnExpr x)"
  by (auto simp: translates_def getTensorFromColumn_def columns_agree_def has_level_def split: option.splits)

lemma translates_constant: "translates p m ts (addConstantNode v) (Constant v t)"
  unfolding translates_def has_level_def
  using addConstantNode_level infer_constant[of "Constant v t"] by (auto simp: is_constant_def simp del: set_ExtractPartyCodes InferExpressionCCL.simps)

lemma translates_args_Cons:
  assumes "translates p m ts (getTensorFromExpression env ts a) a" "translates_all p m ts (build_args env ts as) as"
  shows "translates_all p m ts (build_args env ts (a # as)) (a # as)"
  unfolding translates_all_def
proof (intro allI impI)
  fix s outs s' ccs
  assume run: "build_args env ts (a # as) s = Inr (outs, s')" and agree: "columns_agree p s ts m" "participant s p"
    and p: "p \<in> set (ExtractPartyCodes (map snd m))" and reg: "\<forall>e \<in> set (a # as). regular_expr e"
    and infer: "InferExpressionCCL_args (a # as) m = Inr ccs"
  from run obtain o1 s1 outs' where 1: "getTensorFromExpression env ts a s = Inr (o1, s1)"
      and 2: "build_args env ts as s1 = Inr (outs', s')" and outs: "outs = o1 # outs'" by (auto simp: bind_s_Inr)
  from infer obtain c1 ccs' where c: "InferExpressionCCL a m = Inr c1" "InferExpressionCCL_args as m = Inr ccs'" "ccs = c1 # ccs'"
    by (auto simp: bind_r_Inr)
  have g1: "tgrows s s1" and g2: "tgrows s1 s'" using keepsD[OF keeps_translation(1) 1] keepsD[OF keeps_translation(2) 2] .
  have "has_level p s1 o1 c1" using translatesD[OF assms(1) 1 agree p _ c(1)] reg by simp
  moreover have "list_all2 (has_level p s') outs' ccs'"
    using translates_allD[OF assms(2) 2 columns_agree_grows[OF agree(1) g1] _ p _ c(2)] tgrows_participant[OF g1] agree(2) reg by simp
  ultimately show "list_all2 (has_level p s') outs ccs" by (simp add: outs c(3) has_level_grows[OF _ g2])
qed

text \<open>The arguments of a call after the broadcast of constants.\<close>

lemma broadcast_has_levels:
  assumes "(if b then addBroadcastToNodeOndemand ins else return_s ins) s = Inr (outs, s')" "list_all2 (has_level p s) ins ccs"
  shows "list_all2 (has_level p s') outs ccs"
proof (cases b)
  case True
  have ok: "\<forall>r \<in> set ins. ref_ok s r"
    using assms(2) by (auto simp: has_level_def list_all2_conv_all_nth in_set_conv_nth)
  from True assms(1) have "list_all2 (same_levels p s s') ins outs"
    using addBroadcastToNodeOndemand_levels[OF _ ok] by simp
  with assms(2) show ?thesis by (auto simp: list_all2_conv_all_nth has_level_def same_levels_def)
qed (use assms in simp)

lemma keeps_broadcast: "keeps tgrows (if b then addBroadcastToNodeOndemand ins else return_s ins)"
  by (cases b) (simp_all only: if_True if_False keeps_addBroadcastToNodeOndemand tr.keeps_return)

lemma translates_now:
  assumes "build_now f s = Inr (out, s')" "participant s p" "p \<in> set (ExtractPartyCodes (map snd m))"
    "InferExpressionCCL (ScalarFunction f t []) m = Inr cc"
  shows "has_level p s' out cc"
  using assms addConstantNode_level[OF _ assms(2)]
  by (auto simp: build_now_def bind_s_Inr has_level_def Let_def simp del: set_ExtractPartyCodes split: if_splits)

lemma infer_args_nth: "InferExpressionCCL_args es m = Inr ccs \<Longrightarrow> length ccs = length es \<and> (\<forall>i < length es. InferExpressionCCL (es ! i) m = Inr (ccs ! i))"
proof (induction es arbitrary: ccs)
  case (Cons e es)
  then obtain c cs where "InferExpressionCCL e m = Inr c" "InferExpressionCCL_args es m = Inr cs" "ccs = c # cs"
    by (auto simp: bind_r_Inr)
  with Cons.IH[of cs] show ?case by (auto simp: less_Suc_eq_0_disj)
qed simp

text \<open>Where all arguments but the first are constants, the level of a call is that of its first argument.\<close>

lemma infer_first:
  assumes "InferExpressionCCL (ScalarFunction f t (a # rest)) m = Inr cc" "list_all is_constant rest"
    "f \<notin> set isCompareAstFuncMap" "p \<in> set (ExtractPartyCodes (map snd m))"
  obtains c where "InferExpressionCCL a m = Inr c" "LevelFor cc p = LevelFor c p"
proof -
  obtain ccs where ccs: "InferExpressionCCL_args (a # rest) m = Inr ccs" and cc: "LevelFor cc p = combine f (map (\<lambda>cc. LevelFor cc p) ccs)"
    using infer_call[OF assms(1)] by blast
  from ccs obtain c cs where c: "InferExpressionCCL a m = Inr c" "InferExpressionCCL_args rest m = Inr cs" "ccs = c # cs"
    by (auto simp: bind_r_Inr)
  have "LevelFor x p = Plain" if "x \<in> set cs" for x
  proof -
    from that obtain i where "i < length cs" "cs ! i = x" by (auto simp: in_set_conv_nth)
    with infer_args_nth[OF c(2)] infer_constant[of "rest ! i" m x p] assms(2,4) show ?thesis by (simp add: list_all_length)
  qed
  then have "LevelFor cc p = LevelFor c p"
    unfolding cc c(3) list.map by (intro combine_Plains assms(3)) auto
  with that c(1) show thesis by blast
qed

lemma read_t_app: "read_t r s = Inr (tensor (ep s) r, s)"
  by (simp add: read_t_def in_ep_app)

lemma translates_substr:
  assumes run: "finish_substr env (a # rest) r s = Inr (out, s')" "length rest \<le> 2" and f: "f \<notin> set isCompareAstFuncMap"
    and p: "p \<in> set (ExtractPartyCodes (map snd m))" and infer: "InferExpressionCCL (ScalarFunction f t (a # rest)) m = Inr cc"
    and first: "\<And>c. InferExpressionCCL a m = Inr c \<Longrightarrow> has_level p s r c"
  shows "has_level p s' out cc"
proof -
  from run(1) obtain opt dt where arrow: "in_ep (AddArrowFuncNode ''arrow_substr'' ''utf8_slice_codeunits''
      (arrow_options env (Some opt)) [r] dt) s = Inr (out, s')" and opt: "substr_options env (a # rest) = Inr opt"
    unfolding finish_substr_def by (auto simp: bind_s_Inr bind_r_Inr read_t_app split: if_splits)
  have "list_all is_constant rest"
    using opt run(2)
    by (cases rest; cases "tl rest")
      (auto simp: substr_options_def bind_r_Inr constant_int_def is_constant_def split: Expression.splits if_splits)
  from infer_first[OF infer this f p] first levels_of_in_ep[OF arrow levels_of_AddArrowFuncNode, of p] show ?thesis
    by (metis has_level_def)
qed

lemma translates_str_to_date:
  assumes run: "scalar_dispatch env ''str_to_date'' t args ins s = Inr (out, s')" "participant s p"
    and p: "p \<in> set (ExtractPartyCodes (map snd m))"
    and infer: "InferExpressionCCL (ScalarFunction ''str_to_date'' t args) m = Inr cc"
    and ins: "\<And>ccs. InferExpressionCCL_args args m = Inr ccs \<Longrightarrow> list_all2 (has_level p s) ins ccs"
  shows "has_level p s' out cc"
proof -
  from run(1) obtain l r where lr: "ins = [l, r]" and b: "build_str_to_date env args l r s = Inr (out, s')"
    unfolding scalar_dispatch_def extractPartyCodeFromTensor_def engine_parties_def
    by (auto simp: bind_s_Inr bind_r_Inr at_def read_t_app scalar_case_named split: if_splits list.splits)
  note res = str_to_date_level[OF b run(2)]
  from res obtain a rest where args: "args = a # rest" by (cases args) auto
  obtain ccs where ccs: "InferExpressionCCL_args args m = Inr ccs" "length ccs = length args" using infer_call[OF infer] args by blast
  with ins[OF ccs(1)] have len: "length args = 2" by (simp add: lr list_all2_lengthD[symmetric])
  then obtain c where rest: "rest = [c]" by (auto simp: args length_Suc_conv)
  have "list_all is_constant rest" using res by (simp add: args rest)
  from infer_first[OF infer[unfolded args] this _ p] obtain k where k: "InferExpressionCCL a m = Inr k" "LevelFor cc p = LevelFor k p"
    by (auto simp: isCompareAstFuncMap_def)
  have "has_level p s l k" using ins[OF ccs(1)] ccs k by (auto simp: args rest lr bind_r_Inr)
  with res k infer_constant[OF k(1) _ p] show ?thesis by (auto simp: has_level_def args)
qed

lemma date_args:
  assumes "effective_args env f args = Inr args'" "f = ''adddate'' \<or> f = ''subdate''" "regular_call f args" "args' \<noteq> []"
  obtains a d t rest where "args = a # rest" "list_all is_constant rest" "args' = [a, Constant d t]"
proof -
  from assms(2,3) have "length args = 3 \<and> list_all is_constant (tl args)" by (elim disjE) (simp_all add: regular_call_def)
  then obtain a b c where args: "args = [a, b, c]" "list_all is_constant [b, c]"
    by (auto simp: numeral_3_eq_3 length_Suc_conv)
  obtain n where "args' = (butlast args)[1 := Constant (KindInt64 n) \<lparr>Tp = TypeLong, Flag = 0\<rparr>]"
    using assms(1,2,4) by (auto simp: effective_args_def TransferDateFuncIntervalToSeconds_def bind_r_Inr split: if_splits option.splits)
  with that args show thesis by simp
qed

lemma dispatch_has_level:
  assumes run: "scalar_dispatch env f t args ins s = Inr (out, s')" "participant s p"
    and f: "regular f (length ins)" "f \<noteq> ''str_to_date''"
    and ins: "list_all2 (has_level p s) ins ccs" "LevelFor cc p = combine f (map (\<lambda>c. LevelFor c p) ccs)"
  shows "has_level p s' out cc"
proof -
  have "\<forall>i \<in> set ins. ref_ok s i"
    using ins(1) by (auto simp: has_level_def list_all2_conv_all_nth in_set_conv_nth)
  from scalar_dispatch_level[OF run(1) this run(2) f] has_levels_map[OF ins(1)] ins(2) show ?thesis by (simp add: has_level_def)
qed

end
