(* ===== verification/Expr_Agreement.thy ===== *)
theory Expr_Agreement
  imports Expr_Levels
begin

text \<open>
  The translation of an expression agrees with the planner's inference of control lists, and where it does not.
\<close>

lemma translates_call:
  assumes not_special: "\<not> (f = ''now'' \<or> f = ''curdate'')" "\<not> (f = ''substr'' \<or> f = ''substring'')"
    and eff: "effective_args env f args = Inr args'"
    and ih: "translates_all p m ts (build_args env ts args') args'"
    and run: "bind_s (build_args env ts args') (\<lambda>inputs.
        bind_s (if \<not> b \<and> f \<noteq> ''str_to_date'' then addBroadcastToNodeOndemand inputs else return_s inputs)
          (scalar_dispatch env f t args)) s = Inr (out, s')"
    and agree: "columns_agree p s ts m" "participant s p" and p: "p \<in> set (ExtractPartyCodes (map snd m))"
    and reg: "regular_call f args" "\<forall>a \<in> set args. regular_expr a" and infer: "InferExpressionCCL (ScalarFunction f t args) m = Inr cc"
  shows "has_level p s' out cc"
proof -
  from run obtain ins0 s0 ins1 s1 where 0: "build_args env ts args' s = Inr (ins0, s0)"
      and 1: "(if \<not> b \<and> f \<noteq> ''str_to_date'' then addBroadcastToNodeOndemand ins0 else return_s ins0) s0 = Inr (ins1, s1)"
      and 2: "scalar_dispatch env f t args ins1 s1 = Inr (out, s')" by (auto simp only: bind_s_Inr)
  have part: "participant s1 p"
    using agree(2) tgrows_participant[OF keepsD[OF keeps_translation(2) 0]] tgrows_participant[OF keepsD[OF keeps_broadcast 1]] by simp
  have levels: "list_all2 (has_level p s1) ins1 ccs" if "InferExpressionCCL_args args' m = Inr ccs" "\<forall>a \<in> set args'. regular_expr a" for ccs
    using broadcast_has_levels[OF 1 translates_allD[OF ih 0 agree p that(2,1)]] .
  show ?thesis
  proof (cases "f = ''adddate'' \<or> f = ''subdate''")
    case True
    have "ins1 \<noteq> []" using scalar_dispatch_nonempty[OF 2] .
    have ne: "args' \<noteq> []"
    proof
      assume "args' = []"
      with levels[of "[]"] \<open>ins1 \<noteq> []\<close> show False by simp
    qed
    obtain a d t' rest where d: "args = a # rest" "list_all is_constant rest" "args' = [a, Constant d t']"
      using date_args[OF eff True reg(1) ne] .
    have f: "f \<notin> set isCompareAstFuncMap" using True by (elim disjE) (simp_all add: isCompareAstFuncMap_def)
    obtain k where k: "InferExpressionCCL a m = Inr k" "LevelFor cc p = LevelFor k p" using infer_first[OF infer[unfolded d(1)] d(2) f p] .
    obtain k2 where k2: "InferExpressionCCL (Constant d t') m = Inr k2" using p by (cases "ExtractPartyCodes (map snd m)") (simp_all add: Let_def)
    have "InferExpressionCCL_args args' m = Inr [k, k2]" using k k2 by (simp add: d(3) del: InferExpressionCCL.simps)
    from levels[OF this] reg(2) have lv: "list_all2 (has_level p s1) ins1 [k, k2]" by (simp add: d)
    have "LevelFor cc p = combine f (map (\<lambda>c. LevelFor c p) [k, k2])"
      using infer_constant[OF k2 _ p] k(2) combine_Plains[OF f, of "[Plain]"] by (simp add: is_constant_def)
    moreover have "regular f (length ins1)" "f \<noteq> ''str_to_date''"
      using True by (elim disjE; simp add: regular_def leakyFuncs_def unaryFuncs_def)+
    ultimately show ?thesis using dispatch_has_level[OF 2 part _ _ lv] by simp
  next
    case False
    then have args': "args' = args" using eff by (simp add: effective_args_def)
    show ?thesis
    proof (cases "f = ''str_to_date''")
      case True
      show ?thesis using translates_str_to_date[OF 2[unfolded True] part p infer[unfolded True]] levels reg(2) by (simp add: args')
    next
      case other: False
      have "args \<noteq> []"
      proof
        assume "args = []"
        with levels[of "[]"] scalar_dispatch_nonempty[OF 2] show False by (simp add: args')
      qed
      then obtain ccs where ccs: "InferExpressionCCL_args args m = Inr ccs" "length ccs = length args"
          "LevelFor cc p = combine f (map (\<lambda>cc. LevelFor cc p) ccs)"
        using infer_call[OF infer] by blast
      have lv: "list_all2 (has_level p s1) ins1 ccs" using levels ccs reg(2) by (simp add: args')
      have "regular f (length ins1)"
        using reg(1) not_special False ccs(2) list_all2_lengthD[OF lv] by (simp add: regular_call_def)
      from dispatch_has_level[OF 2 part this other lv ccs(3)] show ?thesis .
    qed
  qed
qed

lemma translation_levels:
  "translates p m ts (getTensorFromExpression env ts e) e"
  "translates_all p m ts (build_args env ts es) es"
  "translates p m ts (buildScalarFunction env ts f t args b) (ScalarFunction f t args)"
proof (induction env ts e and env ts es and env ts f t args b
    rule: getTensorFromExpression_build_args_buildScalarFunction.induct)
  case (7 env ts f t args b)
  show ?case
    unfolding translates_def
  proof (intro allI impI)
    fix s out s' cc
    assume run: "buildScalarFunction env ts f t args b s = Inr (out, s')" and agree: "columns_agree p s ts m" "participant s p"
      and p: "p \<in> set (ExtractPartyCodes (map snd m))" and reg: "regular_expr (ScalarFunction f t args)"
      and infer: "InferExpressionCCL (ScalarFunction f t args) m = Inr cc"
    let ?now = "f = ''now'' \<or> f = ''curdate''" and ?substr = "f = ''substr'' \<or> f = ''substring''"
    from reg have reg': "regular_call f args" "\<forall>a \<in> set args. regular_expr a" by simp_all
    show "has_level p s' out cc"
    proof (cases ?now)
      case True
      with run reg' infer translates_now[OF _ agree(2) p] show ?thesis
        by (simp only: buildScalarFunction.simps if_True regular_call_def)
    next
      case not_now: False
      show ?thesis
      proof (cases ?substr)
        case True
        have f: "f \<notin> set isCompareAstFuncMap" using True by (elim disjE) (simp_all add: isCompareAstFuncMap_def)
        from run not_now True obtain a rest where args: "args = a # rest"
          by (cases args) (simp_all only: buildScalarFunction.simps if_True if_False list.case fail_s_app sum.simps)
        from run not_now True obtain r s1 where 1: "getTensorFromExpression env ts a s = Inr (r, s1)"
            and 2: "finish_substr env args r s1 = Inr (out, s')"
          by (auto simp only: buildScalarFunction.simps args if_True if_False list.case bind_s_Inr wrap_s_app wrap_r_Inr)
        have "length rest \<le> 2" using reg'(1) True not_now by (simp only: regular_call_def if_True if_False) (simp add: args)
        moreover have "has_level p s1 r c" if "InferExpressionCCL a m = Inr c" for c
          using translatesD[OF 7(1)[OF not_now True args] 1 agree p _ that] reg'(2) by (simp add: args)
        ultimately show ?thesis using translates_substr[OF 2[unfolded args] _ f p infer[unfolded args]] by blast
      next
        case not_substr: False
        from run not_now not_substr obtain args' where eff: "effective_args env f args = Inr args'"
          by (cases "effective_args env f args") (simp_all only: buildScalarFunction.simps if_False sum.case fail_s_app sum.simps)
        from run not_now not_substr eff
        have "bind_s (build_args env ts args') (\<lambda>inputs.
            bind_s (if \<not> b \<and> f \<noteq> ''str_to_date'' then addBroadcastToNodeOndemand inputs else return_s inputs)
              (scalar_dispatch env f t args)) s = Inr (out, s')"
          by (simp only: buildScalarFunction.simps if_False sum.case)
        from translates_call[OF not_now not_substr eff 7(2)[OF not_now not_substr eff] this agree p reg' infer] show ?thesis .
      qed
    qed
  qed
next
  case (6 env ts e es)
  then show ?case by (rule translates_args_Cons)
next
  case (1 env ts x)
  show ?case unfolding getTensorFromExpression.simps by (rule translates_column)
next
  case (2 env ts f t args)
  then show ?case unfolding getTensorFromExpression.simps .
next
  case (3 env ts v t)
  show ?case unfolding getTensorFromExpression.simps by (rule translates_constant)
next
  case (4 env ts x)
  show ?case by (simp add: translates_def)
next
  case (5 env ts)
  show ?case by (simp add: translates_all_def)
qed

lemma buildExpression_levels: "translates p m ts (buildExpression env e ts b) e"
proof (cases e)
  case (ColumnExpr x)
  then show ?thesis using translates_column by (simp add: buildExpression_def)
next
  case (ScalarFunction f t args)
  then show ?thesis using translation_levels(3) by (simp add: buildExpression_def)
qed (simp_all add: buildExpression_def translates_def)

text \<open>C36: the translation of an expression and the planner's inference agree on who may see its result.  If the
  columns' tensors have, for a party of the plan, the levels the planner works with, then the tensor built for the
  expression has for that party exactly the level inferred for it.  This holds for every expression
  whose calls are regular: it excludes \<open>IFNULL\<close>, \<open>COALESCE\<close>, \<open>CONCAT\<close> and \<open>GEODIST\<close> (their nodes do not join the control
  lists of their arguments) and \<open>GREATEST\<close> and \<open>LEAST\<close>.\<close>

theorem translation_agrees_with_inference:
  assumes "buildExpression env e ts isApply s = Inr (out, s')"
    and "columns_agree p s ts m" "participant s p" "p \<in> set (ExtractPartyCodes (map snd m))"
    and "regular_expr e" "InferExpressionCCL e m = Inr cc"
  shows "LevelFor (t_CC (tensor (ep s') out)) p = LevelFor cc p"
  using translatesD[OF buildExpression_levels assms] by (simp add: has_level_def level_def)

text \<open>Two numbers private at alice: bob may see the first one only.\<close>

definition sample_levels :: "(int, CCL) gomap" where
  "sample_levels = [(1, \<lparr>partyLevels = [(''alice'', Plain), (''bob'', Plain)]\<rparr>),
    (2, \<lparr>partyLevels = [(''alice'', Plain), (''bob'', Encrypt)]\<rparr>)]"

definition sample_tensor :: "int \<Rightarrow> CCL \<Rightarrow> Tensor" where
  "sample_tensor i cc = (NewTensor i ''x'')\<lparr>t_status := TENSORSTATUS_PRIVATE, t_OwnerPartyCode := ''alice'', t_DType := INT64, t_CC := cc\<rparr>"

definition sample_expr_state :: translator where
  "sample_expr_state = sample_state\<lparr>ep := (ep sample_state)\<lparr>
    Tensors := map (\<lambda>(i, cc). sample_tensor (i - 1) cc) sample_levels, tensorNum := 2\<rparr>\<rparr>"

definition sample_tensors :: "(int, tref) gomap" where
  "sample_tensors = [(1, 0), (2, 1)]"

definition sample_env :: environment where
  "sample_env = \<lparr>serializeOptions = (\<lambda>_. Inr []), timeParse = (\<lambda>_ _. Inr 0), widenFloat = (\<lambda>_. 0), intervalSeconds = (\<lambda>_. Inr (Some 0))\<rparr>"

definition sample_gt_expr :: Expression where
  "sample_gt_expr = ScalarFunction ''gt'' \<lparr>Tp = TypeLonglong, Flag = 0\<rparr>
    [sample_call ''plus'', Constant (KindInt64 3) \<lparr>Tp = TypeLonglong, Flag = 0\<rparr>]"

lemma sample_expr_agree: "columns_agree p sample_expr_state sample_tensors sample_levels"
  by (auto simp: columns_agree_def sample_tensors_def sample_levels_def sample_expr_state_def ref_ok_def level_def tensor_def
      sample_tensor_def split: if_splits)

lemma sample_expr_parties: "participant sample_expr_state ''bob''" "''bob'' \<in> set (ExtractPartyCodes (map snd sample_levels))"
  by code_simp+

theorem translation_agrees_with_inference_witness:
  "\<exists>out s' cc. buildExpression sample_env sample_gt_expr sample_tensors False sample_expr_state = Inr (out, s')
    \<and> InferExpressionCCL sample_gt_expr sample_levels = Inr cc
    \<and> LevelFor (t_CC (tensor (ep s') out)) ''bob'' = LevelFor cc ''bob''"
proof -
  let ?run = "buildExpression sample_env sample_gt_expr sample_tensors False sample_expr_state"
  have "\<not> isl ?run" by code_simp
  then obtain out s' where run: "?run = Inr (out, s')" by (cases ?run) auto
  have "\<not> isl (InferExpressionCCL sample_gt_expr sample_levels)" by code_simp
  then obtain cc where cc: "InferExpressionCCL sample_gt_expr sample_levels = Inr cc" by (cases "InferExpressionCCL sample_gt_expr sample_levels") auto
  have "regular_expr sample_gt_expr" by code_simp
  from translation_agrees_with_inference[OF run sample_expr_agree sample_expr_parties this cc] run cc show ?thesis by blast
qed

section \<open>Where the control list of an argument is lost\<close>

lemma build_columns:
  "build_args env ts (map ColumnExpr xs) s = Inr (rs, s') \<Longrightarrow> s' = s \<and> list_all2 (\<lambda>x r. map_of ts (UniqueID x) = Some r) xs rs"
proof (induction xs arbitrary: rs)
  case (Cons x xs)
  then obtain r rs' where "map_of ts (UniqueID x) = Some r" "build_args env ts (map ColumnExpr xs) s = Inr (rs', s')" "rs = r # rs'"
    by (auto simp: bind_s_Inr getTensorFromColumn_def split: option.splits)
  with Cons.IH show ?case by auto
qed simp

lemma first_input_level:
  assumes "f = ''ifnull'' \<or> f = ''coalesce''" "scalar_dispatch env f t args (r # rs) s = Inr (out, s')"
  shows "level p s' out = level p s r"
proof -
  from assms obtain m where "in_ep m s = Inr (out, s')" "levels_of r m"
    unfolding scalar_dispatch_def extractPartyCodeFromTensor_def engine_parties_def
    using levels_of_AddIfNullNode[of r "''ifnull''"] levels_of_AddCoalesceNode[of r "''coalesce''" rs]
    by (auto simp: bind_s_Inr bind_r_Inr at_def read_t_app scalar_case_named split: if_splits list.splits)
  from levels_of_in_ep[OF this] show ?thesis by blast
qed

text \<open>C37: \<open>IFNULL\<close> and \<open>COALESCE\<close> give their result the control list of the first argument alone, whatever the other
  arguments' control lists say.\<close>

theorem ifnull_forgets_alternatives:
  assumes "f = ''ifnull'' \<or> f = ''coalesce''"
    and "buildExpression env (ScalarFunction f t (map ColumnExpr (x # xs))) ts isApply s = Inr (out, s')"
    and "\<forall>i r. map_of ts i = Some r \<longrightarrow> r < length (Tensors (ep s))" "map_of ts (UniqueID x) = Some first"
  shows "LevelFor (t_CC (tensor (ep s') out)) p = LevelFor (t_CC (tensor (ep s) first)) p"
proof -
  let ?args = "map ColumnExpr (x # xs)"
  have f: "\<not> (f = ''now'' \<or> f = ''curdate'')" "\<not> (f = ''substr'' \<or> f = ''substring'')" "effective_args env f ?args = Inr ?args"
    using assms(1) by (elim disjE; simp add: effective_args_def)+
  have "bind_s (build_args env ts ?args) (\<lambda>inputs.
      bind_s (if \<not> isApply \<and> f \<noteq> ''str_to_date'' then addBroadcastToNodeOndemand inputs else return_s inputs)
        (scalar_dispatch env f t ?args)) s = Inr (out, s')"
    using assms(2) f by (simp only: buildExpression_def Expression.case buildScalarFunction.simps if_False sum.case)
  then obtain ins s0 ins1 s1 where 0: "build_args env ts ?args s = Inr (ins, s0)"
      and 1: "(if \<not> isApply \<and> f \<noteq> ''str_to_date'' then addBroadcastToNodeOndemand ins else return_s ins) s0 = Inr (ins1, s1)"
      and 2: "scalar_dispatch env f t ?args ins1 s1 = Inr (out, s')" by (auto simp only: bind_s_Inr)
  note cols = build_columns[OF 0]
  have ok: "\<forall>r \<in> set ins. ref_ok s r"
    using cols assms(3) by (auto simp: ref_ok_def list_all2_conv_all_nth in_set_conv_nth) blast
  have "list_all2 (same_levels p s s1) ins ins1"
    using 1 cols ok addBroadcastToNodeOndemand_levels[of ins s ins1 s1 p]
    by (auto simp: list_all2_same same_levels_def split: if_splits)
  moreover obtain rest where "ins = first # rest" using cols assms(4) by (auto simp: list_all2_Cons1)
  ultimately obtain first' rest' where "ins1 = first' # rest'" "level p s1 first' = level p s first"
    by (auto simp: list_all2_Cons1 same_levels_def)
  with first_input_level[OF assms(1), of env t ?args first' rest' s1 out s' p] 2 show ?thesis by (simp add: level_def)
qed

text \<open>The second column is encrypted for bob, and so is \<open>IFNULL\<close> of the two columns for the planner; the
  translator copies the result to bob.\<close>

theorem ifnull_forgets_alternatives_witness:
  "\<exists>out s' copy s'' cc. buildExpression sample_env (sample_call ''ifnull'') sample_tensors False sample_expr_state = Inr (out, s')
    \<and> LevelFor (t_CC (tensor (ep s') out)) ''bob'' = Plain
    \<and> AddCopyNode ''copy'' out ''alice'' ''bob'' (ep s') = Inr (copy, s'')
    \<and> InferExpressionCCL (sample_call ''ifnull'') sample_levels = Inr cc \<and> LevelFor cc ''bob'' = Encrypt"
proof -
  let ?run = "buildExpression sample_env (sample_call ''ifnull'') sample_tensors False sample_expr_state"
  have "case ?run of Inr (out, s') \<Rightarrow> \<not> isl (AddCopyNode ''copy'' out ''alice'' ''bob'' (ep s')) | _ \<Rightarrow> False" by code_simp
  then obtain out s' copy s'' where run: "?run = Inr (out, s')" "AddCopyNode ''copy'' out ''alice'' ''bob'' (ep s') = Inr (copy, s'')"
    by (auto simp: isl_def split: sum.splits) (metis old.sum.exhaust surj_pair)
  have cc: "InferExpressionCCL (sample_call ''ifnull'') sample_levels = Inr \<lparr>partyLevels = [(''alice'', Plain), (''bob'', Encrypt)]\<rparr>"
    by code_simp
  have "\<forall>i r. map_of sample_tensors i = Some r \<longrightarrow> r < length (Tensors (ep sample_expr_state))"
    by (simp add: sample_tensors_def sample_expr_state_def sample_levels_def)
  moreover have "sample_call ''ifnull'' = ScalarFunction ''ifnull'' \<lparr>Tp = TypeLonglong, Flag = 0\<rparr>
      (map ColumnExpr [sample_column 1, sample_column 2])" by (simp add: sample_call_def)
  moreover have "map_of sample_tensors (UniqueID (sample_column 1)) = Some 0" by (simp add: sample_tensors_def sample_column_def)
  ultimately have "LevelFor (t_CC (tensor (ep s') out)) ''bob'' = LevelFor (t_CC (tensor (ep sample_expr_state) 0)) ''bob''"
    using ifnull_forgets_alternatives[of "''ifnull''" sample_env _ "sample_column 1" "[sample_column 2]" sample_tensors False
        sample_expr_state out s' 0 "''bob''"] run(1) by simp
  also have "\<dots> = Plain" by code_simp
  finally show ?thesis using run cc by (auto simp: LevelFor_def)
qed

section \<open>A failing power\<close>

text \<open>C38: where no node can be built for the operands of \<open>POW\<close>, the translator does not return the error: it sets a flag of the
  tensor that was not built and panics.\<close>

theorem pow_error_becomes_panic:
  assumes "addBinaryNode OpNamePow OpNamePow l r s = Inl (Errorf msg)"
  shows "scalar_dispatch env ''pow'' t args [l, r] s = Inl (Panic ''nil pointer dereference'')"
proof -
  have "node_name ''pow'' = OpNamePow" by (simp add: node_name_def lookup_or_def astName2NodeName_def)
  with assms have "skip_type_check (binary ''pow'' l r) s = Inl (Panic ''nil pointer dereference'')"
    by (simp add: skip_type_check_def binary_def)
  then show ?thesis
    by (simp add: scalar_dispatch_def extractPartyCodeFromTensor_def engine_parties_def bind_s_app at_def read_t_app
        scalar_case_binary binaryFuncs_def skipTypeCheckAst_def)
qed

definition sample_unknown_state :: translator where
  "sample_unknown_state = sample_expr_state\<lparr>ep := set_tensor 1 (\<lambda>t. t\<lparr>t_status := TENSORSTATUS_UNKNOWN\<rparr>) (ep sample_expr_state)\<rparr>"

theorem pow_error_becomes_panic_witness:
  "\<exists>msg. addBinaryNode OpNamePow OpNamePow 0 1 sample_unknown_state = Inl (Errorf msg)
    \<and> scalar_dispatch sample_env ''pow'' \<lparr>Tp = TypeLonglong, Flag = 0\<rparr> [] [0, 1] sample_unknown_state = Inl (Panic ''nil pointer dereference'')"
proof -
  have "case addBinaryNode OpNamePow OpNamePow 0 1 sample_unknown_state of Inl (Errorf _) \<Rightarrow> True | _ \<Rightarrow> False" by code_simp
  then obtain msg where "addBinaryNode OpNamePow OpNamePow 0 1 sample_unknown_state = Inl (Errorf msg)"
    by (auto split: sum.splits error.splits)
  from this pow_error_becomes_panic[OF this] show ?thesis by blast
qed

end
