(* ===== verification/Expr_Types.thy ===== *)
theory Expr_Types
  imports Expr_Agreement
begin

text \<open>
  Data types of translated expressions: the functions whose name alone determines the type of their result,
  and the bounds of the slice that \<open>SUBSTR\<close> asks for.
\<close>

text \<open>The data type that a function determines by itself.\<close>

definition boolFuncs :: "string list" where
  "boolFuncs = [''lt'', ''gt'', ''ge'', ''eq'', ''le'', ''ne'', ''or'', ''and'']"

definition resultType :: "string \<Rightarrow> PrimitiveDataType option" where
  "resultType f =
    (if f \<in> set boolFuncs \<or> f = ''isnull'' then Some BOOL
     else if f \<in> set trigonometricFuncs then Some FLOAT64
     else if f = ''concat'' then Some STRING
     else map_of unaryOutputType f)"

definition typed_out :: "PrimitiveDataType \<Rightarrow> tref build \<Rightarrow> bool" where
  "typed_out dt m \<longleftrightarrow> (\<forall>plan out plan'. m plan = Inr (out, plan') \<longrightarrow> t_DType (tensor plan' out) = dt)"

lemma typed_out_in_ep: "in_ep m s = Inr (out, s') \<Longrightarrow> typed_out dt m \<Longrightarrow> t_DType (tensor (ep s') out) = dt"
  by (auto simp: in_ep_Inr typed_out_def)

lemma typed_out_bind:
  assumes "\<And>a. typed_out dt (k a)"
  shows "typed_out dt (bind_s m k)"
  using assms unfolding typed_out_def by (auto simp: bind_s_Inr)

lemma typed_out_output:
  assumes "\<And>t. t_DType (f t) = dt"
  shows "typed_out dt (bind_s (AddTensorAs_set r f) (\<lambda>out. returning out (AddExecutionNode name opType ins [(''Out'', [out])] attrs parties)))"
  using one_output_tensor assms unfolding typed_out_def by fastforce

lemma typed_out_nodes:
  "typed_out BOOL (AddIsNullNode name r)"
  "typed_out FLOAT64 (AddTrigonometricFunction name opType r ps)"
  "typed_out dt (AddUnaryNumericNode name opType r dt ps)"
  "typed_out dt (AddCastNode name dt r ps)"
  unfolding AddIsNullNode_def AddTrigonometricFunction_def AddUnaryNumericNode_def AddCastNode_def
  by (intro typed_out_bind typed_out_output; simp)+

lemma typed_out_arrow: "typed_out dt (AddArrowFuncNode name fn opt ins dt)"
  unfolding typed_out_def AddArrowFuncNode_def
  by (auto simp: bind_s_Inr bind_r_Inr AddTensorAs_set_app returning_Inr AddExecutionNode_Inr at_def)

lemma addBinaryNode_type:
  assumes "addBinaryNode name opType l r s = Inr (out, s')"
  obtains dl dr where "inferBinaryOpOutputType opType dl dr = Inr (t_DType (tensor (ep s') out))"
proof -
  from assms obtain dl dr dt ts op s2 t cc where dt: "inferBinaryOpOutputType opType dl dr = Inr dt" and out: "out = length (Tensors (ep s2))"
      and node: "add_node name opType ts [(arg_Out, [out])] [] (partyList op)
        (s2\<lparr>ep := push_tensor (t\<lparr>t_DType := dt, t_CC := cc\<rparr>) (ep s2)\<rparr>) = Inr ((), s')"
    unfolding addBinaryNode_def get_creator_def engine_parties_def read_t_def
    by (auto simp: bind_s_Inr bind_r_Inr in_ep_Inr AddTensor_set_app Let_def split: option.splits if_splits)
  from add_node_effect[OF node, of out] out have "t_DType (tensor (ep s') out) = dt" by simp
  with that dt show thesis by blast
qed

lemma bool_binary_type:
  assumes "binary f l r s = Inr (out, s')" "f \<in> set boolFuncs"
  shows "t_DType (tensor (ep s') out) = BOOL"
proof -
  have "\<forall>f \<in> set boolFuncs. node_name f \<in> set binaryOpBoolOutputMap" by code_simp
  from bspec[OF this assms(2)] have "node_name f \<in> set binaryOpBoolOutputMap" .
  moreover obtain dl dr where "inferBinaryOpOutputType (node_name f) dl dr = Inr (t_DType (tensor (ep s') out))"
    using addBinaryNode_type[OF assms(1)[unfolded binary_def]] .
  ultimately show ?thesis by (simp add: inferBinaryOpOutputType_def)
qed

lemma general_call:
  assumes "buildExpression env (ScalarFunction f t args) ts isApply s = Inr (out, s')"
    and f: "\<not> (f = ''now'' \<or> f = ''curdate'')" "\<not> (f = ''substr'' \<or> f = ''substring'')"
  obtains ins s1 r x ps where "scalar_case env f t args ins r x ps s1 = Inr (out, s')"
proof -
  have run: "(case effective_args env f args of
          Inl e \<Rightarrow> fail_s e
        | Inr args' \<Rightarrow>
            bind_s (build_args env ts args') (\<lambda>inputs.
            bind_s (if \<not> isApply \<and> f \<noteq> ''str_to_date'' then addBroadcastToNodeOndemand inputs else return_s inputs) (\<lambda>inputs.
            scalar_dispatch env f t args inputs))) s = Inr (out, s')"
    using assms(1) unfolding buildExpression_def Expression.case buildScalarFunction.simps if_not_P[OF f(1)] if_not_P[OF f(2)] .
  then obtain ins s1 where "scalar_dispatch env f t args ins s1 = Inr (out, s')"
    by (cases "effective_args env f args") (auto simp only: sum.case bind_s_Inr fail_s_app sum.simps)
  then show thesis
    unfolding scalar_dispatch_def bind_s_Inr using that by blast
qed

lemma typed_names:
  "resultType f = Some dt \<Longrightarrow> \<not> (f = ''now'' \<or> f = ''curdate'') \<and> \<not> (f = ''substr'' \<or> f = ''substring'')"
proof -
  have "list_all (\<lambda>f. resultType f = None) [''now'', ''curdate'', ''substr'', ''substring'']" by code_simp
  then show "resultType f = Some dt \<Longrightarrow> \<not> (f = ''now'' \<or> f = ''curdate'') \<and> \<not> (f = ''substr'' \<or> f = ''substring'')"
    by (intro conjI notI; elim disjE; simp)
qed

lemma typed_numeric:
  assumes "map_of unaryOutputType f = Some dt"
  shows "f \<in> set unaryNumericFuncs"
proof -
  have "\<forall>f \<in> set (map fst unaryOutputType). f \<in> set unaryNumericFuncs" by code_simp
  moreover have "f \<in> set (map fst unaryOutputType)" using map_of_SomeD[OF assms] by force
  ultimately show ?thesis by (rule bspec)
qed

text \<open>C39: the result of a function whose name determines its data type has that type, whatever its arguments are:
  comparisons, logical connectives and \<open>IS NULL\<close> give \<open>BOOL\<close>, trigonometric functions \<open>FLOAT64\<close>, \<open>CONCAT\<close> a string,
  the other numeric functions the type of their table, and a cast the type it names.\<close>

theorem expression_result_type:
  assumes "buildExpression env (ScalarFunction f t args) ts isApply s = Inr (out, s')"
    and "resultType f = Some dt \<or> f = ''cast'' \<and> convertDataType t = Inr dt"
  shows "t_DType (tensor (ep s') out) = dt"
  using assms(2)
proof
  assume "f = ''cast'' \<and> convertDataType t = Inr dt"
  then have f: "f = ''cast''" "convertDataType t = Inr dt" by simp_all
  obtain ins s1 r x ps where "scalar_case env ''cast'' t args ins r x ps s1 = Inr (out, s')"
    using assms(1)[unfolded f(1)] by (rule general_call) simp_all
  then obtain q s2 where "in_ep (AddCastNode ''cast'' dt q ps) s2 = Inr (out, s')"
    using f(2) by (auto simp: scalar_case_named bind_s_Inr bind_r_Inr split: list.splits)
  from typed_out_in_ep[OF this typed_out_nodes(4)] show ?thesis .
next
  assume ty: "resultType f = Some dt"
  obtain ins s1 r x ps where run: "scalar_case env f t args ins r x ps s1 = Inr (out, s')"
    using general_call[OF assms(1) conjunct1[OF typed_names[OF ty]] conjunct2[OF typed_names[OF ty]]] .
  consider (bool) "f \<in> set boolFuncs" | (null) "f \<notin> set boolFuncs" "f = ''isnull''"
    | (trig) "\<not> (f \<in> set boolFuncs \<or> f = ''isnull'')" "f \<in> set trigonometricFuncs"
    | (concat_f) "\<not> (f \<in> set boolFuncs \<or> f = ''isnull'')" "f \<notin> set trigonometricFuncs" "f = ''concat''"
    | (numeric) "\<not> (f \<in> set boolFuncs \<or> f = ''isnull'')" "f \<notin> set trigonometricFuncs" "f \<noteq> ''concat''"
    by argo
  then show ?thesis
  proof cases
    case bool
    then have dt: "dt = BOOL" using ty by (simp add: resultType_def)
    have "\<forall>f \<in> set boolFuncs. f \<in> set binaryFuncs \<and> f \<notin> set skipTypeCheckAst" by code_simp
    from bspec[OF this bool] have f: "f \<in> set binaryFuncs" "f \<notin> set skipTypeCheckAst" by simp_all
    from run obtain a b where "binary f a b s1 = Inr (out, s')"
      unfolding scalar_case_binary[OF f(1)] if_not_P[OF f(2)] by (auto split: list.splits)
    from bool_binary_type[OF this bool] dt show ?thesis by simp
  next
    case null
    then have dt: "dt = BOOL" using ty by (simp add: resultType_def)
    from run[unfolded null(2) scalar_case_named(2)] show ?thesis unfolding dt by (rule typed_out_in_ep) (rule typed_out_nodes)
  next
    case trig
    then have dt: "dt = FLOAT64" using ty by (simp add: resultType_def)
    from run obtain q where "in_ep (AddTrigonometricFunction (node_name f) (node_name f) q ps) s1 = Inr (out, s')"
      unfolding scalar_case_trigonometric[OF trig(2)] by (auto split: list.splits)
    then show ?thesis unfolding dt by (rule typed_out_in_ep) (rule typed_out_nodes)
  next
    case concat_f
    then have dt: "dt = STRING" using ty by (simp add: resultType_def)
    have "build_concat env ins s1 = Inr (out, s')" using run concat_f(3) by (simp only: scalar_case_named)
    then obtain ins' s2 where "in_ep (AddArrowFuncNode ''arrow_concat'' ''binary_join_element_wise'' None ins' STRING) s2 = Inr (out, s')"
      unfolding build_concat_def bind_s_Inr by blast
    then show ?thesis unfolding dt by (rule typed_out_in_ep) (rule typed_out_arrow)
  next
    case numeric
    then have dt: "map_of unaryOutputType f = Some dt" using ty by (simp add: resultType_def)
    from run obtain q where "in_ep (AddUnaryNumericNode (node_name f) (node_name f) q (lookup_or (t_DType x) unaryOutputType f) ps) s1 = Inr (out, s')"
      unfolding scalar_case_numeric[OF typed_numeric[OF dt]] by (auto split: list.splits)
    moreover have "lookup_or (t_DType x) unaryOutputType f = dt" using dt by (simp add: lookup_or_def)
    ultimately show ?thesis by (simp only:) (rule typed_out_in_ep, assumption, rule typed_out_nodes)
  qed
qed

theorem expression_result_type_witness:
  "\<exists>out s'. buildExpression sample_env sample_gt_expr sample_tensors False sample_expr_state = Inr (out, s')
    \<and> t_DType (tensor (ep s') out) = BOOL"
proof -
  let ?run = "buildExpression sample_env sample_gt_expr sample_tensors False sample_expr_state"
  have "\<not> isl ?run" by code_simp
  then obtain out s' where run: "?run = Inr (out, s')" by (cases ?run) auto
  have "resultType ''gt'' = Some BOOL" by code_simp
  from expression_result_type[OF run[unfolded sample_gt_expr_def] disjI1[OF this]] run show ?thesis by blast
qed

section \<open>The slice of \<open>SUBSTR\<close>\<close>

lemma sint_word64:
  assumes "- (2 ^ 63) \<le> k" "k < 2 ^ 63"
  shows "sint (word_of_int k :: 64 word) = k"
proof -
  have "signed_take_bit 63 k = k" using assms by (intro signed_take_bit_int_eq_self) simp_all
  then show ?thesis by (simp add: signed_of_int)
qed

lemma word64_wrap: "(word_of_int (k - 2 ^ 64) :: 64 word) = word_of_int k"
  by (simp add: word_of_int_eq_iff take_bit_eq_mod)

text \<open>C40: for a position from 1 on and a length, \<open>SUBSTR\<close> asks arrow for the slice from the position less one to the
  position less one plus the length, as long as that end is an \<open>int64\<close>; a larger end wraps around and lies
  below the start.\<close>

theorem substr_slice_bounds:
  assumes "1 \<le> start" "start < 2 ^ 63" "0 \<le> len" "len < 2 ^ 63"
  shows "\<exists>opt. substr_options env [e, Constant (KindInt64 start) t, Constant (KindInt64 len) t'] = Inr opt
    \<and> sint (so_Start opt) = start - 1
    \<and> (start - 1 + len < 2 ^ 63 \<longrightarrow> sint (so_Stop opt) = start - 1 + len)
    \<and> (2 ^ 63 \<le> start - 1 + len \<longrightarrow> sint (so_Stop opt) < sint (so_Start opt))"
proof -
  let ?a = "word_of_int (start - 1) :: 64 word" and ?b = "word_of_int (start - 1 + len) :: 64 word"
  have opt: "substr_options env [e, Constant (KindInt64 start) t, Constant (KindInt64 len) t'] = Inr (SliceOptions ?a ?b 1)"
    by (simp add: substr_options_def constant_int_def)
  have a: "sint ?a = start - 1" using assms by (intro sint_word64) simp_all
  have "sint ?b = start - 1 + len" if "start - 1 + len < 2 ^ 63" using assms that by (intro sint_word64) simp_all
  moreover have "sint ?b = start - 1 + len - 2 ^ 64" if "2 ^ 63 \<le> start - 1 + len"
    unfolding word64_wrap[of "start - 1 + len", symmetric] using assms that by (intro sint_word64) simp_all
  moreover have "start - 1 + len - 2 ^ 64 < start - 1" using assms by simp
  ultimately have "(start - 1 + len < 2 ^ 63 \<longrightarrow> sint ?b = start - 1 + len) \<and> (2 ^ 63 \<le> start - 1 + len \<longrightarrow> sint ?b < sint ?a)"
    unfolding a by (metis (no_types))
  with opt a show ?thesis unfolding opt by (intro exI[of _ "SliceOptions ?a ?b 1"]) (simp only: FuncOptions.sel simp_thms)
qed

text \<open>\<open>SUBSTR(s, 2, 9223372036854775807)\<close>, the rest of a string from its second character, gets an end below its start.\<close>

theorem substr_slice_bounds_witness:
  "\<exists>opt. substr_options sample_env [sample_gt_expr, Constant (KindInt64 2) \<lparr>Tp = TypeLonglong, Flag = 0\<rparr>,
      Constant (KindInt64 0x7FFFFFFFFFFFFFFF) \<lparr>Tp = TypeLonglong, Flag = 0\<rparr>] = Inr opt
    \<and> sint (so_Start opt) = 1 \<and> sint (so_Stop opt) < sint (so_Start opt)"
  using substr_slice_bounds[of 2 "0x7FFFFFFFFFFFFFFF" sample_env sample_gt_expr "\<lparr>Tp = TypeLonglong, Flag = 0\<rparr>" "\<lparr>Tp = TypeLonglong, Flag = 0\<rparr>"]
  by auto

end
